(* ===== verification/Prelude.thy ===== *)
theory Prelude
  imports Complex_Main
begin

text \<open>
  Shared vocabulary of the development. The client code leans on a handful of
  JavaScript built-ins (\<open>String.prototype.trim\<close>, \<open>startsWith\<close>, \<open>split\<close> with a
  one-character separator, \<open>Array.prototype.join\<close>, \<open>replace\<close> with a string
  pattern). They are not code of the repository, so they are defined here once, from
  the ECMAScript semantics, and the component theories call them the way the source
  calls the built-ins. Strings are \<open>char list\<close>s: a JavaScript string is a sequence
  of UTF-16 code units, and the model reads it one 8-bit character at a time, so the
  whitespace class below is the ASCII part of ECMAScript's \<open>WhiteSpace\<close> and
  \<open>LineTerminator\<close> (the Unicode spaces U+00A0, U+2028 and the like are not
  modelled). The collection \<open>js_simps\<close> gathers the evaluation and algebra rules of
  the built-ins that the component proofs use.
\<close>

named_theorems js_simps "rewrite rules for the modelled JavaScript built-ins"

type_synonym js_string = "char list"

abbreviation LF :: char where
  "LF \<equiv> CHR ''\<newline>''"

subsection \<open>Whitespace and \<open>trim\<close>\<close>

definition is_ws :: "char \<Rightarrow> bool" where
  "is_ws c \<longleftrightarrow> c = CHR '' '' \<or> c = CHR 0x09 \<or> c = LF \<or> c = CHR 0x0B \<or> c = CHR 0x0C \<or> c = CHR 0x0D"

definition js_trim :: "js_string \<Rightarrow> js_string" where
  "js_trim s = rev (dropWhile is_ws (rev (dropWhile is_ws s)))"

text \<open>JavaScript truthiness of a string (and of a possibly undefined string field).\<close>

definition truthy :: "js_string option \<Rightarrow> bool" where
  "truthy v \<longleftrightarrow> (case v of None \<Rightarrow> False | Some s \<Rightarrow> s \<noteq> [])"

subsection \<open>\<open>startsWith\<close> and \<open>replace\<close>\<close>

fun starts_with :: "js_string \<Rightarrow> js_string \<Rightarrow> bool" where
  "starts_with [] s = True"
| "starts_with (p # ps) [] = False"
| "starts_with (p # ps) (c # cs) = (p = c \<and> starts_with ps cs)"

text \<open>\<open>s.toLowerCase()\<close> on 8-bit characters: the ASCII capitals and the Latin-1
  capitals \<open>U+00C0\<close>--\<open>U+00DE\<close> except \<open>U+00D7\<close> move up by 32.\<close>

definition js_lower_char :: "char \<Rightarrow> char" where
  "js_lower_char c =
     (let n = (of_char c :: nat)
      in if (65 \<le> n \<and> n \<le> 90) \<or> (192 \<le> n \<and> n \<le> 222 \<and> n \<noteq> 215) then char_of (n + 32) else c)"

definition js_lower :: "js_string \<Rightarrow> js_string" where
  "js_lower s = map js_lower_char s"

text \<open>\<open>js_includes p s\<close> is \<open>s.includes(p)\<close>: \<open>p\<close> occurs at some position of \<open>s\<close>.\<close>

fun js_includes :: "js_string \<Rightarrow> js_string \<Rightarrow> bool" where
  "js_includes p [] = (p = [])"
| "js_includes p (c # cs) = (starts_with p (c # cs) \<or> js_includes p cs)"

text \<open>\<open>s.replace(p, r)\<close> with a string pattern replaces the first occurrence only.\<close>

fun replace_first :: "js_string \<Rightarrow> js_string \<Rightarrow> js_string \<Rightarrow> js_string" where
  "replace_first p r [] = (if p = [] then r else [])"
| "replace_first p r (c # cs) =
     (if starts_with p (c # cs) then r @ drop (length p) (c # cs)
      else c # replace_first p r cs)"

subsection \<open>\<open>split\<close> on one character and \<open>join\<close>\<close>

fun split_on :: "char \<Rightarrow> js_string \<Rightarrow> js_string list" where
  "split_on d [] = [[]]"
| "split_on d (c # cs) =
     (let r = split_on d cs in if c = d then [] # r else (c # hd r) # tl r)"

fun join_with :: "char \<Rightarrow> js_string list \<Rightarrow> js_string" where
  "join_with d [] = []"
| "join_with d [b] = b"
| "join_with d (b # bs) = b @ d # join_with d bs"

text \<open>Reading \<open>xs[i]\<close> of a JavaScript array: \<open>undefined\<close> (\<open>None\<close>) past the end.\<close>

definition nth_opt :: "'a list \<Rightarrow> nat \<Rightarrow> 'a option" where
  "nth_opt xs i = (if i < length xs then Some (xs ! i) else None)"

text \<open>\<open>xs[i] = v\<close> on a JavaScript array: past the end the array grows, the gap
  filled with holes (read back as \<open>fill\<close>).\<close>

definition js_set :: "'a \<Rightarrow> 'a list \<Rightarrow> nat \<Rightarrow> 'a \<Rightarrow> 'a list" where
  "js_set fill xs i v =
     (if i < length xs then xs[i := v] else xs @ replicate (i - length xs) fill @ [v])"

subsection \<open>Numbers\<close>

text \<open>A JavaScript number: finite values as rationals (the rounding of IEEE doubles is
  abstracted; every value the modelled code computes is a ratio of small integers), and
  the non-finite values the code can produce written out, so that a division by zero is
  visible in the model instead of being HOL's \<open>x / 0 = 0\<close>.\<close>

datatype js_number = JNum rat | JNaN | JPosInf | JNegInf

fun js_div :: "js_number \<Rightarrow> js_number \<Rightarrow> js_number" where
  "js_div (JNum a) (JNum b) =
     (if b \<noteq> 0 then JNum (a / b) else if a = 0 then JNaN else if 0 < a then JPosInf else JNegInf)"
| "js_div _ _ = JNaN"

fun js_mul :: "js_number \<Rightarrow> js_number \<Rightarrow> js_number" where
  "js_mul (JNum a) (JNum b) = JNum (a * b)"
| "js_mul JPosInf (JNum b) = (if 0 < b then JPosInf else if b < 0 then JNegInf else JNaN)"
| "js_mul JNegInf (JNum b) = (if 0 < b then JNegInf else if b < 0 then JPosInf else JNaN)"
| "js_mul _ _ = JNaN"

text \<open>\<open>x >= c\<close> against a numeric literal \<open>c\<close>: every comparison with \<open>NaN\<close> is false.\<close>

fun js_ge :: "js_number \<Rightarrow> rat \<Rightarrow> bool" where
  "js_ge (JNum a) c \<longleftrightarrow> c \<le> a"
| "js_ge JPosInf c \<longleftrightarrow> True"
| "js_ge JNegInf c \<longleftrightarrow> False"
| "js_ge JNaN c \<longleftrightarrow> False"

text \<open>\<open>x || 0\<close> on a number: the falsy numbers are \<open>0\<close> and \<open>NaN\<close>, both give 0.\<close>

fun js_or0 :: "js_number \<Rightarrow> js_number" where
  "js_or0 JNaN = JNum 0"
| "js_or0 x = x"

text \<open>\<open>Math.round\<close>: the nearest integer, halves rounded towards \<open>+\<infinity>\<close>.\<close>

fun js_round :: "js_number \<Rightarrow> js_number" where
  "js_round (JNum a) = JNum (of_int (floor (a + 1 / 2)))"
| "js_round x = x"

text \<open>\<open>Math.floor\<close>.\<close>

fun js_floor :: "js_number \<Rightarrow> js_number" where
  "js_floor (JNum a) = JNum (of_int (floor a))"
| "js_floor x = x"

text \<open>\<open>parseInt(s, 10)\<close>: leading whitespace skipped, an optional sign, then the longest
  run of decimal digits; \<open>None\<close> is \<open>NaN\<close> (no digit).\<close>

definition is_digit :: "char \<Rightarrow> bool" where
  "is_digit c \<longleftrightarrow> of_char CHR ''0'' \<le> (of_char c :: nat) \<and> (of_char c :: nat) \<le> of_char CHR ''9''"

definition digits_value :: "js_string \<Rightarrow> int" where
  "digits_value ds = foldl (\<lambda>n d. 10 * n + (of_char d - of_char CHR ''0'' :: int)) 0 ds"

definition parse_int :: "js_string \<Rightarrow> int option" where
  "parse_int s =
     (let s1 = dropWhile is_ws s;
          (neg, s2) = (case s1 of c # r \<Rightarrow> if c = CHR ''-'' then (True, r)
                                             else if c = CHR ''+'' then (False, r) else (False, s1)
                              | [] \<Rightarrow> (False, []));
          ds = takeWhile is_digit s2
      in if ds = [] then None else Some (if neg then - digits_value ds else digits_value ds))"

text \<open>\<open>parseInt(s)\<close> without a radix (ECMAScript 19.2.5, radix 0): after the sign, a
  \<open>0x\<close> or \<open>0X\<close> prefix switches to radix 16 and the longest run of hexadecimal digits is
  read; otherwise it is \<open>parseInt(s, 10)\<close>.\<close>

definition parse_sign :: "js_string \<Rightarrow> bool \<times> js_string" where
  "parse_sign s1 = (case s1 of c # r \<Rightarrow> if c = CHR ''-'' then (True, r)
                                      else if c = CHR ''+'' then (False, r) else (False, s1)
                           | [] \<Rightarrow> (False, []))"

definition is_hex_digit :: "char \<Rightarrow> bool" where
  "is_hex_digit c \<longleftrightarrow> is_digit c \<or> c \<in> set ''abcdefABCDEF''"

definition hex_digit_value :: "char \<Rightarrow> int" where
  "hex_digit_value c =
     (if is_digit c then of_char c - of_char CHR ''0''
      else if c \<in> set ''abcdef'' then of_char c - of_char CHR ''a'' + 10
      else of_char c - of_char CHR ''A'' + 10)"

definition hex_value :: "js_string \<Rightarrow> int" where
  "hex_value ds = foldl (\<lambda>n d. 16 * n + hex_digit_value d) 0 ds"

definition parse_int_noradix :: "js_string \<Rightarrow> int option" where
  "parse_int_noradix s =
     (let (neg, s2) = parse_sign (dropWhile is_ws s)
      in if take 2 s2 = ''0x'' \<or> take 2 s2 = ''0X''
         then (let ds = takeWhile is_hex_digit (drop 2 s2)
               in if ds = [] then None else Some (if neg then - hex_value ds else hex_value ds))
         else parse_int s)"

text \<open>\<open>String(n)\<close> / \<open>n.toString()\<close> of a non-negative integer: its decimal digits.\<close>

definition digit_char :: "nat \<Rightarrow> char" where
  "digit_char d = char_of (of_char CHR ''0'' + d)"

fun show_nat :: "nat \<Rightarrow> js_string" where
  "show_nat n = (if n < 10 then [digit_char n] else show_nat (n div 10) @ [digit_char (n mod 10)])"

text \<open>\<open>s.padStart(2, '0')\<close>.\<close>

definition pad2 :: "js_string \<Rightarrow> js_string" where
  "pad2 s = replicate (2 - length s) CHR ''0'' @ s"

text \<open>\<open>String(k)\<close> of an integer.\<close>

definition show_int :: "int \<Rightarrow> js_string" where
  "show_int k = (if k < 0 then CHR ''-'' # show_nat (nat (- k)) else show_nat (nat k))"

text \<open>Truthiness of a number that may be \<open>null\<close>: \<open>null\<close> and 0 are falsy.\<close>

definition truthy_int :: "int option \<Rightarrow> bool" where
  "truthy_int v = (case v of None \<Rightarrow> False | Some k \<Rightarrow> k \<noteq> 0)"

text \<open>\<open>Number.prototype.toFixed(f)\<close> (ECMAScript 21.1.3.3): the magnitude rounded to
  \<open>f\<close> decimals, ties up, padded so that there is a digit before the point, the sign
  in front of a negative value.\<close>

definition js_toFixed :: "nat \<Rightarrow> js_number \<Rightarrow> js_string" where
  "js_toFixed f x =
     (case x of
        JNaN \<Rightarrow> ''NaN''
      | JPosInf \<Rightarrow> ''Infinity''
      | JNegInf \<Rightarrow> ''-Infinity''
      | JNum r \<Rightarrow>
          (let n = nat (floor (\<bar>r\<bar> * 10 ^ f + 1 / 2));
               m = replicate (Suc f - length (show_nat n)) CHR ''0'' @ show_nat n;
               k = length m - f;
               body = (if f = 0 then m else take k m @ CHR ''.'' # drop k m)
           in if r < 0 then CHR ''-'' # body else body))"

subsection \<open>Lemmas on the built-ins\<close>

lemma starts_with_iff [js_simps]: "starts_with p s \<longleftrightarrow> take (length p) s = p"
  by (induction p s rule: starts_with.induct) auto

lemma starts_with_append [js_simps]: "starts_with p (p @ s)"
  by (simp add: starts_with_iff)

lemma replace_first_start [js_simps]:
  "starts_with p s \<Longrightarrow> replace_first p r s = r @ drop (length p) s"
  by (cases s; cases p) auto

lemma split_on_not_Nil [simp]: "split_on d s \<noteq> []"
  by (induction s) (auto simp: Let_def)

lemma join_split_on [js_simps]: "join_with d (split_on d s) = s"
proof (induction s)
  case Nil
  then show ?case by simp
next
  case (Cons c cs)
  obtain b bs where r: "split_on d cs = b # bs"
    using split_on_not_Nil by (cases "split_on d cs") auto
  with Cons show ?case by (cases bs) (auto simp: Let_def)
qed

lemma split_on_append_sep [js_simps]:
  "d \<notin> set b \<Longrightarrow> split_on d (b @ d # s) = b # split_on d s"
  by (induction b) (auto simp: Let_def)

lemma split_on_no_sep [js_simps]: "d \<notin> set b \<Longrightarrow> split_on d b = [b]"
  by (induction b) (auto simp: Let_def)

lemma split_join_on [js_simps]:
  "bs \<noteq> [] \<Longrightarrow> \<forall>b \<in> set bs. d \<notin> set b \<Longrightarrow> split_on d (join_with d bs) = bs"
proof (induction bs rule: join_with.induct)
  case (3 d b v vs)
  then show ?case by (simp add: split_on_append_sep)
qed (auto simp: split_on_no_sep)

lemma join_with_Cons2 [js_simps]: "bs \<noteq> [] \<Longrightarrow> join_with d (b # bs) = b @ d # join_with d bs"
  by (cases bs) auto

lemma join_with_append [js_simps]:
  "xs \<noteq> [] \<Longrightarrow> ys \<noteq> [] \<Longrightarrow> join_with d (xs @ ys) = join_with d xs @ d # join_with d ys"
  by (induction xs rule: join_with.induct) (auto simp: join_with_Cons2)

lemma set_join_with: "b \<in> set bs \<Longrightarrow> set b \<subseteq> set (join_with d bs)"
  by (induction bs rule: join_with.induct) auto

lemma set_split_on: "b \<in> set (split_on d s) \<Longrightarrow> set b \<subseteq> set s"
  using set_join_with [of b "split_on d s" d] by (simp add: join_split_on)

lemma map_upt_nth [simp]: "map (\<lambda>i. f (xs ! i)) [0..<length xs] = map f xs"
  by (rule nth_equalityI) auto

lemma nth_opt_in [simp]: "i < length xs \<Longrightarrow> nth_opt xs i = Some (xs ! i)"
  by (simp add: nth_opt_def)

lemma js_trim_Nil [simp]: "js_trim [] = []"
  by (simp add: js_trim_def)

lemma dropWhile_ws_start:
  "s \<noteq> [] \<Longrightarrow> \<not> is_ws (hd s) \<Longrightarrow> dropWhile is_ws s = s"
  by (cases s) auto

lemma all_set_dropWhile: "(\<forall>x \<in> set (dropWhile P s). P x) \<longleftrightarrow> (\<forall>x \<in> set s. P x)"
  by (induction s) auto

lemma js_trim_Nil_iff [js_simps]: "js_trim s = [] \<longleftrightarrow> (\<forall>c \<in> set s. is_ws c)"
  by (simp add: js_trim_def dropWhile_eq_Nil_conv all_set_dropWhile)

lemma js_trim_ws_Cons [js_simps]: "is_ws c \<Longrightarrow> js_trim (c # s) = js_trim s"
  by (simp add: js_trim_def)

text \<open>Removing the \<open>i\<close>-th element of a list (\<open>take i xs @ drop (Suc i) xs\<close>)
  lowers a count by one exactly when that element is counted.\<close>

lemma length_filter_remove_nth:
  "i < length xs \<Longrightarrow>
     length (filter P (take i xs @ drop (Suc i) xs)) + (if P (xs ! i) then 1 else 0) = length (filter P xs)"
proof -
  assume "i < length xs"
  then have "xs = take i xs @ xs ! i # drop (Suc i) xs" by (simp add: id_take_nth_drop)
  then have "length (filter P xs) = length (filter P (take i xs @ xs ! i # drop (Suc i) xs))" by simp
  then show ?thesis by simp
qed

lemma count_list_remove_nth:
  "i < length xs \<Longrightarrow>
     count_list (take i xs @ drop (Suc i) xs) x + (if xs ! i = x then 1 else 0) = count_list xs x"
proof -
  assume "i < length xs"
  then have "xs = take i xs @ xs ! i # drop (Suc i) xs" by (simp add: id_take_nth_drop)
  then have "count_list xs x = count_list (take i xs @ xs ! i # drop (Suc i) xs) x" by simp
  then show ?thesis by simp
qed

subsection \<open>Decimal numerals\<close>

declare show_nat.simps [simp del]
lemma digit_char_digit [js_simps]: "d < 10 \<Longrightarrow> is_digit (digit_char d)"
  by (simp add: digit_char_def is_digit_def)
lemma of_char_digit_char: "d < 10 \<Longrightarrow> of_char (digit_char d) = (48::nat) + d"
  by (simp add: digit_char_def)

lemma of_char_digit_char_int: "d < 10 \<Longrightarrow> (of_char (digit_char d) :: int) = 48 + int d"
  using of_char_digit_char [of d] of_nat_of_char [of "digit_char d", where ?'a = int] by simp
lemma show_nat_digits [js_simps]: "\<forall>c \<in> set (show_nat n). is_digit c"
  by (induction n rule: show_nat.induct) (subst show_nat.simps; auto simp: digit_char_digit)
lemma digits_value_snoc: "digits_value (ds @ [d]) = 10 * digits_value ds + (of_char d - 48)"
  by (simp add: digits_value_def)
lemma digits_value_show_nat [js_simps]: "digits_value (show_nat n) = int n"
proof (induction n rule: show_nat.induct)
  case (1 n)
  show ?case
  proof (cases "n < 10")
    case True
    then show ?thesis by (subst show_nat.simps) (simp add: digits_value_def of_char_digit_char_int)
  next
    case False
    have "10 * int (n div 10) + int (n mod 10) = int n"
      using mult_div_mod_eq [of 10 n] by linarith
    with False "1.IH" show ?thesis
      by (subst show_nat.simps) (simp add: digits_value_snoc of_char_digit_char_int)
  qed
qed
lemma show_nat_not_Nil [simp]: "show_nat n \<noteq> []"
  by (subst show_nat.simps) simp


lemma show_nat_length_1 [js_simps]: "n < 10 \<Longrightarrow> show_nat n = [digit_char n]"
  by (subst show_nat.simps) simp

lemma show_nat_length_2 [js_simps]:
  "10 \<le> n \<Longrightarrow> n < 100 \<Longrightarrow> length (show_nat n) = 2"
  by (subst show_nat.simps) (simp add: show_nat_length_1)

lemma length_show_nat_small: "n < 100 \<Longrightarrow> length (show_nat n) \<le> 2"
  by (subst show_nat.simps) (auto simp: show_nat.simps [of "n div 10"])

text \<open>Evaluation of the decimal printer and of \<open>floor\<close> on literals, for concrete
  witnesses: \<open>simp add: num_eval\<close>.\<close>

lemma floor_numeral_div_rat: "floor (numeral a / numeral b :: rat) = numeral a div numeral b"
  using floor_divide_of_int_eq [of "numeral a" "numeral b", where 'a = rat] by simp

lemma show_nat_numeral:
  "show_nat (numeral k) = (if numeral k < (10::nat) then [digit_char (numeral k)]
     else show_nat (numeral k div 10) @ [digit_char (numeral k mod 10)])"
  by (subst show_nat.simps) simp

lemma show_nat_0: "show_nat 0 = ''0''"
  by (subst show_nat.simps) (simp add: digit_char_def char_of_def bit_0)

lemma show_nat_Suc_0: "show_nat (Suc 0) = ''1''"
  by (subst show_nat.simps) (simp add: digit_char_def char_of_def bit_0)

lemmas num_eval = floor_numeral_div_rat show_nat_numeral show_nat_0 show_nat_Suc_0
  digit_char_def char_of_def bit_0

lemma digits_value_zero_Cons: "digits_value (CHR ''0'' # ds) = digits_value ds"
proof -
  have "\<And>a. foldl (\<lambda>n d. 10 * n + (of_char d - of_char CHR ''0'' :: int)) a ds
      = foldl (\<lambda>n d. 10 * n + (of_char d - of_char CHR ''0'')) a ds" by simp
  then show ?thesis by (simp add: digits_value_def)
qed

lemma digits_value_zeros: "digits_value (replicate k CHR ''0'' @ s) = digits_value s"
  by (induction k) (simp_all add: digits_value_zero_Cons)

lemma digits_value_pad2: "digits_value (pad2 s) = digits_value s"
  by (simp add: pad2_def digits_value_zeros)

lemma parse_int_digits:
  assumes "ds \<noteq> []" "\<forall>c \<in> set ds. is_digit c"
  shows "parse_int ds = Some (digits_value ds)"
proof (cases ds)
  case (Cons c r)
  with assms have "is_digit c" "\<forall>x \<in> set r. is_digit x" by auto
  moreover from \<open>is_digit c\<close> have "c \<noteq> CHR ''-''" "c \<noteq> CHR ''+''" "\<not> is_ws c"
    by (auto simp: is_digit_def is_ws_def)
  moreover from \<open>\<forall>x \<in> set r. is_digit x\<close> have tw: "takeWhile is_digit r = r" by simp
  ultimately show ?thesis using Cons by (simp add: parse_int_def tw)
qed (use assms in simp)

lemma parse_int_show_nat [js_simps]: "parse_int (show_nat n) = Some (int n)"
  by (simp add: parse_int_digits show_nat_digits digits_value_show_nat)

lemma parse_int_zero [js_simps]: "parse_int ''0'' = Some 0"
  by (simp add: parse_int_def is_digit_def is_ws_def digits_value_def)

lemma show_nat_no_char [js_simps]: "\<not> is_digit d \<Longrightarrow> d \<notin> set (show_nat n)"
  using show_nat_digits [of n] by blast

lemma set_parse_sign: "set (snd (parse_sign s)) \<subseteq> set s"
  by (auto simp: parse_sign_def split: list.splits)

text \<open>Without an \<open>x\<close> in the text the two readings agree.\<close>

lemma parse_int_noradix_eq:
  assumes "CHR ''x'' \<notin> set s" and "CHR ''X'' \<notin> set s"
  shows "parse_int_noradix s = parse_int s"
proof -
  obtain neg t where p: "parse_sign (dropWhile is_ws s) = (neg, t)" by fastforce
  have "set (take 2 t) \<subseteq> set s"
    using set_take_subset [of 2 t] set_parse_sign [of "dropWhile is_ws s"] set_dropWhileD [of _ is_ws s] p
    by fastforce
  then have "take 2 t \<noteq> ''0x'' \<and> take 2 t \<noteq> ''0X''" using assms by auto
  then show ?thesis by (simp add: parse_int_noradix_def p)
qed

lemma parse_int_noradix_show_nat [js_simps]: "parse_int_noradix (show_nat n) = Some (int n)"
  using show_nat_no_char [of "CHR ''x''" n] show_nat_no_char [of "CHR ''X''" n]
  by (simp add: parse_int_noradix_eq parse_int_show_nat is_digit_def)

text \<open>\<open>Math.ceil(n / 60)\<close> on a natural number.\<close>

lemma ceiling_div_60: "ceiling (rat_of_nat n / 60) = int ((n + 59) div 60)"
proof (rule ceiling_unique)
  have "60 * ((n + 59) div 60) < n + 60" "n \<le> 60 * ((n + 59) div 60)" by linarith+
  then show "of_int (int ((n + 59) div 60)) - 1 < rat_of_nat n / 60"
       "rat_of_nat n / 60 \<le> of_int (int ((n + 59) div 60))"
    by (simp_all add: field_simps)
qed

end
