(* ===== verification/BulkParser.thy ===== *)
theory BulkParser
  imports Prelude
begin

text \<open>
  The bulk question parser of the admin upload page
  (\<open>src/client/src/pages/admin/upload-questions.tsx\<close>): \<open>parseBulkQuestions\<close> splits the
  pasted text into blocks, either on blank lines (the regular expression
  \<open>/\n\s*\n/\<close>) or, when that gives at most one non-blank block, at lines starting with
  \<open>QUESTION:\<close>; \<open>parseQuestionBlocks\<close> reads the prefixed lines of each block into a
  question object and keeps the complete ones; \<open>handleBulkUpload\<close> adds the guards run
  before the batch is posted. A question object is a record of possibly undefined string
  fields (\<open>None\<close> is JavaScript's \<open>undefined\<close>). A printer of the spec's text
  format (\<open>bulk_text\<close>) is the reference against which the parser is shown to read
  printed questions back.
\<close>

record bulk_question =
  qtext :: "js_string option"
  topic :: "js_string option"
  subtopic :: "js_string option"
  difficulty :: "js_string option"
  optionA :: "js_string option"
  optionB :: "js_string option"
  optionC :: "js_string option"
  optionD :: "js_string option"
  correctOption :: "js_string option"
  explanation :: "js_string option"

definition empty_question :: bulk_question where
  "empty_question =
     \<lparr>qtext = None, topic = None, subtopic = None, difficulty = None,
      optionA = None, optionB = None, optionC = None, optionD = None,
      correctOption = None, explanation = None\<rparr>"

subsection \<open>Reading one line of a block\<close>

text \<open>\<open>line.replace('P', '').trim()\<close>: the value after the prefix.\<close>

definition field_value :: "js_string \<Rightarrow> js_string \<Rightarrow> js_string" where
  "field_value p line = js_trim (replace_first p [] line)"

text \<open>The \<open>if\<close>/\<open>else if\<close> chain of \<open>parseQuestionBlocks\<close>, in the source's order; a line
  with none of the prefixes leaves the object unchanged.\<close>

definition apply_line :: "bulk_question \<Rightarrow> js_string \<Rightarrow> bulk_question" where
  "apply_line q line =
     (if starts_with ''QUESTION:'' line then q\<lparr>qtext := Some (field_value ''QUESTION:'' line)\<rparr>
      else if starts_with ''TOPIC:'' line then q\<lparr>topic := Some (field_value ''TOPIC:'' line)\<rparr>
      else if starts_with ''SUBTOPIC:'' line then q\<lparr>subtopic := Some (field_value ''SUBTOPIC:'' line)\<rparr>
      else if starts_with ''DIFFICULTY:'' line then q\<lparr>difficulty := Some (field_value ''DIFFICULTY:'' line)\<rparr>
      else if starts_with ''OPTION A:'' line then q\<lparr>optionA := Some (field_value ''OPTION A:'' line)\<rparr>
      else if starts_with ''OPTION B:'' line then q\<lparr>optionB := Some (field_value ''OPTION B:'' line)\<rparr>
      else if starts_with ''OPTION C:'' line then q\<lparr>optionC := Some (field_value ''OPTION C:'' line)\<rparr>
      else if starts_with ''OPTION D:'' line then q\<lparr>optionD := Some (field_value ''OPTION D:'' line)\<rparr>
      else if starts_with ''CORRECT:'' line then q\<lparr>correctOption := Some (field_value ''CORRECT:'' line)\<rparr>
      else if starts_with ''EXPLANATION:'' line then q\<lparr>explanation := Some (field_value ''EXPLANATION:'' line)\<rparr>
      else q)"

text \<open>The validation of \<open>parseQuestionBlocks\<close>: every required field truthy.\<close>

definition complete :: "bulk_question \<Rightarrow> bool" where
  "complete q \<longleftrightarrow> truthy (qtext q) \<and> truthy (topic q) \<and> truthy (optionA q) \<and> truthy (optionB q)
     \<and> truthy (optionC q) \<and> truthy (optionD q) \<and> truthy (correctOption q)"

text \<open>One iteration of the block loop: lines split on \<open>\n\<close> and kept when non-blank, read
  in order, difficulty defaulted to \<open>medium\<close>, the object kept only when complete. The
  \<open>try\<close>/\<open>catch\<close> around it never fires: nothing in the body throws on a string.\<close>

definition parse_block :: "js_string \<Rightarrow> bulk_question option" where
  "parse_block block =
     (let lines = filter (\<lambda>l. js_trim l \<noteq> []) (split_on LF block);
          q = fold (\<lambda>l q. apply_line q l) lines empty_question;
          q' = (if truthy (difficulty q) then q else q\<lparr>difficulty := Some ''medium''\<rparr>)
      in if complete q' then Some q' else None)"

fun parseQuestionBlocks :: "js_string list \<Rightarrow> bulk_question list" where
  "parseQuestionBlocks [] = []"
| "parseQuestionBlocks (b # bs) =
     (case parse_block b of
        Some q \<Rightarrow> q # parseQuestionBlocks bs
      | None \<Rightarrow> parseQuestionBlocks bs)"

subsection \<open>Splitting the text into blocks\<close>

text \<open>
  \<open>text.split(/\n\s*\n/)\<close>. At a line feed the regular expression matches when the
  maximal run of whitespace after it contains another line feed; \<open>\s*\<close> is greedy, so the
  match runs to the last line feed of that run. \<open>sep_len rest\<close> is the number of
  characters of \<open>rest\<close> (the text after the first line feed) the match consumes, 0 when
  there is no match.
\<close>

definition sep_len :: "js_string \<Rightarrow> nat" where
  "sep_len rest = length (dropWhile (\<lambda>c. c \<noteq> LF) (rev (takeWhile is_ws rest)))"

function blank_split_aux :: "js_string \<Rightarrow> js_string \<Rightarrow> js_string list" where
  "blank_split_aux cur [] = [rev cur]"
| "blank_split_aux cur (c # cs) =
     (if c = LF \<and> 0 < sep_len cs then rev cur # blank_split_aux [] (drop (sep_len cs) cs)
      else blank_split_aux (c # cur) cs)"
  by pat_completeness auto
termination
  by (relation "measure (\<lambda>(cur, s). length s)") auto

definition blank_split :: "js_string \<Rightarrow> js_string list" where
  "blank_split text = blank_split_aux [] text"

text \<open>\<open>questionBlocksByEmptyLine\<close>: the pieces, blank ones removed.\<close>

definition blocks_by_empty_line :: "js_string \<Rightarrow> js_string list" where
  "blocks_by_empty_line text = filter (\<lambda>b. js_trim b \<noteq> []) (blank_split text)"

text \<open>The fallback loop over \<open>text.split('\n')\<close>: a line whose trimmed form starts with
  \<open>QUESTION:\<close> closes the current block, when that block is not empty, and starts the
  next one; the last block is pushed after the loop.\<close>

fun marker_blocks :: "js_string list \<Rightarrow> js_string list \<Rightarrow> js_string list" where
  "marker_blocks cur [] = (if cur \<noteq> [] then [join_with LF cur] else [])"
| "marker_blocks cur (l # ls) =
     (if starts_with ''QUESTION:'' (js_trim l) \<and> cur \<noteq> []
      then join_with LF cur # marker_blocks [l] ls
      else marker_blocks (cur @ [l]) ls)"

definition parseBulkQuestions :: "js_string \<Rightarrow> bulk_question list" where
  "parseBulkQuestions text =
     (let byEmpty = blocks_by_empty_line text
      in if 1 < length byEmpty then parseQuestionBlocks byEmpty
         else parseQuestionBlocks (marker_blocks [] (split_on LF text)))"

subsection \<open>The upload handler\<close>

datatype bulk_error =
    NoContent
  | NoValidQuestions
  | InvalidCorrectValues nat

definition valid_correct :: "bulk_question \<Rightarrow> bool" where
  "valid_correct q \<longleftrightarrow>
     (case correctOption q of None \<Rightarrow> False | Some c \<Rightarrow> c \<in> set [''A'', ''B'', ''C'', ''D''])"

text \<open>\<open>handleBulkUpload\<close>: the three early returns, in order, then the batch that
  \<open>bulkUploadMutation.mutate\<close> posts (\<open>Inr\<close>).\<close>

definition handleBulkUpload :: "js_string \<Rightarrow> bulk_error + bulk_question list" where
  "handleBulkUpload bulkText =
     (if js_trim bulkText = [] then Inl NoContent
      else let parsed = parseBulkQuestions bulkText
      in if parsed = [] then Inl NoValidQuestions
      else let invalid = filter (\<lambda>q. \<not> valid_correct q) parsed
      in if invalid \<noteq> [] then Inl (InvalidCorrectValues (length invalid))
      else Inr parsed)"

text \<open>The options field a correct-option letter names.\<close>

fun option_named :: "bulk_question \<Rightarrow> js_string \<Rightarrow> js_string option" where
  "option_named q c =
     (if c = ''A'' then optionA q else if c = ''B'' then optionB q
      else if c = ''C'' then optionC q else if c = ''D'' then optionD q else None)"

subsection \<open>The spec's text format\<close>

text \<open>The format of the spec's section 4.1, used to state what the parser reads back:
  one line \<open>PREFIX: value\<close> per defined field, in the order of \<open>apply_line\<close>, and a blank
  line between two questions. A value is clean when trimming leaves it unchanged and it
  has no line feed. \<open>with_default\<close> is the difficulty default of \<open>parse_block\<close>;
  \<open>override q0 q\<close> is \<open>q0\<close> with every field \<open>q\<close> defines replaced.\<close>

definition field_line :: "js_string \<Rightarrow> js_string option \<Rightarrow> js_string list" where
  "field_line p v = (case v of None \<Rightarrow> [] | Some x \<Rightarrow> [p @ CHR '' '' # x])"

definition field_table :: "(js_string \<times> (bulk_question \<Rightarrow> js_string option)) list" where
  "field_table =
     [(''QUESTION:'', qtext), (''TOPIC:'', topic), (''SUBTOPIC:'', subtopic), (''DIFFICULTY:'', difficulty),
      (''OPTION A:'', optionA), (''OPTION B:'', optionB), (''OPTION C:'', optionC), (''OPTION D:'', optionD),
      (''CORRECT:'', correctOption), (''EXPLANATION:'', explanation)]"

definition question_lines :: "bulk_question \<Rightarrow> js_string list" where
  "question_lines q = concat (map (\<lambda>(p, f). field_line p (f q)) field_table)"

definition question_block :: "bulk_question \<Rightarrow> js_string" where
  "question_block q = join_with LF (question_lines q)"

fun bulk_text :: "bulk_question list \<Rightarrow> js_string" where
  "bulk_text [] = []"
| "bulk_text [q] = question_block q"
| "bulk_text (q # q' # qs) = question_block q @ LF # LF # bulk_text (q' # qs)"

definition clean_field :: "js_string option \<Rightarrow> bool" where
  "clean_field v = (case v of None \<Rightarrow> True | Some x \<Rightarrow> js_trim x = x \<and> LF \<notin> set x)"

definition clean_fields :: "bulk_question \<Rightarrow> bool" where
  "clean_fields q \<longleftrightarrow> list_all (\<lambda>(p, f). clean_field (f q)) field_table"

definition printable :: "bulk_question \<Rightarrow> bool" where
  "printable q \<longleftrightarrow> complete q \<and> clean_fields q"

definition with_default :: "bulk_question \<Rightarrow> bulk_question" where
  "with_default q = (if truthy (difficulty q) then q else q\<lparr>difficulty := Some ''medium''\<rparr>)"

definition fld_or :: "js_string option \<Rightarrow> js_string option \<Rightarrow> js_string option" where
  "fld_or a b = (case b of None \<Rightarrow> a | Some x \<Rightarrow> Some x)"

definition override :: "bulk_question \<Rightarrow> bulk_question \<Rightarrow> bulk_question" where
  "override q0 q =
     q0\<lparr>qtext := fld_or (qtext q0) (qtext q), topic := fld_or (topic q0) (topic q),
        subtopic := fld_or (subtopic q0) (subtopic q), difficulty := fld_or (difficulty q0) (difficulty q),
        optionA := fld_or (optionA q0) (optionA q), optionB := fld_or (optionB q0) (optionB q),
        optionC := fld_or (optionC q0) (optionC q), optionD := fld_or (optionD q0) (optionD q),
        correctOption := fld_or (correctOption q0) (correctOption q),
        explanation := fld_or (explanation q0) (explanation q)\<rparr>"

text \<open>The prefixes of the format.\<close>

definition field_prefixes :: "js_string list" where
  "field_prefixes = map fst field_table"

text \<open>A text in which every line feed is followed by a character that is not white
  space contains no separator of \<open>/\n\s*\n/\<close>.\<close>

fun no_gap :: "js_string \<Rightarrow> bool" where
  "no_gap [] = True"
| "no_gap (c # cs) = ((c = LF \<longrightarrow> cs \<noteq> [] \<and> \<not> is_ws (hd cs)) \<and> no_gap cs)"

subsection \<open>What the parser returns\<close>

lemma parse_block_Some:
  "parse_block b = Some q \<Longrightarrow> complete q \<and> truthy (difficulty q)"
  by (auto simp: parse_block_def Let_def truthy_def complete_def split: if_splits)

lemma set_parseQuestionBlocks:
  "q \<in> set (parseQuestionBlocks bs) \<Longrightarrow> \<exists>b \<in> set bs. parse_block b = Some q"
  by (induction bs rule: parseQuestionBlocks.induct) (auto split: option.splits)

lemma set_parseBulkQuestions:
  "q \<in> set (parseBulkQuestions t) \<Longrightarrow> \<exists>b. parse_block b = Some q"
  by (auto simp: parseBulkQuestions_def Let_def split: if_splits dest: set_parseQuestionBlocks)

lemma marker_blocks_not_Nil: "cur \<noteq> [] \<or> ls \<noteq> [] \<Longrightarrow> marker_blocks cur ls \<noteq> []"
  by (induction cur ls rule: marker_blocks.induct) auto

lemma join_marker_blocks: "join_with LF (marker_blocks cur ls) = join_with LF (cur @ ls)"
proof (induction cur ls rule: marker_blocks.induct)
  case (2 cur l ls)
  show ?case
  proof (cases "starts_with ''QUESTION:'' (js_trim l) \<and> cur \<noteq> []")
    case True
    then have "marker_blocks [l] ls \<noteq> []" by (simp add: marker_blocks_not_Nil)
    with True "2.IH"(1) show ?thesis
      by (simp add: join_with_Cons2 join_with_append)
  next
    case False
    then have "marker_blocks cur (l # ls) = marker_blocks (cur @ [l]) ls" by simp
    with False "2.IH"(2) show ?thesis by simp
  qed
qed simp

lemma set_blank_split_aux:
  "b \<in> set (blank_split_aux cur s) \<Longrightarrow> set b \<subseteq> set cur \<union> set s"
proof (induction cur s rule: blank_split_aux.induct)
  case (2 cur c cs)
  show ?case
  proof (cases "c = LF \<and> 0 < sep_len cs")
    case True
    with "2.prems" have "b = rev cur \<or> b \<in> set (blank_split_aux [] (drop (sep_len cs) cs))"
      by auto
    with True "2.IH"(1) show ?thesis using set_drop_subset [of "sep_len cs" cs] by auto
  next
    case False
    with "2.prems" "2.IH"(2) show ?thesis by auto
  qed
qed simp

lemma parse_block_blank: "\<forall>c \<in> set b. is_ws c \<Longrightarrow> parse_block b = None"
proof -
  assume ws: "\<forall>c \<in> set b. is_ws c"
  have "filter (\<lambda>l. js_trim l \<noteq> []) (split_on LF b) = []"
    using ws by (auto simp: filter_empty_conv js_trim_Nil_iff dest!: set_split_on)
  then show ?thesis
    by (simp add: parse_block_def complete_def truthy_def empty_question_def)
qed

lemma parseQuestionBlocks_blank:
  "\<forall>b \<in> set bs. \<forall>c \<in> set b. is_ws c \<Longrightarrow> parseQuestionBlocks bs = []"
  by (induction bs) (auto simp: parse_block_blank)

lemma parseBulkQuestions_blank: "js_trim t = [] \<Longrightarrow> parseBulkQuestions t = []"
proof -
  assume "js_trim t = []"
  then have ws: "\<forall>c \<in> set t. is_ws c" by (simp add: js_trim_Nil_iff)
  then have "blocks_by_empty_line t = []"
    by (fastforce simp: blocks_by_empty_line_def blank_split_def filter_empty_conv js_trim_Nil_iff
        dest: set_blank_split_aux)
  moreover have "\<forall>b \<in> set (marker_blocks [] (split_on LF t)). \<forall>c \<in> set b. is_ws c"
    using ws set_join_with [where d = LF and bs = "marker_blocks [] (split_on LF t)"]
    by (fastforce simp: join_marker_blocks join_split_on)
  ultimately show ?thesis
    by (simp add: parseBulkQuestions_def parseQuestionBlocks_blank)
qed

subsection \<open>Reading printed questions back\<close>

lemma field_value_line: "p \<noteq> [] \<Longrightarrow> js_trim x = x \<Longrightarrow> field_value p (p @ CHR '' '' # x) = x"
  by (simp add: field_value_def replace_first_start starts_with_append js_trim_ws_Cons is_ws_def)

lemma fold_field_lines:
  assumes "clean_field v"
  shows "fold (\<lambda>l q. apply_line q l) (field_line ''QUESTION:'' v) q = q\<lparr>qtext := fld_or (qtext q) v\<rparr>"
    "fold (\<lambda>l q. apply_line q l) (field_line ''TOPIC:'' v) q = q\<lparr>topic := fld_or (topic q) v\<rparr>"
    "fold (\<lambda>l q. apply_line q l) (field_line ''SUBTOPIC:'' v) q = q\<lparr>subtopic := fld_or (subtopic q) v\<rparr>"
    "fold (\<lambda>l q. apply_line q l) (field_line ''DIFFICULTY:'' v) q = q\<lparr>difficulty := fld_or (difficulty q) v\<rparr>"
    "fold (\<lambda>l q. apply_line q l) (field_line ''OPTION A:'' v) q = q\<lparr>optionA := fld_or (optionA q) v\<rparr>"
    "fold (\<lambda>l q. apply_line q l) (field_line ''OPTION B:'' v) q = q\<lparr>optionB := fld_or (optionB q) v\<rparr>"
    "fold (\<lambda>l q. apply_line q l) (field_line ''OPTION C:'' v) q = q\<lparr>optionC := fld_or (optionC q) v\<rparr>"
    "fold (\<lambda>l q. apply_line q l) (field_line ''OPTION D:'' v) q = q\<lparr>optionD := fld_or (optionD q) v\<rparr>"
    "fold (\<lambda>l q. apply_line q l) (field_line ''CORRECT:'' v) q = q\<lparr>correctOption := fld_or (correctOption q) v\<rparr>"
    "fold (\<lambda>l q. apply_line q l) (field_line ''EXPLANATION:'' v) q = q\<lparr>explanation := fld_or (explanation q) v\<rparr>"
  using assms by (auto simp: field_line_def fld_or_def clean_field_def apply_line_def field_value_def
      js_trim_ws_Cons is_ws_def split: option.split)

lemma fold_question_lines:
  "clean_fields q \<Longrightarrow> fold (\<lambda>l q. apply_line q l) (question_lines q) q0 = override q0 q"
  by (simp add: clean_fields_def question_lines_def field_table_def fold_field_lines override_def)

lemma override_empty: "override empty_question q = q"
  by (cases q) (simp add: override_def empty_question_def fld_or_def split: option.split)

lemma field_prefixes_props:
  "p \<in> set field_prefixes \<Longrightarrow> p \<noteq> [] \<and> \<not> is_ws (hd p) \<and> LF \<notin> set p \<and> (hd p = CHR ''Q'' \<longleftrightarrow> p = ''QUESTION:'')"
  by (auto simp: field_prefixes_def field_table_def is_ws_def)

lemma js_trim_hd: "\<not> is_ws c \<Longrightarrow> \<exists>r. js_trim (c # s) = c # r"
proof -
  assume c: "\<not> is_ws c"
  show ?thesis
  proof (cases "\<forall>x \<in> set (rev s). is_ws x")
    case True
    then have "dropWhile is_ws (rev s @ [c]) = [c]" using c by (simp add: dropWhile_append)
    then show ?thesis using c by (simp add: js_trim_def)
  next
    case False
    then have "dropWhile is_ws (rev s @ [c]) = dropWhile is_ws (rev s) @ [c]" by (simp add: dropWhile_append)
    then show ?thesis using c by (simp add: js_trim_def)
  qed
qed

text \<open>A printed line starts with its prefix's first character, which is not white space,
  and has no line feed; only the \<open>QUESTION:\<close> line starts with \<open>Q\<close>.\<close>

lemma field_line_props:
  assumes "l \<in> set (field_line p v)" "clean_field v" "p \<in> set field_prefixes"
  shows "l \<noteq> [] \<and> \<not> is_ws (hd l) \<and> LF \<notin> set l \<and> js_trim l \<noteq> []
         \<and> (starts_with ''QUESTION:'' (js_trim l) \<longrightarrow> p = ''QUESTION:'') \<and> v \<noteq> None"
proof -
  note pp = field_prefixes_props [OF assms(3)]
  from assms(1) obtain x where l: "l = p @ CHR '' '' # x" "v = Some x"
    by (cases v) (auto simp: field_line_def)
  with assms(2) have lf: "LF \<notin> set x" by (simp add: clean_field_def)
  obtain c ps where p: "p = c # ps" using pp by (cases p) auto
  obtain r where t: "js_trim l = c # r" using js_trim_hd [of c] pp p l(1) by auto
  have "starts_with ''QUESTION:'' (js_trim l) \<longrightarrow> c = CHR ''Q''" using t by simp
  then show ?thesis using pp p l lf t by auto
qed

lemma field_table_question: "(p, f) \<in> set field_table \<Longrightarrow> p = ''QUESTION:'' \<Longrightarrow> f = qtext"
  by (auto simp: field_table_def)

lemma printed_line_props:
  assumes "clean_fields q" "l \<in> set (question_lines q)"
  shows "l \<noteq> [] \<and> \<not> is_ws (hd l) \<and> LF \<notin> set l \<and> js_trim l \<noteq> []
         \<and> (starts_with ''QUESTION:'' (js_trim l) \<longrightarrow> qtext q \<noteq> None)"
proof -
  from assms(2) obtain p f where pf: "(p, f) \<in> set field_table" "l \<in> set (field_line p (f q))"
    by (auto simp: question_lines_def)
  have c: "clean_field (f q)" using assms(1) pf(1) by (auto simp: clean_fields_def list_all_iff)
  have "p \<in> set field_prefixes" using pf(1) by (force simp: field_prefixes_def)
  note props = field_line_props [OF pf(2) c this]
  have "starts_with ''QUESTION:'' (js_trim l) \<longrightarrow> qtext q \<noteq> None"
  proof
    assume "starts_with ''QUESTION:'' (js_trim l)"
    with props have "p = ''QUESTION:''" by blast
    with field_table_question [OF pf(1)] props show "qtext q \<noteq> None" by simp
  qed
  with props show ?thesis by blast
qed

lemma sep_len_no_ws: "s \<noteq> [] \<Longrightarrow> \<not> is_ws (hd s) \<Longrightarrow> sep_len s = 0"
  by (cases s) (simp_all add: sep_len_def)

lemma blank_split_aux_no_gap:
  "no_gap b \<Longrightarrow> blank_split_aux cur (b @ s) = blank_split_aux (rev b @ cur) s"
proof (induction b arbitrary: cur)
  case (Cons c cs)
  then have "c = LF \<longrightarrow> sep_len (cs @ s) = 0" by (auto simp: sep_len_no_ws)
  with Cons show ?case by auto
qed simp

lemma blank_split_aux_sep:
  "r \<noteq> [] \<Longrightarrow> \<not> is_ws (hd r) \<Longrightarrow> blank_split_aux cur (LF # LF # r) = rev cur # blank_split_aux [] r"
  by (cases r) (simp_all add: sep_len_def is_ws_def)

lemma no_gap_append_noLF: "LF \<notin> set a \<Longrightarrow> no_gap (a @ b) = (no_gap b \<and> (a \<noteq> [] \<longrightarrow> True))"
  by (induction a) auto

lemma join_with_Cons_hd: "v \<noteq> [] \<Longrightarrow> join_with d (v # vs) \<noteq> [] \<and> hd (join_with d (v # vs)) = hd v"
  by (cases vs) auto

lemma no_gap_join:
  "\<forall>l \<in> set ls. l \<noteq> [] \<and> \<not> is_ws (hd l) \<and> LF \<notin> set l \<Longrightarrow> no_gap (join_with LF ls)"
proof (induction ls)
  case (Cons b bs)
  show ?case
  proof (cases bs)
    case Nil
    with Cons show ?thesis using no_gap_append_noLF [of b "[]"] by simp
  next
    case (Cons v vs)
    with Cons.prems have "no_gap (LF # join_with LF bs)"
      using Cons.IH join_with_Cons_hd [of v LF vs] by auto
    with Cons Cons.prems show ?thesis using no_gap_append_noLF [of b "LF # join_with LF bs"] by simp
  qed
qed simp

lemma question_lines_empty [simp]: "question_lines empty_question = []"
  by (simp add: question_lines_def field_table_def empty_question_def field_line_def)

lemma override_empty_right [simp]: "override q empty_question = q"
  by (cases q) (simp add: override_def empty_question_def fld_or_def)

lemma clean_fields_empty [simp]: "clean_fields empty_question"
  by (simp add: clean_fields_def field_table_def empty_question_def clean_field_def)

lemma complete_with_default [simp]: "complete (with_default q) = complete q"
  by (simp add: with_default_def complete_def)

lemma question_lines_split:
  "question_lines q = field_line ''QUESTION:'' (qtext q) @ question_lines (q\<lparr>qtext := None\<rparr>)"
  by (simp add: question_lines_def field_table_def field_line_def)

lemma clean_fields_no_qtext: "clean_fields q \<Longrightarrow> clean_fields (q\<lparr>qtext := None\<rparr>)"
  by (simp add: clean_fields_def field_table_def clean_field_def)

lemma printable_lines:
  "printable q \<Longrightarrow> \<exists>x. question_lines q = (''QUESTION:'' @ CHR '' '' # x) # question_lines (q\<lparr>qtext := None\<rparr>)"
  by (subst question_lines_split) (auto simp: printable_def complete_def truthy_def field_line_def split: option.splits)

text \<open>Reading the lines of one or two printed questions as one block: the fields are
  read in turn, the later question's overriding the earlier's.\<close>

lemma parse_block_printed:
  assumes "clean_fields q1" "clean_fields q2"
  shows "parse_block (join_with LF (question_lines q1 @ question_lines q2))
           = (if complete (override q1 q2) then Some (with_default (override q1 q2)) else None)"
proof -
  let ?ls = "question_lines q1 @ question_lines q2"
  have props: "\<forall>l \<in> set ?ls. LF \<notin> set l \<and> js_trim l \<noteq> []"
    using printed_line_props [OF assms(1)] printed_line_props [OF assms(2)] by auto
  have "filter (\<lambda>l. js_trim l \<noteq> []) (split_on LF (join_with LF ?ls)) = ?ls"
  proof (cases "?ls = []")
    case False
    then show ?thesis using props by (simp add: split_join_on)
  qed (simp add: empty_question_def)
  moreover have "fold (\<lambda>l q. apply_line q l) ?ls empty_question = override q1 q2"
    using assms by (simp add: fold_question_lines override_empty)
  ultimately show ?thesis by (simp add: parse_block_def with_default_def Let_def complete_def)
qed

lemma marker_blocks_single:
  "cur \<noteq> [] \<Longrightarrow> \<forall>l \<in> set ls. \<not> starts_with ''QUESTION:'' (js_trim l) \<Longrightarrow>
     marker_blocks cur ls = [join_with LF (cur @ ls)]"
  by (induction ls arbitrary: cur) auto

lemma blank_split_sep:
  "no_gap b \<Longrightarrow> r \<noteq> [] \<Longrightarrow> \<not> is_ws (hd r) \<Longrightarrow>
     blank_split_aux [] (b @ LF # LF # r) = b # blank_split_aux [] r"
  using blank_split_aux_no_gap [of b "[]" "LF # LF # r"] blank_split_aux_sep [of r "rev b"]
  by (simp del: blank_split_aux.simps)

lemma blank_split_single: "no_gap b \<Longrightarrow> blank_split_aux [] b = [b]"
  using blank_split_aux_no_gap [of b "[]" "[]"] by simp

lemma printed_text_props:
  assumes "clean_fields q1" "clean_fields q2" "question_lines q1 \<noteq> []"
  shows "no_gap (join_with LF (question_lines q1 @ question_lines q2))
    \<and> join_with LF (question_lines q1 @ question_lines q2) \<noteq> []
    \<and> \<not> is_ws (hd (join_with LF (question_lines q1 @ question_lines q2)))
    \<and> js_trim (join_with LF (question_lines q1 @ question_lines q2)) \<noteq> []"
proof -
  let ?ls = "question_lines q1 @ question_lines q2"
  have props: "\<forall>l \<in> set ?ls. l \<noteq> [] \<and> \<not> is_ws (hd l) \<and> LF \<notin> set l"
    using printed_line_props [OF assms(1)] printed_line_props [OF assms(2)] by auto
  obtain l ls where ls: "?ls = l # ls" using assms(3) by (cases "question_lines q1") auto
  then have h: "join_with LF ?ls \<noteq> [] \<and> hd (join_with LF ?ls) = hd l"
    using props join_with_Cons_hd [of l LF ls] by simp
  moreover obtain r where "join_with LF ?ls = hd l # r"
    using h by (cases "join_with LF ?ls") auto
  moreover have "\<not> is_ws (hd l)" using props ls by simp
  ultimately show ?thesis using no_gap_join [OF props] js_trim_hd [of "hd l" r] by auto
qed

text \<open>A text of question lines with a single \<open>QUESTION:\<close> line, and no blank line, is
  one block whichever splitting is used.\<close>

lemma parse_single_text:
  assumes "printable q1" "clean_fields q2" "qtext q2 = None"
  shows "parseBulkQuestions (join_with LF (question_lines q1 @ question_lines q2))
           = (if complete (override q1 q2) then [with_default (override q1 q2)] else [])"
proof -
  let ?ls = "question_lines q1 @ question_lines q2"
  have c1: "clean_fields q1" using assms(1) by (simp add: printable_def)
  obtain x where l1: "question_lines q1 = (''QUESTION:'' @ CHR '' '' # x) # question_lines (q1\<lparr>qtext := None\<rparr>)"
    using printable_lines [OF assms(1)] by blast
  have t: "no_gap (join_with LF ?ls)" "js_trim (join_with LF ?ls) \<noteq> []"
    using printed_text_props [OF c1 assms(2)] l1 by auto
  have "blocks_by_empty_line (join_with LF ?ls) = [join_with LF ?ls]"
    using t by (simp add: blocks_by_empty_line_def blank_split_def blank_split_single)
  moreover have "\<forall>l \<in> set (question_lines (q1\<lparr>qtext := None\<rparr>) @ question_lines q2).
      \<not> starts_with ''QUESTION:'' (js_trim l)"
    using printed_line_props [OF clean_fields_no_qtext [OF c1]] printed_line_props [OF assms(2)] assms(3)
    by fastforce
  moreover have "split_on LF (join_with LF ?ls) = ?ls"
  proof (rule split_join_on)
    show "?ls \<noteq> []" using l1 by simp
    show "\<forall>l \<in> set ?ls. LF \<notin> set l"
      using printed_line_props [OF c1] printed_line_props [OF assms(2)] by auto
  qed
  ultimately show ?thesis
    using parse_block_printed [OF c1 assms(2)] l1
    by (simp add: parseBulkQuestions_def marker_blocks_single)
qed

lemma bulk_text_hd:
  "printable q \<Longrightarrow> bulk_text (q # qs) \<noteq> [] \<and> \<not> is_ws (hd (bulk_text (q # qs)))"
proof -
  assume p: "printable q"
  then obtain x where l: "question_lines q = (''QUESTION:'' @ CHR '' '' # x) # question_lines (q\<lparr>qtext := None\<rparr>)"
    using printable_lines by blast
  then have "question_block q \<noteq> [] \<and> hd (question_block q) = CHR ''Q''"
    using join_with_Cons_hd [of "''QUESTION:'' @ CHR '' '' # x" LF] by (simp add: question_block_def)
  then show ?thesis by (cases qs) (auto simp: is_ws_def)
qed

lemma block_no_gap: "printable q \<Longrightarrow> no_gap (question_block q)"
  using printed_text_props [of q empty_question] printable_lines [of q]
  by (auto simp: question_block_def printable_def)

lemma blank_split_bulk_text:
  "qs \<noteq> [] \<Longrightarrow> list_all printable qs \<Longrightarrow> blank_split (bulk_text qs) = map question_block qs"
proof (induction qs rule: bulk_text.induct)
  case (2 q)
  then show ?case by (simp add: blank_split_def blank_split_single block_no_gap)
next
  case (3 q q' qs)
  then show ?case
    using bulk_text_hd [of q' qs] block_no_gap [of q]
    by (simp add: blank_split_def blank_split_sep)
qed simp

lemma parse_block_question_block: "printable q \<Longrightarrow> parse_block (question_block q) = Some (with_default q)"
  using parse_block_printed [of q empty_question]
  by (simp add: question_block_def printable_def)

lemma block_nonblank: "printable q \<Longrightarrow> js_trim (question_block q) \<noteq> []"
  using printed_text_props [of q empty_question] printable_lines [of q]
  by (auto simp: question_block_def printable_def)

lemma parse_blocks_printed:
  "list_all printable qs \<Longrightarrow> parseQuestionBlocks (map question_block qs) = map with_default qs"
  by (induction qs) (simp_all add: parse_block_question_block)

lemma lines_no_qtext: "complete q \<Longrightarrow> question_lines (q\<lparr>qtext := None\<rparr>) \<noteq> []"
  by (simp add: question_lines_def field_table_def field_line_def complete_def truthy_def split: option.splits)

lemma complete_override:
  "complete q1 \<Longrightarrow> complete q2 \<Longrightarrow> complete (override q1 (q2\<lparr>qtext := None\<rparr>))"
  by (simp add: complete_def override_def fld_or_def truthy_def split: option.splits)

subsection \<open>Properties of the parser and the upload handler\<close>

text \<open>C1. Parsing inverts printing: a non-empty list of questions, each complete and with
  trimmed single-line fields, written in the spec's format (one
  \<open>PREFIX: value\<close> line per present field, \<open>QUESTION:\<close> first, and a blank line between
  questions), parses back to the same list, each question's absent difficulty defaulted
  to \<open>medium\<close>. This holds whichever splitting strategy the parser takes: one question
  goes through the \<open>QUESTION:\<close>-marker path, several through the blank-line path.\<close>

theorem bulk_text_roundtrip:
  assumes "qs \<noteq> []" and "list_all printable qs"
  shows "parseBulkQuestions (bulk_text qs) = map with_default qs"
proof (cases "length qs = 1")
  case True
  then obtain q where q: "qs = [q]" by (cases qs) auto
  with assms(2) have "printable q" by simp
  moreover have "qtext empty_question = None" by (simp add: empty_question_def)
  ultimately show ?thesis using parse_single_text [of q empty_question] q
    by (simp add: question_block_def printable_def)
next
  case False
  have "blocks_by_empty_line (bulk_text qs) = map question_block qs"
    using assms blank_split_bulk_text [OF assms] block_nonblank
    by (simp add: blocks_by_empty_line_def filter_True list_all_iff)
  with False assms show ?thesis
    by (simp add: parseBulkQuestions_def parse_blocks_printed Suc_lessI length_greater_0_conv)
qed

theorem bulk_text_roundtrip_witness:
  "parseBulkQuestions
     ''QUESTION: 2+2?\<newline>TOPIC: Math\<newline>OPTION A: 3\<newline>OPTION B: 4\<newline>OPTION C: 5\<newline>OPTION D: 6\<newline>CORRECT: B''
   = [\<lparr>qtext = Some ''2+2?'', topic = Some ''Math'', subtopic = None, difficulty = Some ''medium'',
       optionA = Some ''3'', optionB = Some ''4'', optionC = Some ''5'', optionD = Some ''6'',
       correctOption = Some ''B'', explanation = None\<rparr>]"
proof -
  let ?q = "\<lparr>qtext = Some ''2+2?'', topic = Some ''Math'', subtopic = None, difficulty = None,
       optionA = Some ''3'', optionB = Some ''4'', optionC = Some ''5'', optionD = Some ''6'',
       correctOption = Some ''B'', explanation = None\<rparr>"
  have p: "list_all printable [?q]" by code_simp
  have t: "bulk_text [?q] =
     ''QUESTION: 2+2?\<newline>TOPIC: Math\<newline>OPTION A: 3\<newline>OPTION B: 4\<newline>OPTION C: 5\<newline>OPTION D: 6\<newline>CORRECT: B''"
    by code_simp
  from bulk_text_roundtrip [of "[?q]"] p t show ?thesis
    by (simp add: with_default_def truthy_def)
qed

text \<open>C2. Every question the parser returns, whichever splitting strategy produced it,
  has its text, topic, four options and correct option non-empty, and a non-empty
  difficulty (the default \<open>medium\<close> when the block gave none).\<close>

theorem parseBulkQuestions_complete:
  "q \<in> set (parseBulkQuestions t) \<Longrightarrow> complete q \<and> truthy (difficulty q)"
  by (auto dest!: set_parseBulkQuestions parse_block_Some)

theorem parseBulkQuestions_complete_witness:
  "complete \<lparr>qtext = Some ''Q'', topic = Some ''T'', subtopic = None, difficulty = Some ''medium'',
      optionA = Some ''a'', optionB = Some ''b'', optionC = Some ''c'', optionD = Some ''d'',
      correctOption = Some ''A'', explanation = None\<rparr>
   \<and> truthy (difficulty \<lparr>qtext = Some ''Q'', topic = Some ''T'', subtopic = None, difficulty = Some ''medium'',
      optionA = Some ''a'', optionB = Some ''b'', optionC = Some ''c'', optionD = Some ''d'',
      correctOption = Some ''A'', explanation = None\<rparr>)"
proof -
  have "\<lparr>qtext = Some ''Q'', topic = Some ''T'', subtopic = None, difficulty = Some ''medium'',
      optionA = Some ''a'', optionB = Some ''b'', optionC = Some ''c'', optionD = Some ''d'',
      correctOption = Some ''A'', explanation = None\<rparr> \<in> set (parseBulkQuestions
     ''QUESTION: Q\<newline>TOPIC: T\<newline>OPTION A: a\<newline>OPTION B: b\<newline>OPTION C: c\<newline>OPTION D: d\<newline>CORRECT: A'')"
    by code_simp
  then show ?thesis by (rule parseBulkQuestions_complete)
qed

text \<open>C3. A batch that \<open>handleBulkUpload\<close> posts is the parser's output, is not empty,
  and every question in it has a correct option among \<open>A\<close>--\<open>D\<close> that names a
  non-empty option field: the Question invariant of the data model holds for every
  question the bulk path creates.\<close>

theorem handleBulkUpload_posts_valid:
  assumes "handleBulkUpload t = Inr qs"
  shows "qs = parseBulkQuestions t \<and> qs \<noteq> []
    \<and> (\<forall>q \<in> set qs. valid_correct q \<and> truthy (option_named q (the (correctOption q))))"
proof -
  have qs: "qs = parseBulkQuestions t" "qs \<noteq> []" "\<forall>q \<in> set qs. valid_correct q"
    using assms by (auto simp: handleBulkUpload_def Let_def filter_empty_conv split: if_splits)
  have "truthy (option_named q (the (correctOption q)))" if "q \<in> set qs" for q
  proof -
    from qs that have "complete q" and "valid_correct q"
      by (auto dest!: set_parseBulkQuestions parse_block_Some)
    then show ?thesis
      by (auto simp: complete_def valid_correct_def split: option.splits)
  qed
  with qs show ?thesis by blast
qed

theorem handleBulkUpload_posts_valid_witness:
  "handleBulkUpload ''QUESTION: Q\<newline>TOPIC: T\<newline>OPTION A: a\<newline>OPTION B: b\<newline>OPTION C: c\<newline>OPTION D: d\<newline>CORRECT: A''
     = Inr [\<lparr>qtext = Some ''Q'', topic = Some ''T'', subtopic = None, difficulty = Some ''medium'',
      optionA = Some ''a'', optionB = Some ''b'', optionC = Some ''c'', optionD = Some ''d'',
      correctOption = Some ''A'', explanation = None\<rparr>]
   \<and> truthy (option_named \<lparr>qtext = Some ''Q'', topic = Some ''T'', subtopic = None, difficulty = Some ''medium'',
      optionA = Some ''a'', optionB = Some ''b'', optionC = Some ''c'', optionD = Some ''d'',
      correctOption = Some ''A'', explanation = None\<rparr> ''A'')"
proof -
  have h: "handleBulkUpload ''QUESTION: Q\<newline>TOPIC: T\<newline>OPTION A: a\<newline>OPTION B: b\<newline>OPTION C: c\<newline>OPTION D: d\<newline>CORRECT: A''
     = Inr [\<lparr>qtext = Some ''Q'', topic = Some ''T'', subtopic = None, difficulty = Some ''medium'',
      optionA = Some ''a'', optionB = Some ''b'', optionC = Some ''c'', optionD = Some ''d'',
      correctOption = Some ''A'', explanation = None\<rparr>]"
    by code_simp
  from handleBulkUpload_posts_valid [OF h] h show ?thesis by simp
qed

text \<open>One parsed question whose \<open>CORRECT:\<close> value is not a letter \<open>A\<close>--\<open>D\<close>
  rejects the whole batch: nothing is posted and the error reports the number of bad
  questions, which is positive.\<close>

theorem handleBulkUpload_rejects_batch:
  assumes "q \<in> set (parseBulkQuestions t)" and "\<not> valid_correct q"
  shows "handleBulkUpload t =
           Inl (InvalidCorrectValues (length (filter (\<lambda>q. \<not> valid_correct q) (parseBulkQuestions t))))
         \<and> 0 < length (filter (\<lambda>q. \<not> valid_correct q) (parseBulkQuestions t))"
proof -
  from assms(1) have "js_trim t \<noteq> []" using parseBulkQuestions_blank by fastforce
  moreover from assms have "filter (\<lambda>q. \<not> valid_correct q) (parseBulkQuestions t) \<noteq> []"
    by (auto simp: filter_empty_conv)
  moreover from assms(1) have "parseBulkQuestions t \<noteq> []" by auto
  ultimately show ?thesis by (simp add: handleBulkUpload_def Let_def)
qed

theorem handleBulkUpload_rejects_batch_witness:
  "handleBulkUpload
     ''QUESTION: Q\<newline>TOPIC: T\<newline>OPTION A: a\<newline>OPTION B: b\<newline>OPTION C: c\<newline>OPTION D: d\<newline>CORRECT: E\<newline>\<newline>QUESTION: R\<newline>TOPIC: T\<newline>OPTION A: a\<newline>OPTION B: b\<newline>OPTION C: c\<newline>OPTION D: d\<newline>CORRECT: B''
   = Inl (InvalidCorrectValues 1)"
proof -
  let ?t = "''QUESTION: Q\<newline>TOPIC: T\<newline>OPTION A: a\<newline>OPTION B: b\<newline>OPTION C: c\<newline>OPTION D: d\<newline>CORRECT: E\<newline>\<newline>QUESTION: R\<newline>TOPIC: T\<newline>OPTION A: a\<newline>OPTION B: b\<newline>OPTION C: c\<newline>OPTION D: d\<newline>CORRECT: B''"
  let ?q = "\<lparr>qtext = Some ''Q'', topic = Some ''T'', subtopic = None, difficulty = Some ''medium'',
      optionA = Some ''a'', optionB = Some ''b'', optionC = Some ''c'', optionD = Some ''d'',
      correctOption = Some ''E'', explanation = None\<rparr>"
  have m: "?q \<in> set (parseBulkQuestions ?t)" by code_simp
  have v: "\<not> valid_correct ?q" by code_simp
  have c: "length (filter (\<lambda>q. \<not> valid_correct q) (parseBulkQuestions ?t)) = 1" by code_simp
  from handleBulkUpload_rejects_batch [OF m v] c show ?thesis by simp
qed

text \<open>The \<open>QUESTION:\<close>-marker splitter loses and invents nothing: joining its blocks
  with line feeds gives back the input text exactly.\<close>

theorem marker_blocks_roundtrip: "join_with LF (marker_blocks [] (split_on LF text)) = text"
  by (simp add: join_marker_blocks join_split_on)

text \<open>C6. Splitting by \<open>QUESTION:\<close> lines is not equivalent to splitting by blank lines.
  Take two printable questions and print the second without its \<open>QUESTION:\<close> line. Separated
  by a blank line, the two blocks go through the blank-line path: the second block has no
  question text and is dropped, and the first question alone comes back. Written without a
  blank line, the text is one block for the marker path: the second block's fields are merged
  into the first question and overwrite its fields.\<close>

theorem marker_style_merges_blocks:
  assumes "printable q1" and "printable q2"
  shows "parseBulkQuestions (question_block q1 @ LF # LF # question_block (q2\<lparr>qtext := None\<rparr>))
           = [with_default q1]
    \<and> parseBulkQuestions (question_block q1 @ LF # question_block (q2\<lparr>qtext := None\<rparr>))
           = [with_default (override q1 (q2\<lparr>qtext := None\<rparr>))]"
proof -
  let ?q2 = "q2\<lparr>qtext := None\<rparr>"
  have c1: "clean_fields q1" "complete q1" and c2: "clean_fields ?q2" "complete q2"
    using assms clean_fields_no_qtext by (auto simp: printable_def)
  have ne: "question_lines ?q2 \<noteq> []" using lines_no_qtext [OF c2(2)] .
  have b2: "no_gap (question_block ?q2) \<and> question_block ?q2 \<noteq> []
      \<and> \<not> is_ws (hd (question_block ?q2)) \<and> js_trim (question_block ?q2) \<noteq> []"
    using printed_text_props [OF c2(1) clean_fields_empty] ne by (simp add: question_block_def)
  have "blank_split (question_block q1 @ LF # LF # question_block ?q2)
      = [question_block q1, question_block ?q2]"
    using b2 block_no_gap [OF assms(1)] by (simp add: blank_split_def blank_split_sep blank_split_single)
  moreover have "parse_block (question_block ?q2) = None"
    using parse_block_printed [OF c2(1) clean_fields_empty] by (simp add: question_block_def complete_def truthy_def)
  ultimately have first: "parseBulkQuestions (question_block q1 @ LF # LF # question_block ?q2) = [with_default q1]"
    using b2 block_nonblank [OF assms(1)] parse_block_question_block [OF assms(1)]
    by (simp add: parseBulkQuestions_def blocks_by_empty_line_def)
  have "question_block q1 @ LF # question_block ?q2 = join_with LF (question_lines q1 @ question_lines ?q2)"
  proof -
    have "question_lines q1 \<noteq> []" using printable_lines [OF assms(1)] by auto
    then show ?thesis using join_with_append [of "question_lines q1" "question_lines ?q2" LF] ne
      by (simp add: question_block_def)
  qed
  then have "parseBulkQuestions (question_block q1 @ LF # question_block ?q2) = [with_default (override q1 ?q2)]"
    using parse_single_text [OF assms(1) c2(1)] complete_override [OF c1(2) c2(2)] by simp
  with first show ?thesis by blast
qed

theorem marker_style_merges_blocks_witness:
  "parseBulkQuestions
     ''QUESTION: Q\<newline>TOPIC: T\<newline>OPTION A: a\<newline>OPTION B: b\<newline>OPTION C: c\<newline>OPTION D: d\<newline>CORRECT: A\<newline>\<newline>TOPIC: U\<newline>OPTION A: e\<newline>OPTION B: f\<newline>OPTION C: g\<newline>OPTION D: h\<newline>CORRECT: C''
   = [\<lparr>qtext = Some ''Q'', topic = Some ''T'', subtopic = None, difficulty = Some ''medium'',
      optionA = Some ''a'', optionB = Some ''b'', optionC = Some ''c'', optionD = Some ''d'',
      correctOption = Some ''A'', explanation = None\<rparr>]
   \<and> parseBulkQuestions
     ''QUESTION: Q\<newline>TOPIC: T\<newline>OPTION A: a\<newline>OPTION B: b\<newline>OPTION C: c\<newline>OPTION D: d\<newline>CORRECT: A\<newline>TOPIC: U\<newline>OPTION A: e\<newline>OPTION B: f\<newline>OPTION C: g\<newline>OPTION D: h\<newline>CORRECT: C''
   = [\<lparr>qtext = Some ''Q'', topic = Some ''U'', subtopic = None, difficulty = Some ''medium'',
      optionA = Some ''e'', optionB = Some ''f'', optionC = Some ''g'', optionD = Some ''h'',
      correctOption = Some ''C'', explanation = None\<rparr>]"
proof -
  let ?q1 = "\<lparr>qtext = Some ''Q'', topic = Some ''T'', subtopic = None, difficulty = None,
      optionA = Some ''a'', optionB = Some ''b'', optionC = Some ''c'', optionD = Some ''d'',
      correctOption = Some ''A'', explanation = None\<rparr>"
  let ?q2 = "\<lparr>qtext = Some ''R'', topic = Some ''U'', subtopic = None, difficulty = None,
      optionA = Some ''e'', optionB = Some ''f'', optionC = Some ''g'', optionD = Some ''h'',
      correctOption = Some ''C'', explanation = None\<rparr>"
  have p: "printable ?q1" "printable ?q2" by code_simp+
  have b: "question_block ?q1 =
      ''QUESTION: Q\<newline>TOPIC: T\<newline>OPTION A: a\<newline>OPTION B: b\<newline>OPTION C: c\<newline>OPTION D: d\<newline>CORRECT: A''"
    "question_block (?q2\<lparr>qtext := None\<rparr>) =
      ''TOPIC: U\<newline>OPTION A: e\<newline>OPTION B: f\<newline>OPTION C: g\<newline>OPTION D: h\<newline>CORRECT: C''"
    by code_simp+
  from marker_style_merges_blocks [OF p] b show ?thesis
    by (simp add: with_default_def override_def fld_or_def truthy_def)
qed

end
