(* ===== verification/UploadPage.thy ===== *)
theory UploadPage
  imports BulkParser
begin

text \<open>
  The upload page (\<open>pages/admin/upload-questions.tsx\<close>) around the bulk parser of
  \<open>BulkParser\<close>: the single-question form and its validation (\<open>handleSubmitQuestion\<close>),
  the image upload that runs beside it, the create-topic dialog, and the bulk tab whose
  button runs \<open>handleBulkUpload\<close>. The page's hooks are the record \<open>upload_page\<close>; every
  request is logged when it is sent and its continuation (a mutation's callbacks, or the
  \<open>then\<close>/\<open>catch\<close> chain of the image \<open>fetch\<close>) runs when it settles, in any order.
\<close>

subsection \<open>State\<close>

record question_form =
  qf_text :: js_string
  qf_topicId :: js_string
  qf_subtopic :: js_string
  qf_difficulty :: js_string
  qf_imagePath :: js_string
  qf_optionA :: js_string
  qf_optionB :: js_string
  qf_optionC :: js_string
  qf_optionD :: js_string
  qf_correctOption :: js_string
  qf_explanation :: js_string

definition empty_form :: question_form where
  "empty_form =
     \<lparr>qf_text = [], qf_topicId = [], qf_subtopic = [], qf_difficulty = ''medium'', qf_imagePath = [],
      qf_optionA = [], qf_optionB = [], qf_optionC = [], qf_optionD = [], qf_correctOption = [],
      qf_explanation = []\<rparr>"

text \<open>The inputs wired to \<open>handleChange\<close>, by their \<open>name\<close> attribute.\<close>

datatype upload_field = UText | USubtopic | UOptionA | UOptionB | UOptionC | UOptionD | UExplanation

definition handleChange :: "upload_field \<Rightarrow> js_string \<Rightarrow> question_form \<Rightarrow> question_form" where
  "handleChange f v q =
     (case f of UText \<Rightarrow> q\<lparr>qf_text := v\<rparr> | USubtopic \<Rightarrow> q\<lparr>qf_subtopic := v\<rparr>
      | UOptionA \<Rightarrow> q\<lparr>qf_optionA := v\<rparr> | UOptionB \<Rightarrow> q\<lparr>qf_optionB := v\<rparr>
      | UOptionC \<Rightarrow> q\<lparr>qf_optionC := v\<rparr> | UOptionD \<Rightarrow> q\<lparr>qf_optionD := v\<rparr>
      | UExplanation \<Rightarrow> q\<lparr>qf_explanation := v\<rparr>)"

text \<open>Requests: \<open>PostQuestion\<close> carries the form spread with \<open>topicId: parseInt(...)\<close>
  (\<open>None\<close> for \<open>NaN\<close>); \<open>PostImage\<close> the chosen file's name.\<close>

datatype upload_call =
    PostNewTopic js_string js_string
  | PostQuestion question_form "int option"
  | PostBulk "bulk_question list"
  | PostImage js_string

datatype upload_request = ReqTopic | ReqQuestion | ReqBulk | ReqImage

text \<open>What a request settles with: a failure, the created topic's id, the uploaded image's
  \<open>imagePath\<close> (empty when the reply has none), or a plain success.\<close>

datatype upload_response = UFail | UTopicCreated nat | UImagePath js_string | UDone

record upload_page =
  tab :: js_string
  bulkText :: js_string
  formData :: question_form
  imageFile :: "js_string option"
  questionFile :: "js_string option"
  uploadingImage :: bool
  openTopicDialog :: bool
  newTopicName :: js_string
  newTopicDesc :: js_string
  up_pending :: "upload_request list"
  up_sent :: "upload_call list"
  up_toasts :: "js_string list"

definition upload_init :: upload_page where
  "upload_init =
     \<lparr>tab = ''single'', bulkText = [], formData = empty_form, imageFile = None, questionFile = None,
      uploadingImage = False, openTopicDialog = False, newTopicName = [], newTopicDesc = [],
      up_pending = [], up_sent = [], up_toasts = []\<rparr>"

definition send :: "upload_request \<Rightarrow> upload_call \<Rightarrow> upload_page \<Rightarrow> upload_page" where
  "send r c s = s\<lparr>up_pending := up_pending s @ [r], up_sent := up_sent s @ [c]\<rparr>"

definition toast :: "js_string \<Rightarrow> upload_page \<Rightarrow> upload_page" where
  "toast t s = s\<lparr>up_toasts := up_toasts s @ [t]\<rparr>"

subsection \<open>Handlers\<close>

text \<open>\<open>handleSubmitQuestion\<close>: the fields found empty, in the code's order, then the check of
  the correct option, then the request.\<close>

definition missing_fields :: "question_form \<Rightarrow> js_string list" where
  "missing_fields q =
     (if qf_text q = [] then [''Question text''] else []) @ (if qf_topicId q = [] then [''Topic''] else [])
     @ (if qf_optionA q = [] then [''Option A''] else []) @ (if qf_optionB q = [] then [''Option B''] else [])
     @ (if qf_optionC q = [] then [''Option C''] else []) @ (if qf_optionD q = [] then [''Option D''] else [])
     @ (if qf_correctOption q = [] then [''Correct option selection''] else [])"

text \<open>\<open>Array.prototype.join\<close> with a string separator.\<close>

fun join_str :: "js_string \<Rightarrow> js_string list \<Rightarrow> js_string" where
  "join_str sep [] = []"
| "join_str sep [x] = x"
| "join_str sep (x # y # xs) = x @ sep @ join_str sep (y # xs)"

definition handleSubmitQuestion :: "upload_page \<Rightarrow> upload_page" where
  "handleSubmitQuestion s =
     (let fs = missing_fields (formData s) in
      if fs \<noteq> [] then toast (''Please fill in the following fields: '' @ join_str '', '' fs) s
      else if qf_correctOption (formData s) \<notin> set [''A'', ''B'', ''C'', ''D'']
      then toast ''Correct option must be one of: A, B, C, D'' s
      else send ReqQuestion (PostQuestion (formData s) (parse_int_noradix (qf_topicId (formData s)))) s)"

text \<open>\<open>handleBulkUpload\<close> of the page: the three early returns of \<open>BulkParser\<close> become
  toasts, a batch is sent.\<close>

definition bulk_error_toast :: "bulk_error \<Rightarrow> js_string" where
  "bulk_error_toast e =
     (case e of NoContent \<Rightarrow> ''No content provided'' | NoValidQuestions \<Rightarrow> ''No valid questions found''
      | InvalidCorrectValues n \<Rightarrow> show_nat n @ '' question(s) have incorrect '' @ CHR 0x27 # ''CORRECT''
          @ CHR 0x27 # '' values. Only A, B, C, or D are allowed.'')"

definition bulkUploadClick :: "upload_page \<Rightarrow> upload_page" where
  "bulkUploadClick s =
     (case handleBulkUpload (bulkText s) of Inl e \<Rightarrow> toast (bulk_error_toast e) s
      | Inr qs \<Rightarrow> send ReqBulk (PostBulk qs) s)"

text \<open>\<open>handleReset\<close>, the Clear button of either tab.\<close>

definition handleReset :: "upload_page \<Rightarrow> upload_page" where
  "handleReset s =
     (if tab s = ''single'' then s\<lparr>formData := empty_form, imageFile := None\<rparr> else s\<lparr>bulkText := []\<rparr>)"

text \<open>The image input's \<open>onChange\<close>: remember the file, raise the flag, send it.\<close>

definition imageChosen :: "js_string \<Rightarrow> upload_page \<Rightarrow> upload_page" where
  "imageChosen f s = send ReqImage (PostImage f) (s\<lparr>imageFile := Some f, uploadingImage := True\<rparr>)"

text \<open>The "Create Topic" button of the dialog.\<close>

definition createTopicClick :: "upload_page \<Rightarrow> upload_page" where
  "createTopicClick s =
     (if js_trim (newTopicName s) = [] then toast ''Name required'' s
      else send ReqTopic (PostNewTopic (newTopicName s) (newTopicDesc s)) s)"

text \<open>The continuations. The image chain writes its path with the functional update
  \<open>setFormData(prev => ({...prev, imagePath}))\<close>, so into whatever form is current when it
  settles; \<open>addQuestionMutation.onSuccess\<close> resets the form and the file.\<close>

text \<open>The image input's \<open>fetch\<close> chain: \<open>.then\<close> stores a returned path (or treats a
  reply without one as an error), \<open>.catch\<close> drops the file; both clear the spinner.\<close>

fun image_settled :: "upload_response \<Rightarrow> upload_page \<Rightarrow> upload_page" where
  "image_settled (UImagePath p) s =
     (if p \<noteq> [] then toast ''Image uploaded'' (s\<lparr>formData := (formData s)\<lparr>qf_imagePath := p\<rparr>, uploadingImage := False\<rparr>)
      else toast ''Error uploading image'' (s\<lparr>uploadingImage := False, imageFile := None\<rparr>))"
| "image_settled r s = toast ''Error uploading image'' (s\<lparr>uploadingImage := False, imageFile := None\<rparr>)"

fun upload_settled :: "upload_request \<Rightarrow> upload_response \<Rightarrow> upload_page \<Rightarrow> upload_page" where
  "upload_settled ReqTopic (UTopicCreated i) s =
     toast ''Topic created'' (s\<lparr>openTopicDialog := False, newTopicName := [], newTopicDesc := [],
                                formData := (formData s)\<lparr>qf_topicId := show_nat i\<rparr>\<rparr>)"
| "upload_settled ReqTopic r s = toast ''Error creating topic'' s"
| "upload_settled ReqQuestion UDone s = toast ''Question added'' (s\<lparr>formData := empty_form, imageFile := None\<rparr>)"
| "upload_settled ReqQuestion r s = toast ''Error adding question'' s"
| "upload_settled ReqBulk UDone s = toast ''Bulk upload successful'' (s\<lparr>bulkText := [], questionFile := None\<rparr>)"
| "upload_settled ReqBulk r s = toast ''Error uploading questions'' s"
| "upload_settled ReqImage r s = image_settled r s"

text \<open>Which replies a request can get: the topic endpoint answers with the created topic,
  the image endpoint with a path, the others with a plain success; any can fail.\<close>

fun upload_fits :: "upload_request \<Rightarrow> upload_response \<Rightarrow> bool" where
  "upload_fits r UFail = True"
| "upload_fits ReqTopic (UTopicCreated i) = True"
| "upload_fits ReqImage (UImagePath p) = True"
| "upload_fits ReqQuestion UDone = True"
| "upload_fits ReqBulk UDone = True"
| "upload_fits r x = False"

subsection \<open>Events\<close>

datatype upload_event =
    SetTab js_string | Change upload_field js_string | SelectTopic js_string | SelectDifficulty js_string
  | SelectCorrect js_string | ChooseImage js_string | RemoveImage | SubmitQuestion | ClearForm
  | OpenTopicDialog | SetNewTopicName js_string | SetNewTopicDesc js_string | CreateTopicClick
  | CloseTopicDialog | ChooseQuestionFile js_string | FileRead js_string | ClearFile
  | SetBulkText js_string | ClearBulkText | BulkUploadClick | SettleUpload nat upload_response

fun upload_step :: "upload_event \<Rightarrow> upload_page \<Rightarrow> upload_page" where
  "upload_step (SetTab t) s = s\<lparr>tab := t\<rparr>"
| "upload_step (Change f v) s = s\<lparr>formData := handleChange f v (formData s)\<rparr>"
| "upload_step (SelectTopic v) s = s\<lparr>formData := (formData s)\<lparr>qf_topicId := v\<rparr>\<rparr>"
| "upload_step (SelectDifficulty v) s = s\<lparr>formData := (formData s)\<lparr>qf_difficulty := v\<rparr>\<rparr>"
| "upload_step (SelectCorrect v) s = s\<lparr>formData := (formData s)\<lparr>qf_correctOption := v\<rparr>\<rparr>"
| "upload_step (ChooseImage f) s = imageChosen f s"
| "upload_step RemoveImage s = s\<lparr>formData := (formData s)\<lparr>qf_imagePath := []\<rparr>, imageFile := None\<rparr>"
| "upload_step SubmitQuestion s = handleSubmitQuestion s"
| "upload_step ClearForm s = handleReset s"
| "upload_step OpenTopicDialog s = s\<lparr>openTopicDialog := True\<rparr>"
| "upload_step (SetNewTopicName n) s = s\<lparr>newTopicName := n\<rparr>"
| "upload_step (SetNewTopicDesc d) s = s\<lparr>newTopicDesc := d\<rparr>"
| "upload_step CreateTopicClick s = createTopicClick s"
| "upload_step CloseTopicDialog s = s\<lparr>openTopicDialog := False\<rparr>"
| "upload_step (ChooseQuestionFile f) s = s\<lparr>questionFile := Some f\<rparr>"
| "upload_step (FileRead t) s = s\<lparr>bulkText := t\<rparr>"
| "upload_step ClearFile s = s\<lparr>questionFile := None, bulkText := []\<rparr>"
| "upload_step (SetBulkText t) s = s\<lparr>bulkText := t\<rparr>"
| "upload_step ClearBulkText s = s\<lparr>bulkText := []\<rparr>"
| "upload_step BulkUploadClick s = bulkUploadClick s"
| "upload_step (SettleUpload i r) s =
     (if i < length (up_pending s)
      then upload_settled (up_pending s ! i) r (s\<lparr>up_pending := take i (up_pending s) @ drop (Suc i) (up_pending s)\<rparr>)
      else s)"

text \<open>The rendered controls: the form's inputs are on the single tab, the bulk controls on
  the bulk tab; the selects emit a listed topic's id, a difficulty, a letter; the submit and
  upload buttons are disabled while their mutation is pending (the bulk button also
  without text, or, on the file tab, without text and without a file); the remove-image
  button shows with an image path; the dialog's button is disabled while a topic is being
  created. \<open>FileRead\<close> is the \<open>FileReader\<close>'s \<open>onload\<close>, after a file was chosen.\<close>

fun upload_enabled :: "nat list \<Rightarrow> upload_event \<Rightarrow> upload_page \<Rightarrow> bool" where
  "upload_enabled ts (SetTab t) s = (t \<in> set [''single'', ''bulk''])"
| "upload_enabled ts (Change f v) s = (tab s = ''single'')"
| "upload_enabled ts (SelectTopic v) s = (tab s = ''single'' \<and> v \<in> set (map show_nat ts))"
| "upload_enabled ts (SelectDifficulty v) s = (tab s = ''single'' \<and> v \<in> set [''easy'', ''medium'', ''hard''])"
| "upload_enabled ts (SelectCorrect v) s = (tab s = ''single'' \<and> v \<in> set [''A'', ''B'', ''C'', ''D''])"
| "upload_enabled ts (ChooseImage f) s = (tab s = ''single'')"
| "upload_enabled ts RemoveImage s = (tab s = ''single'' \<and> qf_imagePath (formData s) \<noteq> [])"
| "upload_enabled ts SubmitQuestion s = (tab s = ''single'' \<and> ReqQuestion \<notin> set (up_pending s))"
| "upload_enabled ts ClearForm s = True"
| "upload_enabled ts OpenTopicDialog s = (tab s = ''single'')"
| "upload_enabled ts (SetNewTopicName n) s = openTopicDialog s"
| "upload_enabled ts (SetNewTopicDesc d) s = openTopicDialog s"
| "upload_enabled ts CreateTopicClick s = (openTopicDialog s \<and> ReqTopic \<notin> set (up_pending s))"
| "upload_enabled ts CloseTopicDialog s = openTopicDialog s"
| "upload_enabled ts (ChooseQuestionFile f) s = (tab s = ''bulk'')"
| "upload_enabled ts (FileRead t) s = (questionFile s \<noteq> None)"
| "upload_enabled ts ClearFile s = (tab s = ''bulk'')"
| "upload_enabled ts (SetBulkText t) s = (tab s = ''bulk'')"
| "upload_enabled ts ClearBulkText s = (tab s = ''bulk'')"
| "upload_enabled ts BulkUploadClick s =
     (tab s = ''bulk'' \<and> ReqBulk \<notin> set (up_pending s) \<and> (js_trim (bulkText s) \<noteq> [] \<or> questionFile s \<noteq> None))"
| "upload_enabled ts (SettleUpload i r) s = (i < length (up_pending s) \<and> upload_fits (up_pending s ! i) r)"

inductive upload_reachable :: "nat list \<Rightarrow> upload_page \<Rightarrow> bool" for ts where
  init: "upload_reachable ts upload_init"
| step: "upload_reachable ts s \<Longrightarrow> upload_enabled ts e s \<Longrightarrow> upload_reachable ts (upload_step e s)"

text \<open>An executable run of the page over a list of events, each enabled when it occurs.\<close>

fun upload_run :: "nat list \<Rightarrow> upload_event list \<Rightarrow> upload_page \<Rightarrow> upload_page option" where
  "upload_run ts [] s = Some s"
| "upload_run ts (e # es) s = (if upload_enabled ts e s then upload_run ts es (upload_step e s) else None)"

subsection \<open>Lemmas\<close>

text \<open>What each request the page sends must satisfy: a question passed the form's
  checks and carries its parsed topic id, a batch is a non-empty list of complete questions
  with a valid correct option, a topic has a name that does not trim to nothing.\<close>

definition upload_call_ok :: "upload_call \<Rightarrow> bool" where
  "upload_call_ok c =
     (case c of
        PostQuestion f k \<Rightarrow> qf_text f \<noteq> [] \<and> qf_topicId f \<noteq> [] \<and> qf_optionA f \<noteq> [] \<and> qf_optionB f \<noteq> []
                            \<and> qf_optionC f \<noteq> [] \<and> qf_optionD f \<noteq> []
                            \<and> qf_correctOption f \<in> set [''A'', ''B'', ''C'', ''D''] \<and> k = parse_int_noradix (qf_topicId f)
      | PostBulk qs \<Rightarrow> qs \<noteq> [] \<and> (\<forall>q \<in> set qs. complete q \<and> valid_correct q)
      | PostNewTopic n d \<Rightarrow> js_trim n \<noteq> []
      | PostImage f \<Rightarrow> True)"

definition sent_ok :: "upload_page \<Rightarrow> bool" where
  "sent_ok s = (\<forall>c \<in> set (up_sent s). upload_call_ok c)"

lemma handleBulkUpload_Inr:
  "handleBulkUpload t = Inr qs \<Longrightarrow> qs \<noteq> [] \<and> (\<forall>q \<in> set qs. complete q \<and> valid_correct q)"
  by (auto simp: handleBulkUpload_def Let_def filter_empty_conv split: if_splits
      dest!: set_parseBulkQuestions parse_block_Some)

lemma image_settled_sent [simp]: "up_sent (image_settled x s) = up_sent s"
  by (cases "(x, s)" rule: image_settled.cases) (simp_all add: toast_def)

lemma upload_settled_sent [simp]: "up_sent (upload_settled r x s) = up_sent s"
  by (cases "(r, x, s)" rule: upload_settled.cases) (simp_all add: toast_def)

lemma sent_ok_step: "sent_ok s \<Longrightarrow> sent_ok (upload_step e s)"
proof (cases e)
  case BulkUploadClick
  assume "sent_ok s"
  with BulkUploadClick show ?thesis
    by (auto simp: sent_ok_def bulkUploadClick_def send_def toast_def upload_call_ok_def
        split: sum.splits dest: handleBulkUpload_Inr)
qed (auto simp: sent_ok_def handleSubmitQuestion_def missing_fields_def createTopicClick_def imageChosen_def handleReset_def
       send_def toast_def upload_call_ok_def Let_def)

lemma upload_run_reachable:
  "upload_reachable ts s \<Longrightarrow> upload_run ts es s = Some t \<Longrightarrow> upload_reachable ts t"
proof (induction es arbitrary: s)
  case (Cons e es)
  then show ?case by (auto intro: upload_reachable.step split: if_splits)
qed simp

subsection \<open>Properties\<close>

text \<open>C7. Every request the upload page has sent, in every reachable state, is well formed:
  a single question has a text, a topic, four options and a correct option among A--D
  (hence the correct option names a non-empty option, the data model's Question invariant)
  and carries the parsed topic id; a bulk batch is a non-empty list of complete questions
  with valid correct options, as \<open>handleBulkUpload\<close> of \<open>BulkParser\<close> returns them; a topic
  has a name that does not trim to nothing.\<close>

theorem upload_requests_well_formed:
  "upload_reachable ts s \<Longrightarrow> \<forall>c \<in> set (up_sent s). upload_call_ok c"
proof -
  assume "upload_reachable ts s"
  then have "sent_ok s"
    by (induction rule: upload_reachable.induct) (simp_all add: sent_ok_step, simp add: sent_ok_def upload_init_def)
  then show ?thesis by (simp add: sent_ok_def)
qed

definition example_upload_run :: "upload_event list" where
  "example_upload_run =
     [Change UText ''2+2?'', SelectTopic ''3'', Change UOptionA ''4'', Change UOptionB ''5'',
      Change UOptionC ''6'', Change UOptionD ''22'', SelectCorrect ''A'', SubmitQuestion]"

theorem upload_requests_well_formed_witness:
  "\<exists>s. upload_reachable [3] s \<and> length (up_sent s) = 1 \<and> (\<forall>c \<in> set (up_sent s). upload_call_ok c)"
proof -
  obtain s where s: "upload_run [3] example_upload_run upload_init = Some s"
    and n: "length (up_sent s) = 1"
    by (simp add: example_upload_run_def upload_init_def empty_form_def handleChange_def
        handleSubmitQuestion_def missing_fields_def send_def num_eval)
  have r: "upload_reachable [3] s"
    using upload_run_reachable [OF upload_reachable.init s] .
  show ?thesis using r n upload_requests_well_formed [OF r] by blast
qed

text \<open>C15. An image upload outlives the question it was chosen for: the administrator picks
  an image, fills the form and submits before the upload settles; the question is posted
  without an image, the form is reset when it is added, and the upload's completion then
  writes its path into the fresh form, where the next question will carry it.\<close>

theorem image_upload_outlives_submission:
  fixes x a b c d p img :: js_string
  assumes "t \<in> set ts" "x \<noteq> []" "a \<noteq> []" "b \<noteq> []" "c \<noteq> []" "d \<noteq> []" "p \<noteq> []"
  shows "\<exists>s q k. upload_reachable ts s \<and> up_sent s = [PostImage img, PostQuestion q k]
            \<and> qf_text q = x \<and> qf_imagePath q = [] \<and> formData s = empty_form\<lparr>qf_imagePath := p\<rparr>"
proof -
  let ?es = "[ChooseImage img, Change UText x, SelectTopic (show_nat t), Change UOptionA a,
              Change UOptionB b, Change UOptionC c, Change UOptionD d, SelectCorrect ''A'', SubmitQuestion,
              SettleUpload 1 UDone, SettleUpload 0 (UImagePath p)]"
  obtain s where s: "upload_run ts ?es upload_init = Some s"
    and sent: "\<exists>q k. up_sent s = [PostImage img, PostQuestion q k] \<and> qf_text q = x \<and> qf_imagePath q = []"
    and form: "formData s = empty_form\<lparr>qf_imagePath := p\<rparr>"
    using assms
    by (simp add: upload_init_def empty_form_def handleChange_def imageChosen_def
        handleSubmitQuestion_def missing_fields_def send_def toast_def)
  show ?thesis using upload_run_reachable [OF upload_reachable.init s] sent form by blast
qed

theorem image_upload_outlives_submission_witness:
  "\<exists>s q k. upload_reachable [3] s \<and> up_sent s = [PostImage ''cell.png'', PostQuestion q k]
      \<and> qf_text q = ''What is shown?'' \<and> qf_imagePath q = [] \<and> formData s = empty_form\<lparr>qf_imagePath := ''/uploads/cell.png''\<rparr>"
  using image_upload_outlives_submission [of 3 "[3]" "''What is shown?''" "''a''" "''b''" "''c''" "''d''"
      "''/uploads/cell.png''" "''cell.png''"]
  by simp

end
