(* ===== verification/Scoring.thy ===== *)
theory Scoring
  imports Prelude
begin

text \<open>
  The session scorer of the practice page
  (\<open>src/client/src/pages/student/practice-session.tsx\<close>, the first half of
  \<open>submitSessionMutation.mutationFn\<close>): the count of correct answers by
  \<open>answers.reduce\<close>, the percentage score, and the two request payloads built from them,
  the \<open>InsertSession\<close> of the session and the \<open>InsertSessionQuestion\<close> of each question.
  A selected answer is \<open>string | null\<close>, here \<open>js_string option\<close>; a read past the end of
  an array gives \<open>undefined\<close>, one more \<open>option\<close> layer.
\<close>

text \<open>The fields of a fetched question the scorer reads (the \<open>Question\<close> type of the
  shared schema, which is outside \<open>src/\<close>).\<close>

record question =
  q_id :: nat
  q_correctOption :: js_string

type_synonym answer = "js_string option"

datatype submit_error =
    NoQuestionsAvailable
  | TypeError
  | HttpError

text \<open>\<open>answers.reduce((count, answer, index) => answer === questions[index].correctOption
  ? count + 1 : count, 0)\<close>: the reduce runs over the answers; an answer without a question
  at its index reads \<open>.correctOption\<close> of \<open>undefined\<close> and throws a \<open>TypeError\<close>.\<close>

definition answer_matches :: "answer \<Rightarrow> question \<Rightarrow> bool" where
  "answer_matches a q \<longleftrightarrow> a = Some (q_correctOption q)"

fun count_correct_from :: "nat \<Rightarrow> answer list \<Rightarrow> question list \<Rightarrow> submit_error + nat" where
  "count_correct_from c [] qs = Inr c"
| "count_correct_from c (a # as) [] = Inl TypeError"
| "count_correct_from c (a # as) (q # qs) =
     count_correct_from (if answer_matches a q then Suc c else c) as qs"

definition correct_answers :: "answer list \<Rightarrow> question list \<Rightarrow> submit_error + nat" where
  "correct_answers answers questions = count_correct_from 0 answers questions"

text \<open>\<open>(correctAnswers / totalQuestions) * 100\<close> in JavaScript arithmetic.\<close>

definition session_score :: "nat \<Rightarrow> nat \<Rightarrow> js_number" where
  "session_score c n = js_mul (js_div (JNum (of_nat c)) (JNum (of_nat n))) (JNum 100)"

text \<open>\<open>topicId ? parseInt(topicId) : null\<close> on the route parameter; \<open>NaN\<close> is sent as
  \<open>null\<close> by \<open>JSON.stringify\<close>, so both are \<open>None\<close>.\<close>

definition topic_param :: "js_string option \<Rightarrow> int option" where
  "topic_param p = (case p of None \<Rightarrow> None | Some s \<Rightarrow> if s = [] then None else parse_int_noradix s)"

record session_insert =
  userId :: nat
  topicId :: "int option"
  totalQuestions :: nat
  correctAnswers :: nat
  score :: js_number
  timeSpent :: nat

record session_question_insert =
  sessionId :: nat
  questionId :: nat
  selectedOption :: "answer option"
  isCorrect :: bool
  sq_timeSpent :: "nat option"

text \<open>The \<open>sessionData\<close> object: \<open>userId\<close> is sent as 0 (the server fills it in),
  \<open>timeSpent\<close> is the page's running \<open>timer\<close>.\<close>

definition session_data ::
  "js_string option \<Rightarrow> question list \<Rightarrow> answer list \<Rightarrow> nat \<Rightarrow> submit_error + session_insert" where
  "session_data topic questions answers timer =
     (case correct_answers answers questions of
        Inl e \<Rightarrow> Inl e
      | Inr c \<Rightarrow> Inr \<lparr>userId = 0, topicId = topic_param topic, totalQuestions = length questions,
                     correctAnswers = c, score = session_score c (length questions), timeSpent = timer\<rparr>)"

text \<open>The \<open>sessionQuestionData\<close> of iteration \<open>i\<close> of the \<open>for\<close> loop.\<close>

definition session_question_data ::
  "nat \<Rightarrow> question list \<Rightarrow> answer list \<Rightarrow> nat list \<Rightarrow> nat \<Rightarrow> session_question_insert" where
  "session_question_data sid questions answers questionTimers i =
     (let question = questions ! i; answer = nth_opt answers i
      in \<lparr>sessionId = sid, questionId = q_id question, selectedOption = answer,
          isCorrect = (answer = Some (Some (q_correctOption question))),
          sq_timeSpent = nth_opt questionTimers i\<rparr>)"

definition session_rows ::
  "nat \<Rightarrow> question list \<Rightarrow> answer list \<Rightarrow> nat list \<Rightarrow> session_question_insert list" where
  "session_rows sid questions answers questionTimers =
     map (session_question_data sid questions answers questionTimers) [0..<length questions]"

subsection \<open>Helper lemmas\<close>

lemma count_correct_from_eq:
  "length as \<le> length qs \<Longrightarrow>
   count_correct_from c as qs = Inr (c + length (filter (\<lambda>(a, q). answer_matches a q) (zip as qs)))"
  by (induction c as qs rule: count_correct_from.induct) auto

lemma count_correct_from_TypeError:
  "length qs < length as \<Longrightarrow> count_correct_from c as qs = Inl TypeError"
  by (induction c as qs rule: count_correct_from.induct) auto

lemma correct_answers_Inr:
  "correct_answers as qs = Inr c \<longleftrightarrow>
     length as \<le> length qs \<and> c = length (filter (\<lambda>(a, q). answer_matches a q) (zip as qs))"
  by (cases "length as \<le> length qs")
     (auto simp: correct_answers_def count_correct_from_eq count_correct_from_TypeError)

lemma zip_as_nth:
  "length as = length qs \<Longrightarrow> zip as qs = map (\<lambda>i. (as ! i, qs ! i)) [0..<length qs]"
  by (rule nth_equalityI) auto

lemma count_rows:
  assumes "length answers = length questions"
  shows "length (filter isCorrect (session_rows sid questions answers timers))
         = length (filter (\<lambda>(a, q). answer_matches a q) (zip answers questions))"
proof -
  have "filter (\<lambda>i. nth_opt answers i = Some (Some (q_correctOption (questions ! i)))) [0..<length questions]
      = filter (\<lambda>i. answers ! i = Some (q_correctOption (questions ! i))) [0..<length questions]"
    using assms by (intro filter_cong) (auto simp: nth_opt_def)
  with assms show ?thesis
    by (simp add: session_rows_def session_question_data_def zip_as_nth filter_map comp_def
        answer_matches_def Let_def case_prod_beta)
qed

subsection \<open>Properties of the scorer\<close>

text \<open>When the count succeeds it never exceeds the number of questions nor the
  number of answers, and with at least one question the score is a finite number in
  \<open>[0, 100]\<close>.\<close>

theorem correct_answers_bounds:
  assumes "correct_answers answers questions = Inr c"
  shows "c \<le> length questions \<and> c \<le> length answers
    \<and> (0 < length questions \<longrightarrow> (\<exists>r. session_score c (length questions) = JNum r \<and> 0 \<le> r \<and> r \<le> 100))"
proof -
  from assms have len: "length answers \<le> length questions"
    and c: "c = length (filter (\<lambda>(a, q). answer_matches a q) (zip answers questions))"
    by (simp_all add: correct_answers_Inr)
  from c have "c \<le> length (zip answers questions)" by (simp only: length_filter_le)
  with len have le: "c \<le> length answers" "c \<le> length questions" by simp_all
  have "\<exists>r. session_score c (length questions) = JNum r \<and> 0 \<le> r \<and> r \<le> 100"
    if "0 < length questions"
  proof -
    let ?r = "of_nat c / of_nat (length questions) * (100 :: rat)"
    have "session_score c (length questions) = JNum ?r"
      using that by (simp add: session_score_def)
    moreover have "?r \<le> 100"
    proof -
      have n: "(0::rat) < of_nat (length questions)" using that by simp
      have "(of_nat c :: rat) \<le> of_nat (length questions)" using le by simp
      with n have "of_nat c / of_nat (length questions) \<le> (1::rat)" by simp
      then have "of_nat c / of_nat (length questions) * 100 \<le> (1::rat) * 100"
        by (rule mult_right_mono) simp
      then show ?thesis by simp
    qed
    ultimately show ?thesis by force
  qed
  with le show ?thesis by blast
qed

theorem correct_answers_bounds_witness:
  "correct_answers [Some ''A'', None, Some ''B''] [\<lparr>q_id = 1, q_correctOption = ''A''\<rparr>,
     \<lparr>q_id = 2, q_correctOption = ''C''\<rparr>, \<lparr>q_id = 3, q_correctOption = ''B''\<rparr>] = Inr 2
   \<and> session_score 2 3 = JNum (200 / 3)"
proof -
  have h: "correct_answers [Some ''A'', None, Some ''B''] [\<lparr>q_id = 1, q_correctOption = ''A''\<rparr>,
     \<lparr>q_id = 2, q_correctOption = ''C''\<rparr>, \<lparr>q_id = 3, q_correctOption = ''B''\<rparr>] = Inr 2"
    by (simp add: correct_answers_def answer_matches_def)
  from correct_answers_bounds [OF h] h show ?thesis by (simp add: session_score_def)
qed

text \<open>C8. The reduce over the answers throws a \<open>TypeError\<close> exactly when there are more
  answers than questions; otherwise it returns the number of answers equal to their
  question's correct option (a \<open>null\<close> answer never counts).\<close>

theorem correct_answers_result:
  "correct_answers answers questions =
     (if length questions < length answers then Inl TypeError
      else Inr (length (filter (\<lambda>(a, q). answer_matches a q) (zip answers questions))))"
  by (simp add: correct_answers_def count_correct_from_eq count_correct_from_TypeError)

text \<open>With no questions the division is \<open>0 / 0\<close>: the session payload has
  \<open>totalQuestions = 0\<close> and score \<open>NaN\<close>, not the 0 the spec asks for.\<close>

theorem empty_session_score_NaN:
  "session_data topic [] [] timer = Inr d \<Longrightarrow> totalQuestions d = 0 \<and> score d = JNaN"
  by (auto simp: session_data_def correct_answers_def session_score_def)

theorem empty_session_score_NaN_witness:
  "\<exists>d. session_data None [] [] 300 = Inr d \<and> totalQuestions d = 0 \<and> score d = JNaN"
proof -
  have h: "session_data None [] [] 300 = Inr \<lparr>userId = 0, topicId = None, totalQuestions = 0,
     correctAnswers = 0, score = JNaN, timeSpent = 300\<rparr>"
    by (simp add: session_data_def correct_answers_def session_score_def topic_param_def)
  from h empty_session_score_NaN [OF h] show ?thesis by blast
qed

text \<open>The spec's scenario: ten questions, the first seven answered correctly and the
  last three left unanswered, give \<open>correctAnswers = 7\<close> and score 70, with no division
  by zero.\<close>

theorem seven_of_ten_scenario:
  assumes "length qs = 10"
    and "answers = map (\<lambda>q. Some (q_correctOption q)) (take 7 qs) @ replicate 3 None"
  shows "\<exists>d. session_data topic qs answers timer = Inr d \<and> totalQuestions d = 10
           \<and> correctAnswers d = 7 \<and> score d = JNum 70"
proof -
  have z: "zip answers qs = map (\<lambda>q. (Some (q_correctOption q), q)) (take 7 qs)
                            @ zip (replicate 3 None) (drop 7 qs)"
    using assms by (simp add: zip_append1 zip_map1 zip_same_conv_map comp_def)
  have "filter (\<lambda>(a, q). answer_matches a q) (zip (replicate 3 None) (drop 7 qs)) = []"
    by (auto simp: filter_empty_conv answer_matches_def dest: set_zip_leftD)
  then have "correct_answers answers qs = Inr 7"
    using assms z by (simp add: correct_answers_Inr answer_matches_def comp_def)
  moreover have "session_score 7 10 = JNum 70" by (simp add: session_score_def)
  ultimately show ?thesis using assms(1) by (simp add: session_data_def)
qed

theorem seven_of_ten_scenario_witness:
  "session_data None (map (\<lambda>i. \<lparr>q_id = i, q_correctOption = ''A''\<rparr>) [0..<10])
     (replicate 7 (Some ''A'') @ replicate 3 None) 95
   = Inr \<lparr>userId = 0, topicId = None, totalQuestions = 10, correctAnswers = 7, score = JNum 70,
          timeSpent = 95\<rparr>"
proof -
  have l: "length (map (\<lambda>i. \<lparr>q_id = i, q_correctOption = ''A''\<rparr>) [0..<10]) = 10" by simp
  have a: "replicate 7 (Some ''A'') @ replicate 3 None
      = map (\<lambda>q. Some (q_correctOption q)) (take 7 (map (\<lambda>i. \<lparr>q_id = i, q_correctOption = ''A''\<rparr>) [0..<10])) @ replicate 3 None"
    by code_simp
  from seven_of_ten_scenario [OF l a, of None 95] show ?thesis
    by (auto simp: session_data_def topic_param_def split: sum.splits)
qed

text \<open>C10. The per-question rows agree with the session row: one row per question, in the
  order of the questions, carrying each question's selected answer, and exactly
  \<open>correctAnswers\<close> of them are marked correct.\<close>

theorem session_rows_consistent:
  assumes "length answers = length questions"
    and "session_data topic questions answers timer = Inr d"
  shows "length (session_rows sid questions answers timers) = totalQuestions d
    \<and> length (filter isCorrect (session_rows sid questions answers timers)) = correctAnswers d
    \<and> map questionId (session_rows sid questions answers timers) = map q_id questions
    \<and> map selectedOption (session_rows sid questions answers timers) = map Some answers"
proof -
  from assms(2) obtain c where c: "correct_answers answers questions = Inr c"
    and d: "totalQuestions d = length questions" "correctAnswers d = c"
    by (auto simp: session_data_def split: sum.splits)
  have "map questionId (session_rows sid questions answers timers) = map q_id questions"
    by (simp add: session_rows_def session_question_data_def Let_def comp_def)
  moreover have "map selectedOption (session_rows sid questions answers timers) = map Some answers"
  proof -
    have "map (\<lambda>i. nth_opt answers i) [0..<length questions] = map (\<lambda>i. Some (answers ! i)) [0..<length answers]"
      using assms(1) by simp
    then show ?thesis by (simp add: session_rows_def session_question_data_def Let_def comp_def)
  qed
  moreover have "length (session_rows sid questions answers timers) = length questions"
    by (simp add: session_rows_def)
  ultimately show ?thesis
    using c d count_rows [OF assms(1), of sid timers] by (simp add: correct_answers_Inr)
qed

theorem session_rows_consistent_witness:
  "length (filter isCorrect (session_rows 5 [\<lparr>q_id = 1, q_correctOption = ''A''\<rparr>,
     \<lparr>q_id = 2, q_correctOption = ''B''\<rparr>] [Some ''A'', Some ''C''] [3, 4])) = 1"
proof -
  have l: "length [Some ''A'', Some ''C''] = length [\<lparr>q_id = 1, q_correctOption = ''A''\<rparr>,
     \<lparr>q_id = 2, q_correctOption = ''B''\<rparr>]" by simp
  have d: "session_data None [\<lparr>q_id = 1, q_correctOption = ''A''\<rparr>, \<lparr>q_id = 2, q_correctOption = ''B''\<rparr>]
      [Some ''A'', Some ''C''] 7
    = Inr \<lparr>userId = 0, topicId = None, totalQuestions = 2, correctAnswers = 1,
           score = JNum 50, timeSpent = 7\<rparr>"
    by (simp add: session_data_def correct_answers_def answer_matches_def session_score_def topic_param_def)
  from session_rows_consistent [OF l d, of 5 "[3, 4]"] show ?thesis by simp
qed

end
