(* ===== verification/Submission.thy ===== *)
theory Submission
  imports Scoring
begin

text \<open>
  The session submission of the practice page: the second half of
  \<open>submitSessionMutation.mutationFn\<close> in
  \<open>src/client/src/pages/student/practice-session.tsx\<close>. After scoring, the page posts the
  session, reads its id from the response, then posts one row per question, one request
  after the other, each awaited. Any failed request (\<open>apiRequest\<close> throws on a non-2xx
  response) ends the mutation with an error; nothing already written is undone.

  The server is not part of \<open>src/\<close>; its two endpoints are modelled from the spec
  (\<open>POST /api/sessions\<close> stores the session under a fresh id and returns it,
  \<open>POST /api/sessions/:id/questions\<close> stores one row) as operations on a store. The
  network is an oracle \<open>net\<close>: request number \<open>k\<close> of the mutation (0 the session,
  \<open>i + 1\<close> the row of question \<open>i\<close>) succeeds when \<open>net k\<close> holds.
\<close>

record server =
  sessions :: "(nat \<times> session_insert) list"
  sessionQuestions :: "session_question_insert list"
  nextId :: nat

type_synonym network = "nat \<Rightarrow> bool"

definition post_session :: "bool \<Rightarrow> session_insert \<Rightarrow> server \<Rightarrow> (submit_error + nat) \<times> server" where
  "post_session ok d s =
     (if ok then (Inr (nextId s), s\<lparr>sessions := sessions s @ [(nextId s, d)], nextId := Suc (nextId s)\<rparr>)
      else (Inl HttpError, s))"

definition post_session_question ::
  "bool \<Rightarrow> session_question_insert \<Rightarrow> server \<Rightarrow> (submit_error + unit) \<times> server" where
  "post_session_question ok r s =
     (if ok then (Inr (), s\<lparr>sessionQuestions := sessionQuestions s @ [r]\<rparr>) else (Inl HttpError, s))"

text \<open>The \<open>for\<close> loop: request \<open>k\<close> posts the next row; the first failure stops it.\<close>

fun post_rows ::
  "network \<Rightarrow> nat \<Rightarrow> session_question_insert list \<Rightarrow> server \<Rightarrow> (submit_error + unit) \<times> server" where
  "post_rows net k [] s = (Inr (), s)"
| "post_rows net k (r # rs) s =
     (case post_session_question (net k) r s of
        (Inl e, s') \<Rightarrow> (Inl e, s')
      | (Inr _, s') \<Rightarrow> post_rows net (Suc k) rs s')"

text \<open>The whole \<open>mutationFn\<close>: \<open>questions\<close> is \<open>None\<close> while the query has no data
  (\<open>throw new Error("No questions available")\<close>); the result is the new session's id.\<close>

definition submit_session ::
  "network \<Rightarrow> js_string option \<Rightarrow> question list option \<Rightarrow> answer list \<Rightarrow> nat list \<Rightarrow> nat
   \<Rightarrow> server \<Rightarrow> (submit_error + nat) \<times> server" where
  "submit_session net topic questions answers questionTimers timer s =
     (case questions of
        None \<Rightarrow> (Inl NoQuestionsAvailable, s)
      | Some qs \<Rightarrow>
          (case session_data topic qs answers timer of
             Inl e \<Rightarrow> (Inl e, s)
           | Inr d \<Rightarrow>
               (case post_session (net 0) d s of
                  (Inl e, s1) \<Rightarrow> (Inl e, s1)
                | (Inr sid, s1) \<Rightarrow>
                    (case post_rows net 1 (session_rows sid qs answers questionTimers) s1 of
                       (Inl e, s2) \<Rightarrow> (Inl e, s2)
                     | (Inr _, s2) \<Rightarrow> (Inr sid, s2)))))"

text \<open>The store's id discipline: every stored session and every stored row refers to an id
  below \<open>nextId\<close>, so the id the next session gets is fresh.\<close>

definition server_fresh :: "server \<Rightarrow> bool" where
  "server_fresh s \<longleftrightarrow>
     (\<forall>(i, _) \<in> set (sessions s). i < nextId s) \<and> (\<forall>r \<in> set (sessionQuestions s). sessionId r < nextId s)"

subsection \<open>The row loop\<close>

lemma post_rows_all_ok:
  "\<forall>j < length rs. net (k + j) \<Longrightarrow>
   post_rows net k rs s = (Inr (), s\<lparr>sessionQuestions := sessionQuestions s @ rs\<rparr>)"
proof (induction rs arbitrary: k s)
  case (Cons r rs)
  then have "net k" and "\<forall>j < length rs. net (Suc k + j)" by (auto dest: spec [of _ 0] spec [of _ "Suc _"])
  with Cons.IH show ?case by (simp add: post_session_question_def)
qed simp

lemma post_rows_fail_at:
  "j < length rs \<Longrightarrow> \<forall>i < j. net (k + i) \<Longrightarrow> \<not> net (k + j) \<Longrightarrow>
   post_rows net k rs s = (Inl HttpError, s\<lparr>sessionQuestions := sessionQuestions s @ take j rs\<rparr>)"
proof (induction rs arbitrary: k s j)
  case (Cons r rs)
  show ?case
  proof (cases j)
    case 0
    with Cons.prems show ?thesis by (simp add: post_session_question_def)
  next
    case (Suc j')
    with Cons.prems have "net k" "j' < length rs" "\<forall>i < j'. net (Suc k + i)" "\<not> net (Suc k + j')"
      by (auto dest: spec [of _ 0] spec [of _ "Suc _"])
    with Cons.IH [of j' "Suc k"] Suc show ?thesis by (simp add: post_session_question_def)
  qed
qed simp

lemma post_rows_Inr:
  "post_rows net k rs s = (Inr u, s') \<Longrightarrow> s' = s\<lparr>sessionQuestions := sessionQuestions s @ rs\<rparr>"
proof (induction rs arbitrary: k s)
  case (Cons r rs)
  then have "net k" and "post_rows net (Suc k) rs (s\<lparr>sessionQuestions := sessionQuestions s @ [r]\<rparr>) = (Inr u, s')"
    by (auto simp: post_session_question_def split: if_splits)
  with Cons.IH show ?case by fastforce
qed simp

text \<open>What a successful mutation did to the server: one session under the id it returns,
  then its rows.\<close>

lemma submit_session_Inr:
  assumes "submit_session net topic (Some qs) answers questionTimers timer s = (Inr sid, s')"
  shows "\<exists>d. session_data topic qs answers timer = Inr d \<and> sid = nextId s \<and>
           s' = s\<lparr>sessions := sessions s @ [(sid, d)],
                 sessionQuestions := sessionQuestions s @ session_rows sid qs answers questionTimers,
                 nextId := Suc sid\<rparr>"
  using assms
  by (auto simp: submit_session_def post_session_def split: sum.splits prod.splits if_splits
           dest!: post_rows_Inr)

lemma post_rows_server:
  "\<exists>rs'. snd (post_rows net k rs s) = s\<lparr>sessionQuestions := sessionQuestions s @ rs'\<rparr> \<and> set rs' \<subseteq> set rs"
proof (induction rs arbitrary: k s)
  case Nil
  show ?case by (rule exI [of _ "[]"]) simp
next
  case (Cons r rs)
  show ?case
  proof (cases "net k")
    case True
    obtain rs' where "snd (post_rows net (Suc k) rs (s\<lparr>sessionQuestions := sessionQuestions s @ [r]\<rparr>))
        = s\<lparr>sessionQuestions := sessionQuestions s @ [r] @ rs'\<rparr>" "set rs' \<subseteq> set rs"
      using Cons.IH [of "Suc k" "s\<lparr>sessionQuestions := sessionQuestions s @ [r]\<rparr>"] by auto
    with True show ?thesis by (intro exI [of _ "r # rs'"]) (auto simp: post_session_question_def)
  next
    case False
    then show ?thesis by (intro exI [of _ "[]"]) (simp add: post_session_question_def)
  qed
qed

lemma session_rows_sessionId: "r \<in> set (session_rows sid qs as ts) \<Longrightarrow> sessionId r = sid"
  by (auto simp: session_rows_def session_question_data_def Let_def)

subsection \<open>Properties of the submission\<close>

text \<open>When every request succeeds, the mutation returns the new session's id, and the
  server gains exactly one session (the scored payload, under that id) followed by one row
  per question, in question order.\<close>

theorem submit_session_all_ok:
  assumes "\<forall>k \<le> length qs. net k"
    and "session_data topic qs answers timer = Inr d"
  shows "submit_session net topic (Some qs) answers questionTimers timer s =
    (Inr (nextId s),
     s\<lparr>sessions := sessions s @ [(nextId s, d)],
       sessionQuestions := sessionQuestions s @ session_rows (nextId s) qs answers questionTimers,
       nextId := Suc (nextId s)\<rparr>)"
proof -
  have "\<forall>j < length (session_rows (nextId s) qs answers questionTimers). net (1 + j)"
    using assms(1) by (simp add: session_rows_def)
  then show ?thesis
    using assms by (simp add: submit_session_def post_session_def post_rows_all_ok)
qed

theorem submit_session_all_ok_witness:
  "submit_session (\<lambda>_. True) None (Some [\<lparr>q_id = 1, q_correctOption = ''A''\<rparr>, \<lparr>q_id = 2, q_correctOption = ''B''\<rparr>]) [Some ''A'', None] [4, 2] 6 \<lparr>sessions = [], sessionQuestions = [], nextId = 7\<rparr>
   = (Inr 7, \<lparr>sessions = [(7, \<lparr>userId = 0, topicId = None, totalQuestions = 2, correctAnswers = 1,
                               score = JNum 50, timeSpent = 6\<rparr>)],
             sessionQuestions = session_rows 7 [\<lparr>q_id = 1, q_correctOption = ''A''\<rparr>, \<lparr>q_id = 2, q_correctOption = ''B''\<rparr>] [Some ''A'', None] [4, 2],
             nextId = 8\<rparr>)"
proof -
  have n: "\<forall>k \<le> length [\<lparr>q_id = 1, q_correctOption = ''A''\<rparr>, \<lparr>q_id = 2, q_correctOption = ''B''\<rparr>]. (\<lambda>_. True) k" by simp
  have d: "session_data None [\<lparr>q_id = 1, q_correctOption = ''A''\<rparr>, \<lparr>q_id = 2, q_correctOption = ''B''\<rparr>] [Some ''A'', None] 6 =
    Inr \<lparr>userId = 0, topicId = None, totalQuestions = 2, correctAnswers = 1, score = JNum 50,
         timeSpent = 6\<rparr>"
    by (simp add: session_data_def correct_answers_def answer_matches_def session_score_def topic_param_def)
  from submit_session_all_ok [OF n d, of "[4, 2]" "\<lparr>sessions = [], sessionQuestions = [], nextId = 7\<rparr>"] show ?thesis by simp
qed

text \<open>C12. The write is not atomic: when the session request succeeds and the row request of
  question \<open>j\<close> is the first to fail, the mutation fails, yet the server keeps the new
  session and the rows of the first \<open>j\<close> questions, an orphaned partial session.\<close>

theorem submit_session_partial:
  assumes "session_data topic qs answers timer = Inr d"
    and "net 0" and "j < length qs" and "\<forall>i < j. net (Suc i)" and "\<not> net (Suc j)"
  shows "submit_session net topic (Some qs) answers questionTimers timer s =
    (Inl HttpError,
     s\<lparr>sessions := sessions s @ [(nextId s, d)],
       sessionQuestions := sessionQuestions s @ take j (session_rows (nextId s) qs answers questionTimers),
       nextId := Suc (nextId s)\<rparr>)"
proof -
  have "post_rows net 1 (session_rows (nextId s) qs answers questionTimers)
          (s\<lparr>sessions := sessions s @ [(nextId s, d)], nextId := Suc (nextId s)\<rparr>)
      = (Inl HttpError, s\<lparr>sessions := sessions s @ [(nextId s, d)], nextId := Suc (nextId s),
           sessionQuestions := sessionQuestions s @ take j (session_rows (nextId s) qs answers questionTimers)\<rparr>)"
    using assms(3-5) by (simp add: post_rows_fail_at session_rows_def)
  with assms(1,2) show ?thesis by (simp add: submit_session_def post_session_def)
qed

theorem submit_session_partial_witness:
  "submit_session (\<lambda>k. k \<noteq> 2) None (Some [\<lparr>q_id = 1, q_correctOption = ''A''\<rparr>, \<lparr>q_id = 2, q_correctOption = ''B''\<rparr>]) [Some ''A'', None] [4, 2] 6 \<lparr>sessions = [], sessionQuestions = [], nextId = 7\<rparr>
   = (Inl HttpError, \<lparr>sessions = [(7, \<lparr>userId = 0, topicId = None, totalQuestions = 2, correctAnswers = 1,
                               score = JNum 50, timeSpent = 6\<rparr>)],
             sessionQuestions = take 1 (session_rows 7 [\<lparr>q_id = 1, q_correctOption = ''A''\<rparr>, \<lparr>q_id = 2, q_correctOption = ''B''\<rparr>] [Some ''A'', None] [4, 2]),
             nextId = 8\<rparr>)"
proof -
  have d: "session_data None [\<lparr>q_id = 1, q_correctOption = ''A''\<rparr>, \<lparr>q_id = 2, q_correctOption = ''B''\<rparr>] [Some ''A'', None] 6 =
    Inr \<lparr>userId = 0, topicId = None, totalQuestions = 2, correctAnswers = 1, score = JNum 50,
         timeSpent = 6\<rparr>"
    by (simp add: session_data_def correct_answers_def answer_matches_def session_score_def topic_param_def)
  have "(\<lambda>k::nat. k \<noteq> 2) 0" "(1::nat) < length [\<lparr>q_id = 1, q_correctOption = ''A''\<rparr>, \<lparr>q_id = 2, q_correctOption = ''B''\<rparr>]"
    "\<forall>i < (1::nat). (\<lambda>k::nat. k \<noteq> 2) (Suc i)" "\<not> (\<lambda>k::nat. k \<noteq> 2) (Suc 1)" by simp_all
  from submit_session_partial [OF d this, of "[4, 2]" "\<lparr>sessions = [], sessionQuestions = [], nextId = 7\<rparr>"] show ?thesis by simp
qed

text \<open>When the session request itself fails (or there is nothing to submit, or the
  scoring throws), the server is left exactly as it was and the mutation reports an
  error.\<close>

theorem submit_session_first_fails:
  assumes "\<not> net 0"
  shows "snd (submit_session net topic questions answers questionTimers timer s) = s
    \<and> (\<exists>e. fst (submit_session net topic questions answers questionTimers timer s) = Inl e)"
  using assms
  by (auto simp: submit_session_def post_session_def split: option.splits sum.splits)

theorem submit_session_first_fails_witness:
  "submit_session (\<lambda>_. False) None (Some [\<lparr>q_id = 1, q_correctOption = ''A''\<rparr>, \<lparr>q_id = 2, q_correctOption = ''B''\<rparr>]) [Some ''A'', None] [4, 2] 6 \<lparr>sessions = [], sessionQuestions = [], nextId = 7\<rparr>
   = (Inl HttpError, \<lparr>sessions = [], sessionQuestions = [], nextId = 7\<rparr>)"
proof -
  have "\<not> (\<lambda>_. False) (0::nat)" by simp
  from submit_session_first_fails [OF this, of None "Some [\<lparr>q_id = 1, q_correctOption = ''A''\<rparr>, \<lparr>q_id = 2, q_correctOption = ''B''\<rparr>]" "[Some ''A'', None]" "[4, 2]" 6
      "\<lparr>sessions = [], sessionQuestions = [], nextId = 7\<rparr>"]
  show ?thesis
    by (simp add: submit_session_def session_data_def correct_answers_def answer_matches_def
        post_session_def)
qed

text \<open>Every run of the mutation, successful, partial or failed, keeps the store's id
  discipline, so the next submission's session id is again fresh.\<close>

theorem submit_session_keeps_fresh:
  assumes "server_fresh s"
  shows "server_fresh (snd (submit_session net topic questions answers questionTimers timer s))"
proof (cases "\<exists>qs d. questions = Some qs \<and> session_data topic qs answers timer = Inr d \<and> net 0")
  case True
  then obtain qs d where q: "questions = Some qs" and d: "session_data topic qs answers timer = Inr d"
    and n: "net 0" by blast
  let ?s1 = "s\<lparr>sessions := sessions s @ [(nextId s, d)], nextId := Suc (nextId s)\<rparr>"
  obtain rs' where r: "snd (post_rows net 1 (session_rows (nextId s) qs answers questionTimers) ?s1)
      = ?s1\<lparr>sessionQuestions := sessionQuestions ?s1 @ rs'\<rparr>"
    and sub: "set rs' \<subseteq> set (session_rows (nextId s) qs answers questionTimers)"
    using post_rows_server by blast
  have "snd (submit_session net topic questions answers questionTimers timer s)
      = snd (post_rows net 1 (session_rows (nextId s) qs answers questionTimers) ?s1)"
    using q d n by (simp add: submit_session_def post_session_def split: sum.splits prod.splits)
  moreover have "\<forall>x \<in> set rs'. sessionId x = nextId s" using sub session_rows_sessionId by blast
  ultimately show ?thesis using assms r by (fastforce simp: server_fresh_def)
next
  case False
  then have "snd (submit_session net topic questions answers questionTimers timer s) = s"
    by (auto simp: submit_session_def post_session_def split: option.splits sum.splits)
  with assms show ?thesis by simp
qed

theorem submit_session_keeps_fresh_witness:
  "server_fresh (snd (submit_session (\<lambda>k. k \<noteq> 2) None (Some [\<lparr>q_id = 1, q_correctOption = ''A''\<rparr>,
      \<lparr>q_id = 2, q_correctOption = ''B''\<rparr>]) [Some ''A'', None] [4, 2] 6
      \<lparr>sessions = [], sessionQuestions = [], nextId = 7\<rparr>))"
proof -
  have "server_fresh \<lparr>sessions = [], sessionQuestions = [], nextId = 7\<rparr>" by (simp add: server_fresh_def)
  then show ?thesis by (rule submit_session_keeps_fresh)
qed

end
