(* ===== verification/Countdown.thy ===== *)
theory Countdown
  imports Prelude
begin

text \<open>
  The countdown of timed quizzes, \<open>CountdownTimer\<close> in
  \<open>src/client/src/components/ui/countdown-timer.tsx\<close>. Its state is \<open>timeLeft\<close>
  (seconds, a JavaScript integer) and \<open>isRunning\<close>; the effect installs a one-second
  interval whenever the timer runs with time left, and the interval's state updater
  decrements \<open>timeLeft\<close>, or, at one second or less, clears the interval, stops the
  timer, calls \<open>onTimeUp\<close> and sets \<open>timeLeft\<close> to 0. The callback is an effect the
  model records by counting its calls in \<open>timeUpCalls\<close>. One step of the model is one
  firing of the interval; a second in which the effect installed no interval changes
  nothing.
\<close>

record countdown =
  timeLeft :: int
  isRunning :: bool
  timeUpCalls :: nat

definition countdown_init :: "int \<Rightarrow> countdown" where
  "countdown_init initialTimeInSeconds =
     \<lparr>timeLeft = initialTimeInSeconds, isRunning = True, timeUpCalls = 0\<rparr>"

text \<open>The guard of the effect: \<open>if (!isRunning || timeLeft <= 0) return;\<close>\<close>

definition interval_active :: "countdown \<Rightarrow> bool" where
  "interval_active c \<longleftrightarrow> isRunning c \<and> 0 < timeLeft c"

definition countdown_tick :: "countdown \<Rightarrow> countdown" where
  "countdown_tick c =
     (if \<not> interval_active c then c
      else if timeLeft c \<le> 1
      then c\<lparr>timeLeft := 0, isRunning := False, timeUpCalls := Suc (timeUpCalls c)\<rparr>
      else c\<lparr>timeLeft := timeLeft c - 1\<rparr>)"

definition countdown_run :: "nat \<Rightarrow> countdown \<Rightarrow> countdown" where
  "countdown_run n c = (countdown_tick ^^ n) c"

inductive countdown_reachable :: "int \<Rightarrow> countdown \<Rightarrow> bool" where
  start: "countdown_reachable n (countdown_init n)"
| tick: "countdown_reachable n c \<Longrightarrow> countdown_reachable n (countdown_tick c)"

text \<open>\<open>formatTime\<close>: \<open>${Math.floor(t / 60)}:${(t % 60).toString().padStart(2, '0')}\<close>.\<close>

definition formatTime :: "nat \<Rightarrow> js_string" where
  "formatTime t = show_nat (t div 60) @ CHR '':'' # pad2 (show_nat (t mod 60))"

text \<open>Reading a clock string back (minutes, a colon, two digits of seconds): the inverse
  used to state that the display loses no information.\<close>

definition read_clock :: "js_string \<Rightarrow> nat option" where
  "read_clock s =
     (let m = takeWhile (\<lambda>c. c \<noteq> CHR '':'') s; r = drop (Suc (length m)) s
      in if m \<noteq> [] \<and> (\<forall>c \<in> set m. is_digit c) \<and> length r = 2 \<and> (\<forall>c \<in> set r. is_digit c)
            \<and> length m < length s
         then Some (60 * nat (digits_value m) + nat (digits_value r)) else None)"

subsection \<open>The rendered timer\<close>

text \<open>\<open>Math.max(0, x)\<close> and the comparisons of a number with a literal (false on \<open>NaN\<close>).\<close>

fun js_max0 :: "js_number \<Rightarrow> js_number" where
  "js_max0 (JNum a) = JNum (max 0 a)"
| "js_max0 JNegInf = JNum 0"
| "js_max0 x = x"

fun js_gt :: "js_number \<Rightarrow> rat \<Rightarrow> bool" where
  "js_gt (JNum a) c = (c < a)"
| "js_gt JPosInf c = True"
| "js_gt x c = False"

fun js_le :: "js_number \<Rightarrow> rat \<Rightarrow> bool" where
  "js_le (JNum a) c = (a \<le> c)"
| "js_le JNegInf c = True"
| "js_le x c = False"

text \<open>\<open>percentage = Math.max(0, (timeLeft / initialTimeInSeconds) * 100)\<close>.\<close>

definition countdown_percentage :: "int \<Rightarrow> countdown \<Rightarrow> js_number" where
  "countdown_percentage n c = js_max0 (js_mul (js_div (JNum (of_int (timeLeft c))) (JNum (of_int n))) (JNum 100))"

definition getTimerColor :: "js_number \<Rightarrow> js_string" where
  "getTimerColor p = (if js_gt p 50 then ''text-green-600'' else if js_gt p 25 then ''text-yellow-600'' else ''text-red-600'')"

definition getProgressColor :: "js_number \<Rightarrow> js_string" where
  "getProgressColor p = (if js_gt p 50 then ''bg-green-600'' else if js_gt p 25 then ''bg-yellow-600'' else ''bg-red-600'')"

datatype timer_size = SizeSm | SizeMd | SizeLg

definition getSize :: "timer_size \<Rightarrow> js_string" where
  "getSize sz = (case sz of SizeSm \<Rightarrow> ''text-sm'' | SizeLg \<Rightarrow> ''text-lg'' | SizeMd \<Rightarrow> ''text-base'')"

text \<open>\<open>formatTime\<close> on the integer state: \<open>Math.floor(t / 60)\<close> and JavaScript's \<open>%\<close>, whose
  result has the sign of the dividend.\<close>

definition js_rem :: "int \<Rightarrow> int \<Rightarrow> int" where
  "js_rem a b = (if a < 0 then - ((- a) mod b) else a mod b)"

definition clock_text :: "int \<Rightarrow> js_string" where
  "clock_text t = show_int (t div 60) @ CHR '':'' # pad2 (show_int (js_rem t 60))"

record countdown_view =
  cv_clock :: js_string
  cv_clock_class :: "js_string list"
  cv_label :: "js_string option"
  cv_progress :: js_number
  cv_progress_class :: js_string

definition countdown_view_of :: "int \<Rightarrow> timer_size \<Rightarrow> countdown \<Rightarrow> countdown_view" where
  "countdown_view_of n sz c =
     (let p = countdown_percentage n c in
      \<lparr>cv_clock = clock_text (timeLeft c), cv_clock_class = [getSize sz, getTimerColor p],
       cv_label = (if sz = SizeSm then None
                   else Some (if js_le p 25 then ''Running Out of Time!'' else ''Time Remaining'')),
       cv_progress = p, cv_progress_class = getProgressColor p\<rparr>)"

subsection \<open>The invariant\<close>

definition countdown_inv :: "countdown \<Rightarrow> bool" where
  "countdown_inv c \<longleftrightarrow>
     (timeUpCalls c = 0 \<and> isRunning c) \<or> (timeUpCalls c = 1 \<and> \<not> isRunning c \<and> timeLeft c = 0)"

lemma countdown_inv_init: "countdown_inv (countdown_init n)"
  by (simp add: countdown_inv_def countdown_init_def)

lemma countdown_inv_tick: "countdown_inv c \<Longrightarrow> countdown_inv (countdown_tick c)"
  by (auto simp: countdown_inv_def countdown_tick_def interval_active_def)

lemma countdown_reachable_inv: "countdown_reachable n c \<Longrightarrow> countdown_inv c"
  by (induction rule: countdown_reachable.induct) (auto intro: countdown_inv_init countdown_inv_tick)

lemma countdown_run_Suc: "countdown_run (Suc m) c = countdown_tick (countdown_run m c)"
  by (simp add: countdown_run_def)

lemma countdown_run_reachable: "countdown_reachable n (countdown_run m (countdown_init n))"
  by (induction m) (auto simp: countdown_run_Suc countdown_run_def intro: countdown_reachable.intros)

text \<open>Before the last second the timer counts down by one per firing.\<close>

lemma countdown_run_before:
  "m < nat n \<Longrightarrow> countdown_run m (countdown_init n) = \<lparr>timeLeft = n - int m, isRunning = True, timeUpCalls = 0\<rparr>"
proof (induction m)
  case 0
  then show ?case by (simp add: countdown_run_def countdown_init_def)
next
  case (Suc m)
  then show ?case by (simp add: countdown_run_Suc countdown_tick_def interval_active_def)
qed

lemma countdown_tick_stopped: "\<not> interval_active c \<Longrightarrow> countdown_tick c = c"
  by (simp add: countdown_tick_def)

lemma countdown_run_stopped: "\<not> interval_active c \<Longrightarrow> countdown_run m c = c"
  by (induction m) (simp_all add: countdown_run_def countdown_tick_stopped)

lemma countdown_run_fire:
  assumes "0 < n"
  shows "countdown_run (nat n) (countdown_init n) = \<lparr>timeLeft = 0, isRunning = False, timeUpCalls = 1\<rparr>"
proof -
  obtain k where k: "nat n = Suc k" using assms by (cases "nat n") auto
  then have "countdown_run k (countdown_init n) = \<lparr>timeLeft = 1, isRunning = True, timeUpCalls = 0\<rparr>"
    using countdown_run_before [of k n] by simp
  with k show ?thesis by (simp add: countdown_run_Suc countdown_tick_def interval_active_def)
qed

lemma countdown_run_add: "countdown_run (a + b) c = countdown_run a (countdown_run b c)"
  by (simp add: countdown_run_def funpow_add)

text \<open>From the last second on the timer stays stopped with one call.\<close>

lemma countdown_run_after:
  assumes "0 < n" "nat n \<le> m"
  shows "countdown_run m (countdown_init n) = \<lparr>timeLeft = 0, isRunning = False, timeUpCalls = 1\<rparr>"
proof -
  from assms(2) have m: "m = (m - nat n) + nat n" by simp
  have "\<not> interval_active \<lparr>timeLeft = 0, isRunning = False, timeUpCalls = 1\<rparr>"
    by (simp add: interval_active_def)
  then show ?thesis
    using countdown_run_fire [OF assms(1)] countdown_run_add [of "m - nat n" "nat n"] m
    by (metis countdown_run_stopped)
qed

subsection \<open>Properties of the countdown\<close>

text \<open>In every state the countdown can reach, \<open>onTimeUp\<close> has been called at most
  once, and once it has been called the interval is never installed again and the
  display shows 0.\<close>

theorem countdown_fires_at_most_once:
  assumes "countdown_reachable n c"
  shows "timeUpCalls c \<le> 1 \<and> (0 < timeUpCalls c \<longrightarrow> \<not> interval_active c \<and> timeLeft c = 0)"
  using countdown_reachable_inv [OF assms] by (auto simp: countdown_inv_def interval_active_def)

theorem countdown_fires_at_most_once_witness:
  "timeUpCalls (countdown_run 5 (countdown_init 2)) \<le> 1"
  using countdown_fires_at_most_once [OF countdown_run_reachable [of 2 5]] by blast

text \<open>C14. Started with \<open>n > 0\<close> seconds, the countdown calls \<open>onTimeUp\<close> exactly once,
  on its \<open>n\<close>-th firing: never before, and no second time however long it keeps
  running.\<close>

theorem countdown_fires_exactly_at:
  assumes "0 < n"
  shows "timeUpCalls (countdown_run m (countdown_init n)) = (if m < nat n then 0 else 1)"
  using assms by (simp add: countdown_run_before countdown_run_after)

theorem countdown_fires_exactly_at_witness:
  "timeUpCalls (countdown_run 299 (countdown_init 300)) = 0
   \<and> timeUpCalls (countdown_run 300 (countdown_init 300)) = 1
   \<and> timeUpCalls (countdown_run 1000 (countdown_init 300)) = 1"
proof -
  have p: "(0::int) < 300" by simp
  show ?thesis using countdown_fires_exactly_at [OF p, of 299] countdown_fires_exactly_at [OF p, of 300]
      countdown_fires_exactly_at [OF p, of 1000] by simp
qed

text \<open>Started with 0 seconds or less (a \<open>timeLimit\<close> parameter of 0, or one that
  \<open>parseInt\<close> reads as 0), the effect never installs the interval: the countdown
  never changes and \<open>onTimeUp\<close> is never called, so the quiz is never submitted on
  expiry.\<close>

theorem countdown_never_fires_nonpositive:
  "n \<le> 0 \<Longrightarrow> countdown_run m (countdown_init n) = countdown_init n"
  by (simp add: countdown_run_stopped interval_active_def countdown_init_def)

theorem countdown_never_fires_nonpositive_witness:
  "countdown_run 600 (countdown_init 0) = countdown_init 0"
  by (rule countdown_never_fires_nonpositive) simp

text \<open>The \<open>M:SS\<close> display is faithful: from the string \<open>formatTime\<close> prints,
  the number of seconds is recovered exactly.\<close>

theorem formatTime_roundtrip: "read_clock (formatTime t) = Some t"
proof -
  let ?m = "show_nat (t div 60)" and ?r = "pad2 (show_nat (t mod 60))"
  have nocolon: "\<forall>c \<in> set ?m. c \<noteq> CHR '':''"
    using show_nat_digits [of "t div 60"] by (auto simp: is_digit_def)
  then have tw: "takeWhile (\<lambda>c. c \<noteq> CHR '':'') (?m @ CHR '':'' # ?r) = ?m"
    by (simp add: takeWhile_append2)
  have l: "length ?r = 2"
    using length_show_nat_small [of "t mod 60"] by (simp add: pad2_def)
  have d: "\<forall>c \<in> set ?r. is_digit c"
    using show_nat_digits [of "t mod 60"] by (auto simp: pad2_def is_digit_def)
  have v: "60 * nat (digits_value ?m) + nat (digits_value ?r) = t"
    by (simp add: digits_value_pad2 digits_value_show_nat)
  show ?thesis
    using tw l d v show_nat_digits [of "t div 60"]
    by (simp add: read_clock_def formatTime_def Let_def)
qed

subsection \<open>The rendered timer\<close>

lemma clock_text_nat: "clock_text (int t) = formatTime t"
proof -
  have "int t div 60 = int (t div 60)" "int t mod 60 = int (t mod 60)"
    by (simp_all add: zdiv_int zmod_int)
  then show ?thesis by (simp add: clock_text_def formatTime_def js_rem_def show_int_def)
qed

lemma countdown_reachable_range:
  "countdown_reachable n c \<Longrightarrow> 0 < n \<Longrightarrow> 0 \<le> timeLeft c \<and> timeLeft c \<le> n"
  by (induction rule: countdown_reachable.induct)
    (auto simp: countdown_init_def countdown_tick_def interval_active_def)

lemma percentage_in_range:
  assumes "0 \<le> t" "t \<le> n" "0 < n"
  shows "js_div (JNum (of_int t)) (JNum (of_int n)) = JNum (of_int t / of_int n)
         \<and> 0 \<le> of_int t / (of_int n :: rat) \<and> of_int t / (of_int n :: rat) \<le> 1"
  using assms by (simp add: divide_le_eq_1)

text \<open>A start of 0 seconds divides 0 by 0: the percentage is \<open>NaN\<close>, the timer red, yet
  the label says "Time Remaining"; a negative start shows a full green bar.\<close>

lemma countdown_view_degenerate:
  "cv_progress (countdown_view_of 0 SizeMd (countdown_init 0)) = JNaN
   \<and> getTimerColor (cv_progress (countdown_view_of 0 SizeMd (countdown_init 0))) = ''text-red-600''
   \<and> cv_label (countdown_view_of 0 SizeMd (countdown_init 0)) = Some ''Time Remaining''
   \<and> cv_progress (countdown_view_of (-30) SizeMd (countdown_init (-30))) = JNum 100
   \<and> cv_progress_class (countdown_view_of (-30) SizeMd (countdown_init (-30))) = ''bg-green-600''"
  by (simp add: countdown_view_of_def countdown_percentage_def countdown_init_def getTimerColor_def
      getProgressColor_def)

subsection \<open>Properties of the rendered timer\<close>

text \<open>C4. Started with a positive number of seconds, in every state the countdown reaches
  the clock prints the seconds left as \<open>M:SS\<close>, the progress is a number between 0 and 100,
  the bar and the clock have the same colour, and the "Running Out of Time!" warning is
  shown exactly when that colour is red.\<close>

theorem countdown_view_consistent:
  assumes "0 < n" "countdown_reachable n c" "sz \<noteq> SizeSm"
  shows "cv_clock (countdown_view_of n sz c) = formatTime (nat (timeLeft c))
    \<and> (\<exists>a. cv_progress (countdown_view_of n sz c) = JNum a \<and> 0 \<le> a \<and> a \<le> 100)
    \<and> cv_progress_class (countdown_view_of n sz c) = ''bg'' @ drop 4 (getTimerColor (cv_progress (countdown_view_of n sz c)))
    \<and> (cv_label (countdown_view_of n sz c) = Some ''Running Out of Time!''
       \<longleftrightarrow> getTimerColor (cv_progress (countdown_view_of n sz c)) = ''text-red-600'')"
proof -
  have r: "0 \<le> timeLeft c" "timeLeft c \<le> n" using countdown_reachable_range [OF assms(2,1)] by auto
  then have clock: "clock_text (timeLeft c) = formatTime (nat (timeLeft c))"
    using clock_text_nat [of "nat (timeLeft c)"] by simp
  obtain q where q: "js_div (JNum (of_int (timeLeft c))) (JNum (of_int n)) = JNum q" "0 \<le> q" "q \<le> 1"
    using percentage_in_range [OF r assms(1)] by blast
  have p: "countdown_percentage n c = JNum (q * 100)"
    using q by (simp add: countdown_percentage_def)
  show ?thesis
    using assms(3) q clock
    by (auto simp: countdown_view_of_def p getTimerColor_def getProgressColor_def Let_def)
qed

theorem countdown_view_consistent_witness:
  "countdown_reachable 300 (countdown_run 240 (countdown_init 300))
   \<and> cv_clock (countdown_view_of 300 SizeMd (countdown_run 240 (countdown_init 300))) = formatTime 60
   \<and> cv_label (countdown_view_of 300 SizeMd (countdown_run 240 (countdown_init 300))) = Some ''Running Out of Time!''"
proof -
  have r: "countdown_reachable 300 (countdown_run 240 (countdown_init 300))"
    by (rule countdown_run_reachable)
  have c: "countdown_run 240 (countdown_init 300) = \<lparr>timeLeft = 60, isRunning = True, timeUpCalls = 0\<rparr>"
    using countdown_run_before [of 240 300] by simp
  have red: "getTimerColor (cv_progress (countdown_view_of 300 SizeMd (countdown_run 240 (countdown_init 300)))) = ''text-red-600''"
    by (simp add: c countdown_view_of_def countdown_percentage_def getTimerColor_def Let_def)
  show ?thesis
    using countdown_view_consistent [OF _ r, of SizeMd] red r by (simp add: c)
qed

end
