(* ===== verification/PracticeSession.thy ===== *)
theory PracticeSession
  imports Submission Countdown
begin

text \<open>
  The practice-session page, \<open>PracticeSession\<close> in
  \<open>src/client/src/pages/student/practice-session.tsx\<close>, as a state machine. The page
  state is the record of its \<open>useState\<close> hooks plus the status of the questions query
  and of the submit mutation; the system state adds the embedded \<open>CountdownTimer\<close>
  (theory \<open>Countdown\<close>) and the server store (theory \<open>Submission\<close>). One event is
  one thing that happens to the page: the questions query settling, a tick of the page's
  one-second interval, a firing of the countdown's interval, a click, or a submit
  mutation settling. Each event is enabled only when the page has rendered the element
  or installed the interval that produces it, which is read off the JSX and the effects'
  guards; \<open>practice_step\<close> then runs the handler.

  The mutation is split in two events as it is split in time: \<open>handleSubmitSession\<close>
  starts it (its requests reach the server then, with a network oracle chosen by the
  event) and the outcome is applied later by \<open>onSuccess\<close>/\<open>onError\<close>, so that other
  events can come in between. The URL parameters are fixed for the page's life:
  \<open>timed\<close>, the route's \<open>topicId\<close>, and \<open>timeLimit\<close> as parsed (a \<open>timeLimit\<close> that
  \<open>parseInt\<close> reads as \<open>NaN\<close> is not modelled).
\<close>

record practice_config =
  isTimed :: bool
  topicParam :: "js_string option"
  timeLimit :: int

record page =
  currentQuestionIndex :: nat
  answers :: "answer list"
  timer :: nat
  questionTimers :: "nat list"
  isSessionComplete :: bool
  timeExpired :: bool
  questionsData :: "question list option"
  isLoadingQuestions :: bool
  showSubmitAnimation :: bool
  pendingSubmits :: "(submit_error + nat) list"
  navigatedTo :: "nat option"

record practice_sys =
  pg :: page
  clock :: countdown
  store :: server

datatype practice_event =
    QuestionsLoaded "question list"
  | QuestionsFailed
  | Tick
  | CountdownTick network
  | SelectAnswer js_string
  | PrevQuestion
  | NextQuestion
  | JumpTo nat
  | SubmitClick network
  | SubmitSettled

definition page_init :: page where
  "page_init =
     \<lparr>currentQuestionIndex = 0, answers = [], timer = 0, questionTimers = [],
      isSessionComplete = False, timeExpired = False, questionsData = None,
      isLoadingQuestions = True, showSubmitAnimation = False, pendingSubmits = [],
      navigatedTo = None\<rparr>"

text \<open>The countdown is mounted with \<open>initialTimeInSeconds={timeLimit * 60}\<close>.\<close>

definition practice_init :: "practice_config \<Rightarrow> server \<Rightarrow> practice_sys" where
  "practice_init cfg srv =
     \<lparr>pg = page_init, clock = countdown_init (timeLimit cfg * 60), store = srv\<rparr>"

subsection \<open>Handlers\<close>

text \<open>The effect on \<open>[questions]\<close>: one \<open>null\<close> answer and a zero timer per question.\<close>

definition questions_loaded :: "question list \<Rightarrow> page \<Rightarrow> page" where
  "questions_loaded qs p =
     p\<lparr>questionsData := Some qs, isLoadingQuestions := False,
       answers := replicate (length qs) None, questionTimers := replicate (length qs) 0\<rparr>"

text \<open>The page's interval callback: the session timer and, when the current index has a
  timer (\<open>newTimers[i] !== undefined\<close>), that question's timer.\<close>

definition page_tick :: "page \<Rightarrow> page" where
  "page_tick p =
     p\<lparr>timer := Suc (timer p),
       questionTimers :=
         (if currentQuestionIndex p < length (questionTimers p)
          then (questionTimers p)[currentQuestionIndex p := Suc (questionTimers p ! currentQuestionIndex p)]
          else questionTimers p)\<rparr>"

definition handleAnswerSelect :: "js_string \<Rightarrow> page \<Rightarrow> page" where
  "handleAnswerSelect a p = p\<lparr>answers := js_set None (answers p) (currentQuestionIndex p) (Some a)\<rparr>"

definition goToPrevQuestion :: "page \<Rightarrow> page" where
  "goToPrevQuestion p =
     (if 0 < currentQuestionIndex p then p\<lparr>currentQuestionIndex := currentQuestionIndex p - 1\<rparr> else p)"

definition goToNextQuestion :: "page \<Rightarrow> page" where
  "goToNextQuestion p =
     (case questionsData p of
        Some qs \<Rightarrow> if int (currentQuestionIndex p) < int (length qs) - 1
                   then p\<lparr>currentQuestionIndex := Suc (currentQuestionIndex p)\<rparr> else p
      | None \<Rightarrow> p)"

text \<open>\<open>handleSubmitSession\<close>: show the overlay and start the mutation, whose requests
  run against the store with the event's network.\<close>

definition handleSubmitSession :: "practice_config \<Rightarrow> network \<Rightarrow> practice_sys \<Rightarrow> practice_sys" where
  "handleSubmitSession cfg net s =
     (let p = pg s;
          (r, srv) = submit_session net (topicParam cfg) (questionsData p) (answers p)
                       (questionTimers p) (timer p) (store s)
      in s\<lparr>pg := p\<lparr>showSubmitAnimation := True, pendingSubmits := pendingSubmits p @ [r]\<rparr>,
           store := srv\<rparr>)"

text \<open>\<open>onSuccess\<close> marks the session complete and navigates to its results;
  \<open>onError\<close> only shows a toast.\<close>

definition submit_settled :: "page \<Rightarrow> page" where
  "submit_settled p =
     (case pendingSubmits p of
        [] \<Rightarrow> p
      | Inr sid # rest \<Rightarrow> p\<lparr>pendingSubmits := rest, isSessionComplete := True, navigatedTo := Some sid\<rparr>
      | Inl e # rest \<Rightarrow> p\<lparr>pendingSubmits := rest\<rparr>)"

text \<open>A firing of the countdown's interval; when it calls \<open>onTimeUp\<close>, the page sets
  \<open>timeExpired\<close> and submits.\<close>

definition countdown_fired :: "practice_config \<Rightarrow> network \<Rightarrow> practice_sys \<Rightarrow> practice_sys" where
  "countdown_fired cfg net s =
     (let c' = countdown_tick (clock s); s' = s\<lparr>clock := c'\<rparr>
      in if timeUpCalls (clock s) < timeUpCalls c'
         then handleSubmitSession cfg net (s'\<lparr>pg := (pg s')\<lparr>timeExpired := True\<rparr>\<rparr>)
         else s')"

fun practice_step :: "practice_config \<Rightarrow> practice_sys \<Rightarrow> practice_event \<Rightarrow> practice_sys" where
  "practice_step cfg s (QuestionsLoaded qs) = s\<lparr>pg := questions_loaded qs (pg s)\<rparr>"
| "practice_step cfg s QuestionsFailed = s\<lparr>pg := (pg s)\<lparr>isLoadingQuestions := False\<rparr>\<rparr>"
| "practice_step cfg s Tick = s\<lparr>pg := page_tick (pg s)\<rparr>"
| "practice_step cfg s (CountdownTick net) = countdown_fired cfg net s"
| "practice_step cfg s (SelectAnswer a) = s\<lparr>pg := handleAnswerSelect a (pg s)\<rparr>"
| "practice_step cfg s PrevQuestion = s\<lparr>pg := goToPrevQuestion (pg s)\<rparr>"
| "practice_step cfg s NextQuestion = s\<lparr>pg := goToNextQuestion (pg s)\<rparr>"
| "practice_step cfg s (JumpTo i) = s\<lparr>pg := (pg s)\<lparr>currentQuestionIndex := i\<rparr>\<rparr>"
| "practice_step cfg s (SubmitClick net) = handleSubmitSession cfg net s"
| "practice_step cfg s SubmitSettled = s\<lparr>pg := submit_settled (pg s)\<rparr>"

subsection \<open>When an event can happen\<close>

text \<open>The question card is rendered when loading is over and \<open>questions[currentQuestionIndex]\<close>
  exists; its radio group, its Previous/Next buttons and the mobile dots live in it.\<close>

definition card_shown :: "page \<Rightarrow> bool" where
  "card_shown p \<longleftrightarrow> \<not> isLoadingQuestions p \<and>
     (case questionsData p of None \<Rightarrow> False | Some qs \<Rightarrow> currentQuestionIndex p < length qs)"

text \<open>A submit button is rendered with the card (on the last question) or below it (on
  any other question of a non-empty set); the dialog's Submit action is disabled while a
  mutation is pending.\<close>

definition submit_enabled :: "page \<Rightarrow> bool" where
  "submit_enabled p \<longleftrightarrow> card_shown p \<and> pendingSubmits p = []"

text \<open>Nothing happens on the page after it navigated away, except that a mutation already
  started still settles.\<close>

fun practice_enabled :: "practice_config \<Rightarrow> practice_sys \<Rightarrow> practice_event \<Rightarrow> bool" where
  "practice_enabled cfg s (QuestionsLoaded qs) = (navigatedTo (pg s) = None \<and> isLoadingQuestions (pg s))"
| "practice_enabled cfg s QuestionsFailed = (navigatedTo (pg s) = None \<and> isLoadingQuestions (pg s))"
| "practice_enabled cfg s Tick =
     (navigatedTo (pg s) = None \<and> \<not> isLoadingQuestions (pg s) \<and> \<not> isSessionComplete (pg s))"
| "practice_enabled cfg s (CountdownTick net) =
     (navigatedTo (pg s) = None \<and> isTimed cfg \<and> interval_active (clock s))"
| "practice_enabled cfg s (SelectAnswer a) =
     (navigatedTo (pg s) = None \<and> card_shown (pg s) \<and> a \<in> set [''A'', ''B'', ''C'', ''D''])"
| "practice_enabled cfg s PrevQuestion = (navigatedTo (pg s) = None \<and> card_shown (pg s))"
| "practice_enabled cfg s NextQuestion = (navigatedTo (pg s) = None \<and> card_shown (pg s))"
| "practice_enabled cfg s (JumpTo i) =
     (navigatedTo (pg s) = None \<and> card_shown (pg s)
      \<and> (case questionsData (pg s) of None \<Rightarrow> False | Some qs \<Rightarrow> i < length qs))"
| "practice_enabled cfg s (SubmitClick net) = (navigatedTo (pg s) = None \<and> submit_enabled (pg s))"
| "practice_enabled cfg s SubmitSettled = (pendingSubmits (pg s) \<noteq> [])"

inductive practice_reachable :: "practice_config \<Rightarrow> server \<Rightarrow> practice_sys \<Rightarrow> bool" where
  init: "practice_reachable cfg srv (practice_init cfg srv)"
| step: "practice_reachable cfg srv s \<Longrightarrow> practice_enabled cfg s e \<Longrightarrow>
           practice_reachable cfg srv (practice_step cfg s e)"

text \<open>A run of events from a state, skipping none: \<open>None\<close> when an event is not enabled.\<close>

fun practice_run :: "practice_config \<Rightarrow> practice_sys \<Rightarrow> practice_event list \<Rightarrow> practice_sys option" where
  "practice_run cfg s [] = Some s"
| "practice_run cfg s (e # es) =
     (if practice_enabled cfg s e then practice_run cfg (practice_step cfg s e) es else None)"

text \<open>The invariant of the page: while loading nothing has been counted; before questions
  arrive there are no answers and no timers; once a question set is loaded there is one
  answer and one timer per question, the current index is a question's index, the session
  timer is the sum of the question timers, and every answer is \<open>null\<close> or a radio
  value.\<close>

definition page_wf :: "page \<Rightarrow> bool" where
  "page_wf p \<longleftrightarrow>
     (isLoadingQuestions p \<longrightarrow> questionsData p = None \<and> timer p = 0)
     \<and> (questionsData p = None \<longrightarrow> answers p = [] \<and> questionTimers p = [] \<and> currentQuestionIndex p = 0)
     \<and> (\<forall>qs. questionsData p = Some qs \<longrightarrow>
           length (answers p) = length qs \<and> length (questionTimers p) = length qs
           \<and> (qs \<noteq> [] \<longrightarrow> currentQuestionIndex p < length qs \<and> sum_list (questionTimers p) = timer p))
     \<and> set (answers p) \<subseteq> {None, Some ''A'', Some ''B'', Some ''C'', Some ''D''}"

subsection \<open>The invariant is kept\<close>

lemma page_wf_init: "page_wf page_init"
  by (simp add: page_wf_def page_init_def)

lemma sum_list_update_Suc:
  "i < length xs \<Longrightarrow> sum_list (xs[i := Suc (xs ! i)]) = Suc (sum_list xs)"
  by (induction xs arbitrary: i) (auto split: nat.splits)

lemma page_wf_tick: "page_wf p \<Longrightarrow> \<not> isLoadingQuestions p \<Longrightarrow> page_wf (page_tick p)"
  by (auto simp: page_wf_def page_tick_def sum_list_update_Suc)

lemma page_wf_loaded: "page_wf p \<Longrightarrow> isLoadingQuestions p \<Longrightarrow> page_wf (questions_loaded qs p)"
  by (auto simp: page_wf_def questions_loaded_def)

lemma card_shown_index:
  "card_shown p \<Longrightarrow> \<exists>qs. questionsData p = Some qs \<and> currentQuestionIndex p < length qs"
  by (auto simp: card_shown_def split: option.splits)

lemma page_wf_select:
  "page_wf p \<Longrightarrow> card_shown p \<Longrightarrow> a \<in> set [''A'', ''B'', ''C'', ''D''] \<Longrightarrow>
   page_wf (handleAnswerSelect a p)"
  by (auto simp: page_wf_def handleAnswerSelect_def js_set_def card_shown_def
      split: option.splits dest!: set_update_subset_insert [THEN subsetD])

lemma page_wf_prev: "page_wf p \<Longrightarrow> page_wf (goToPrevQuestion p)"
  by (auto simp: page_wf_def goToPrevQuestion_def)

lemma page_wf_next: "page_wf p \<Longrightarrow> page_wf (goToNextQuestion p)"
  by (auto simp: page_wf_def goToNextQuestion_def split: option.splits)

lemma page_wf_jump:
  "page_wf p \<Longrightarrow> questionsData p = Some qs \<Longrightarrow> i < length qs \<Longrightarrow>
   page_wf (p\<lparr>currentQuestionIndex := i\<rparr>)"
  by (auto simp: page_wf_def)

lemma page_wf_submit: "page_wf (pg s) \<Longrightarrow> page_wf (pg (handleSubmitSession cfg net s))"
  by (simp add: page_wf_def handleSubmitSession_def Let_def split: prod.splits)

lemma page_wf_fired: "page_wf (pg s) \<Longrightarrow> page_wf (pg (countdown_fired cfg net s))"
  using page_wf_submit [of "s\<lparr>clock := countdown_tick (clock s), pg := (pg s)\<lparr>timeExpired := True\<rparr>\<rparr>" cfg net]
  by (auto simp: countdown_fired_def Let_def page_wf_def)

lemma page_wf_settled: "page_wf p \<Longrightarrow> page_wf (submit_settled p)"
  by (auto simp: page_wf_def submit_settled_def split: list.splits sum.splits)

lemma page_wf_step:
  assumes wf: "page_wf (pg s)" and en: "practice_enabled cfg s e"
  shows "page_wf (pg (practice_step cfg s e))"
proof (cases e)
  case (QuestionsLoaded qs)
  with wf en show ?thesis by (simp add: page_wf_loaded)
next
  case QuestionsFailed
  with wf en show ?thesis by (simp add: page_wf_def)
next
  case Tick
  with wf en show ?thesis by (simp add: page_wf_tick)
next
  case (CountdownTick net)
  with wf show ?thesis by (simp add: page_wf_fired)
next
  case (SelectAnswer a)
  with wf en show ?thesis by (simp add: page_wf_select)
next
  case PrevQuestion
  with wf show ?thesis by (simp add: page_wf_prev)
next
  case NextQuestion
  with wf show ?thesis by (simp add: page_wf_next)
next
  case (JumpTo i)
  with en obtain qs where "questionsData (pg s) = Some qs" "i < length qs"
    by (auto split: option.splits)
  with wf JumpTo show ?thesis by (simp add: page_wf_jump)
next
  case (SubmitClick net)
  with wf show ?thesis by (simp add: page_wf_submit)
next
  case SubmitSettled
  with wf show ?thesis by (simp add: page_wf_settled)
qed

lemma practice_reachable_wf: "practice_reachable cfg srv s \<Longrightarrow> page_wf (pg s)"
  by (induction rule: practice_reachable.induct)
     (auto simp: practice_init_def page_wf_init intro: page_wf_step)

lemma practice_run_reachable:
  "practice_reachable cfg srv s \<Longrightarrow> practice_run cfg s es = Some t \<Longrightarrow> practice_reachable cfg srv t"
  by (induction es arbitrary: s) (auto split: if_splits intro: practice_reachable.step)

lemma countdown_fired_fires:
  "timeUpCalls (clock s) < timeUpCalls (countdown_tick (clock s)) \<Longrightarrow>
   countdown_fired cfg net s =
     handleSubmitSession cfg net (s\<lparr>clock := countdown_tick (clock s), pg := (pg s)\<lparr>timeExpired := True\<rparr>\<rparr>)"
  by (simp add: countdown_fired_def Let_def)

lemma practice_run_append:
  "practice_run cfg s (xs @ ys) = (case practice_run cfg s xs of None \<Rightarrow> None | Some t \<Rightarrow> practice_run cfg t ys)"
  by (induction xs arbitrary: s) auto

lemma reachable_session_data:
  assumes "practice_reachable cfg srv s" and "questionsData (pg s) = Some qs"
  shows "\<exists>d. session_data (topicParam cfg) qs (answers (pg s)) (timer (pg s)) = Inr d"
proof -
  from practice_reachable_wf [OF assms(1)] assms(2)
  have "length (answers (pg s)) = length qs" by (simp add: page_wf_def)
  then show ?thesis by (auto simp: session_data_def correct_answers_def count_correct_from_eq)
qed

text \<open>A submission whose requests all succeed: the store gains the session under the next
  id and its rows, and the mutation is pending with that id.\<close>

lemma handleSubmitSession_ok:
  assumes "questionsData (pg s) = Some qs"
    and "session_data (topicParam cfg) qs (answers (pg s)) (timer (pg s)) = Inr d" and "\<forall>k. net k"
  shows "handleSubmitSession cfg net s =
    s\<lparr>pg := (pg s)\<lparr>showSubmitAnimation := True, pendingSubmits := pendingSubmits (pg s) @ [Inr (nextId (store s))]\<rparr>,
      store := (store s)\<lparr>sessions := sessions (store s) @ [(nextId (store s), d)],
        sessionQuestions := sessionQuestions (store s) @ session_rows (nextId (store s)) qs (answers (pg s)) (questionTimers (pg s)),
        nextId := Suc (nextId (store s))\<rparr>\<rparr>"
  using submit_session_all_ok [OF _ assms(2), of net "questionTimers (pg s)" "store s"] assms(1,3)
  by (simp add: handleSubmitSession_def Let_def)

text \<open>Before its last second the countdown's firings only count down.\<close>

lemma practice_run_ticks:
  assumes "isTimed cfg" and "navigatedTo (pg s) = None" and "clock s = countdown_init n" and "m < nat n"
  shows "practice_run cfg s (replicate m (CountdownTick net)) = Some (s\<lparr>clock := countdown_run m (countdown_init n)\<rparr>)"
  using assms(4)
proof (induction m)
  case 0
  then show ?case using assms(3) by (simp add: countdown_run_def)
next
  case (Suc m)
  have r: "countdown_run m (countdown_init n) = \<lparr>timeLeft = n - int m, isRunning = True, timeUpCalls = 0\<rparr>"
    using Suc.prems countdown_run_before [of m n] by simp
  have r': "countdown_tick (countdown_run m (countdown_init n)) = \<lparr>timeLeft = n - int (Suc m), isRunning = True, timeUpCalls = 0\<rparr>"
    using Suc.prems countdown_run_before [of "Suc m" n] by (simp add: countdown_run_Suc)
  have "replicate (Suc m) (CountdownTick net) = replicate m (CountdownTick net) @ [CountdownTick net]"
    by (simp add: replicate_append_same)
  moreover have "0 < n - int m" using Suc.prems by simp
  ultimately show ?case
    using Suc assms(1,2) r r'
    by (simp add: practice_run_append countdown_fired_def Let_def interval_active_def countdown_run_Suc)
qed

subsection \<open>Properties of the practice session\<close>

text \<open>C16. In every reachable state of the page with a non-empty question set loaded,
  there is exactly one answer slot and one timer per question, the current index points
  at a question, every answer is \<open>null\<close> or one of \<open>A\<close>--\<open>D\<close>, and the session's
  \<open>timer\<close> equals the sum of the per-question timers: time is tracked per question,
  only for the question on screen.\<close>

theorem practice_session_invariant:
  assumes "practice_reachable cfg srv s" and "questionsData (pg s) = Some qs" and "qs \<noteq> []"
  shows "length (answers (pg s)) = length qs \<and> length (questionTimers (pg s)) = length qs
    \<and> currentQuestionIndex (pg s) < length qs \<and> sum_list (questionTimers (pg s)) = timer (pg s)
    \<and> set (answers (pg s)) \<subseteq> {None, Some ''A'', Some ''B'', Some ''C'', Some ''D''}"
  using practice_reachable_wf [OF assms(1)] assms(2,3) by (simp add: page_wf_def)

theorem practice_session_invariant_witness:
  "timer (pg (practice_step \<lparr>isTimed = False, topicParam = None, timeLimit = 0\<rparr>
      (practice_init \<lparr>isTimed = False, topicParam = None, timeLimit = 0\<rparr>
         \<lparr>sessions = [], sessionQuestions = [], nextId = 1\<rparr>)
      (QuestionsLoaded [\<lparr>q_id = 1, q_correctOption = ''A''\<rparr>]))) = 0"
proof -
  let ?cfg = "\<lparr>isTimed = False, topicParam = None, timeLimit = 0\<rparr>"
  let ?srv = "\<lparr>sessions = [], sessionQuestions = [], nextId = 1\<rparr>"
  let ?s = "practice_step ?cfg (practice_init ?cfg ?srv) (QuestionsLoaded [\<lparr>q_id = 1, q_correctOption = ''A''\<rparr>])"
  have r: "practice_reachable ?cfg ?srv ?s"
    by (rule practice_reachable.step [OF practice_reachable.init])
       (simp add: practice_init_def page_init_def)
  have q: "questionsData (pg ?s) = Some [\<lparr>q_id = 1, q_correctOption = ''A''\<rparr>]"
    by (simp add: practice_init_def questions_loaded_def)
  from practice_session_invariant [OF r q] show ?thesis
    by (simp add: practice_init_def page_init_def questions_loaded_def)
qed

text \<open>Selecting an answer, where the page offers it, overwrites the answer of the
  question on screen and leaves every other answer as it was.\<close>

theorem select_answer_overwrites:
  assumes "practice_reachable cfg srv s" and "practice_enabled cfg s (SelectAnswer a)"
  shows "answers (pg (practice_step cfg s (SelectAnswer a)))
           = (answers (pg s))[currentQuestionIndex (pg s) := Some a]"
proof -
  from assms(2) obtain qs where "questionsData (pg s) = Some qs" "currentQuestionIndex (pg s) < length qs"
    by (auto simp: card_shown_def split: option.splits)
  moreover from practice_reachable_wf [OF assms(1)] this have "length (answers (pg s)) = length qs"
    by (auto simp: page_wf_def)
  ultimately show ?thesis by (simp add: handleAnswerSelect_def js_set_def)
qed

theorem select_answer_overwrites_witness:
  "answers (pg (practice_step \<lparr>isTimed = False, topicParam = None, timeLimit = 0\<rparr>
      (practice_step \<lparr>isTimed = False, topicParam = None, timeLimit = 0\<rparr>
        (practice_init \<lparr>isTimed = False, topicParam = None, timeLimit = 0\<rparr>
           \<lparr>sessions = [], sessionQuestions = [], nextId = 1\<rparr>)
        (QuestionsLoaded [\<lparr>q_id = 1, q_correctOption = ''A''\<rparr>, \<lparr>q_id = 2, q_correctOption = ''B''\<rparr>]))
      (SelectAnswer ''C''))) = [Some ''C'', None]"
proof -
  let ?cfg = "\<lparr>isTimed = False, topicParam = None, timeLimit = 0\<rparr>"
  let ?srv = "\<lparr>sessions = [], sessionQuestions = [], nextId = 1\<rparr>"
  let ?s = "practice_step ?cfg (practice_init ?cfg ?srv)
              (QuestionsLoaded [\<lparr>q_id = 1, q_correctOption = ''A''\<rparr>, \<lparr>q_id = 2, q_correctOption = ''B''\<rparr>])"
  have r: "practice_reachable ?cfg ?srv ?s"
    by (rule practice_reachable.step [OF practice_reachable.init])
       (simp add: practice_init_def page_init_def)
  have e: "practice_enabled ?cfg ?s (SelectAnswer ''C'')"
    by (simp add: practice_init_def page_init_def questions_loaded_def card_shown_def)
  from select_answer_overwrites [OF r e] show ?thesis
    by (simp add: practice_init_def page_init_def questions_loaded_def)
qed

text \<open>C17. When the countdown expires on a loaded, non-empty quiz and the requests
  succeed, the page submits exactly its current state: the server gains the session
  scored from the current answers (unanswered ones \<open>null\<close>, hence incorrect) with the
  page's timer, and one row per question.\<close>

theorem expiry_submits_current_answers:
  assumes "practice_reachable cfg srv s" and "questionsData (pg s) = Some qs" and "qs \<noteq> []"
    and "timeUpCalls (clock s) < timeUpCalls (countdown_tick (clock s))"
    and "\<forall>k. net k"
  shows "\<exists>d. session_data (topicParam cfg) qs (answers (pg s)) (timer (pg s)) = Inr d
    \<and> sessions (store (practice_step cfg s (CountdownTick net))) = sessions (store s) @ [(nextId (store s), d)]
    \<and> sessionQuestions (store (practice_step cfg s (CountdownTick net)))
        = sessionQuestions (store s) @ session_rows (nextId (store s)) qs (answers (pg s)) (questionTimers (pg s))
    \<and> timeExpired (pg (practice_step cfg s (CountdownTick net)))"
proof -
  from practice_reachable_wf [OF assms(1)] assms(2,3)
  have len: "length (answers (pg s)) = length qs" by (simp add: page_wf_def)
  then obtain d where d: "session_data (topicParam cfg) qs (answers (pg s)) (timer (pg s)) = Inr d"
    by (auto simp: session_data_def correct_answers_def count_correct_from_eq)
  have sub: "submit_session net (topicParam cfg) (Some qs) (answers (pg s)) (questionTimers (pg s)) (timer (pg s)) (store s)
    = (Inr (nextId (store s)),
       (store s)\<lparr>sessions := sessions (store s) @ [(nextId (store s), d)],
         sessionQuestions := sessionQuestions (store s) @ session_rows (nextId (store s)) qs (answers (pg s)) (questionTimers (pg s)),
         nextId := Suc (nextId (store s))\<rparr>)"
    using submit_session_all_ok [OF _ d] assms(5) by blast
  show ?thesis
    using d sub assms(2,4)
    by (simp add: countdown_fired_fires handleSubmitSession_def Let_def)
qed

theorem expiry_submits_current_answers_witness:
  "case practice_run \<lparr>isTimed = True, topicParam = None, timeLimit = 1\<rparr>
         (practice_init \<lparr>isTimed = True, topicParam = None, timeLimit = 1\<rparr>
            \<lparr>sessions = [], sessionQuestions = [], nextId = 1\<rparr>)
         (QuestionsLoaded [\<lparr>q_id = 1, q_correctOption = ''A''\<rparr>] # replicate 59 (CountdownTick (\<lambda>_. True)))
   of None \<Rightarrow> False
    | Some s \<Rightarrow> map fst (sessions (store (practice_step \<lparr>isTimed = True, topicParam = None, timeLimit = 1\<rparr>
                  s (CountdownTick (\<lambda>_. True))))) = [1]"
proof -
  let ?cfg = "\<lparr>isTimed = True, topicParam = None, timeLimit = 1\<rparr>"
  let ?srv = "\<lparr>sessions = [], sessionQuestions = [], nextId = 1\<rparr>"
  let ?es = "QuestionsLoaded [\<lparr>q_id = 1, q_correctOption = ''A''\<rparr>] # replicate 59 (CountdownTick (\<lambda>_. True))"
  have c: "case practice_run ?cfg (practice_init ?cfg ?srv) ?es of None \<Rightarrow> False
    | Some s \<Rightarrow> questionsData (pg s) = Some [\<lparr>q_id = 1, q_correctOption = ''A''\<rparr>]
        \<and> timeUpCalls (clock s) < timeUpCalls (countdown_tick (clock s))
        \<and> sessions (store s) = [] \<and> nextId (store s) = 1"
    by code_simp
  then obtain s where run: "practice_run ?cfg (practice_init ?cfg ?srv) ?es = Some s"
    and q: "questionsData (pg s) = Some [\<lparr>q_id = 1, q_correctOption = ''A''\<rparr>]"
    and f: "timeUpCalls (clock s) < timeUpCalls (countdown_tick (clock s))"
    and st: "sessions (store s) = []" "nextId (store s) = 1"
    by (auto split: option.splits)
  have r: "practice_reachable ?cfg ?srv s"
    using practice_run_reachable [OF practice_reachable.init run] .
  have n: "\<forall>k::nat. (\<lambda>_. True) k" by simp
  from expiry_submits_current_answers [OF r q _ f n] st run show ?thesis by auto
qed

text \<open>C18. The countdown is not stopped by a manual submission. A student who submits in
  the last second of a timed quiz, with the countdown firing before the submission has
  settled, starts two mutations for the one attempt, and both succeed: the server stores
  the same session twice, under two consecutive ids (spec: a session is created exactly
  once per completed attempt).\<close>

theorem expiry_race_two_sessions:
  assumes "practice_reachable cfg srv s" and "practice_enabled cfg s (SubmitClick net)"
    and "isTimed cfg" and "isRunning (clock s)" and "timeLeft (clock s) = 1"
    and "\<forall>k. net k" and "\<forall>k. net' k"
  shows "\<exists>d s'. practice_run cfg s [SubmitClick net, CountdownTick net'] = Some s'
    \<and> sessions (store s') = sessions (store s) @ [(nextId (store s), d), (Suc (nextId (store s)), d)]
    \<and> pendingSubmits (pg s') = [Inr (nextId (store s)), Inr (Suc (nextId (store s)))]
    \<and> timeExpired (pg s')"
proof -
  from assms(2) obtain qs where q: "questionsData (pg s) = Some qs"
    and nav: "navigatedTo (pg s) = None" and p: "pendingSubmits (pg s) = []"
    by (auto simp: submit_enabled_def card_shown_def split: option.splits)
  obtain d where d: "session_data (topicParam cfg) qs (answers (pg s)) (timer (pg s)) = Inr d"
    using reachable_session_data [OF assms(1) q] by blast
  let ?s1 = "handleSubmitSession cfg net s"
  have s1: "?s1 = s\<lparr>pg := (pg s)\<lparr>showSubmitAnimation := True, pendingSubmits := pendingSubmits (pg s) @ [Inr (nextId (store s))]\<rparr>,
      store := (store s)\<lparr>sessions := sessions (store s) @ [(nextId (store s), d)],
        sessionQuestions := sessionQuestions (store s) @ session_rows (nextId (store s)) qs (answers (pg s)) (questionTimers (pg s)),
        nextId := Suc (nextId (store s))\<rparr>\<rparr>"
    by (rule handleSubmitSession_ok [OF q d assms(6)])
  have fire: "timeUpCalls (clock ?s1) < timeUpCalls (countdown_tick (clock ?s1))"
    using s1 assms(4,5) by (simp add: countdown_tick_def interval_active_def)
  have en: "practice_enabled cfg ?s1 (CountdownTick net')"
    using s1 nav assms(3,4,5) by (simp add: interval_active_def)
  let ?s2 = "?s1\<lparr>clock := countdown_tick (clock ?s1), pg := (pg ?s1)\<lparr>timeExpired := True\<rparr>\<rparr>"
  have q2: "questionsData (pg ?s2) = Some qs" using s1 q by simp
  have d2: "session_data (topicParam cfg) qs (answers (pg ?s2)) (timer (pg ?s2)) = Inr d" using s1 d by simp
  have "practice_run cfg s [SubmitClick net, CountdownTick net'] = Some (handleSubmitSession cfg net' ?s2)"
    using assms(2) en countdown_fired_fires [OF fire] by simp
  moreover have "sessions (store (handleSubmitSession cfg net' ?s2))
      = sessions (store s) @ [(nextId (store s), d), (Suc (nextId (store s)), d)]
    \<and> pendingSubmits (pg (handleSubmitSession cfg net' ?s2)) = [Inr (nextId (store s)), Inr (Suc (nextId (store s)))]
    \<and> timeExpired (pg (handleSubmitSession cfg net' ?s2))"
    using handleSubmitSession_ok [OF q2 d2 assms(7)] s1 p by simp
  ultimately show ?thesis by blast
qed

theorem expiry_race_two_sessions_witness:
  "case practice_run \<lparr>isTimed = True, topicParam = None, timeLimit = 1\<rparr>
         (practice_init \<lparr>isTimed = True, topicParam = None, timeLimit = 1\<rparr>
            \<lparr>sessions = [], sessionQuestions = [], nextId = 1\<rparr>)
         (QuestionsLoaded [\<lparr>q_id = 1, q_correctOption = ''A''\<rparr>] # replicate 59 (CountdownTick (\<lambda>_. True)))
   of None \<Rightarrow> False
    | Some s \<Rightarrow> (\<exists>d s'. practice_run \<lparr>isTimed = True, topicParam = None, timeLimit = 1\<rparr> s
          [SubmitClick (\<lambda>_. True), CountdownTick (\<lambda>_. True)] = Some s'
        \<and> sessions (store s') = [(1, d), (2, d)])"
proof -
  let ?cfg = "\<lparr>isTimed = True, topicParam = None, timeLimit = 1\<rparr>"
  let ?srv = "\<lparr>sessions = [], sessionQuestions = [], nextId = 1\<rparr>"
  let ?es = "QuestionsLoaded [\<lparr>q_id = 1, q_correctOption = ''A''\<rparr>] # replicate 59 (CountdownTick (\<lambda>_. True))"
  have c: "case practice_run ?cfg (practice_init ?cfg ?srv) ?es of None \<Rightarrow> False
    | Some s \<Rightarrow> practice_enabled ?cfg s (SubmitClick (\<lambda>_. True)) \<and> isRunning (clock s)
        \<and> timeLeft (clock s) = 1 \<and> sessions (store s) = [] \<and> nextId (store s) = 1"
    by code_simp
  then obtain s where run: "practice_run ?cfg (practice_init ?cfg ?srv) ?es = Some s"
    and e: "practice_enabled ?cfg s (SubmitClick (\<lambda>_. True))" and cl: "isRunning (clock s)" "timeLeft (clock s) = 1"
    and st: "sessions (store s) = []" "nextId (store s) = 1"
    by (auto split: option.splits)
  have r: "practice_reachable ?cfg ?srv s"
    using practice_run_reachable [OF practice_reachable.init run] .
  have n: "\<forall>k::nat. (\<lambda>_. True) k" by simp
  from expiry_race_two_sessions [OF r e _ cl n n] obtain d s' where
    r2: "practice_run ?cfg s [SubmitClick (\<lambda>_. True), CountdownTick (\<lambda>_. True)] = Some s'"
    and ss: "sessions (store s') = sessions (store s) @ [(nextId (store s), d), (Suc (nextId (store s)), d)]"
    by auto
  from ss st have "sessions (store s') = [(1, d), (2, d)]" by simp
  with r2 have "\<exists>d s'. practice_run ?cfg s [SubmitClick (\<lambda>_. True), CountdownTick (\<lambda>_. True)] = Some s'
      \<and> sessions (store s') = [(1, d), (2, d)]" by blast
  then show ?thesis by (simp only: run option.case)
qed

text \<open>C19. A timed quiz on a topic without questions still runs its countdown: whatever
  positive time limit, topic and store, when the questions arrive empty and the countdown
  fires its \<open>timeLimit * 60\<close> times, the page submits on expiry and the server stores
  one session with \<open>totalQuestions = 0\<close> and score \<open>NaN\<close>.\<close>

theorem empty_topic_expiry_submits_NaN:
  assumes "isTimed cfg" and "0 < timeLimit cfg" and "\<forall>k. net k"
  shows "\<exists>s d. practice_run cfg (practice_init cfg srv)
            (QuestionsLoaded [] # replicate (nat (timeLimit cfg * 60)) (CountdownTick net)) = Some s
    \<and> sessions (store s) = sessions srv @ [(nextId srv, d)]
    \<and> totalQuestions d = 0 \<and> score d = JNaN \<and> timeExpired (pg s)"
proof -
  let ?n = "timeLimit cfg * 60"
  obtain k where k: "nat ?n = Suc k" using assms(2) by (cases "nat ?n") auto
  let ?s0 = "practice_step cfg (practice_init cfg srv) (QuestionsLoaded [])"
  have e0: "practice_enabled cfg (practice_init cfg srv) (QuestionsLoaded [])"
    by (simp add: practice_init_def page_init_def)
  have t: "practice_run cfg ?s0 (replicate k (CountdownTick net))
      = Some (?s0\<lparr>clock := countdown_run k (countdown_init ?n)\<rparr>)"
    by (rule practice_run_ticks) (simp_all add: assms(1) practice_init_def page_init_def questions_loaded_def k)
  have c: "countdown_run k (countdown_init ?n) = \<lparr>timeLeft = 1, isRunning = True, timeUpCalls = 0\<rparr>"
    using countdown_run_before [of k ?n] k by simp
  let ?s1 = "?s0\<lparr>clock := countdown_run k (countdown_init ?n)\<rparr>"
  obtain d where d: "session_data (topicParam cfg) [] (answers (pg ?s1)) (timer (pg ?s1)) = Inr d"
    by (simp add: practice_init_def page_init_def questions_loaded_def session_data_def correct_answers_def)
  have nan: "totalQuestions d = 0 \<and> score d = JNaN"
    using d empty_session_score_NaN by (simp add: practice_init_def page_init_def questions_loaded_def)
  have fire: "timeUpCalls (clock ?s1) < timeUpCalls (countdown_tick (clock ?s1))"
    using c by (simp add: countdown_tick_def interval_active_def)
  let ?s2 = "?s1\<lparr>clock := countdown_tick (clock ?s1), pg := (pg ?s1)\<lparr>timeExpired := True\<rparr>\<rparr>"
  have q2: "questionsData (pg ?s2) = Some []" by (simp add: practice_init_def questions_loaded_def)
  have d2: "session_data (topicParam cfg) [] (answers (pg ?s2)) (timer (pg ?s2)) = Inr d" using d by simp
  have "replicate (nat ?n) (CountdownTick net) = replicate k (CountdownTick net) @ [CountdownTick net]"
    by (simp add: k replicate_append_same)
  then have "practice_run cfg (practice_init cfg srv) (QuestionsLoaded [] # replicate (nat ?n) (CountdownTick net))
      = Some (handleSubmitSession cfg net ?s2)"
    using e0 t c assms(1) countdown_fired_fires [OF fire]
    by (simp add: practice_run_append interval_active_def practice_init_def page_init_def questions_loaded_def)
  moreover have "sessions (store (handleSubmitSession cfg net ?s2)) = sessions srv @ [(nextId srv, d)]
      \<and> timeExpired (pg (handleSubmitSession cfg net ?s2))"
    using handleSubmitSession_ok [OF q2 d2 assms(3)] by (simp add: practice_init_def)
  ultimately show ?thesis using nan by blast
qed

theorem empty_topic_expiry_submits_NaN_witness:
  "\<exists>s d. practice_run \<lparr>isTimed = True, topicParam = Some ''4'', timeLimit = 2\<rparr>
            (practice_init \<lparr>isTimed = True, topicParam = Some ''4'', timeLimit = 2\<rparr>
               \<lparr>sessions = [], sessionQuestions = [], nextId = 1\<rparr>)
            (QuestionsLoaded [] # replicate 120 (CountdownTick (\<lambda>_. True))) = Some s
    \<and> sessions (store s) = [(1, d)] \<and> totalQuestions d = 0 \<and> score d = JNaN \<and> timeExpired (pg s)"
  using empty_topic_expiry_submits_NaN [of "\<lparr>isTimed = True, topicParam = Some ''4'', timeLimit = 2\<rparr>" "\<lambda>_. True"
      "\<lparr>sessions = [], sessionQuestions = [], nextId = 1\<rparr>"]
  by simp

end
