(* ===== verification/QuizConfig.thy ===== *)
theory QuizConfig
  imports PracticeSession
begin

text \<open>
  The two quiz configuration dialogs and the way the practice page reads what they
  produce. \<open>TimedQuizConfig\<close> (\<open>src/client/src/components/student/timed-quiz-config.tsx\<close>)
  keeps the seconds per question (a slider from 15 to 180 in steps of 15) and the number
  of questions (a select), and navigates to a practice URL whose \<open>timeLimit\<close> is the
  total time rounded up to whole minutes; \<open>PracticeConfig\<close>
  (\<open>src/client/src/components/student/practice-config.tsx\<close>) only sets \<open>count\<close>. The
  practice page reads \<open>timed\<close>, \<open>timeLimit\<close> and \<open>count\<close> with \<open>URLSearchParams\<close> and
  the topic from the route \<open>/practice/:topicId?\<close>. Query values here are digit strings and
  \<open>true\<close>, so percent-encoding is the identity on them and is not modelled.
\<close>

subsection \<open>The timed-quiz dialog\<close>

record timed_config =
  secondsPerQuestion :: nat
  questionCount :: nat

definition timed_config_init :: timed_config where
  "timed_config_init = \<lparr>secondsPerQuestion = 60, questionCount = 10\<rparr>"

text \<open>The values the slider (\<open>min={15} max={180} step={15}\<close>) and the select offer.\<close>

definition slider_values :: "nat list" where
  "slider_values = map (\<lambda>k. 15 * k) [1..<13]"

definition count_options :: "nat list" where
  "count_options = [5, 10, 15, 20, 25, 30, 40, 50, 100, 9999]"

text \<open>The dialog's two handlers: the slider's \<open>onValueChange\<close> sets the seconds per
  question to \<open>value[0]\<close>, the select's sets the count to \<open>parseInt(value)\<close> of the item's
  value. The widgets only emit their own values (\<open>timed_config_enabled\<close>), whose
  \<open>parseInt\<close> is never \<open>NaN\<close>; the \<open>None\<close> branch is therefore never taken.\<close>

datatype timed_config_event = SetTimeLimit nat | SetQuestionCount js_string

fun timed_config_step :: "timed_config_event \<Rightarrow> timed_config \<Rightarrow> timed_config" where
  "timed_config_step (SetTimeLimit v) c = c\<lparr>secondsPerQuestion := v\<rparr>"
| "timed_config_step (SetQuestionCount v) c =
     (case parse_int_noradix v of Some n \<Rightarrow> c\<lparr>questionCount := nat n\<rparr> | None \<Rightarrow> c)"

fun timed_config_enabled :: "timed_config_event \<Rightarrow> bool" where
  "timed_config_enabled (SetTimeLimit v) \<longleftrightarrow> v \<in> set slider_values"
| "timed_config_enabled (SetQuestionCount v) \<longleftrightarrow> v \<in> set (map show_nat count_options)"

inductive timed_config_reachable :: "timed_config \<Rightarrow> bool" where
  init: "timed_config_reachable timed_config_init"
| step: "timed_config_reachable c \<Longrightarrow> timed_config_enabled e \<Longrightarrow>
         timed_config_reachable (timed_config_step e c)"

definition timed_config_wf :: "timed_config \<Rightarrow> bool" where
  "timed_config_wf c \<longleftrightarrow> secondsPerQuestion c \<in> set slider_values \<and> questionCount c \<in> set count_options"

definition totalTime :: "timed_config \<Rightarrow> nat" where
  "totalTime c = secondsPerQuestion c * questionCount c"

text \<open>\<open>Math.ceil(totalTime / 60)\<close>.\<close>

definition timeLimitInMinutes :: "timed_config \<Rightarrow> int" where
  "timeLimitInMinutes c = ceiling (rat_of_nat (totalTime c) / 60)"

text \<open>\<open>startTimedQuiz\<close>: the path it navigates to (\<open>topicId\<close> is tested for truthiness).\<close>

definition startTimedQuiz :: "js_string option \<Rightarrow> timed_config \<Rightarrow> js_string" where
  "startTimedQuiz tid c =
     (let params = ''timed=true&timeLimit='' @ show_nat (nat (timeLimitInMinutes c))
                   @ ''&count='' @ show_nat (questionCount c)
      in if truthy tid then ''/practice/'' @ the tid @ ''?'' @ params
         else ''/practice?'' @ params)"

subsection \<open>The untimed dialog\<close>

definition startPractice :: "js_string option \<Rightarrow> js_string \<Rightarrow> js_string" where
  "startPractice tid questionCountValue =
     (if truthy tid then ''/practice/'' @ the tid @ ''?count='' @ questionCountValue
      else ''/practice?count='' @ questionCountValue)"

subsection \<open>Reading the URL on the practice page\<close>

text \<open>A URL as the router sees it: the path before the first \<open>?\<close>, the search after it.\<close>

definition url_path :: "js_string \<Rightarrow> js_string" where
  "url_path u = takeWhile (\<lambda>c. c \<noteq> CHR ''?'') u"

definition url_search :: "js_string \<Rightarrow> js_string" where
  "url_search u = drop 1 (dropWhile (\<lambda>c. c \<noteq> CHR ''?'') u)"

text \<open>\<open>new URLSearchParams(search).get(name)\<close>: the value of the first pair with that
  name; a pair without \<open>=\<close> has the empty value.\<close>

definition query_pairs :: "js_string \<Rightarrow> (js_string \<times> js_string) list" where
  "query_pairs search =
     map (\<lambda>kv. (takeWhile (\<lambda>c. c \<noteq> CHR ''='') kv, drop 1 (dropWhile (\<lambda>c. c \<noteq> CHR ''='') kv)))
       (filter (\<lambda>kv. kv \<noteq> []) (split_on CHR ''&'' search))"

definition search_get :: "js_string \<Rightarrow> js_string \<Rightarrow> js_string option" where
  "search_get search name = map_of (query_pairs search) name"

text \<open>The route \<open>/practice/:topicId?\<close>.\<close>

definition route_topic :: "js_string \<Rightarrow> js_string option" where
  "route_topic path =
     (if starts_with ''/practice/'' path \<and> drop 10 path \<noteq> [] then Some (drop 10 path) else None)"

text \<open>\<open>get(name) || default\<close>: a missing or empty value falls back to the default.\<close>

definition param_or :: "js_string option \<Rightarrow> js_string \<Rightarrow> js_string" where
  "param_or v d = (case v of None \<Rightarrow> d | Some s \<Rightarrow> if s = [] then d else s)"

text \<open>The configuration the page derives from its URL (lines reading \<open>isTimed\<close>,
  \<open>timeLimit\<close> and \<open>questionCount\<close>), \<open>None\<close> when \<open>timeLimit\<close> is \<open>NaN\<close>.\<close>

definition page_params :: "js_string \<Rightarrow> (practice_config \<times> int option) option" where
  "page_params u =
     (let s = url_search u
      in case parse_int (param_or (search_get s ''timeLimit'') ''0'') of
           None \<Rightarrow> None
         | Some tlim \<Rightarrow>
             Some (\<lparr>isTimed = (search_get s ''timed'' = Some ''true''),
                    topicParam = route_topic (url_path u), timeLimit = tlim\<rparr>,
                   parse_int (param_or (search_get s ''count'') ''10'')))"

subsection \<open>Lemmas: reading back what the dialogs write\<close>

lemma timeLimitInMinutes_eq: "timeLimitInMinutes c = int ((totalTime c + 59) div 60)"
  by (simp add: timeLimitInMinutes_def ceiling_div_60)

lemma url_parts:
  "CHR ''?'' \<notin> set p \<Longrightarrow> url_path (p @ CHR ''?'' # q) = p \<and> url_search (p @ CHR ''?'' # q) = q"
  by (simp add: url_path_def url_search_def takeWhile_append dropWhile_append)

lemma query_pairs_timed:
  assumes "\<forall>c \<in> set m. is_digit c" "\<forall>c \<in> set k. is_digit c"
  shows "query_pairs (''timed=true&timeLimit='' @ m @ ''&count='' @ k)
           = [(''timed'', ''true''), (''timeLimit'', m), (''count'', k)]"
proof -
  have "CHR ''&'' \<notin> set m" "CHR ''&'' \<notin> set k" "CHR ''='' \<notin> set m" "CHR ''='' \<notin> set k"
    using assms by (auto simp: is_digit_def)
  moreover have "''timed=true&timeLimit='' @ m @ ''&count='' @ k
        = ''timed=true'' @ CHR ''&'' # (''timeLimit='' @ m) @ CHR ''&'' # (''count='' @ k)" by simp
  ultimately show ?thesis
    by (simp add: query_pairs_def split_on_append_sep split_on_no_sep dropWhile_eq_self_iff)
qed

lemma query_pairs_count:
  assumes "\<forall>c \<in> set k. is_digit c"
  shows "query_pairs (''count='' @ k) = [(''count'', k)]"
proof -
  have "CHR ''&'' \<notin> set k" "CHR ''='' \<notin> set k" using assms by (auto simp: is_digit_def)
  then show ?thesis by (simp add: query_pairs_def split_on_no_sep dropWhile_eq_self_iff)
qed

text \<open>The path part of both dialogs' URLs, for a topic id written by \<open>topic.id.toString()\<close>
  on the dashboard, or no topic.\<close>

lemma dialog_path:
  "(if truthy (map_option show_nat t) then ''/practice/'' @ the (map_option show_nat t) @ ''?'' @ q
    else ''/practice?'' @ q)
   = (case t of None \<Rightarrow> ''/practice'' | Some k \<Rightarrow> ''/practice/'' @ show_nat k) @ CHR ''?'' # q"
  by (cases t) (simp_all add: truthy_def)

lemma route_dialog_path:
  "route_topic (case t of None \<Rightarrow> ''/practice'' | Some k \<Rightarrow> ''/practice/'' @ show_nat k)
     = map_option show_nat t"
  "CHR ''?'' \<notin> set (case t of None \<Rightarrow> ''/practice'' | Some k \<Rightarrow> ''/practice/'' @ show_nat k)"
  by (cases t; simp add: route_topic_def is_digit_def js_simps)+

lemma page_params_dialog:
  assumes "query_pairs q = [(''timed'', tv), (''timeLimit'', show_nat m), (''count'', show_nat k)]"
  shows "page_params ((case t of None \<Rightarrow> ''/practice'' | Some j \<Rightarrow> ''/practice/'' @ show_nat j) @ CHR ''?'' # q)
     = Some (\<lparr>isTimed = (tv = ''true''), topicParam = map_option show_nat t, timeLimit = int m\<rparr>, Some (int k))"
  using assms by (simp add: page_params_def url_parts route_dialog_path search_get_def param_or_def js_simps)

lemma page_params_practice:
  assumes "query_pairs q = [(''count'', show_nat k)]"
  shows "page_params ((case t of None \<Rightarrow> ''/practice'' | Some j \<Rightarrow> ''/practice/'' @ show_nat j) @ CHR ''?'' # q)
     = Some (\<lparr>isTimed = False, topicParam = map_option show_nat t, timeLimit = 0\<rparr>, Some (int k))"
  using assms by (simp add: page_params_def url_parts route_dialog_path search_get_def param_or_def js_simps)

lemma page_params_practice_url:
  "page_params (startPractice (map_option show_nat t) (show_nat n))
     = Some (\<lparr>isTimed = False, topicParam = map_option show_nat t, timeLimit = 0\<rparr>, Some (int n))"
proof -
  define q where "q = ''count='' @ show_nat n"
  have "startPractice (map_option show_nat t) (show_nat n)
      = (case t of None \<Rightarrow> ''/practice'' | Some j \<Rightarrow> ''/practice/'' @ show_nat j) @ CHR ''?'' # q"
    by (cases t) (simp_all add: startPractice_def truthy_def q_def)
  moreover have "query_pairs q = [(''count'', show_nat n)]"
    unfolding q_def by (rule query_pairs_count) (simp add: show_nat_digits)
  ultimately show ?thesis by (simp add: page_params_practice)
qed

lemma page_params_timed:
  "page_params (startTimedQuiz (map_option show_nat t) c)
     = Some (\<lparr>isTimed = True, topicParam = map_option show_nat t, timeLimit = timeLimitInMinutes c\<rparr>,
             Some (int (questionCount c)))"
proof -
  define q where "q = ''timed=true&timeLimit='' @ show_nat (nat (timeLimitInMinutes c))
                      @ ''&count='' @ show_nat (questionCount c)"
  have "startTimedQuiz (map_option show_nat t) c
      = (case t of None \<Rightarrow> ''/practice'' | Some j \<Rightarrow> ''/practice/'' @ show_nat j) @ CHR ''?'' # q"
    unfolding startTimedQuiz_def Let_def dialog_path q_def ..
  moreover have "query_pairs q = [(''timed'', ''true''), (''timeLimit'', show_nat (nat (timeLimitInMinutes c))),
                                  (''count'', show_nat (questionCount c))]"
    unfolding q_def by (rule query_pairs_timed) (simp_all add: show_nat_digits)
  moreover have "0 \<le> timeLimitInMinutes c" by (simp add: timeLimitInMinutes_eq)
  ultimately show ?thesis by (simp add: page_params_dialog)
qed

lemma timed_config_wf_reachable: "timed_config_reachable c \<Longrightarrow> timed_config_wf c"
proof (induction rule: timed_config_reachable.induct)
  case init
  then show ?case by (simp add: timed_config_wf_def timed_config_init_def slider_values_def count_options_def)
next
  case (step c e)
  then show ?case
    by (cases e) (auto simp: timed_config_wf_def js_simps)
qed

lemma totalTime_wf: "timed_config_wf c \<Longrightarrow> 75 \<le> totalTime c"
proof -
  assume "timed_config_wf c"
  then have "15 \<le> secondsPerQuestion c" "5 \<le> questionCount c"
    by (auto simp: timed_config_wf_def slider_values_def count_options_def)
  then show ?thesis unfolding totalTime_def using mult_le_mono [of 15 _ 5] by fastforce
qed

subsection \<open>Properties of the configuration dialogs\<close>

text \<open>C20. The timed-quiz dialog and the practice page agree on the URL: for a topic chosen
  on the dashboard (or none), the page reads back timed mode, the same topic, the
  dialog's \<open>timeLimitInMinutes\<close> and its question count.\<close>

theorem timed_quiz_url_roundtrip:
  "page_params (startTimedQuiz (map_option show_nat t) c)
     = Some (\<lparr>isTimed = True, topicParam = map_option show_nat t, timeLimit = timeLimitInMinutes c\<rparr>,
             Some (int (questionCount c)))"
  by (rule page_params_timed)

text \<open>C21. The countdown the page starts from the dialog's URL allots at least the
  configured total time and less than one minute more: rounding up to whole minutes never
  shortens the quiz.\<close>

theorem allotted_time_bounds:
  "case page_params (startTimedQuiz (map_option show_nat t) c) of
     None \<Rightarrow> False
   | Some (cfg, _) \<Rightarrow> int (totalTime c) \<le> timeLeft (clock (practice_init cfg srv))
                      \<and> timeLeft (clock (practice_init cfg srv)) < int (totalTime c) + 60"
proof -
  have "totalTime c \<le> (totalTime c + 59) div 60 * 60" "(totalTime c + 59) div 60 * 60 < totalTime c + 60"
    by linarith+
  then show ?thesis
    by (simp add: page_params_timed practice_init_def countdown_init_def timeLimitInMinutes_eq)
qed

text \<open>The allotted time equals the configured total (seconds per question times the
  number of questions) exactly when the total is a whole number of minutes; otherwise the
  page allots more.\<close>

theorem allotted_time_exact_iff:
  "case page_params (startTimedQuiz (map_option show_nat t) c) of
     None \<Rightarrow> False
   | Some (cfg, _) \<Rightarrow> (timeLeft (clock (practice_init cfg srv)) = int (totalTime c) \<longleftrightarrow> 60 dvd totalTime c)"
proof -
  have "(totalTime c + 59) div 60 * 60 = totalTime c \<longleftrightarrow> 60 dvd totalTime c" by presburger
  then have "int ((totalTime c + 59) div 60) * 60 = int (totalTime c) \<longleftrightarrow> 60 dvd totalTime c"
    by linarith
  then show ?thesis
    by (simp add: page_params_timed practice_init_def countdown_init_def timeLimitInMinutes_eq)
qed

text \<open>The untimed dialog and the practice page agree on the URL: the page reads back
  untimed mode, the topic, a time limit of 0 and the selected count.\<close>

theorem practice_url_roundtrip:
  "page_params (startPractice (map_option show_nat t) (show_nat n))
     = Some (\<lparr>isTimed = False, topicParam = map_option show_nat t, timeLimit = 0\<rparr>, Some (int n))"
  by (rule page_params_practice_url)

text \<open>C22. Whatever the student sets in the timed dialog, the page's countdown is started
  with a positive time, so it calls \<open>onTimeUp\<close> exactly once, after
  \<open>60 * timeLimitInMinutes\<close> firings and never before (contrast \<open>countdown_never_fires_nonpositive\<close>).\<close>

theorem timed_quiz_countdown_fires:
  assumes "timed_config_reachable c"
  shows "case page_params (startTimedQuiz (map_option show_nat t) c) of
           None \<Rightarrow> False
         | Some (cfg, _) \<Rightarrow> timeUpCalls (countdown_run m (clock (practice_init cfg srv)))
                             = (if m < 60 * nat (timeLimitInMinutes c) then 0 else 1)"
proof -
  have "75 \<le> totalTime c" using totalTime_wf [OF timed_config_wf_reachable [OF assms]] .
  then have pos: "0 < timeLimitInMinutes c * 60" by (simp add: timeLimitInMinutes_eq)
  have "nat (timeLimitInMinutes c * 60) = 60 * nat (timeLimitInMinutes c)" by (simp add: nat_mult_distrib)
  with pos show ?thesis
    by (simp add: page_params_timed practice_init_def countdown_run_before countdown_run_after)
qed

theorem timed_quiz_countdown_fires_witness:
  "timeUpCalls (countdown_run 599 (countdown_init 600)) = 0
   \<and> timeUpCalls (countdown_run 600 (countdown_init 600)) = 1"
proof -
  have r: "timed_config_reachable timed_config_init" by (rule timed_config_reachable.init)
  have m: "timeLimitInMinutes timed_config_init = 10"
    by (simp add: timeLimitInMinutes_eq totalTime_def timed_config_init_def)
  have p: "page_params (startTimedQuiz None timed_config_init)
      = Some (\<lparr>isTimed = True, topicParam = None, timeLimit = 10\<rparr>, Some 10)"
    using page_params_timed [of None timed_config_init] by (simp add: m, simp add: timed_config_init_def)
  have "\<And>k. timeUpCalls (countdown_run k (countdown_init 600)) = (if k < 600 then 0 else 1)"
    using timed_quiz_countdown_fires [OF r, where t = None] by (simp add: p practice_init_def m)
  then show ?thesis by simp
qed

end
