(* ===== verification/Results.thy ===== *)
theory Results
  imports Submission Countdown
begin

text \<open>
  The results page a student lands on after a submission
  (\<open>src/client/src/pages/results/[id].tsx\<close>, route \<open>/results/:id\<close>). It fetches the
  session and its question rows joined with the questions, shows a loading animation,
  an error card, or the summary: grade and colour from the score, the correct count over
  the total, a progress bar, time spent and average time per question, the topic label,
  and the rows split into correct and incorrect answers. The two reads of the server
  (\<open>GET /api/sessions/:id\<close> and \<open>GET /api/sessions/:id/questions\<close>) are modelled from
  spec section 6 over the \<open>server\<close> store of \<open>Submission\<close>, against a question bank.
\<close>

subsection \<open>What the page fetches\<close>

text \<open>A question as the join returns it (the \<open>Question\<close> type of the shared schema): the
  fields the scorer reads, and the ones the results page prints.\<close>

record full_question = question +
  q_text :: js_string
  q_optionA :: js_string
  q_optionB :: js_string
  q_optionC :: js_string
  q_optionD :: js_string
  q_explanation :: "js_string option"
  q_topicId :: "int option"
  q_subtopic :: "js_string option"

type_synonym question_bank = "nat \<Rightarrow> full_question option"

text \<open>One element of \<open>SessionQuestion & { question: Question }\<close>; the stored
  \<open>selectedOption\<close> is \<open>null\<close> when no answer was sent.\<close>

record session_question_row =
  sqr_id :: nat
  sqr_selectedOption :: "js_string option"
  sqr_isCorrect :: bool
  sqr_timeSpent :: "nat option"
  sqr_question :: full_question

definition get_session :: "server \<Rightarrow> nat \<Rightarrow> session_insert option" where
  "get_session s sid = map_of (sessions s) sid"

definition stored_row :: "nat \<Rightarrow> session_question_insert \<Rightarrow> full_question \<Rightarrow> session_question_row" where
  "stored_row i r q =
     \<lparr>sqr_id = i, sqr_selectedOption = (case selectedOption r of Some (Some a) \<Rightarrow> Some a | _ \<Rightarrow> None),
      sqr_isCorrect = isCorrect r, sqr_timeSpent = sq_timeSpent r, sqr_question = q\<rparr>"

text \<open>The rows of one session in insertion order, each joined with its question (a row
  whose question is gone from the bank is dropped, as by an inner join).\<close>

definition get_session_questions :: "question_bank \<Rightarrow> server \<Rightarrow> nat \<Rightarrow> session_question_row list" where
  "get_session_questions bank s sid =
     concat (map (\<lambda>(i, r). if sessionId r = sid
                            then (case bank (questionId r) of None \<Rightarrow> [] | Some q \<Rightarrow> [stored_row i r q])
                            else [])
                 (enumerate 0 (sessionQuestions s)))"

subsection \<open>Derived values\<close>

text \<open>\<open>formatTime\<close> of this page: \<open>${mins}:${secs < 10 ? '0' : ''}${secs}\<close>.\<close>

definition results_formatTime :: "nat \<Rightarrow> js_string" where
  "results_formatTime seconds =
     show_nat (seconds div 60) @ CHR '':'' # (if seconds mod 60 < 10 then ''0'' else []) @ show_nat (seconds mod 60)"

text \<open>\<open>scoreGrade\<close> and \<open>scoreColor\<close>: the thresholds 90, 80, 70, 60 in order.\<close>

definition scoreGrade :: "js_number \<Rightarrow> js_string" where
  "scoreGrade sc =
     (if js_ge sc 90 then ''Excellent'' else if js_ge sc 80 then ''Very Good''
      else if js_ge sc 70 then ''Good'' else if js_ge sc 60 then ''Satisfactory''
      else ''Needs Improvement'')"

definition scoreColor :: "js_number \<Rightarrow> js_string" where
  "scoreColor sc =
     (if js_ge sc 90 then ''bg-green-600'' else if js_ge sc 80 then ''bg-green-500''
      else if js_ge sc 70 then ''bg-yellow-500'' else if js_ge sc 60 then ''bg-yellow-600''
      else ''bg-red-500'')"

text \<open>The text of the option a letter names (the \<open>if/else if\<close> chain; no match leaves
  the empty string).\<close>

definition option_text :: "js_string option \<Rightarrow> full_question \<Rightarrow> js_string" where
  "option_text sel q =
     (if sel = Some ''A'' then q_optionA q else if sel = Some ''B'' then q_optionB q
      else if sel = Some ''C'' then q_optionC q else if sel = Some ''D'' then q_optionD q else [])"

definition or_none :: "js_string \<Rightarrow> js_string" where
  "or_none t = (if t = [] then ''None'' else t)"

text \<open>A list entry of the correct answers and one of the incorrect answers.\<close>

record correct_item =
  ci_text :: js_string
  ci_selected :: "js_string option"
  ci_selectedText :: js_string
  ci_time :: js_string

record incorrect_item =
  ii_text :: js_string
  ii_selected :: "js_string option"
  ii_selectedText :: js_string
  ii_correct :: js_string
  ii_correctText :: js_string
  ii_explanation :: "js_string option"

definition correct_entry :: "session_question_row \<Rightarrow> correct_item" where
  "correct_entry sq =
     \<lparr>ci_text = q_text (sqr_question sq), ci_selected = sqr_selectedOption sq,
      ci_selectedText = or_none (option_text (sqr_selectedOption sq) (sqr_question sq)),
      ci_time = results_formatTime (case sqr_timeSpent sq of None \<Rightarrow> 0 | Some t \<Rightarrow> t)\<rparr>"

definition incorrect_entry :: "session_question_row \<Rightarrow> incorrect_item" where
  "incorrect_entry sq =
     (let q = sqr_question sq
      in \<lparr>ii_text = q_text q, ii_selected = sqr_selectedOption sq,
          ii_selectedText = or_none (option_text (sqr_selectedOption sq) q),
          ii_correct = q_correctOption q, ii_correctText = option_text (Some (q_correctOption q)) q,
          ii_explanation = (if truthy (q_explanation q) then q_explanation q else None)\<rparr>)"

text \<open>Everything the summary card and the two lists show once the data is there.\<close>

record results_summary =
  grade :: js_string
  gradeColor :: js_string
  scoreShown :: js_number
  correctShown :: nat
  totalShown :: nat
  progressValue :: rat
  timeText :: js_string
  avgText :: js_string
  topicLabel :: js_string
  practiceAgainHref :: js_string
  correctBadge :: "nat \<times> nat"
  incorrectBadge :: "nat \<times> nat"
  correctItems :: "correct_item list"
  incorrectItems :: "incorrect_item list"

datatype results_screen =
    ResultsLoading nat
  | ResultsError js_string
  | ResultsShown results_summary

text \<open>The summary: \<open>session?.x || 0\<close> reads 0 without a session; the average is
  \<open>Math.round(timeSpent / (totalQuestions || 1))\<close>; the topic card reads the first
  row's question.\<close>

definition topic_label :: "session_insert option \<Rightarrow> session_question_row list option \<Rightarrow> js_string" where
  "topic_label session sqs =
     (if truthy_int (case session of None \<Rightarrow> None | Some s \<Rightarrow> topicId s)
      then (case sqs of
              Some (r # _) \<Rightarrow>
                if truthy_int (q_topicId (sqr_question r))
                then (if truthy (q_subtopic (sqr_question r)) then the (q_subtopic (sqr_question r))
                      else ''Specific Topic'')
                else ''General Practice''
            | _ \<Rightarrow> ''General Practice'')
      else ''Mixed Topics'')"

definition practice_again_href :: "session_insert option \<Rightarrow> js_string" where
  "practice_again_href session =
     (case session of
        Some s \<Rightarrow> if truthy_int (topicId s) then ''/practice/'' @ show_int (the (topicId s)) else ''/practice''
      | None \<Rightarrow> ''/practice'')"

definition results_summary_of :: "session_insert option \<Rightarrow> session_question_row list option \<Rightarrow> results_summary" where
  "results_summary_of session sqs =
     (let rows = (case sqs of None \<Rightarrow> [] | Some r \<Rightarrow> r);
          correct = (case session of None \<Rightarrow> 0 | Some s \<Rightarrow> correctAnswers s);
          total = (case session of None \<Rightarrow> 0 | Some s \<Rightarrow> totalQuestions s);
          spent = (case session of None \<Rightarrow> 0 | Some s \<Rightarrow> timeSpent s);
          divisor = (if total = 0 then 1 else total);
          correctQuestions = filter sqr_isCorrect rows;
          incorrectQuestions = filter (\<lambda>sq. \<not> sqr_isCorrect sq) rows
      in \<lparr>grade = (case session of None \<Rightarrow> [] | Some s \<Rightarrow> scoreGrade (score s)),
          gradeColor = (case session of None \<Rightarrow> [] | Some s \<Rightarrow> scoreColor (score s)),
          scoreShown = js_round (case session of None \<Rightarrow> JNum 0 | Some s \<Rightarrow> js_or0 (score s)),
          correctShown = correct, totalShown = total,
          progressValue = of_nat correct / of_nat divisor * 100,
          timeText = results_formatTime spent,
          avgText = results_formatTime (nat (floor (of_nat spent / of_nat divisor + (1 / 2 :: rat)))),
          topicLabel = topic_label session sqs,
          practiceAgainHref = practice_again_href session,
          correctBadge = (length correctQuestions, length rows),
          incorrectBadge = (length incorrectQuestions, length rows),
          correctItems = map correct_entry correctQuestions,
          incorrectItems = map incorrect_entry incorrectQuestions\<rparr>)"

text \<open>The three early returns of the component: loading (the animation's progress is 30,
  70 or 95), the error card (the first non-empty error message), the results.\<close>

definition results_view ::
  "bool \<Rightarrow> bool \<Rightarrow> bool \<Rightarrow> js_string option \<Rightarrow> js_string option
   \<Rightarrow> session_insert option \<Rightarrow> session_question_row list option \<Rightarrow> results_screen" where
  "results_view sessionLoading questionsLoading showAnimation sessionError questionsError session sqs =
     (if (sessionLoading \<or> questionsLoading \<or> showAnimation) \<and> sessionError = None \<and> questionsError = None
      then ResultsLoading (if sessionLoading then 30 else if questionsLoading then 70 else 95)
      else if sessionError \<noteq> None \<or> questionsError \<noteq> None
      then ResultsError (if truthy sessionError then the sessionError
                         else if truthy questionsError then the questionsError
                         else ''Unknown error occurred'')
      else ResultsShown (results_summary_of session sqs))"

text \<open>The effect that ends the animation: it arms its 1.5 s timer only once neither query
  is loading and both have data.\<close>

definition animation_timer_armed ::
  "bool \<Rightarrow> bool \<Rightarrow> session_insert option \<Rightarrow> session_question_row list option \<Rightarrow> bool" where
  "animation_timer_armed sessionLoading questionsLoading session sqs \<longleftrightarrow>
     \<not> sessionLoading \<and> \<not> questionsLoading \<and> session \<noteq> None \<and> sqs \<noteq> None"

text \<open>The grade ladder from the lowest to the highest grade, and the colour the page
  pairs with each grade: the reference the properties compare \<open>scoreGrade\<close> and
  \<open>scoreColor\<close> against.\<close>

definition grade_ladder :: "js_string list" where
  "grade_ladder = [''Needs Improvement'', ''Satisfactory'', ''Good'', ''Very Good'', ''Excellent'']"

definition grade_rank :: "js_string \<Rightarrow> nat" where
  "grade_rank g = length (takeWhile (\<lambda>x. x \<noteq> g) grade_ladder)"

definition colour_ladder :: "js_string list" where
  "colour_ladder = [''bg-red-500'', ''bg-yellow-600'', ''bg-yellow-500'', ''bg-green-500'', ''bg-green-600'']"

subsection \<open>Lemmas: the rows the page reads back\<close>

lemma join_rows_append:
  "concat (map f (enumerate n (xs @ ys))) = concat (map f (enumerate n xs)) @ concat (map f (enumerate (n + length xs) ys))"
  by (simp add: enumerate_append_eq)

lemma join_rows_other:
  "\<forall>r \<in> set xs. sessionId r \<noteq> sid \<Longrightarrow>
   concat (map (\<lambda>(i, r). if sessionId r = sid then (case bank (questionId r) of None \<Rightarrow> [] | Some q \<Rightarrow> [stored_row i r q]) else [])
      (enumerate n xs)) = []"
  by (induction xs arbitrary: n) simp_all

lemma join_rows_own:
  "\<forall>r \<in> set xs. sessionId r = sid \<and> bank (questionId r) \<noteq> None \<Longrightarrow>
   map sqr_isCorrect (concat (map (\<lambda>(i, r). if sessionId r = sid then (case bank (questionId r) of None \<Rightarrow> [] | Some q \<Rightarrow> [stored_row i r q]) else [])
      (enumerate n xs))) = map isCorrect xs"
  by (induction xs arbitrary: n) (auto simp: stored_row_def)

text \<open>After a successful submission the page reads back the new session and exactly its
  rows, in question order.\<close>

lemma results_read_back:
  assumes "server_fresh s"
    and "\<forall>q \<in> set qs. bank (q_id q) \<noteq> None"
    and "submit_session net topic (Some qs) answers questionTimers timer s = (Inr sid, s')"
  shows "\<exists>d. session_data topic qs answers timer = Inr d \<and> get_session s' sid = Some d \<and>
           map sqr_isCorrect (get_session_questions bank s' sid)
             = map isCorrect (session_rows sid qs answers questionTimers)"
proof -
  obtain d where d: "session_data topic qs answers timer = Inr d" and sid: "sid = nextId s"
    and s': "s' = s\<lparr>sessions := sessions s @ [(sid, d)],
                 sessionQuestions := sessionQuestions s @ session_rows sid qs answers questionTimers,
                 nextId := Suc sid\<rparr>"
    using submit_session_Inr [OF assms(3)] by blast
  have "sid \<notin> fst ` set (sessions s)" "\<forall>r \<in> set (sessionQuestions s). sessionId r \<noteq> sid"
    using assms(1) sid by (fastforce simp: server_fresh_def)+
  moreover from this(1) have "map_of (sessions s) sid = None" by (simp add: map_of_eq_None_iff)
  moreover have "\<forall>r \<in> set (session_rows sid qs answers questionTimers). sessionId r = sid \<and> bank (questionId r) \<noteq> None"
    using assms(2) by (auto simp: session_rows_def session_question_data_def Let_def)
  ultimately show ?thesis
    using d s' by (simp add: get_session_def get_session_questions_def map_add_def
        join_rows_append join_rows_other join_rows_own)
qed

lemma length_filter_map: "length (filter id (map f xs)) = length (filter f xs)"
  by (induction xs) simp_all

subsection \<open>Properties of the results page\<close>

text \<open>C23. The results page shows what the practice page submitted: after a successful
  submission, once both reads have returned, the page shows the results whose correct
  count equals the number of entries in its correct-answers list, whose total is the
  number of questions, whose two lists hold one entry per question, and whose grade is that
  of the score the scorer computed.\<close>

theorem results_show_submission:
  assumes "server_fresh s" and "length answers = length qs"
    and "\<forall>q \<in> set qs. bank (q_id q) \<noteq> None"
    and "submit_session net topic (Some qs) answers questionTimers timer s = (Inr sid, s')"
  shows "case results_view False False False None None (get_session s' sid) (Some (get_session_questions bank s' sid)) of
           ResultsShown v \<Rightarrow> correctShown v = length (correctItems v) \<and> totalShown v = length qs
                           \<and> length (correctItems v) + length (incorrectItems v) = length qs
                           \<and> grade v = scoreGrade (session_score (correctShown v) (length qs))
         | _ \<Rightarrow> False"
proof -
  let ?rows = "get_session_questions bank s' sid" and ?srows = "session_rows sid qs answers questionTimers"
  obtain d where d: "session_data topic qs answers timer = Inr d" and g: "get_session s' sid = Some d"
    and m: "map sqr_isCorrect ?rows = map isCorrect ?srows"
    using results_read_back [OF assms(1,3,4)] by blast
  from d obtain c where c: "correct_answers answers qs = Inr c" and dc: "correctAnswers d = c"
    and dt: "totalQuestions d = length qs" and ds: "score d = session_score c (length qs)"
    by (auto simp: session_data_def split: sum.splits)
  have "c = length (filter isCorrect ?srows)"
    using c count_rows [OF assms(2)] by (simp add: correct_answers_Inr)
  also have "\<dots> = length (filter sqr_isCorrect ?rows)"
    using arg_cong [OF m, of "\<lambda>xs. length (filter id xs)"] by (simp add: length_filter_map)
  finally have cnt: "c = length (filter sqr_isCorrect ?rows)" .
  have len: "length ?rows = length qs"
    using arg_cong [OF m, of length] by (simp add: session_rows_def)
  show ?thesis
    using cnt len g dc dt ds sum_length_filter_compl [of sqr_isCorrect ?rows]
    by (simp add: results_view_def results_summary_of_def Let_def)
qed

theorem results_show_submission_witness:
  "case results_view False False False None None
          (get_session (snd (submit_session (\<lambda>_. True) None (Some [\<lparr>q_id = 1, q_correctOption = ''A''\<rparr>])
             [Some ''A''] [4] 4 \<lparr>sessions = [], sessionQuestions = [], nextId = 1\<rparr>)) 1)
          (Some (get_session_questions (\<lambda>i. if i = 1 then Some \<lparr>q_id = 1, q_correctOption = ''A'', q_text = ''Q'',
               q_optionA = ''a'', q_optionB = ''b'', q_optionC = ''c'', q_optionD = ''d'', q_explanation = None,
               q_topicId = None, q_subtopic = None\<rparr> else None)
             (snd (submit_session (\<lambda>_. True) None (Some [\<lparr>q_id = 1, q_correctOption = ''A''\<rparr>])
               [Some ''A''] [4] 4 \<lparr>sessions = [], sessionQuestions = [], nextId = 1\<rparr>)) 1)) of
     ResultsShown v \<Rightarrow> correctShown v = length (correctItems v)
                     \<and> totalShown v = length [\<lparr>q_id = 1, q_correctOption = ''A''\<rparr>]
                     \<and> length (correctItems v) + length (incorrectItems v) = length [\<lparr>q_id = 1, q_correctOption = ''A''\<rparr>]
                     \<and> grade v = scoreGrade (session_score (correctShown v) (length [\<lparr>q_id = 1, q_correctOption = ''A''\<rparr>]))
   | _ \<Rightarrow> False"
proof -
  have f: "server_fresh \<lparr>sessions = [], sessionQuestions = [], nextId = 1\<rparr>" by (simp add: server_fresh_def)
  have l: "length [Some ''A''] = length [\<lparr>q_id = 1, q_correctOption = ''A''\<rparr>]" by simp
  have b: "\<forall>q \<in> set [\<lparr>q_id = 1, q_correctOption = ''A''\<rparr>].
      (\<lambda>i. if i = 1 then Some \<lparr>q_id = 1, q_correctOption = ''A'', q_text = ''Q'',
               q_optionA = ''a'', q_optionB = ''b'', q_optionC = ''c'', q_optionD = ''d'', q_explanation = None,
               q_topicId = None, q_subtopic = None\<rparr> else None) (q_id q) \<noteq> None" by simp
  have r: "submit_session (\<lambda>_. True) None (Some [\<lparr>q_id = 1, q_correctOption = ''A''\<rparr>]) [Some ''A''] [4] 4
             \<lparr>sessions = [], sessionQuestions = [], nextId = 1\<rparr>
      = (Inr 1, snd (submit_session (\<lambda>_. True) None (Some [\<lparr>q_id = 1, q_correctOption = ''A''\<rparr>]) [Some ''A''] [4] 4
             \<lparr>sessions = [], sessionQuestions = [], nextId = 1\<rparr>))"
    by (simp add: submit_session_def session_data_def correct_answers_def answer_matches_def
        post_session_def session_rows_def session_question_data_def Let_def post_session_question_def)
  show ?thesis by (rule results_show_submission [OF f l b r])
qed

text \<open>The grade never goes down as the score goes up: on finite scores
  \<open>scoreGrade\<close> is monotone along the grade ladder.\<close>

theorem scoreGrade_monotone:
  "a \<le> b \<Longrightarrow> grade_rank (scoreGrade (JNum a)) \<le> grade_rank (scoreGrade (JNum b))"
  by (auto simp: scoreGrade_def grade_rank_def grade_ladder_def)

theorem scoreGrade_monotone_witness:
  "grade_rank (scoreGrade (JNum 65)) \<le> grade_rank (scoreGrade (JNum 85))"
  by (rule scoreGrade_monotone) simp

text \<open>Grade and colour badge always agree: for every score, \<open>NaN\<close> included, the
  colour is the one paired with the grade, so the two threshold chains are the same.\<close>

theorem scoreColor_matches_grade:
  "(scoreGrade sc, scoreColor sc) \<in> set (zip grade_ladder colour_ladder)"
  by (simp add: scoreGrade_def scoreColor_def grade_ladder_def colour_ladder_def)

text \<open>The results page's \<open>formatTime\<close> (a \<open>'0'\<close> prefix below ten seconds) and the
  countdown's (\<open>padStart(2, '0')\<close>) print every duration the same way.\<close>

theorem results_formatTime_eq_countdown: "results_formatTime t = formatTime t"
proof -
  have "t mod 60 < 60" by simp
  then show ?thesis
    unfolding results_formatTime_def formatTime_def
    by (cases "t mod 60 < 10") (simp_all add: pad2_def show_nat_length_1 show_nat_length_2)
qed

text \<open>An empty quiz (no questions, score \<open>NaN\<close>, \<open>empty_session_score_NaN\<close>) is shown on the results page as
  0 %, graded "Needs Improvement" with the red badge, 0 of 0 correct, an empty progress bar,
  and the whole time as the time per question.\<close>

theorem results_empty_session:
  assumes "session_data topic [] [] timer = Inr d"
  shows "grade (results_summary_of (Some d) (Some [])) = ''Needs Improvement''
       \<and> gradeColor (results_summary_of (Some d) (Some [])) = ''bg-red-500''
       \<and> scoreShown (results_summary_of (Some d) (Some [])) = JNum 0
       \<and> correctShown (results_summary_of (Some d) (Some [])) = 0
       \<and> totalShown (results_summary_of (Some d) (Some [])) = 0
       \<and> progressValue (results_summary_of (Some d) (Some [])) = 0
       \<and> avgText (results_summary_of (Some d) (Some [])) = results_formatTime timer"
proof -
  have "floor (1 / 2 :: rat) = 0" by (simp add: floor_eq_iff)
  with assms show ?thesis
    by (auto simp: session_data_def correct_answers_def session_score_def results_summary_of_def
        scoreGrade_def scoreColor_def Let_def)
qed

theorem results_empty_session_witness:
  "avgText (results_summary_of (Some \<lparr>userId = 0, topicId = None, totalQuestions = 0, correctAnswers = 0,
      score = JNaN, timeSpent = 90\<rparr>) (Some [])) = ''1:30''"
proof -
  have "session_data None [] [] 90 = Inr \<lparr>userId = 0, topicId = None, totalQuestions = 0, correctAnswers = 0,
      score = JNaN, timeSpent = 90\<rparr>"
    by (simp add: session_data_def correct_answers_def session_score_def topic_param_def)
  from results_empty_session [OF this]
  have "avgText (results_summary_of (Some \<lparr>userId = 0, topicId = None, totalQuestions = 0, correctAnswers = 0,
      score = JNaN, timeSpent = 90\<rparr>) (Some [])) = results_formatTime 90" by simp
  also have "results_formatTime 90 = ''1:30''" by code_simp
  finally show ?thesis .
qed

end
