(* ===== verification/SessionViews.thy ===== *)
theory SessionViews
  imports Results
begin

text \<open>
  The two other views of a stored session. \<open>SessionDetails\<close>
  (\<open>src/client/src/pages/admin/session-details.tsx\<close>, route
  \<open>/admin/session-details/:id\<close>) shows an administrator the session with its student and
  topic, then every question with its options marked against the student's answer.
  \<open>SessionResults\<close> (\<open>src/client/src/pages/student/session-results.tsx\<close>) is a
  second student results page; no route of \<open>App.tsx\<close> renders it. Both read the session
  and its rows through the server reads of \<open>Results\<close>.
\<close>

subsection \<open>The administrator's session details\<close>

text \<open>\<open>SessionWithDetails\<close>: the session enhanced by the query function with the student's
  \<open>(id, username, fullName)\<close> when \<open>/api/users/:id\<close> answers, and the topic's
  \<open>(id, name)\<close> when the session has a topic and \<open>/api/topics/:id\<close> answers.\<close>

record session_with_details =
  sd_session :: session_insert
  sd_user :: "(nat \<times> js_string \<times> js_string) option"
  sd_topic :: "(int \<times> js_string) option"

definition fetch_session_details ::
  "(nat \<Rightarrow> (nat \<times> js_string \<times> js_string) option) \<Rightarrow> (int \<Rightarrow> (int \<times> js_string) option)
   \<Rightarrow> session_insert \<Rightarrow> session_with_details" where
  "fetch_session_details userRes topicRes s =
     \<lparr>sd_session = s, sd_user = userRes (userId s),
      sd_topic = (if truthy_int (topicId s) then topicRes (the (topicId s)) else None)\<rparr>"

text \<open>\<open>formatTime\<close> of this page: hours, minutes and seconds, leading zero units omitted.\<close>

definition admin_formatTime :: "nat \<Rightarrow> js_string" where
  "admin_formatTime seconds =
     (let hours = seconds div 3600; minutes = (seconds mod 3600) div 60; secs = seconds mod 60
      in if 0 < hours then show_nat hours @ ''h '' @ show_nat minutes @ ''m '' @ show_nat secs @ ''s''
         else if 0 < minutes then show_nat minutes @ ''m '' @ show_nat secs @ ''s''
         else show_nat secs @ ''s'')"

definition admin_avgTimePerQuestion :: "session_insert \<Rightarrow> nat" where
  "admin_avgTimePerQuestion s =
     (if 0 < totalQuestions s then nat (floor (of_nat (timeSpent s) / of_nat (totalQuestions s) + (1 / 2 :: rat)))
      else 0)"

text \<open>The option fields by letter: the page tries \<open>A\<close> to \<open>E\<close>; a question has no
  \<open>optionE\<close> (spec section 3), so that read is \<open>undefined\<close>.\<close>

definition option_field :: "full_question \<Rightarrow> js_string \<Rightarrow> js_string option" where
  "option_field q l =
     (if l = ''A'' then Some (q_optionA q) else if l = ''B'' then Some (q_optionB q)
      else if l = ''C'' then Some (q_optionC q) else if l = ''D'' then Some (q_optionD q) else None)"

datatype option_icon = NoIcon | CheckCircle2 | XCircle | CheckCircle

record option_line =
  ol_letter :: js_string
  ol_text :: js_string
  ol_bg :: js_string
  ol_border :: js_string
  ol_textColor :: js_string
  ol_icon :: option_icon

text \<open>One option of a question card, \<open>None\<close> where the map callback returns \<open>null\<close>.\<close>

definition option_line_of :: "session_question_row \<Rightarrow> js_string \<Rightarrow> option_line option" where
  "option_line_of sq l =
     (if \<not> truthy (option_field (sqr_question sq) l) then None
      else
        let isSelected = (sqr_selectedOption sq = Some l);
            isCorrect = (q_correctOption (sqr_question sq) = l);
            (bg, border, txt, icon) =
              (if isSelected \<and> isCorrect then (''bg-green-50'', ''border-green-300'', ''text-green-800'', CheckCircle2)
               else if isSelected \<and> \<not> isCorrect then (''bg-red-50'', ''border-red-300'', ''text-red-800'', XCircle)
               else if isCorrect then (''bg-green-50'', ''border-green-200'', ''text-green-800'', CheckCircle)
               else (''bg-white'', ''border-gray-200'', ''text-gray-800'', NoIcon))
        in Some \<lparr>ol_letter = l, ol_text = the (option_field (sqr_question sq) l), ol_bg = bg,
                 ol_border = border, ol_textColor = txt, ol_icon = icon\<rparr>)"

definition option_letters :: "js_string list" where
  "option_letters = [''A'', ''B'', ''C'', ''D'', ''E'']"

record question_card =
  qc_title :: js_string
  qc_isCorrect :: bool
  qc_text :: js_string
  qc_options :: "option_line list"
  qc_explanation :: "js_string option"
  qc_time :: js_string

definition question_card_of :: "nat \<Rightarrow> session_question_row \<Rightarrow> question_card" where
  "question_card_of index sq =
     \<lparr>qc_title = ''Question '' @ show_nat (index + 1), qc_isCorrect = sqr_isCorrect sq,
      qc_text = q_text (sqr_question sq),
      qc_options = List.map_filter (option_line_of sq) option_letters,
      qc_explanation = (if truthy (q_explanation (sqr_question sq)) then q_explanation (sqr_question sq) else None),
      qc_time = admin_formatTime (case sqr_timeSpent sq of None \<Rightarrow> 0 | Some t \<Rightarrow> t)\<rparr>"

record details_summary =
  ds_backHref :: js_string
  ds_userName :: js_string
  ds_grade :: js_string
  ds_color :: js_string
  ds_score :: js_number
  ds_correct :: nat
  ds_total :: nat
  ds_progress :: js_number
  ds_time :: js_string
  ds_avg :: js_string
  ds_topic :: js_string
  ds_cards :: "question_card list"

datatype details_screen = DetailsLoading | DetailsNotFound | DetailsShown details_summary

definition details_view ::
  "bool \<Rightarrow> bool \<Rightarrow> session_with_details option \<Rightarrow> session_question_row list option \<Rightarrow> details_screen" where
  "details_view isLoadingSession isLoadingQuestions session sqs =
     (if isLoadingSession \<or> isLoadingQuestions then DetailsLoading
      else case session of
        None \<Rightarrow> DetailsNotFound
      | Some sd \<Rightarrow>
          (let s = sd_session sd
           in DetailsShown
                \<lparr>ds_backHref = (case sd_user sd of Some (uid, _) \<Rightarrow> ''/admin/student-details/'' @ show_nat uid
                                 | None \<Rightarrow> ''/admin''),
                 ds_userName = (case sd_user sd of Some (_, _, fullName) \<Rightarrow> fullName | None \<Rightarrow> ''Unknown User''),
                 ds_grade = scoreGrade (score s), ds_color = scoreColor (score s),
                 ds_score = js_round (score s),
                 ds_correct = correctAnswers s, ds_total = totalQuestions s,
                 ds_progress = js_mul (js_div (JNum (of_nat (correctAnswers s))) (JNum (of_nat (totalQuestions s)))) (JNum 100),
                 ds_time = admin_formatTime (timeSpent s),
                 ds_avg = admin_formatTime (admin_avgTimePerQuestion s),
                 ds_topic = (case sd_topic sd of Some (_, name) \<Rightarrow> name | None \<Rightarrow> ''Mixed Topics''),
                 ds_cards = (case sqs of None \<Rightarrow> [] | Some rows \<Rightarrow> map2 question_card_of [0..<length rows] rows)\<rparr>))"

subsection \<open>The unrouted student session results\<close>

text \<open>\<open>formatTime\<close> of this page (the same body as on the results page).\<close>

definition sr_formatTime :: "nat \<Rightarrow> js_string" where
  "sr_formatTime seconds =
     show_nat (seconds div 60) @ CHR '':'' # (if seconds mod 60 < 10 then ''0'' else []) @ show_nat (seconds mod 60)"

text \<open>\<open>Math.floor(session.timeSpent / session.totalQuestions)\<close>, 0 without a session.\<close>

definition sr_avgTimePerQuestion :: "session_insert option \<Rightarrow> js_number" where
  "sr_avgTimePerQuestion session =
     (case session of None \<Rightarrow> JNum 0
      | Some s \<Rightarrow> js_floor (js_div (JNum (of_nat (timeSpent s))) (JNum (of_nat (totalQuestions s)))))"

text \<open>The two \<open>switch\<close> statements: the selected option's text defaults to
  \<open>Not answered\<close>, the correct option's to the empty string.\<close>

definition sr_selected_text :: "js_string option \<Rightarrow> full_question \<Rightarrow> js_string" where
  "sr_selected_text sel q = (if sel \<in> Some ` set [''A'', ''B'', ''C'', ''D''] then option_text sel q else ''Not answered'')"

record sr_item =
  si_text :: js_string
  si_selected :: "js_string option"
  si_selectedText :: js_string
  si_correct :: "(js_string \<times> js_string) option"
  si_explanation :: "js_string option"
  si_time :: js_string

definition sr_correct_item :: "session_question_row \<Rightarrow> sr_item" where
  "sr_correct_item sq =
     \<lparr>si_text = q_text (sqr_question sq), si_selected = sqr_selectedOption sq,
      si_selectedText = sr_selected_text (sqr_selectedOption sq) (sqr_question sq), si_correct = None,
      si_explanation = None,
      si_time = (case sqr_timeSpent sq of None \<Rightarrow> [] | Some t \<Rightarrow> show_nat t) @ ''s''\<rparr>"

definition sr_incorrect_item :: "session_question_row \<Rightarrow> sr_item" where
  "sr_incorrect_item sq =
     (let q = sqr_question sq
      in \<lparr>si_text = q_text q, si_selected = sqr_selectedOption sq,
          si_selectedText = sr_selected_text (sqr_selectedOption sq) q,
          si_correct = Some (q_correctOption q, option_text (Some (q_correctOption q)) q),
          si_explanation = (if truthy (q_explanation q) then q_explanation q else None),
          si_time = []\<rparr>)"

record sr_summary =
  sr_stroke :: js_string
  sr_score :: js_number
  sr_correct :: nat
  sr_total :: nat
  sr_time :: js_string
  sr_avg :: js_number
  sr_incorrect :: int

record sr_review =
  sr_correctBadge :: "nat \<times> nat"
  sr_incorrectBadge :: "nat \<times> nat"
  sr_correctItems :: "sr_item list"
  sr_incorrectItems :: "sr_item list"

text \<open>A card of the page: a skeleton while its query loads, the fallback text, or the data.\<close>

datatype 'a card = CardSkeleton | CardFallback | CardShown 'a

record sr_screen =
  sr_heading :: js_string
  sr_summaryCard :: "sr_summary card"
  sr_reviewCard :: "sr_review card"
  sr_practiceAgain :: js_string

definition sr_view ::
  "bool \<Rightarrow> bool \<Rightarrow> session_insert option \<Rightarrow> js_string option \<Rightarrow> session_question_row list option \<Rightarrow> sr_screen" where
  "sr_view isLoadingSession isLoadingQuestions session topicName sqs =
     \<lparr>sr_heading = (if truthy topicName then the topicName else ''All Topics''),
      sr_summaryCard =
        (if isLoadingSession then CardSkeleton
         else case session of
           None \<Rightarrow> CardFallback
         | Some s \<Rightarrow> CardShown
             \<lparr>sr_stroke = (if js_ge (score s) 80 then ''#10B981'' else if js_ge (score s) 60 then ''#F59E0B''
                            else ''#EF4444''),
              sr_score = js_round (score s), sr_correct = correctAnswers s, sr_total = totalQuestions s,
              sr_time = sr_formatTime (timeSpent s), sr_avg = sr_avgTimePerQuestion session,
              sr_incorrect = int (totalQuestions s) - int (correctAnswers s)\<rparr>),
      sr_reviewCard =
        (if isLoadingQuestions then CardSkeleton
         else case sqs of
           Some rows \<Rightarrow>
             if rows = [] then CardFallback
             else CardShown
               \<lparr>sr_correctBadge = (length (filter sqr_isCorrect rows), length rows),
                sr_incorrectBadge = (length (filter (\<lambda>q. \<not> sqr_isCorrect q) rows), length rows),
                sr_correctItems = map sr_correct_item (filter sqr_isCorrect rows),
                sr_incorrectItems = map sr_incorrect_item (filter (\<lambda>q. \<not> sqr_isCorrect q) rows)\<rparr>
         | None \<Rightarrow> CardFallback),
      sr_practiceAgain =
        (case session of
           Some s \<Rightarrow> if truthy_int (topicId s) then ''/practice/'' @ show_int (the (topicId s)) else ''/practice''
         | None \<Rightarrow> ''/practice'')\<rparr>"

subsection \<open>Reference predicates\<close>

text \<open>The Question invariant of spec section 3: the correct option is one of \<open>A\<close> to
  \<open>D\<close> and names a non-empty option.\<close>

definition option_ok :: "full_question \<Rightarrow> bool" where
  "option_ok q \<longleftrightarrow> q_correctOption q \<in> set [''A'', ''B'', ''C'', ''D''] \<and> truthy (option_field q (q_correctOption q))"

text \<open>Reading an \<open>admin_formatTime\<close> string back: space-separated tokens, each digits
  followed by a unit \<open>h\<close>, \<open>m\<close> or \<open>s\<close>.\<close>

definition hms_unit :: "char \<Rightarrow> nat option" where
  "hms_unit c = (if c = CHR ''h'' then Some 3600 else if c = CHR ''m'' then Some 60
                 else if c = CHR ''s'' then Some 1 else None)"

definition token_seconds :: "js_string \<Rightarrow> nat option" where
  "token_seconds tok =
     (if 2 \<le> length tok \<and> (\<forall>c \<in> set (butlast tok). is_digit c)
      then map_option (\<lambda>w. w * nat (digits_value (butlast tok))) (hms_unit (last tok)) else None)"

fun read_hms_tokens :: "js_string list \<Rightarrow> nat option" where
  "read_hms_tokens [] = Some 0"
| "read_hms_tokens (t # ts) =
     (case (token_seconds t, read_hms_tokens ts) of (Some a, Some b) \<Rightarrow> Some (a + b) | _ \<Rightarrow> None)"

definition read_hms :: "js_string \<Rightarrow> nat option" where
  "read_hms s = read_hms_tokens (split_on CHR '' '' s)"

subsection \<open>Lemmas\<close>

lemma option_line_of_Some:
  "option_line_of sq l = Some ol \<Longrightarrow>
     ol_letter ol = l \<and> truthy (option_field (sqr_question sq) l)
     \<and> (ol_icon ol \<in> {CheckCircle, CheckCircle2} \<longleftrightarrow> q_correctOption (sqr_question sq) = l)
     \<and> (ol_icon ol = XCircle \<longleftrightarrow> sqr_selectedOption sq = Some l \<and> q_correctOption (sqr_question sq) \<noteq> l)"
  unfolding option_line_of_def Let_def
  by (auto split: if_splits)

lemma option_line_of_None: "option_line_of sq l = None \<longleftrightarrow> \<not> truthy (option_field (sqr_question sq) l)"
  unfolding option_line_of_def Let_def by (auto split: if_splits prod.splits)

lemma letters_of_lines:
  assumes "\<And>l ol. f l = Some ol \<Longrightarrow> ol_letter ol = l"
  shows "map ol_letter (filter P (List.map_filter f xs)) = filter (\<lambda>l. \<exists>ol. f l = Some ol \<and> P ol) xs"
  using assms by (induction xs) (auto simp: List.map_filter_simps split: option.splits)

lemma filter_distinct_single:
  "distinct xs \<Longrightarrow> filter (\<lambda>x. x = l \<and> Q x) xs = (if l \<in> set xs \<and> Q l then [l] else [])"
  by (induction xs) auto

lemma filter_distinct_single':
  "distinct xs \<Longrightarrow> filter (\<lambda>x. l = x \<and> Q x) xs = (if l \<in> set xs \<and> Q l then [l] else [])"
  by (induction xs) auto

lemma option_line_green:
  "(\<exists>ol. option_line_of sq l = Some ol \<and> (ol_icon ol = CheckCircle \<or> ol_icon ol = CheckCircle2))
   \<longleftrightarrow> l = q_correctOption (sqr_question sq) \<and> truthy (option_field (sqr_question sq) l)"
  using option_line_of_Some [of sq l] option_line_of_None [of sq l] by (cases "option_line_of sq l") auto

lemma option_line_red:
  "(\<exists>ol. option_line_of sq l = Some ol \<and> ol_icon ol = XCircle)
   \<longleftrightarrow> sqr_selectedOption sq = Some l \<and> truthy (option_field (sqr_question sq) l) \<and> l \<noteq> q_correctOption (sqr_question sq)"
  using option_line_of_Some [of sq l] option_line_of_None [of sq l] by (cases "option_line_of sq l") auto

text \<open>C26. On the administrator's question card the options are marked against the answer:
  for a question satisfying the Question invariant exactly one option carries a green mark,
  the correct one, and an option carries the red cross exactly when it is the student's
  answer, is shown, and is not the correct one.\<close>

theorem admin_marks_options:
  assumes "option_ok (sqr_question sq)"
  shows "map ol_letter (filter (\<lambda>l. ol_icon l \<in> {CheckCircle, CheckCircle2}) (qc_options (question_card_of i sq)))
           = [q_correctOption (sqr_question sq)]
       \<and> map ol_letter (filter (\<lambda>l. ol_icon l = XCircle) (qc_options (question_card_of i sq)))
           = (case sqr_selectedOption sq of None \<Rightarrow> []
              | Some l \<Rightarrow> if l \<in> set option_letters \<and> truthy (option_field (sqr_question sq) l)
                              \<and> l \<noteq> q_correctOption (sqr_question sq) then [l] else [])"
proof -
  let ?q = "sqr_question sq"
  have d: "distinct option_letters" by (simp add: option_letters_def)
  have letter: "\<And>l ol. option_line_of sq l = Some ol \<Longrightarrow> ol_letter ol = l" using option_line_of_Some by blast
  have c: "q_correctOption ?q \<in> set option_letters" "truthy (option_field ?q (q_correctOption ?q))"
    using assms by (auto simp: option_ok_def option_letters_def)
  have "map ol_letter (filter (\<lambda>l. ol_icon l \<in> {CheckCircle, CheckCircle2}) (qc_options (question_card_of i sq)))
      = filter (\<lambda>l. l = q_correctOption ?q \<and> truthy (option_field ?q l)) option_letters"
    by (simp add: question_card_of_def letters_of_lines [OF letter] option_line_green)
  also have "\<dots> = [q_correctOption ?q]" using c by (simp add: filter_distinct_single [OF d])
  finally have g: "map ol_letter (filter (\<lambda>l. ol_icon l \<in> {CheckCircle, CheckCircle2}) (qc_options (question_card_of i sq)))
      = [q_correctOption ?q]" .
  have "map ol_letter (filter (\<lambda>l. ol_icon l = XCircle) (qc_options (question_card_of i sq)))
      = filter (\<lambda>l. sqr_selectedOption sq = Some l \<and> truthy (option_field ?q l) \<and> l \<noteq> q_correctOption ?q) option_letters"
    by (simp add: question_card_of_def letters_of_lines [OF letter] option_line_red)
  moreover have "filter (\<lambda>l. sqr_selectedOption sq = Some l \<and> truthy (option_field ?q l) \<and> l \<noteq> q_correctOption ?q) option_letters
      = (case sqr_selectedOption sq of None \<Rightarrow> []
         | Some l \<Rightarrow> if l \<in> set option_letters \<and> truthy (option_field ?q l) \<and> l \<noteq> q_correctOption ?q then [l] else [])"
  proof (cases "sqr_selectedOption sq")
    case (Some l)
    then show ?thesis by (simp add: filter_distinct_single' [OF d])
  qed simp
  ultimately show ?thesis using g by simp
qed

lemma token_seconds_show_nat: "token_seconds (show_nat n @ [u]) = map_option (\<lambda>w. w * n) (hms_unit u)"
proof -
  have "2 \<le> length (show_nat n @ [u])" using show_nat_not_Nil [of n] by (cases "show_nat n") auto
  then show ?thesis by (simp add: token_seconds_def show_nat_digits digits_value_show_nat)
qed

lemma space_not_in_token: "CHR '' '' \<notin> set (show_nat n @ [u]) \<longleftrightarrow> u \<noteq> CHR '' ''"
  by (auto simp: is_digit_def js_simps)

lemma split_on_token:
  "u \<noteq> CHR '' '' \<Longrightarrow> split_on CHR '' '' (show_nat a @ u # CHR '' '' # rest) = (show_nat a @ [u]) # split_on CHR '' '' rest"
  using split_on_append_sep [of "CHR '' ''" "show_nat a @ [u]" rest] space_not_in_token [of a u] by simp

lemma split_on_last_token:
  "u \<noteq> CHR '' '' \<Longrightarrow> split_on CHR '' '' (show_nat a @ [u]) = [show_nat a @ [u]]"
  using split_on_no_sep [of "CHR '' ''" "show_nat a @ [u]"] space_not_in_token [of a u] by simp

text \<open>The administrator's duration format (\<open>1h 2m 5s\<close>, \<open>2m 5s\<close>, \<open>5s\<close>) loses
  no information: the number of seconds is read back exactly.\<close>

theorem admin_formatTime_roundtrip: "read_hms (admin_formatTime t) = Some t"
proof -
  let ?h = "t div 3600" and ?m = "(t mod 3600) div 60" and ?s = "t mod 60"
  have a: "t div 3600 * 3600 + t mod 3600 = t" by (rule div_mult_mod_eq)
  have b: "(t mod 3600) div 60 * 60 + (t mod 3600) mod 60 = t mod 3600" by (rule div_mult_mod_eq)
  have c: "(t mod 3600) mod 60 = t mod 60" by (simp add: mod_mod_cancel)
  have sum: "?h * 3600 + ?m * 60 + ?s = t" using a b c by linarith
  show ?thesis
  proof (cases "0 < ?h")
    case True
    have "admin_formatTime t = (show_nat ?h @ [CHR ''h'']) @ CHR '' '' # (show_nat ?m @ [CHR ''m'']) @ CHR '' '' # (show_nat ?s @ [CHR ''s''])"
      using True by (simp add: admin_formatTime_def Let_def)
    then show ?thesis using sum
      by (simp add: read_hms_def split_on_token split_on_last_token token_seconds_show_nat hms_unit_def)
  next
    case False
    then have t: "t < 3600" by simp
    show ?thesis
    proof (cases "0 < ?m")
      case True
      have "admin_formatTime t = (show_nat ?m @ [CHR ''m'']) @ CHR '' '' # (show_nat ?s @ [CHR ''s''])"
        using True False by (simp add: admin_formatTime_def Let_def)
      then show ?thesis using sum False
        by (simp add: read_hms_def split_on_token split_on_last_token token_seconds_show_nat hms_unit_def)
    next
      case m: False
      have "admin_formatTime t = show_nat ?s @ [CHR ''s'']"
        using m False by (simp add: admin_formatTime_def Let_def)
      then show ?thesis using sum False m
        by (simp add: read_hms_def split_on_last_token token_seconds_show_nat hms_unit_def)
    qed
  qed
qed

lemma floor_nat_half: "floor (rat_of_nat t + 1 / 2) = int t"
  by (simp add: floor_eq_iff)

text \<open>C27. The student's results page and the administrator's session details show the same
  average time per question, except on a session without questions, where the student sees
  the whole time spent and the administrator 0 s.\<close>

theorem average_views_agree:
  "avgText (results_summary_of (Some s) sqs)
     = results_formatTime (if 0 < totalQuestions s then admin_avgTimePerQuestion s else timeSpent s)"
  by (simp add: results_summary_of_def admin_avgTimePerQuestion_def Let_def floor_nat_half)

text \<open>The unrouted student session-results page divides by the number of questions
  without a guard: for a session without questions its average time per question is
  \<open>NaN\<close> (no time spent) or \<open>Infinity\<close>, printed as \<open>NaNs\<close> or \<open>Infinitys\<close>.\<close>

theorem sr_average_empty_session:
  "totalQuestions s = 0 \<Longrightarrow> sr_avgTimePerQuestion (Some s) = (if timeSpent s = 0 then JNaN else JPosInf)"
  by (simp add: sr_avgTimePerQuestion_def)

theorem admin_marks_options_witness:
  "map ol_letter (filter (\<lambda>l. ol_icon l \<in> {CheckCircle, CheckCircle2}) (qc_options (question_card_of 0
       \<lparr>sqr_id = 0, sqr_selectedOption = Some ''B'', sqr_isCorrect = False, sqr_timeSpent = Some 12,
        sqr_question = \<lparr>q_id = 1, q_correctOption = ''A'', q_text = ''Q'', q_optionA = ''a'', q_optionB = ''b'',
          q_optionC = ''c'', q_optionD = ''d'', q_explanation = None, q_topicId = None, q_subtopic = None\<rparr>\<rparr>)))
     = [''A'']
   \<and> map ol_letter (filter (\<lambda>l. ol_icon l = XCircle) (qc_options (question_card_of 0
       \<lparr>sqr_id = 0, sqr_selectedOption = Some ''B'', sqr_isCorrect = False, sqr_timeSpent = Some 12,
        sqr_question = \<lparr>q_id = 1, q_correctOption = ''A'', q_text = ''Q'', q_optionA = ''a'', q_optionB = ''b'',
          q_optionC = ''c'', q_optionD = ''d'', q_explanation = None, q_topicId = None, q_subtopic = None\<rparr>\<rparr>)))
     = [''B'']"
proof -
  have ok: "option_ok (sqr_question \<lparr>sqr_id = 0, sqr_selectedOption = Some ''B'', sqr_isCorrect = False, sqr_timeSpent = Some 12,
        sqr_question = \<lparr>q_id = 1, q_correctOption = ''A'', q_text = ''Q'', q_optionA = ''a'', q_optionB = ''b'',
          q_optionC = ''c'', q_optionD = ''d'', q_explanation = None, q_topicId = None, q_subtopic = None\<rparr>\<rparr>)"
    by (simp add: option_ok_def option_field_def truthy_def)
  from admin_marks_options [OF ok, of 0] show ?thesis
    by (simp add: option_letters_def option_field_def truthy_def)
qed

theorem sr_average_empty_session_witness:
  "sr_avgTimePerQuestion (Some \<lparr>userId = 0, topicId = None, totalQuestions = 0, correctAnswers = 0,
      score = JNaN, timeSpent = 42\<rparr>) = JPosInf"
  using sr_average_empty_session [of "\<lparr>userId = 0, topicId = None, totalQuestions = 0, correctAnswers = 0,
      score = JNaN, timeSpent = 42\<rparr>"] by simp

end
