(* ===== verification/StudentDetails.thy ===== *)
theory StudentDetails
  imports SessionViews "HOL-Library.Multiset"
begin

text \<open>
  The administrator's page on one student (\<open>src/client/src/pages/admin/student-details.tsx\<close>,
  route \<open>/admin/student-details/:id\<close>). It fetches the student, the student's sessions
  and the topics, names each session's topic, sorts the sessions newest first, and derives
  the overview totals, the per-topic performance (only topics with sessions, best average
  first), the progress series (oldest first, labelled \<open>S1\<close>, \<open>S2\<close>, ...) and its summary.
  A session's completion time is the number \<open>new Date(completedAt).getTime()\<close>; dates
  are not printed by the model. Scores here are finite numbers.
\<close>

subsection \<open>Data\<close>

text \<open>The page's own \<open>Session\<close> and \<open>Topic\<close> interfaces.\<close>

record stored_session =
  ss_id :: nat
  ss_userId :: nat
  ss_topicId :: "int option"
  ss_correctAnswers :: nat
  ss_totalQuestions :: nat
  ss_timeSpent :: nat
  ss_score :: rat
  ss_completedAt :: int

record topic_info =
  t_id :: int
  t_name :: js_string

text \<open>\<open>enhancedSessions\<close>: the first topic with the session's id names it, otherwise
  \<open>All Topics\<close> (also while the topics are not loaded).\<close>

definition topic_name_of :: "topic_info list option \<Rightarrow> stored_session \<Rightarrow> js_string" where
  "topic_name_of topics s =
     (if truthy_int (ss_topicId s) \<and> topics \<noteq> None
      then (case find (\<lambda>t. Some (t_id t) = ss_topicId s) (the topics) of
              Some t \<Rightarrow> t_name t
            | None \<Rightarrow> ''All Topics'')
      else ''All Topics'')"

definition enhanced_sessions :: "stored_session list option \<Rightarrow> topic_info list option \<Rightarrow> (stored_session \<times> js_string) list" where
  "enhanced_sessions sessionList topics =
     (case sessionList of None \<Rightarrow> [] | Some ss \<Rightarrow> map (\<lambda>s. (s, topic_name_of topics s)) ss)"

text \<open>\<open>[...enhancedSessions].sort((a, b) => b.time - a.time)\<close>: a stable sort (ECMAScript
  2019) on the comparator, newest first; \<open>sort_key\<close> is HOL's stable insertion sort.\<close>

definition sorted_sessions :: "(stored_session \<times> js_string) list \<Rightarrow> (stored_session \<times> js_string) list" where
  "sorted_sessions es = sort_key (\<lambda>e. - ss_completedAt (fst e)) es"

subsection \<open>Statistics\<close>

definition sum_score :: "stored_session list \<Rightarrow> rat" where
  "sum_score ss = sum_list (map ss_score ss)"

definition average_score :: "stored_session list \<Rightarrow> rat" where
  "average_score ss = (if 0 < length ss then sum_score ss / of_nat (length ss) else 0)"

record topic_perf =
  tp_topicId :: int
  tp_topicName :: js_string
  tp_sessionCount :: nat
  tp_averageScore :: rat

definition topic_performance :: "topic_info list option \<Rightarrow> stored_session list \<Rightarrow> topic_perf list" where
  "topic_performance topics ss =
     (case topics of None \<Rightarrow> []
      | Some ts \<Rightarrow> map (\<lambda>t. let topicSessions = filter (\<lambda>s. ss_topicId s = Some (t_id t)) ss
                            in \<lparr>tp_topicId = t_id t, tp_topicName = t_name t,
                                tp_sessionCount = length topicSessions,
                                tp_averageScore = average_score topicSessions\<rparr>) ts)"

text \<open>\<open>topicPerformanceData\<close>: topics with sessions, highest average first (stable).\<close>

definition topic_performance_data :: "topic_perf list \<Rightarrow> topic_perf list" where
  "topic_performance_data tps = sort_key (\<lambda>tp. - tp_averageScore tp) (filter (\<lambda>tp. 0 < tp_sessionCount tp) tps)"

record progress_point =
  pp_session :: js_string
  pp_score :: rat
  pp_correctAnswers :: nat
  pp_totalQuestions :: nat

text \<open>\<open>sessionProgressData\<close>: the sorted sessions reversed (oldest first), labelled.\<close>

definition session_progress_data :: "stored_session list \<Rightarrow> progress_point list" where
  "session_progress_data sortedSessions =
     map2 (\<lambda>i s. \<lparr>pp_session = CHR ''S'' # show_nat (i + 1), pp_score = ss_score s,
                  pp_correctAnswers = ss_correctAnswers s, pp_totalQuestions = ss_totalQuestions s\<rparr>)
       [0..<length sortedSessions] (rev sortedSessions)"

text \<open>The \<open>formatTime\<close> of this page (hours, minutes, seconds; the same body as on the
  session details page).\<close>

definition details_formatTime :: "nat \<Rightarrow> js_string" where
  "details_formatTime seconds =
     (let hours = seconds div 3600; minutes = (seconds mod 3600) div 60; secs = seconds mod 60
      in if 0 < hours then show_nat hours @ ''h '' @ show_nat minutes @ ''m '' @ show_nat secs @ ''s''
         else if 0 < minutes then show_nat minutes @ ''m '' @ show_nat secs @ ''s''
         else show_nat secs @ ''s'')"

text \<open>The progress summary of the Progress tab: initial and latest score, and the change
  labelled as an improvement only when the latest score is higher.\<close>

record progress_summary =
  ps_initial :: js_string
  ps_latest :: js_string
  ps_changeLabel :: js_string
  ps_change :: js_string

definition progress_summary_of :: "progress_point list \<Rightarrow> progress_summary" where
  "progress_summary_of pd =
     \<lparr>ps_initial = (if 0 < length pd then js_toFixed 1 (JNum (pp_score (hd pd))) @ ''%'' else ''N/A''),
      ps_latest = (if 0 < length pd then js_toFixed 1 (JNum (pp_score (last pd))) @ ''%'' else ''N/A''),
      ps_changeLabel = (if 1 < length pd \<and> pp_score (hd pd) < pp_score (last pd) then ''Improvement:'' else ''Change:''),
      ps_change = (if 1 < length pd then js_toFixed 1 (JNum (pp_score (last pd) - pp_score (hd pd))) @ ''%'' else ''N/A'')\<rparr>"

subsection \<open>The page\<close>

record student_info =
  u_id :: nat
  u_username :: js_string
  u_fullName :: js_string
  u_email :: js_string
  u_role :: js_string
  u_approved :: bool

text \<open>One row of the Sessions tab: topic, badge colour and score to one decimal, the
  \<open>correct / total\<close> text, the time, and the link to the session's details.\<close>

record session_row_view =
  sv_topic :: js_string
  sv_badge :: js_string
  sv_score :: js_string
  sv_answers :: js_string
  sv_time :: js_string
  sv_href :: js_string

definition session_row_view_of :: "stored_session \<times> js_string \<Rightarrow> session_row_view" where
  "session_row_view_of e =
     (let s = fst e
      in \<lparr>sv_topic = (if snd e = [] then ''All Topics'' else snd e),
          sv_badge = scoreColor (JNum (ss_score s)),
          sv_score = js_toFixed 1 (JNum (ss_score s)) @ ''%'',
          sv_answers = show_nat (ss_correctAnswers s) @ '' / '' @ show_nat (ss_totalQuestions s),
          sv_time = details_formatTime (ss_timeSpent s),
          sv_href = ''/admin/session-details/'' @ show_nat (ss_id s)\<rparr>)"

record student_details =
  sdv_name :: js_string
  sdv_status :: js_string
  sdv_totalSessions :: nat
  sdv_averageScore :: js_string
  sdv_correctAnswers :: nat
  sdv_totalQuestions :: nat
  sdv_accuracy :: int
  sdv_totalTime :: js_string
  sdv_avgPerSession :: js_string
  sdv_recent :: "progress_point list"
  sdv_sessions :: "session_row_view list"
  sdv_topics :: "topic_perf list"
  sdv_topicGrades :: "js_string list"
  sdv_progress :: "progress_point list"
  sdv_summary :: progress_summary

datatype student_details_screen = StudentLoading | StudentNotFound | StudentShown student_details

definition student_details_view ::
  "bool \<Rightarrow> bool \<Rightarrow> student_info option \<Rightarrow> stored_session list option \<Rightarrow> topic_info list option
   \<Rightarrow> student_details_screen" where
  "student_details_view isLoadingStudent isLoadingSessions student sessionList topics =
     (if isLoadingStudent \<or> isLoadingSessions then StudentLoading
      else case student of
        None \<Rightarrow> StudentNotFound
      | Some u \<Rightarrow>
          (let sortedSs = sorted_sessions (enhanced_sessions sessionList topics);
               ss = map fst sortedSs;
               n = length ss;
               tq = sum_list (map ss_totalQuestions ss);
               ca = sum_list (map ss_correctAnswers ss);
               totalTimeSpent = sum_list (map ss_timeSpent ss);
               tpd = topic_performance_data (topic_performance topics ss);
               pd = session_progress_data ss
           in StudentShown
                \<lparr>sdv_name = u_fullName u,
                 sdv_status = (if u_approved u then ''Approved'' else ''Pending Approval''),
                 sdv_totalSessions = n,
                 sdv_averageScore = js_toFixed 1 (JNum (average_score ss)) @ ''%'',
                 sdv_correctAnswers = ca, sdv_totalQuestions = tq,
                 sdv_accuracy = (if 0 < tq
                                 then floor (of_nat ca / of_nat tq * 100 + (1 / 2 :: rat))
                                 else 0),
                 sdv_totalTime = details_formatTime totalTimeSpent,
                 sdv_avgPerSession = (if 0 < n then details_formatTime (nat (floor (of_nat totalTimeSpent / of_nat n + (1 / 2 :: rat))))
                                      else ''0s''),
                 sdv_recent = drop (length pd - 5) pd,
                 sdv_sessions = map session_row_view_of sortedSs,
                 sdv_topics = tpd,
                 sdv_topicGrades = map (\<lambda>tp. scoreGrade (JNum (tp_averageScore tp))) tpd,
                 sdv_progress = pd,
                 sdv_summary = progress_summary_of pd\<rparr>))"

subsection \<open>Lemmas\<close>

lemma filter_disjoint_length:
  "(\<And>x. x \<in> set xs \<Longrightarrow> \<not> (P x \<and> Q x)) \<Longrightarrow>
   length (filter P xs) + length (filter Q xs) = length (filter (\<lambda>x. P x \<or> Q x) xs)"
  by (induction xs) auto

lemma mset_sorted_enhanced: "mset (map fst (sorted_sessions (enhanced_sessions (Some ss) topics))) = mset ss"
proof -
  have "mset (map fst (sorted_sessions es)) = mset (map fst es)" for es
    by (simp add: sorted_sessions_def mset_sort)
  then show ?thesis by (simp add: enhanced_sessions_def multiset.map_comp comp_def)
qed

lemma progress_scores: "map pp_score (session_progress_data ss) = map ss_score (rev ss)"
  by (rule nth_equalityI) (simp_all add: session_progress_data_def)

lemma sorted_sessions_extremes:
  assumes "es \<noteq> []" "e \<in> set es"
  shows "ss_completedAt (fst (last (sorted_sessions es))) \<le> ss_completedAt (fst e)
       \<and> ss_completedAt (fst e) \<le> ss_completedAt (fst (hd (sorted_sessions es)))"
proof -
  let ?S = "sorted_sessions es" and ?f = "\<lambda>e. - ss_completedAt (fst e)"
  have srt: "sorted (map ?f ?S)" and st: "set ?S = set es"
    by (simp_all add: sorted_sessions_def)
  from assms st obtain x xs where S1: "?S = x # xs" by (cases ?S) auto
  from assms st obtain ys y where S2: "?S = ys @ [y]" by (cases ?S rule: rev_cases) auto
  have "e \<in> set (x # xs)" "e \<in> set (ys @ [y])" using assms(2) st S1 S2 by auto
  moreover have "\<forall>z \<in> set xs. ?f x \<le> ?f z" using srt S1 by simp
  moreover have "\<forall>z \<in> set ys. ?f z \<le> ?f y" using srt S2 by (simp add: sorted_append)
  moreover have "hd ?S = x" using S1 by simp
  moreover have "last ?S = y" using S2 by simp
  ultimately show ?thesis by (metis (no_types, lifting) le_minus_iff neg_le_iff_le order_refl
        set_ConsD set_append rotate1.simps(2) Un_iff empty_iff empty_set)
qed

subsection \<open>Properties of the student details page\<close>

text \<open>The Sessions tab lists the student's sessions newest first: the sort keeps every
  session exactly once, orders them by completion time, latest first, and is stable, so
  sessions completed at the same time keep the order the server sent.\<close>

theorem sessions_sorted_newest_first:
  "mset (sorted_sessions es) = mset es
   \<and> sorted (map (\<lambda>e. - ss_completedAt (fst e)) (sorted_sessions es))
   \<and> (\<forall>t. filter (\<lambda>e. ss_completedAt (fst e) = t) (sorted_sessions es) = filter (\<lambda>e. ss_completedAt (fst e) = t) es)"
proof -
  have "filter (\<lambda>e. ss_completedAt (fst e) = t) (sorted_sessions es) = filter (\<lambda>e. ss_completedAt (fst e) = t) es" for t
    using sort_key_stable [of "\<lambda>e. - ss_completedAt (fst e)" "- t" es]
    by (simp add: sorted_sessions_def)
  then show ?thesis by (simp add: sorted_sessions_def mset_sort)
qed

text \<open>The Progress tab reports an improvement exactly when the latest session scored
  higher than the earliest one: its first point is the session completed first and its last
  point the one completed last.\<close>

theorem improvement_first_to_last:
  assumes "1 < length es"
  shows "(ps_changeLabel (progress_summary_of (session_progress_data (map fst (sorted_sessions es)))) = ''Improvement:''
          \<longleftrightarrow> ss_score (fst (last (sorted_sessions es))) < ss_score (fst (hd (sorted_sessions es))))
       \<and> (\<forall>e \<in> set es. ss_completedAt (fst (last (sorted_sessions es))) \<le> ss_completedAt (fst e)
                       \<and> ss_completedAt (fst e) \<le> ss_completedAt (fst (hd (sorted_sessions es))))"
proof -
  let ?S = "sorted_sessions es"
  let ?pd = "session_progress_data (map fst ?S)"
  have len: "length ?S = length es" by (simp add: sorted_sessions_def)
  have sc: "map pp_score ?pd = map ss_score (rev (map fst ?S))" by (rule progress_scores)
  then have lpd: "length ?pd = length es" using len by (metis length_map length_rev)
  with assms have ne: "?pd \<noteq> []" "?S \<noteq> []" using len by auto
  have "pp_score (hd ?pd) = ss_score (fst (last ?S))"
    using arg_cong [OF sc, of hd] ne by (simp add: hd_map hd_rev last_map)
  moreover have "pp_score (last ?pd) = ss_score (fst (hd ?S))"
    using arg_cong [OF sc, of last] ne by (simp add: last_map last_rev hd_map)
  ultimately have "ps_changeLabel (progress_summary_of ?pd) = ''Improvement:''
      \<longleftrightarrow> ss_score (fst (last ?S)) < ss_score (fst (hd ?S))"
    using lpd assms by (simp add: progress_summary_of_def)
  moreover have "es \<noteq> []" using assms by auto
  ultimately show ?thesis using sorted_sessions_extremes by blast
qed

text \<open>With distinct topic ids the per-topic session counts add up to the number of
  the student's sessions that have one of the listed topics: no session is counted twice,
  and mixed-topic sessions are counted under no topic.\<close>

theorem topic_counts_partition:
  "distinct (map t_id ts) \<Longrightarrow>
   sum_list (map tp_sessionCount (topic_performance (Some ts) ss))
     = length (filter (\<lambda>s. \<exists>t \<in> set ts. ss_topicId s = Some (t_id t)) ss)"
proof (induction ts)
  case Nil
  then show ?case by (simp add: topic_performance_def)
next
  case (Cons t ts)
  have "length (filter (\<lambda>s. ss_topicId s = Some (t_id t)) ss)
        + length (filter (\<lambda>s. \<exists>t' \<in> set ts. ss_topicId s = Some (t_id t')) ss)
      = length (filter (\<lambda>s. ss_topicId s = Some (t_id t) \<or> (\<exists>t' \<in> set ts. ss_topicId s = Some (t_id t'))) ss)"
    using Cons.prems by (intro filter_disjoint_length) (auto simp: image_iff)
  with Cons show ?case by (simp add: topic_performance_def Let_def)
qed

text \<open>The topic chart shows exactly the topics with at least one session, best average
  score first.\<close>

theorem topic_chart_order:
  "sorted (map (\<lambda>tp. - tp_averageScore tp) (topic_performance_data tps))
   \<and> set (topic_performance_data tps) = {tp \<in> set tps. 0 < tp_sessionCount tp}"
  by (simp add: topic_performance_data_def)

text \<open>When every session has at most as many correct answers as questions, the
  overall accuracy shown on the Overview tab lies between 0 and 100 per cent.\<close>

theorem accuracy_bounds:
  assumes "student_details_view False False (Some u) (Some ss) topics = StudentShown v"
    and "\<forall>s \<in> set ss. ss_correctAnswers s \<le> ss_totalQuestions s"
  shows "0 \<le> sdv_accuracy v \<and> sdv_accuracy v \<le> 100"
proof -
  let ?xs = "map fst (sorted_sessions (enhanced_sessions (Some ss) topics))"
  have "set ?xs = set ss" using arg_cong [OF mset_sorted_enhanced, of set_mset] by simp
  then have le: "sum_list (map ss_correctAnswers ?xs) \<le> sum_list (map ss_totalQuestions ?xs)"
    using assms(2) by (intro sum_list_mono) auto
  have "of_nat a / of_nat b * 100 + 1 / 2 < (101 :: rat)" if "a \<le> b" "0 < b" for a b :: nat
  proof -
    have "of_nat a / of_nat b \<le> (1::rat)" using that by simp
    then show ?thesis by linarith
  qed
  with le assms(1) show ?thesis
    by (auto simp: student_details_view_def Let_def floor_less_iff)
qed

theorem improvement_first_to_last_witness:
  "ps_changeLabel (progress_summary_of (session_progress_data (map fst (sorted_sessions
     [(\<lparr>ss_id = 1, ss_userId = 3, ss_topicId = None, ss_correctAnswers = 1, ss_totalQuestions = 2,
         ss_timeSpent = 10, ss_score = 50, ss_completedAt = 100\<rparr>, ''All Topics''),
      (\<lparr>ss_id = 2, ss_userId = 3, ss_topicId = None, ss_correctAnswers = 2, ss_totalQuestions = 2,
         ss_timeSpent = 10, ss_score = 100, ss_completedAt = 200\<rparr>, ''All Topics'')])))) = ''Improvement:''"
  using improvement_first_to_last [of "[(\<lparr>ss_id = 1, ss_userId = 3, ss_topicId = None, ss_correctAnswers = 1, ss_totalQuestions = 2,
         ss_timeSpent = 10, ss_score = 50, ss_completedAt = 100\<rparr>, ''All Topics''),
      (\<lparr>ss_id = 2, ss_userId = 3, ss_topicId = None, ss_correctAnswers = 2, ss_totalQuestions = 2,
         ss_timeSpent = 10, ss_score = 100, ss_completedAt = 200\<rparr>, ''All Topics'')]"]
  by (simp add: sorted_sessions_def)

theorem topic_counts_partition_witness:
  "sum_list (map tp_sessionCount (topic_performance (Some [\<lparr>t_id = 1, t_name = ''Cardio''\<rparr>, \<lparr>t_id = 2, t_name = ''Valves''\<rparr>])
     [\<lparr>ss_id = 1, ss_userId = 3, ss_topicId = Some 1, ss_correctAnswers = 1, ss_totalQuestions = 2,
        ss_timeSpent = 10, ss_score = 50, ss_completedAt = 100\<rparr>,
      \<lparr>ss_id = 2, ss_userId = 3, ss_topicId = None, ss_correctAnswers = 2, ss_totalQuestions = 2,
        ss_timeSpent = 10, ss_score = 100, ss_completedAt = 200\<rparr>])) = 1"
  using topic_counts_partition [of "[\<lparr>t_id = 1, t_name = ''Cardio''\<rparr>, \<lparr>t_id = 2, t_name = ''Valves''\<rparr>]"
     "[\<lparr>ss_id = 1, ss_userId = 3, ss_topicId = Some 1, ss_correctAnswers = 1, ss_totalQuestions = 2,
        ss_timeSpent = 10, ss_score = 50, ss_completedAt = 100\<rparr>,
      \<lparr>ss_id = 2, ss_userId = 3, ss_topicId = None, ss_correctAnswers = 2, ss_totalQuestions = 2,
        ss_timeSpent = 10, ss_score = 100, ss_completedAt = 200\<rparr>]"]
  by simp

theorem accuracy_bounds_witness:
  "case student_details_view False False
      (Some \<lparr>u_id = 3, u_username = ''ann'', u_fullName = ''Ann'', u_email = ''a@x'', u_role = ''student'', u_approved = True\<rparr>)
      (Some [\<lparr>ss_id = 1, ss_userId = 3, ss_topicId = None, ss_correctAnswers = 1, ss_totalQuestions = 2,
              ss_timeSpent = 10, ss_score = 50, ss_completedAt = 100\<rparr>]) None of
     StudentShown v \<Rightarrow> 0 \<le> sdv_accuracy v \<and> sdv_accuracy v \<le> 100
   | _ \<Rightarrow> False"
proof -
  let ?u = "\<lparr>u_id = 3, u_username = ''ann'', u_fullName = ''Ann'', u_email = ''a@x'', u_role = ''student'', u_approved = True\<rparr>"
  let ?ss = "[\<lparr>ss_id = 1, ss_userId = 3, ss_topicId = None, ss_correctAnswers = 1, ss_totalQuestions = 2,
              ss_timeSpent = 10, ss_score = 50, ss_completedAt = 100\<rparr>]"
  obtain v where v: "student_details_view False False (Some ?u) (Some ?ss) None = StudentShown v"
    by (simp add: student_details_view_def Let_def)
  have "\<forall>s \<in> set ?ss. ss_correctAnswers s \<le> ss_totalQuestions s" by simp
  from accuracy_bounds [OF v this] v show ?thesis by simp
qed

end
