(* ===== verification/Dashboards.thy ===== *)
theory Dashboards
  imports QuizConfig StudentDetails
begin

text \<open>
  The three overview pages: the student dashboard
  (\<open>src/client/src/pages/student/dashboard.tsx\<close>), which aggregates the student's own
  sessions and opens the two quiz dialogs of \<open>QuizConfig\<close>; the administrator dashboard
  (\<open>pages/admin/dashboard.tsx\<close>) and the analytics page (\<open>pages/admin/analytics.tsx\<close>), both
  renderings of the server's \<open>/api/statistics\<close> reply. Sessions are the stored sessions of
  \<open>StudentDetails\<close>; the locale-dependent date printers (\<open>toLocaleDateString\<close>) are
  parameters.
\<close>

subsection \<open>Student dashboard: statistics\<close>

record topic_entry =
  te_id :: int
  te_name :: js_string
  te_description :: "js_string option"
  te_questionCount :: "nat option"

record dashboard_stats =
  attempted :: nat
  accuracy :: js_string
  sessionsCount :: nat

text \<open>\<open>stats\<close>: the reduce over \<open>totalQuestions\<close> (\<open>|| 0\<close>), the accuracy as
  \<open>(correct / attempted * 100).toFixed(0)\<close> when there are sessions, and their number.\<close>

definition dashboard_stats_of :: "stored_session list option \<Rightarrow> dashboard_stats" where
  "dashboard_stats_of sessionList =
     (let ss = (case sessionList of None \<Rightarrow> [] | Some l \<Rightarrow> l);
          tq = sum_list (map ss_totalQuestions ss);
          ca = sum_list (map ss_correctAnswers ss)
      in \<lparr>attempted = tq,
          accuracy = (if ss \<noteq> [] then js_toFixed 0 (js_mul (js_div (JNum (of_nat ca)) (JNum (of_nat tq))) (JNum 100))
                      else ''0''),
          sessionsCount = length ss\<rparr>)"

definition recent_sessions :: "stored_session list option \<Rightarrow> stored_session list" where
  "recent_sessions sessionList = take 5 (case sessionList of None \<Rightarrow> [] | Some l \<Rightarrow> l)"

text \<open>\<open>topics?.find(t => t.id === session.topicId)?.name || "All Topics"\<close>.\<close>

definition dash_topic_name :: "topic_entry list option \<Rightarrow> int option \<Rightarrow> js_string" where
  "dash_topic_name topicList tid =
     (case topicList of None \<Rightarrow> ''All Topics''
      | Some ts \<Rightarrow> (case find (\<lambda>t. Some (te_id t) = tid) ts of None \<Rightarrow> ''All Topics''
                   | Some t \<Rightarrow> if te_name t \<noteq> [] then te_name t else ''All Topics''))"

text \<open>The score colour: two \<open>if\<close>s in sequence, the second overriding the first.\<close>

definition dash_score_color :: "rat \<Rightarrow> js_string" where
  "dash_score_color sc =
     (let c = (if sc < 70 then ''text-yellow-600 font-medium'' else ''text-green-600 font-medium'')
      in if sc < 60 then ''text-red-600 font-medium'' else c)"

text \<open>The accuracy bar: \<open>parseInt(accuracy)\<close> against 80 and 60; \<open>parseInt("NaN")\<close> is
  \<open>NaN\<close>, below every threshold.\<close>

definition accuracy_bar_color :: "js_string \<Rightarrow> js_string" where
  "accuracy_bar_color acc =
     (case parse_int_noradix acc of None \<Rightarrow> ''bg-red-600''
      | Some k \<Rightarrow> if 80 \<le> k then ''bg-green-600'' else if 60 \<le> k then ''bg-yellow-600'' else ''bg-red-600'')"

record recent_row =
  rr_date :: js_string
  rr_topic :: js_string
  rr_questions :: nat
  rr_score_class :: js_string
  rr_score_text :: js_string
  rr_accuracy_class :: js_string
  rr_accuracy_width :: js_string
  rr_time :: js_string
  rr_href :: js_string

definition recent_row_of :: "(int \<Rightarrow> js_string) \<Rightarrow> topic_entry list option \<Rightarrow> stored_session \<Rightarrow> recent_row" where
  "recent_row_of dateStr topicList s =
     (let acc = js_toFixed 0 (js_mul (js_div (JNum (of_nat (ss_correctAnswers s))) (JNum (of_nat (ss_totalQuestions s))))
                  (JNum 100))
      in \<lparr>rr_date = dateStr (ss_completedAt s), rr_topic = dash_topic_name topicList (ss_topicId s),
          rr_questions = ss_totalQuestions s, rr_score_class = dash_score_color (ss_score s),
          rr_score_text = js_toFixed 0 (JNum (ss_score s)) @ ''% ('' @ show_nat (ss_correctAnswers s) @ ''/''
                          @ show_nat (ss_totalQuestions s) @ '')'',
          rr_accuracy_class = accuracy_bar_color acc, rr_accuracy_width = acc @ ''%'',
          rr_time = show_nat (ss_timeSpent s div 60) @ ''m '' @ show_nat (ss_timeSpent s mod 60) @ ''s'',
          rr_href = ''/results/'' @ show_nat (ss_id s)\<rparr>)"

datatype recent_section = RecentSkeleton | RecentRows "recent_row list" | NoSessionsYet

subsection \<open>Student dashboard: topic cards and the page\<close>

record topic_card =
  tc_name :: js_string
  tc_description :: js_string
  tc_count_text :: js_string

text \<open>A topic card; its question count is looked up again in the list
  (\<open>topics?.find(t => t.id === topic.id)?.questionCount || "Loading..."\<close>).\<close>

definition topic_card_of :: "topic_entry list \<Rightarrow> topic_entry \<Rightarrow> topic_card" where
  "topic_card_of ts t =
     (let dflt = ''Practice '' @ te_name t @ '' questions''
      in \<lparr>tc_name = te_name t,
          tc_description = (case te_description t of None \<Rightarrow> dflt | Some d \<Rightarrow> if d \<noteq> [] then d else dflt),
          tc_count_text =
            (case find (\<lambda>u. te_id u = te_id t) ts of None \<Rightarrow> ''Loading...''
             | Some u \<Rightarrow> (case te_questionCount u of None \<Rightarrow> ''Loading...''
                         | Some n \<Rightarrow> if n \<noteq> 0 then show_nat n else ''Loading...'')) @ '' questions''\<rparr>)"

text \<open>\<open>user?.fullName?.split(' ')[0] || 'Student'\<close>.\<close>

definition welcome_name :: "js_string option \<Rightarrow> js_string" where
  "welcome_name fullName =
     (case fullName of None \<Rightarrow> ''Student''
      | Some n \<Rightarrow> (let w = hd (split_on CHR '' '' n) in if w \<noteq> [] then w else ''Student''))"

record student_dashboard_view =
  welcome_text :: js_string
  sd_stats :: dashboard_stats
  attempted_width :: nat
  accuracy_width :: js_string
  sessions_width :: nat
  topic_cards :: "topic_card list option"
  recent :: recent_section

text \<open>The page, from the user's name, the two queries (data and loading flag) and the
  date printer. The stat bars' widths are \<open>min(attempted / 100 * 100, 100)\<close> and
  \<open>min(sessionsCount / 20 * 100, 100)\<close> percent.\<close>

definition student_dashboard_view ::
  "(int \<Rightarrow> js_string) \<Rightarrow> js_string option \<Rightarrow> topic_entry list option \<Rightarrow> bool \<Rightarrow>
   stored_session list option \<Rightarrow> bool \<Rightarrow> student_dashboard_view" where
  "student_dashboard_view dateStr fullName topicList isLoadingTopics sessionList isLoadingSessions =
     (let st = dashboard_stats_of sessionList;
          rs = recent_sessions sessionList
      in \<lparr>welcome_text = ''Welcome Back, '' @ welcome_name fullName @ ''!'', sd_stats = st,
          attempted_width = min (attempted st) 100, accuracy_width = accuracy st @ ''%'',
          sessions_width = min (5 * sessionsCount st) 100,
          topic_cards = (if isLoadingTopics then None
                         else Some (case topicList of None \<Rightarrow> [] | Some ts \<Rightarrow> map (topic_card_of ts) ts)),
          recent = (if isLoadingSessions then RecentSkeleton
                    else if rs \<noteq> [] then RecentRows (map (recent_row_of dateStr topicList) rs)
                    else NoSessionsYet)\<rparr>)"

subsection \<open>Student dashboard: the dialogs\<close>

text \<open>The dialog state: which of the two configuration dialogs is open and the topic
  passed to them as \<open>topicId\<close> (\<open>topic.id.toString()\<close>).\<close>

record dashboard_dialogs =
  isTimedQuizOpen :: bool
  isPracticeConfigOpen :: bool
  selectedTopicId :: "js_string option"

definition dashboard_dialogs_init :: dashboard_dialogs where
  "dashboard_dialogs_init = \<lparr>isTimedQuizOpen = False, isPracticeConfigOpen = False, selectedTopicId = None\<rparr>"

datatype dashboard_event =
  HeaderTimedQuiz | TopicPractice int | TopicTimed int | AllTopicsPractice | AllTopicsTimed
  | TimedOpenChange bool | PracticeOpenChange bool

fun dashboard_step :: "dashboard_event \<Rightarrow> dashboard_dialogs \<Rightarrow> dashboard_dialogs" where
  "dashboard_step HeaderTimedQuiz d = d\<lparr>selectedTopicId := None, isTimedQuizOpen := True\<rparr>"
| "dashboard_step (TopicPractice t) d = d\<lparr>selectedTopicId := Some (show_int t), isPracticeConfigOpen := True\<rparr>"
| "dashboard_step (TopicTimed t) d = d\<lparr>selectedTopicId := Some (show_int t), isTimedQuizOpen := True\<rparr>"
| "dashboard_step AllTopicsPractice d = d\<lparr>selectedTopicId := None, isPracticeConfigOpen := True\<rparr>"
| "dashboard_step AllTopicsTimed d = d\<lparr>selectedTopicId := None, isTimedQuizOpen := True\<rparr>"
| "dashboard_step (TimedOpenChange b) d = d\<lparr>isTimedQuizOpen := b\<rparr>"
| "dashboard_step (PracticeOpenChange b) d = d\<lparr>isPracticeConfigOpen := b\<rparr>"

subsection \<open>The statistics reply and the administrator dashboard\<close>

text \<open>The fields of the \<open>/api/statistics\<close> reply the two administrator pages read.\<close>

record activity =
  ac_id :: nat
  ac_user :: "(js_string \<times> js_string) option"
  ac_completedAt :: js_string
  ac_topicName :: "js_string option"
  ac_score :: rat
  ac_correctAnswers :: "nat option"
  ac_questionCount :: nat
  ac_timeSpent :: nat

record topic_stat =
  ts_id :: int
  ts_name :: js_string
  ts_sessionCount :: nat
  ts_averageScore :: rat
  ts_questionCount :: nat

record statistics =
  st_studentCount :: "nat option"
  st_questionCount :: "nat option"
  st_sessionCount :: "nat option"
  st_averageScore :: "rat option"
  st_recentActivity :: "activity list"
  st_topicPerformance :: "topic_stat list"

text \<open>\<open>stats?.x || 0\<close> on a count.\<close>

definition count_or0 :: "statistics option \<Rightarrow> (statistics \<Rightarrow> nat option) \<Rightarrow> nat" where
  "count_or0 stats f = (case stats of None \<Rightarrow> 0 | Some st \<Rightarrow> (case f st of None \<Rightarrow> 0 | Some n \<Rightarrow> n))"

text \<open>\<open>stats?.averageScore ? `${stats.averageScore.toFixed(0)}%` : "N/A"\<close>: an average of
  0 is falsy.\<close>

definition average_text :: "statistics option \<Rightarrow> js_string" where
  "average_text stats =
     (case stats of None \<Rightarrow> ''N/A''
      | Some st \<Rightarrow> (case st_averageScore st of None \<Rightarrow> ''N/A''
                   | Some a \<Rightarrow> if a \<noteq> 0 then js_toFixed 0 (JNum a) @ ''%'' else ''N/A''))"

definition band_class :: "js_string \<Rightarrow> js_string \<Rightarrow> js_string \<Rightarrow> rat \<Rightarrow> js_string" where
  "band_class hi mid lo x = (if 80 \<le> x then hi else if 60 \<le> x then mid else lo)"

record activity_row =
  ar_name :: js_string
  ar_email :: js_string
  ar_date :: js_string
  ar_topic :: js_string
  ar_badge :: js_string
  ar_score :: js_string
  ar_questions :: nat
  ar_time :: js_string

definition activity_row_of :: "(js_string \<Rightarrow> js_string) \<Rightarrow> activity \<Rightarrow> activity_row" where
  "activity_row_of dateStr a =
     \<lparr>ar_name = (case ac_user a of None \<Rightarrow> [] | Some u \<Rightarrow> fst u),
      ar_email = (case ac_user a of None \<Rightarrow> [] | Some u \<Rightarrow> snd u),
      ar_date = dateStr (ac_completedAt a),
      ar_topic = (case ac_topicName a of None \<Rightarrow> [] | Some n \<Rightarrow> n),
      ar_badge = band_class ''bg-green-100 text-green-800'' ''bg-yellow-100 text-yellow-800''
                   ''bg-red-100 text-red-800'' (ac_score a),
      ar_score = js_toFixed 0 (JNum (ac_score a)) @ ''%''
                 @ (case ac_correctAnswers a of None \<Rightarrow> []
                    | Some c \<Rightarrow> '' ('' @ show_nat c @ ''/'' @ show_nat (ac_questionCount a) @ '')''),
      ar_questions = ac_questionCount a,
      ar_time = show_nat (ac_timeSpent a div 60) @ ''m '' @ show_nat (ac_timeSpent a mod 60) @ ''s''\<rparr>"

record topic_bar =
  tb_name :: js_string
  tb_average :: js_string
  tb_class :: js_string

definition topic_bar_of :: "topic_stat \<Rightarrow> topic_bar" where
  "topic_bar_of t =
     \<lparr>tb_name = ts_name t, tb_average = js_toFixed 0 (JNum (ts_averageScore t)) @ ''%'',
      tb_class = band_class ''bg-green-600'' ''bg-yellow-600'' ''bg-red-600'' (ts_averageScore t)\<rparr>"

record admin_dashboard_view =
  ad_students :: nat
  ad_questions :: nat
  ad_sessions :: nat
  ad_average :: "js_string option"
  ad_average_class :: "js_string option"
  ad_activity :: "activity_row list option"
  ad_topics :: "topic_bar list option"
  ad_no_topics :: bool

text \<open>The page from the query: \<open>None\<close> fields are the skeletons shown while loading; an
  empty activity list is the "No recent activity found" row.\<close>

definition admin_dashboard_view ::
  "(js_string \<Rightarrow> js_string) \<Rightarrow> statistics option \<Rightarrow> bool \<Rightarrow> admin_dashboard_view" where
  "admin_dashboard_view dateStr stats isLoading =
     \<lparr>ad_students = count_or0 stats st_studentCount, ad_questions = count_or0 stats st_questionCount,
      ad_sessions = count_or0 stats st_sessionCount,
      ad_average = (if isLoading then None else Some (average_text stats)),
      ad_average_class =
        (if isLoading then None
         else Some (case stats of Some st \<Rightarrow> (case st_averageScore st of Some a \<Rightarrow>
                      if 75 \<le> a then ''text-green-600'' else ''text-yellow-600'' | None \<Rightarrow> ''text-yellow-600'')
                    | None \<Rightarrow> ''text-yellow-600'')),
      ad_activity = (if isLoading then None
                     else Some (case stats of None \<Rightarrow> [] | Some st \<Rightarrow> map (activity_row_of dateStr) (st_recentActivity st))),
      ad_topics = (if isLoading then None
                   else Some (case stats of None \<Rightarrow> [] | Some st \<Rightarrow> map topic_bar_of (st_topicPerformance st))),
      ad_no_topics = (\<not> isLoading \<and> (case stats of None \<Rightarrow> True | Some st \<Rightarrow> st_topicPerformance st = []))\<rparr>"

subsection \<open>The analytics page\<close>

record analytics_state =
  selectedTopic :: js_string
  timeRange :: js_string
  chartType :: js_string

definition analytics_init :: analytics_state where
  "analytics_init = \<lparr>selectedTopic = ''all'', timeRange = ''month'', chartType = ''performance''\<rparr>"

datatype analytics_event = SetTopic js_string | SetTimeRange js_string | SetChartType js_string

fun analytics_step :: "analytics_event \<Rightarrow> analytics_state \<Rightarrow> analytics_state" where
  "analytics_step (SetTopic v) a = a\<lparr>selectedTopic := v\<rparr>"
| "analytics_step (SetTimeRange v) a = a\<lparr>timeRange := v\<rparr>"
| "analytics_step (SetChartType v) a = a\<lparr>chartType := v\<rparr>"

text \<open>The two data sets written into the page.\<close>

definition performanceData :: "(js_string \<times> nat \<times> nat) list" where
  "performanceData = [(''Week 1'', 68, 85), (''Week 2'', 72, 78), (''Week 3'', 75, 82),
                      (''Week 4'', 82, 88), (''Week 5'', 78, 92), (''Week 6'', 85, 90)]"

definition timeSpentData :: "(js_string \<times> nat) list" where
  "timeSpentData = [(''0-5 min'', 24), (''5-10 min'', 45), (''10-15 min'', 62), (''15-20 min'', 38),
                    (''20+ min'', 15)]"

definition topicDistributionData :: "statistics option \<Rightarrow> (js_string \<times> nat \<times> js_string) list" where
  "topicDistributionData stats =
     (case stats of None \<Rightarrow> []
      | Some st \<Rightarrow> map (\<lambda>t. (ts_name t, ts_sessionCount t, js_toFixed 0 (JNum (ts_averageScore t))))
                    (st_topicPerformance st))"

definition difficultyData :: "statistics option \<Rightarrow> (js_string \<times> rat \<times> nat) list" where
  "difficultyData stats =
     (case stats of None \<Rightarrow> []
      | Some st \<Rightarrow> map (\<lambda>t. (ts_name t, ts_averageScore t, ts_questionCount t)) (st_topicPerformance st))"

datatype analytics_chart =
  PerformanceChart "(js_string \<times> nat \<times> nat) list"
  | TopicsChart "(js_string \<times> nat \<times> js_string) list"
  | TimeChart "(js_string \<times> nat) list"
  | DifficultyChart "(js_string \<times> rat \<times> nat) list"
  | ChartSkeleton | NoChart

definition analytics_chart_of :: "js_string \<Rightarrow> statistics option \<Rightarrow> bool \<Rightarrow> analytics_chart" where
  "analytics_chart_of ct stats isLoading =
     (if ct = ''performance'' then (if isLoading then ChartSkeleton else PerformanceChart performanceData)
      else if ct = ''topics'' then (if isLoading then ChartSkeleton else TopicsChart (topicDistributionData stats))
      else if ct = ''time'' then (if isLoading then ChartSkeleton else TimeChart timeSpentData)
      else if ct = ''difficulty'' then (if isLoading then ChartSkeleton else DifficultyChart (difficultyData stats))
      else NoChart)"

record analytics_view =
  av_topic_options :: "(js_string \<times> js_string) list"
  av_selectedTopic :: js_string
  av_timeRange :: js_string
  av_chartType :: js_string
  av_chart :: analytics_chart
  av_summary :: "(topic_bar \<times> js_string) list option"
  av_counts :: "(nat \<times> nat \<times> js_string \<times> nat) option"
  av_improvement :: "js_string list option"

definition analytics_view ::
  "analytics_state \<Rightarrow> topic_entry list option \<Rightarrow> statistics option \<Rightarrow> bool \<Rightarrow> analytics_view" where
  "analytics_view a topicList stats isLoading =
     \<lparr>av_topic_options = (''all'', ''All Topics'')
        # (case topicList of None \<Rightarrow> [] | Some ts \<Rightarrow> map (\<lambda>t. (show_int (te_id t), te_name t)) ts),
      av_selectedTopic = selectedTopic a, av_timeRange = timeRange a, av_chartType = chartType a,
      av_chart = analytics_chart_of (chartType a) stats isLoading,
      av_summary = (if isLoading then None
                    else Some (case stats of None \<Rightarrow> []
                               | Some st \<Rightarrow> map (\<lambda>t. (topic_bar_of t, show_nat (ts_sessionCount t) @ '' sessions, ''
                                                     @ show_nat (ts_questionCount t) @ '' questions''))
                                             (st_topicPerformance st))),
      av_counts = (if isLoading then None
                   else Some (count_or0 stats st_studentCount, count_or0 stats st_sessionCount,
                              average_text stats, count_or0 stats st_questionCount)),
      av_improvement = (if isLoading then None
                        else Some [''Last month: 70%'', ''This month: 78%'', ''+8% improvement''])\<rparr>"

subsection \<open>Lemmas\<close>

lemma show_int_nonneg: "0 \<le> t \<Longrightarrow> show_int t = show_nat (nat t)"
  by (simp add: show_int_def)

lemma js_toFixed_0_nonneg: "0 \<le> r \<Longrightarrow> js_toFixed 0 (JNum r) = show_nat (nat (floor (r + 1 / 2)))"
  by (simp add: js_toFixed_def Let_def Suc_leI length_greater_0_conv)

lemma percent_rounded_le_100:
  assumes "ca \<le> tq" "0 < tq"
  shows "nat (floor (of_nat ca * 100 / of_nat tq + 1 / 2 :: rat)) \<le> 100"
proof -
  have "of_nat ca * 100 / of_nat tq \<le> (100 :: rat)"
    using assms by (simp add: divide_le_eq)
  then have "of_nat ca * 100 / of_nat tq + 1 / 2 < (101 :: rat)" by simp
  then have "floor (of_nat ca * 100 / of_nat tq + 1 / 2 :: rat) \<le> 100"
    by (simp add: floor_le_iff)
  then show ?thesis by (simp add: nat_le_iff)
qed

text \<open>A stored session without questions (C19 stores one) is listed with accuracy
  \<open>NaN%\<close> and a red bar.\<close>

lemma recent_row_empty_session:
  "ss_totalQuestions s = 0 \<Longrightarrow> ss_correctAnswers s = 0 \<Longrightarrow>
     rr_accuracy_width (recent_row_of dateStr topicList s) = ''NaN%''
     \<and> rr_accuracy_class (recent_row_of dateStr topicList s) = ''bg-red-600''"
  by (simp add: recent_row_of_def js_toFixed_def accuracy_bar_color_def parse_int_noradix_eq parse_int_def is_digit_def)

text \<open>The administrator's average of exactly 0 is shown as \<open>N/A\<close>, like a missing one.\<close>

lemma average_text_zero:
  "average_text (Some st) = ''N/A'' \<longleftrightarrow> st_averageScore st = None \<or> st_averageScore st = Some 0"
proof (cases "st_averageScore st")
  case (Some a)
  have "js_toFixed 0 (JNum a) @ ''%'' \<noteq> ''N/A''"
  proof
    assume "js_toFixed 0 (JNum a) @ ''%'' = ''N/A''"
    then have "last (js_toFixed 0 (JNum a) @ ''%'') = last ''N/A''" by simp
    then show False by simp
  qed
  with Some show ?thesis by (simp add: average_text_def)
qed (simp add: average_text_def)

subsection \<open>Properties\<close>

text \<open>C34. The dashboard hands the clicked topic to the quiz dialogs, and the practice
  page reads it back: after a topic card's "Timed Quiz" button the timed dialog is open and
  the URL it starts reaches the page with that topic, timed, with the dialog's limit and
  count; after a click on the card itself the practice dialog is open and its URL reaches
  the page with that topic, untimed; the header button and the "All Topics" card pass no
  topic.\<close>

theorem dashboard_opens_quiz_for_topic:
  assumes "0 \<le> t"
  shows "isTimedQuizOpen (dashboard_step (TopicTimed t) d)
     \<and> page_params (startTimedQuiz (selectedTopicId (dashboard_step (TopicTimed t) d)) c)
         = Some (\<lparr>isTimed = True, topicParam = Some (show_nat (nat t)), timeLimit = timeLimitInMinutes c\<rparr>,
                 Some (int (questionCount c)))
     \<and> isPracticeConfigOpen (dashboard_step (TopicPractice t) d)
     \<and> page_params (startPractice (selectedTopicId (dashboard_step (TopicPractice t) d)) (show_nat n))
         = Some (\<lparr>isTimed = False, topicParam = Some (show_nat (nat t)), timeLimit = 0\<rparr>, Some (int n))
     \<and> topicParam (fst (the (page_params (startTimedQuiz (selectedTopicId (dashboard_step HeaderTimedQuiz d)) c)))) = None
     \<and> topicParam (fst (the (page_params (startTimedQuiz (selectedTopicId (dashboard_step AllTopicsTimed d)) c)))) = None
     \<and> topicParam (fst (the (page_params (startPractice (selectedTopicId (dashboard_step AllTopicsPractice d)) (show_nat n))))) = None"
proof -
  have t: "Some (show_int t) = map_option show_nat (Some (nat t))" using assms by (simp add: show_int_nonneg)
  have none: "(None :: js_string option) = map_option show_nat None" by simp
  show ?thesis
    using page_params_timed [of "Some (nat t)" c] page_params_practice_url [of "Some (nat t)" n]
      page_params_timed [of None c] page_params_practice_url [of None n]
    by (simp only: dashboard_step.simps t none simp_thms) simp
qed

theorem dashboard_opens_quiz_for_topic_witness:
  "isTimedQuizOpen (dashboard_step (TopicTimed 3) dashboard_dialogs_init)
   \<and> page_params (startTimedQuiz (selectedTopicId (dashboard_step (TopicTimed 3) dashboard_dialogs_init)) timed_config_init)
       = Some (\<lparr>isTimed = True, topicParam = Some ''3'', timeLimit = timeLimitInMinutes timed_config_init\<rparr>,
               Some (int (questionCount timed_config_init)))"
  using dashboard_opens_quiz_for_topic [of 3 dashboard_dialogs_init timed_config_init 10]
  by (simp add: num_eval)

text \<open>The dashboard's accuracy rate: "0" without sessions; when every listed
  session has no questions, "NaN" (or "Infinity" if they nonetheless count correct
  answers), since the division is unguarded; otherwise the total of correct answers over
  the total of questions as a percentage rounded to an integer, which lies between 0 and
  100 when no session has more correct answers than questions.\<close>

theorem dashboard_accuracy_cases:
  "accuracy (dashboard_stats_of (Some ss)) =
     (if ss = [] then ''0''
      else if sum_list (map ss_totalQuestions ss) = 0 then
        (if sum_list (map ss_correctAnswers ss) = 0 then ''NaN'' else ''Infinity'')
      else show_nat (nat (floor (of_nat (sum_list (map ss_correctAnswers ss)) * 100
                                  / of_nat (sum_list (map ss_totalQuestions ss)) + 1 / 2 :: rat))))
   \<and> ((\<forall>s \<in> set ss. ss_correctAnswers s \<le> ss_totalQuestions s) \<and> 0 < sum_list (map ss_totalQuestions ss)
      \<longrightarrow> (\<exists>k \<le> 100. accuracy (dashboard_stats_of (Some ss)) = show_nat k))"
proof -
  let ?tq = "sum_list (map ss_totalQuestions ss)" and ?ca = "sum_list (map ss_correctAnswers ss)"
  have val: "accuracy (dashboard_stats_of (Some ss)) =
     (if ss = [] then ''0'' else if ?tq = 0 then (if ?ca = 0 then ''NaN'' else ''Infinity'')
      else show_nat (nat (floor (of_nat ?ca * 100 / of_nat ?tq + 1 / 2 :: rat))))"
  proof (cases "ss = []")
    case True
    then show ?thesis by (simp add: dashboard_stats_of_def)
  next
    case ne: False
    show ?thesis
    proof (cases "?tq = 0")
      case True
      with ne show ?thesis by (simp add: dashboard_stats_of_def Let_def js_toFixed_def)
    next
      case False
      have nn: "0 \<le> of_nat ?ca * 100 / (of_nat ?tq :: rat)" by simp
      have "js_mul (js_div (JNum (of_nat ?ca)) (JNum (of_nat ?tq))) (JNum 100)
          = JNum (of_nat ?ca * 100 / of_nat ?tq)"
        using False by simp
      then have "accuracy (dashboard_stats_of (Some ss))
          = show_nat (nat (floor (of_nat ?ca * 100 / of_nat ?tq + 1 / 2 :: rat)))"
        using ne by (simp add: dashboard_stats_of_def Let_def js_toFixed_0_nonneg [OF nn])
      then show ?thesis unfolding if_not_P [OF ne] if_not_P [OF False] .
    qed
  qed
  moreover have "\<exists>k \<le> 100. accuracy (dashboard_stats_of (Some ss)) = show_nat k"
    if le: "\<forall>s \<in> set ss. ss_correctAnswers s \<le> ss_totalQuestions s" and pos: "0 < ?tq"
  proof -
    have "?ca \<le> ?tq" using le by (simp add: sum_list_mono)
    then have "nat (floor (of_nat ?ca * 100 / of_nat ?tq + 1 / 2 :: rat)) \<le> 100"
      using pos by (rule percent_rounded_le_100)
    moreover have ne: "ss \<noteq> []" using pos by auto
    moreover have tq0: "?tq \<noteq> 0" using pos by (simp only: neq0_conv)
    moreover have "accuracy (dashboard_stats_of (Some ss))
        = show_nat (nat (floor (of_nat ?ca * 100 / of_nat ?tq + 1 / 2 :: rat)))"
      using val unfolding if_not_P [OF ne] if_not_P [OF tq0] .
    ultimately show ?thesis by blast
  qed
  ultimately show ?thesis by blast
qed

definition two_sessions :: "stored_session list" where
  "two_sessions =
     [\<lparr>ss_id = 1, ss_userId = 7, ss_topicId = Some 2, ss_correctAnswers = 3, ss_totalQuestions = 4,
       ss_timeSpent = 90, ss_score = 75, ss_completedAt = 10\<rparr>,
      \<lparr>ss_id = 2, ss_userId = 7, ss_topicId = None, ss_correctAnswers = 1, ss_totalQuestions = 4,
       ss_timeSpent = 60, ss_score = 25, ss_completedAt = 20\<rparr>]"

theorem dashboard_accuracy_cases_witness:
  "accuracy (dashboard_stats_of (Some two_sessions)) = ''50''
   \<and> (\<exists>k \<le> 100. accuracy (dashboard_stats_of (Some two_sessions)) = show_nat k)"
proof -
  have h: "(\<forall>s \<in> set two_sessions. ss_correctAnswers s \<le> ss_totalQuestions s)
      \<and> 0 < sum_list (map ss_totalQuestions two_sessions)"
    by (simp add: two_sessions_def)
  have "\<exists>k \<le> 100. accuracy (dashboard_stats_of (Some two_sessions)) = show_nat k"
    using dashboard_accuracy_cases [of two_sessions] h by blast
  moreover have "accuracy (dashboard_stats_of (Some two_sessions)) = ''50''"
    using dashboard_accuracy_cases [of two_sessions] by (simp add: two_sessions_def num_eval)
  ultimately show ?thesis by blast
qed

text \<open>The analytics page's topic and time-range filters change nothing but the value
  shown in their own select: the charts, the summary and the counts are computed without
  them. The "Performance Trends" and "Time Spent" charts do not depend on the server's
  statistics either: they show data written into the page.\<close>

theorem analytics_filters_ignored:
  "analytics_view (analytics_step (SetTopic v) a) topicList stats isLoading
     = (analytics_view a topicList stats isLoading)\<lparr>av_selectedTopic := v\<rparr>
   \<and> analytics_view (analytics_step (SetTimeRange v) a) topicList stats isLoading
     = (analytics_view a topicList stats isLoading)\<lparr>av_timeRange := v\<rparr>
   \<and> (chartType a = ''performance'' \<or> chartType a = ''time'' \<longrightarrow>
        av_chart (analytics_view a topicList stats isLoading) = av_chart (analytics_view a topicList stats' isLoading))"
  by (auto simp: analytics_view_def analytics_chart_of_def)

theorem analytics_filters_ignored_witness:
  "av_chart (analytics_view analytics_init None None False)
     = av_chart (analytics_view analytics_init None
         (Some \<lparr>st_studentCount = Some 2, st_questionCount = Some 10, st_sessionCount = Some 1,
                st_averageScore = Some 40, st_recentActivity = [], st_topicPerformance = []\<rparr>) False)
   \<and> av_chart (analytics_view analytics_init None None False) = PerformanceChart performanceData"
  using analytics_filters_ignored [of _ analytics_init None None False]
  by (simp add: analytics_init_def analytics_view_def analytics_chart_of_def)

end
