(* ===== verification/LoadingProgress.thy ===== *)
theory LoadingProgress
  imports Prelude
begin

text \<open>
  The simulated progress bar \<open>useLoadingProgress\<close>
  (\<open>src/client/src/hooks/use-loading-progress.tsx\<close>), used by the practice page while a
  submission is pending and by the sound-wave import page. While loading, an interval adds
  \<open>max(0.5, incrementRate * (1 - prev / 100))\<close> to the progress and clears itself once
  the progress reaches \<open>maxProgress\<close>; when loading ends the progress jumps to 100.
  Progress values are JavaScript numbers, here rationals.
\<close>

subsection \<open>State and operations\<close>

record progress_options =
  initialProgress :: rat
  incrementRate :: rat
  maxProgress :: rat
  duration :: nat

text \<open>The destructuring defaults \<open>{initialProgress = 0, incrementRate = 5,
  maxProgress = 95, duration = 100}\<close>, and the options the two callers pass.\<close>

definition default_options :: progress_options where
  "default_options = \<lparr>initialProgress = 0, incrementRate = 5, maxProgress = 95, duration = 100\<rparr>"

definition caller_options :: progress_options where
  "caller_options = default_options\<lparr>initialProgress := 5, maxProgress := 90, duration := 80\<rparr>"

text \<open>The hook's state: the \<open>progress\<close> state and whether its interval is installed.\<close>

record loading_state =
  progress :: rat
  intervalActive :: bool

definition loading_init :: "progress_options \<Rightarrow> loading_state" where
  "loading_init opts = \<lparr>progress = initialProgress opts, intervalActive = False\<rparr>"

text \<open>The effect on a change of \<open>isLoading\<close>: done loading sets 100 and installs nothing;
  loading resets to \<open>initialProgress\<close> and installs the interval (the cleanup clears the
  previous one).\<close>

definition loading_effect :: "progress_options \<Rightarrow> bool \<Rightarrow> loading_state \<Rightarrow> loading_state" where
  "loading_effect opts isLoading st =
     (if \<not> isLoading then \<lparr>progress = 100, intervalActive = False\<rparr>
      else \<lparr>progress = initialProgress opts, intervalActive = True\<rparr>)"

definition progress_increment :: "progress_options \<Rightarrow> rat \<Rightarrow> rat" where
  "progress_increment opts prev = max (1 / 2) (incrementRate opts * (1 - prev / 100))"

text \<open>One firing of the interval: the updater of \<open>setProgress\<close>, which clears the
  interval when the new value reaches the maximum.\<close>

definition loading_tick :: "progress_options \<Rightarrow> loading_state \<Rightarrow> loading_state" where
  "loading_tick opts st =
     (if \<not> intervalActive st then st
      else let newProgress = progress st + progress_increment opts (progress st)
           in if maxProgress opts \<le> newProgress then \<lparr>progress = maxProgress opts, intervalActive = False\<rparr>
              else \<lparr>progress = newProgress, intervalActive = True\<rparr>)"

text \<open>The number of firings after which the interval has cleared itself, from a given
  progress: a loop that ends because every step adds at least one half.\<close>

function firings_to_max :: "progress_options \<Rightarrow> rat \<Rightarrow> nat" where
  "firings_to_max opts p =
     (if maxProgress opts \<le> p + progress_increment opts p then 1
      else Suc (firings_to_max opts (p + progress_increment opts p)))"
  by pat_completeness auto
termination
proof (relation "measure (\<lambda>(opts, p). nat (ceiling (2 * (maxProgress opts - p))))")
  show "wf (measure (\<lambda>(opts, p). nat (ceiling (2 * (maxProgress opts - p)))))" by simp
next
  fix opts p
  assume lt: "\<not> maxProgress opts \<le> p + progress_increment opts p"
  have inc: "1 / 2 \<le> progress_increment opts p" by (simp add: progress_increment_def)
  have "ceiling (2 * (maxProgress opts - (p + progress_increment opts p))) + 1
        \<le> ceiling (2 * (maxProgress opts - p))"
  proof -
    have "2 * (maxProgress opts - (p + progress_increment opts p)) + 1 \<le> 2 * (maxProgress opts - p)"
      using inc by simp
    then have "ceiling (2 * (maxProgress opts - (p + progress_increment opts p)) + 1)
               \<le> ceiling (2 * (maxProgress opts - p))" by (rule ceiling_mono)
    then show ?thesis by simp
  qed
  moreover have "0 < ceiling (2 * (maxProgress opts - (p + progress_increment opts p)))"
    using lt by simp
  ultimately show "((opts, p + progress_increment opts p), opts, p)
      \<in> measure (\<lambda>(opts, p). nat (ceiling (2 * (maxProgress opts - p))))" using inc by simp
qed

declare firings_to_max.simps [simp del]

subsection \<open>Lemmas\<close>

lemma loading_tick_active:
  "loading_tick opts \<lparr>progress = p, intervalActive = True\<rparr> =
     (if maxProgress opts \<le> p + progress_increment opts p
      then \<lparr>progress = maxProgress opts, intervalActive = False\<rparr>
      else \<lparr>progress = p + progress_increment opts p, intervalActive = True\<rparr>)"
  by (simp add: loading_tick_def Let_def)

lemma loading_interval_clears:
  "(loading_tick opts ^^ firings_to_max opts p) \<lparr>progress = p, intervalActive = True\<rparr>
     = \<lparr>progress = maxProgress opts, intervalActive = False\<rparr>
   \<and> (\<forall>k < firings_to_max opts p. intervalActive ((loading_tick opts ^^ k) \<lparr>progress = p, intervalActive = True\<rparr>)
        \<and> progress ((loading_tick opts ^^ k) \<lparr>progress = p, intervalActive = True\<rparr>) \<ge> p)"
proof (induction opts p rule: firings_to_max.induct)
  case (1 opts p)
  have inc: "0 < progress_increment opts p" by (simp add: progress_increment_def)
  show ?case
  proof (cases "maxProgress opts \<le> p + progress_increment opts p")
    case True
    then have "firings_to_max opts p = 1" by (subst firings_to_max.simps) simp
    with True show ?thesis by (simp add: loading_tick_active)
  next
    case False
    let ?q = "p + progress_increment opts p"
    have f: "firings_to_max opts p = Suc (firings_to_max opts ?q)"
      using False by (subst firings_to_max.simps) simp
    have step: "(loading_tick opts ^^ Suc k) \<lparr>progress = p, intervalActive = True\<rparr>
        = (loading_tick opts ^^ k) \<lparr>progress = ?q, intervalActive = True\<rparr>" for k
      using False by (simp only: funpow_Suc_right comp_apply) (simp add: loading_tick_active)
    have IH: "(loading_tick opts ^^ firings_to_max opts ?q) \<lparr>progress = ?q, intervalActive = True\<rparr>
        = \<lparr>progress = maxProgress opts, intervalActive = False\<rparr>
      \<and> (\<forall>k < firings_to_max opts ?q. intervalActive ((loading_tick opts ^^ k) \<lparr>progress = ?q, intervalActive = True\<rparr>)
           \<and> ?q \<le> progress ((loading_tick opts ^^ k) \<lparr>progress = ?q, intervalActive = True\<rparr>))"
      using "1" False by blast
    have "\<forall>k < firings_to_max opts p. intervalActive ((loading_tick opts ^^ k) \<lparr>progress = p, intervalActive = True\<rparr>)
        \<and> p \<le> progress ((loading_tick opts ^^ k) \<lparr>progress = p, intervalActive = True\<rparr>)"
    proof (intro allI impI)
      fix k assume k: "k < firings_to_max opts p"
      show "intervalActive ((loading_tick opts ^^ k) \<lparr>progress = p, intervalActive = True\<rparr>)
        \<and> p \<le> progress ((loading_tick opts ^^ k) \<lparr>progress = p, intervalActive = True\<rparr>)"
      proof (cases k)
        case (Suc k')
        with k f have "k' < firings_to_max opts ?q" by simp
        with IH have a: "intervalActive ((loading_tick opts ^^ k') \<lparr>progress = ?q, intervalActive = True\<rparr>)"
          and b: "?q \<le> progress ((loading_tick opts ^^ k') \<lparr>progress = ?q, intervalActive = True\<rparr>)" by blast+
        have "p \<le> ?q" using inc by simp
        with a b step [of k'] Suc show ?thesis by simp
      qed simp
    qed
    with IH f step show ?thesis by simp
  qed
qed

lemma firings_bound: "firings_to_max opts p \<le> nat (ceiling (2 * (maxProgress opts - p))) + 1"
proof (induction opts p rule: firings_to_max.induct)
  case (1 opts p)
  have inc: "1 / 2 \<le> progress_increment opts p" by (simp add: progress_increment_def)
  show ?case
  proof (cases "maxProgress opts \<le> p + progress_increment opts p")
    case False
    let ?q = "p + progress_increment opts p"
    have "2 * (maxProgress opts - ?q) + 1 \<le> 2 * (maxProgress opts - p)" using inc by simp
    then have "ceiling (2 * (maxProgress opts - ?q) + 1) \<le> ceiling (2 * (maxProgress opts - p))"
      by (rule ceiling_mono)
    then have "ceiling (2 * (maxProgress opts - ?q)) + 1 \<le> ceiling (2 * (maxProgress opts - p))"
      by simp
    moreover have "0 < ceiling (2 * (maxProgress opts - ?q))" using False by simp
    ultimately have "Suc (nat (ceiling (2 * (maxProgress opts - ?q)))) \<le> nat (ceiling (2 * (maxProgress opts - p)))"
      by linarith
    moreover have "firings_to_max opts ?q \<le> nat (ceiling (2 * (maxProgress opts - ?q))) + 1"
      using "1" False by blast
    ultimately show ?thesis using False by (subst firings_to_max.simps) simp
  qed (subst firings_to_max.simps, simp)
qed

subsection \<open>Properties\<close>

text \<open>C30. The progress interval always stops: whatever the options, started at any
  progress it fires at most \<open>2 * (maxProgress - progress)\<close> rounded up, plus one, times;
  after exactly \<open>firings_to_max\<close> firings it has cleared itself with the progress at
  \<open>maxProgress\<close>, and until then it stays installed and the progress never drops below
  where it started.\<close>

theorem loading_interval_terminates:
  "firings_to_max opts p \<le> nat (ceiling (2 * (maxProgress opts - p))) + 1
   \<and> (loading_tick opts ^^ firings_to_max opts p) \<lparr>progress = p, intervalActive = True\<rparr>
       = \<lparr>progress = maxProgress opts, intervalActive = False\<rparr>
   \<and> (\<forall>k < firings_to_max opts p. intervalActive ((loading_tick opts ^^ k) \<lparr>progress = p, intervalActive = True\<rparr>)
        \<and> p \<le> progress ((loading_tick opts ^^ k) \<lparr>progress = p, intervalActive = True\<rparr>))"
  using firings_bound loading_interval_clears by blast

theorem loading_interval_terminates_witness:
  "firings_to_max caller_options 5 \<le> 171
   \<and> (loading_tick caller_options ^^ firings_to_max caller_options 5) \<lparr>progress = 5, intervalActive = True\<rparr>
       = \<lparr>progress = 90, intervalActive = False\<rparr>
   \<and> intervalActive ((loading_tick caller_options ^^ 0) \<lparr>progress = 5, intervalActive = True\<rparr>)"
  using loading_interval_terminates [of caller_options 5]
  by (simp add: caller_options_def default_options_def)

end
