(* ===== verification/Backup.thy ===== *)
theory Backup
  imports Prelude
begin

text \<open>
  The backup management page (\<open>src/client/src/pages/admin/backup-management.tsx\<close>). Its
  state hooks are the record \<open>backup_page\<close>; every handler is split at its \<open>await\<close>: the
  part before it runs on the click and leaves a continuation in \<open>pending\<close>, holding the
  values its closure captured (the \<open>loading\<close> object of the render it was created in);
  the continuation runs when the request settles, in any order (\<open>Settle i\<close> picks the
  \<open>i\<close>-th pending request). The requests the page sends (\<open>apiRequest\<close>) are logged in
  \<open>sent\<close>; the server is the environment, which answers each request with a response or
  a failure (\<open>None\<close>, \<open>apiRequest\<close> throwing).
\<close>

subsection \<open>State\<close>

datatype backup_result = StatusSuccess | StatusError

record backup_file =
  bf_id :: js_string
  filename :: js_string
  bf_createdAt :: js_string
  bf_size :: nat
  isAutomatic :: bool
  bf_status :: backup_result

record loading_flags =
  ld_list :: bool
  ld_create :: bool
  ld_restore :: bool
  ld_view :: bool
  ld_delete :: bool

datatype dialog = DialogView | DialogRestore | DialogDelete

datatype backup_status = Idle | Running | Complete | Failed

text \<open>The requests of the page, and the continuations waiting on them.\<close>

datatype api_call =
  GetBackups | GetSchedule | PostCreate | GetContent js_string
  | DeleteBackup js_string | PostRestore js_string

datatype pending =
  PList loading_flags | PSchedule | PCreate loading_flags | PView loading_flags
  | PDelete loading_flags backup_file | PRestore loading_flags backup_file | PStatusReset

datatype response =
  RList "backup_file list" | RSchedule "js_string option" "js_string option"
  | RCreated | RContent js_string | ROk

record backup_page =
  backupFiles :: "backup_file list"
  selectedBackup :: "backup_file option"
  backupContent :: js_string
  loading :: loading_flags
  openDialog :: "dialog option"
  confirmText :: js_string
  lastBackupDate :: "js_string option"
  nextBackupDate :: "js_string option"
  backupStatus :: backup_status
  pending :: "pending list"
  sent :: "api_call list"
  toasts :: "js_string list"

definition backup_initial :: backup_page where
  "backup_initial =
     \<lparr>backupFiles = [], selectedBackup = None, backupContent = [],
      loading = \<lparr>ld_list = True, ld_create = False, ld_restore = False, ld_view = False,
                 ld_delete = False\<rparr>,
      openDialog = None, confirmText = [], lastBackupDate = None, nextBackupDate = None,
      backupStatus = Idle, pending = [], sent = [], toasts = []\<rparr>"

subsection \<open>Handlers up to their first \<open>await\<close>\<close>

text \<open>\<open>fetchBackups\<close> with the \<open>loading\<close> value \<open>L\<close> of its closure.\<close>

definition fetchBackups :: "loading_flags \<Rightarrow> backup_page \<Rightarrow> backup_page" where
  "fetchBackups L s =
     s\<lparr>loading := L\<lparr>ld_list := True\<rparr>, pending := pending s @ [PList L], sent := sent s @ [GetBackups]\<rparr>"

definition fetchBackupSchedule :: "backup_page \<Rightarrow> backup_page" where
  "fetchBackupSchedule s = s\<lparr>pending := pending s @ [PSchedule], sent := sent s @ [GetSchedule]\<rparr>"

text \<open>The mount effect calls both fetches with the initial \<open>loading\<close>.\<close>

definition backup_init :: backup_page where
  "backup_init = fetchBackupSchedule (fetchBackups (loading backup_initial) backup_initial)"

definition createManualBackup :: "backup_page \<Rightarrow> backup_page" where
  "createManualBackup s =
     s\<lparr>loading := (loading s)\<lparr>ld_create := True\<rparr>, backupStatus := Running,
       pending := pending s @ [PCreate (loading s)], sent := sent s @ [PostCreate]\<rparr>"

definition viewBackupContent :: "backup_file \<Rightarrow> backup_page \<Rightarrow> backup_page" where
  "viewBackupContent b s =
     s\<lparr>selectedBackup := Some b, loading := (loading s)\<lparr>ld_view := True\<rparr>,
       openDialog := Some DialogView, pending := pending s @ [PView (loading s)],
       sent := sent s @ [GetContent (bf_id b)]\<rparr>"

text \<open>Both destructive handlers first compare the typed text with the file name.\<close>

definition deleteBackup :: "backup_file \<Rightarrow> backup_page \<Rightarrow> backup_page" where
  "deleteBackup b s =
     (if confirmText s \<noteq> filename b then s\<lparr>toasts := toasts s @ [''Confirmation Failed'']\<rparr>
      else s\<lparr>loading := (loading s)\<lparr>ld_delete := True\<rparr>,
             pending := pending s @ [PDelete (loading s) b], sent := sent s @ [DeleteBackup (bf_id b)]\<rparr>)"

definition restoreBackup :: "backup_file \<Rightarrow> backup_page \<Rightarrow> backup_page" where
  "restoreBackup b s =
     (if confirmText s \<noteq> filename b then s\<lparr>toasts := toasts s @ [''Confirmation Failed'']\<rparr>
      else s\<lparr>loading := (loading s)\<lparr>ld_restore := True\<rparr>,
             pending := pending s @ [PRestore (loading s) b], sent := sent s @ [PostRestore (bf_id b)]\<rparr>)"

subsection \<open>Continuations after the \<open>await\<close>\<close>

text \<open>The code after a request settles: the \<open>try\<close> branch on a response, the \<open>catch\<close>
  branch on a failure, then \<open>finally\<close>. All \<open>setLoading\<close> calls write an object built from
  the captured \<open>L\<close>, so the last one of a continuation wins.\<close>

fun settle :: "pending \<Rightarrow> response option \<Rightarrow> backup_page \<Rightarrow> backup_page" where
  "settle (PList L) (Some (RList bs)) s = s\<lparr>backupFiles := bs, loading := L\<lparr>ld_list := False\<rparr>\<rparr>"
| "settle (PList L) _ s =
     s\<lparr>toasts := toasts s @ [''Error Fetching Backups''], loading := L\<lparr>ld_list := False\<rparr>\<rparr>"
| "settle PSchedule (Some (RSchedule l n)) s = s\<lparr>lastBackupDate := l, nextBackupDate := n\<rparr>"
| "settle PSchedule _ s = s"
| "settle (PCreate L) (Some RCreated) s =
     (let s1 = fetchBackups L (s\<lparr>toasts := toasts s @ [''Backup Created'']\<rparr>)
      in s1\<lparr>backupStatus := Complete, loading := L\<lparr>ld_create := False\<rparr>,
            pending := pending s1 @ [PStatusReset]\<rparr>)"
| "settle (PCreate L) _ s =
     s\<lparr>toasts := toasts s @ [''Backup Failed''], backupStatus := Failed,
       loading := L\<lparr>ld_create := False\<rparr>, pending := pending s @ [PStatusReset]\<rparr>"
| "settle PStatusReset _ s = s\<lparr>backupStatus := Idle\<rparr>"
| "settle (PView L) (Some (RContent c)) s = s\<lparr>backupContent := c, loading := L\<lparr>ld_view := False\<rparr>\<rparr>"
| "settle (PView L) _ s =
     s\<lparr>toasts := toasts s @ [''Error Viewing Backup''], backupContent := ''Error loading backup content'',
       loading := L\<lparr>ld_view := False\<rparr>\<rparr>"
| "settle (PDelete L b) (Some ROk) s =
     (let s1 = fetchBackups L (s\<lparr>toasts := toasts s @ [''Backup Deleted''], openDialog := None\<rparr>)
      in s1\<lparr>loading := L\<lparr>ld_delete := False\<rparr>, confirmText := []\<rparr>)"
| "settle (PDelete L b) _ s =
     s\<lparr>toasts := toasts s @ [''Error Deleting Backup''], loading := L\<lparr>ld_delete := False\<rparr>,
       confirmText := []\<rparr>"
| "settle (PRestore L b) (Some ROk) s =
     s\<lparr>toasts := toasts s @ [''Backup Restored''], openDialog := None,
       loading := L\<lparr>ld_restore := False\<rparr>, confirmText := []\<rparr>"
| "settle (PRestore L b) _ s =
     s\<lparr>toasts := toasts s @ [''Error Restoring Backup''], loading := L\<lparr>ld_restore := False\<rparr>,
       confirmText := []\<rparr>"

text \<open>The shape of reply each request gets from the API (the \<open>setTimeout\<close> of the status
  reset takes none).\<close>

fun response_fits :: "pending \<Rightarrow> response option \<Rightarrow> bool" where
  "response_fits PStatusReset r = (r = None)"
| "response_fits _ None = True"
| "response_fits (PList L) (Some r) = (case r of RList _ \<Rightarrow> True | _ \<Rightarrow> False)"
| "response_fits PSchedule (Some r) = (case r of RSchedule _ _ \<Rightarrow> True | _ \<Rightarrow> False)"
| "response_fits (PCreate L) (Some r) = (r = RCreated)"
| "response_fits (PView L) (Some r) = (case r of RContent _ \<Rightarrow> True | _ \<Rightarrow> False)"
| "response_fits (PDelete L b) (Some r) = (r = ROk)"
| "response_fits (PRestore L b) (Some r) = (r = ROk)"

subsection \<open>Events and the step function\<close>

datatype backup_event =
  ClickRefresh | ClickCreate | ClickView backup_file | OpenRestore backup_file
  | OpenDelete backup_file | TypeConfirm js_string | CloseDialog
  | ConfirmRestore | ConfirmDelete | Settle nat "response option"

text \<open>The confirm buttons run \<open>selectedBackup && restoreBackup(selectedBackup)\<close>.\<close>

fun backup_step :: "backup_page \<Rightarrow> backup_event \<Rightarrow> backup_page" where
  "backup_step s ClickRefresh = fetchBackups (loading s) s"
| "backup_step s ClickCreate = createManualBackup s"
| "backup_step s (ClickView b) = viewBackupContent b s"
| "backup_step s (OpenRestore b) = s\<lparr>selectedBackup := Some b, openDialog := Some DialogRestore\<rparr>"
| "backup_step s (OpenDelete b) = s\<lparr>selectedBackup := Some b, openDialog := Some DialogDelete\<rparr>"
| "backup_step s (TypeConfirm t) = s\<lparr>confirmText := t\<rparr>"
| "backup_step s CloseDialog = s\<lparr>openDialog := None\<rparr>"
| "backup_step s ConfirmRestore =
     (case selectedBackup s of None \<Rightarrow> s | Some b \<Rightarrow> restoreBackup b s)"
| "backup_step s ConfirmDelete =
     (case selectedBackup s of None \<Rightarrow> s | Some b \<Rightarrow> deleteBackup b s)"
| "backup_step s (Settle i r) =
     (if i < length (pending s)
      then settle (pending s ! i) r (s\<lparr>pending := take i (pending s) @ drop (Suc i) (pending s)\<rparr>)
      else s)"

text \<open>When each event can happen: a button only while it is rendered and not
  \<open>disabled\<close>, a request only settles while it is pending.\<close>

definition confirm_matches :: "backup_page \<Rightarrow> bool" where
  "confirm_matches s = (case selectedBackup s of None \<Rightarrow> False | Some b \<Rightarrow> confirmText s = filename b)"

fun backup_enabled :: "backup_page \<Rightarrow> backup_event \<Rightarrow> bool" where
  "backup_enabled s ClickRefresh = (\<not> ld_list (loading s))"
| "backup_enabled s ClickCreate = (\<not> ld_create (loading s) \<and> backupStatus s = Idle)"
| "backup_enabled s (ClickView b) = (\<not> ld_list (loading s) \<and> b \<in> set (backupFiles s))"
| "backup_enabled s (OpenRestore b) = (\<not> ld_list (loading s) \<and> b \<in> set (backupFiles s))"
| "backup_enabled s (OpenDelete b) = (\<not> ld_list (loading s) \<and> b \<in> set (backupFiles s))"
| "backup_enabled s (TypeConfirm t) =
     (openDialog s = Some DialogRestore \<or> openDialog s = Some DialogDelete)"
| "backup_enabled s CloseDialog = (openDialog s \<noteq> None)"
| "backup_enabled s ConfirmRestore =
     (openDialog s = Some DialogRestore \<and> \<not> ld_restore (loading s) \<and> confirm_matches s)"
| "backup_enabled s ConfirmDelete =
     (openDialog s = Some DialogDelete \<and> \<not> ld_delete (loading s) \<and> confirm_matches s)"
| "backup_enabled s (Settle i r) = (i < length (pending s) \<and> response_fits (pending s ! i) r)"

inductive backup_reachable :: "backup_page \<Rightarrow> bool" where
  init: "backup_reachable backup_init"
| step: "backup_reachable s \<Longrightarrow> backup_enabled s e \<Longrightarrow> backup_reachable (backup_step s e)"

subsection \<open>Rendering\<close>

text \<open>\<open>formatFileSize\<close>.\<close>

definition formatFileSize :: "nat \<Rightarrow> js_string" where
  "formatFileSize bytes =
     (if bytes < 1024 then show_nat bytes @ '' B''
      else if bytes < 1048576 then js_toFixed 2 (JNum (of_nat bytes / 1024)) @ '' KB''
      else js_toFixed 2 (JNum (of_nat bytes / 1048576)) @ '' MB'')"

text \<open>\<open>formatDate\<close>: a string containing \<open>AM\<close> or \<open>PM\<close> is returned as it is, any other
  goes through \<open>Intl.DateTimeFormat(...).format(new Date(s))\<close>, the parameter \<open>intl\<close>
  (\<open>None\<close>: it throws on an invalid date, and the \<open>catch\<close> returns the string).\<close>

definition formatDate :: "(js_string \<Rightarrow> js_string option) \<Rightarrow> js_string \<Rightarrow> js_string" where
  "formatDate intl d =
     (if js_includes ''AM'' d \<or> js_includes ''PM'' d then d
      else case intl d of None \<Rightarrow> d | Some r \<Rightarrow> r)"

definition backup_status_label :: "backup_status \<Rightarrow> js_string" where
  "backup_status_label st =
     (case st of Idle \<Rightarrow> ''Create Backup'' | Running \<Rightarrow> ''Processing...''
      | Complete \<Rightarrow> ''Completed'' | Failed \<Rightarrow> ''Failed'')"

record backup_row =
  row_filename :: js_string
  row_badge :: js_string
  row_date :: js_string
  row_size :: js_string

definition backup_row_of :: "(js_string \<Rightarrow> js_string option) \<Rightarrow> backup_file \<Rightarrow> backup_row" where
  "backup_row_of intl b =
     \<lparr>row_filename = filename b, row_badge = (if isAutomatic b then ''Automatic'' else ''Manual''),
      row_date = formatDate intl (bf_createdAt b), row_size = formatFileSize (bf_size b)\<rparr>"

datatype files_section = FilesSpinner | NoBackupFiles | BackupRows "backup_row list"

text \<open>The restore and the delete dialog: open flag, the file name asked for
  (\<open>selectedBackup?.filename\<close>), whether the confirm button is disabled, and its label.\<close>

record confirm_dialog =
  cd_open :: bool
  cd_filename :: "js_string option"
  cd_disabled :: bool
  cd_label :: js_string

definition confirm_dialog_of ::
  "dialog \<Rightarrow> bool \<Rightarrow> js_string \<Rightarrow> js_string \<Rightarrow> backup_page \<Rightarrow> confirm_dialog" where
  "confirm_dialog_of d busy busyLabel idleLabel s =
     \<lparr>cd_open = (openDialog s = Some d), cd_filename = map_option filename (selectedBackup s),
      cd_disabled = (busy \<or> map_option filename (selectedBackup s) \<noteq> Some (confirmText s)),
      cd_label = (if busy then busyLabel else idleLabel)\<rparr>"

record backup_view =
  refresh_disabled :: bool
  refresh_spinning :: bool
  create_disabled :: bool
  create_label :: js_string
  last_backup_text :: js_string
  next_backup_text :: js_string
  files :: files_section
  view_open :: bool
  view_title :: js_string
  view_body :: "js_string option"
  restore_dialog :: confirm_dialog
  delete_dialog :: confirm_dialog

definition backup_view :: "(js_string \<Rightarrow> js_string option) \<Rightarrow> backup_page \<Rightarrow> backup_view" where
  "backup_view intl s =
     \<lparr>refresh_disabled = ld_list (loading s), refresh_spinning = ld_list (loading s),
      create_disabled = (ld_create (loading s) \<or> backupStatus s \<noteq> Idle),
      create_label = backup_status_label (backupStatus s),
      last_backup_text =
        (case lastBackupDate s of Some d \<Rightarrow> if d \<noteq> [] then formatDate intl d else ''No previous backup''
         | None \<Rightarrow> ''No previous backup''),
      next_backup_text =
        (case nextBackupDate s of Some d \<Rightarrow> if d \<noteq> [] then formatDate intl d else ''8:00 AM daily''
         | None \<Rightarrow> ''8:00 AM daily''),
      files = (if ld_list (loading s) then FilesSpinner
               else if backupFiles s = [] then NoBackupFiles
               else BackupRows (map (backup_row_of intl) (backupFiles s))),
      view_open = (openDialog s = Some DialogView),
      view_title = (case selectedBackup s of None \<Rightarrow> [] | Some b \<Rightarrow> filename b) @ '' - Backup Content'',
      view_body = (if ld_view (loading s) then None else Some (backupContent s)),
      restore_dialog = confirm_dialog_of DialogRestore (ld_restore (loading s)) ''Restoring...''
                         ''Restore Backup'' s,
      delete_dialog = confirm_dialog_of DialogDelete (ld_delete (loading s)) ''Deleting...''
                        ''Delete Backup'' s\<rparr>"

fun backup_run :: "backup_page \<Rightarrow> backup_event list \<Rightarrow> backup_page option" where
  "backup_run s [] = Some s"
| "backup_run s (e # es) = (if backup_enabled s e then backup_run (backup_step s e) es else None)"

subsection \<open>Observations on the request log and the pending continuations\<close>

text \<open>The requests that change the stored backups, and counts of the pending
  continuations of \<open>createManualBackup\<close> and of its status-reset timer.\<close>

fun destructive :: "api_call \<Rightarrow> bool" where
  "destructive (DeleteBackup x) = True"
| "destructive (PostRestore x) = True"
| "destructive _ = False"

fun is_create :: "pending \<Rightarrow> bool" where
  "is_create (PCreate L) = True"
| "is_create _ = False"

definition n_create :: "pending list \<Rightarrow> nat" where
  "n_create ps = length (filter is_create ps)"

definition n_reset :: "pending list \<Rightarrow> nat" where
  "n_reset ps = count_list ps PStatusReset"

definition status_inv :: "backup_page \<Rightarrow> bool" where
  "status_inv s =
     (case backupStatus s of
        Idle \<Rightarrow> n_create (pending s) = 0 \<and> n_reset (pending s) = 0
      | Running \<Rightarrow> n_create (pending s) = 1 \<and> n_reset (pending s) = 0
      | _ \<Rightarrow> n_create (pending s) = 0 \<and> n_reset (pending s) = 1)"

text \<open>The page after the list and the schedule have loaded and a manual backup was started.\<close>

definition idle_after_load :: backup_page where
  "idle_after_load = the (backup_run backup_init
     [Settle 0 (Some (RList [])), Settle 0 (Some (RSchedule None None)), ClickCreate])"

subsection \<open>Lemmas\<close>

lemma settle_sent: "\<exists>new. sent (settle p r s) = sent s @ new \<and> filter destructive new = []"
  by (cases "(p, r, s)" rule: settle.cases) (auto simp: fetchBackups_def Let_def)

lemma settle_other:
  "\<not> is_create p \<Longrightarrow> p \<noteq> PStatusReset \<Longrightarrow>
     backupStatus (settle p r s) = backupStatus s \<and>
     n_create (pending (settle p r s)) = n_create (pending s) \<and>
     n_reset (pending (settle p r s)) = n_reset (pending s)"
  by (cases "(p, r, s)" rule: settle.cases) (auto simp: fetchBackups_def n_create_def n_reset_def)

lemma settle_create:
  "backupStatus (settle (PCreate L) r s) \<in> {Complete, Failed} \<and>
   n_create (pending (settle (PCreate L) r s)) = n_create (pending s) \<and>
   n_reset (pending (settle (PCreate L) r s)) = Suc (n_reset (pending s))"
  by (cases "(PCreate L, r, s)" rule: settle.cases) (auto simp: fetchBackups_def n_create_def n_reset_def Let_def)

lemma status_inv_cong:
  "status_inv s \<Longrightarrow> backupStatus t = backupStatus s \<Longrightarrow> n_create (pending t) = n_create (pending s) \<Longrightarrow>
     n_reset (pending t) = n_reset (pending s) \<Longrightarrow> status_inv t"
  by (cases "backupStatus s") (simp_all add: status_inv_def)

lemma status_inv_settle:
  assumes inv: "status_inv s" and i: "i < length (pending s)"
  shows "status_inv (backup_step s (Settle i r))"
proof -
  let ?p = "pending s ! i"
  let ?s' = "s\<lparr>pending := take i (pending s) @ drop (Suc i) (pending s)\<rparr>"
  have c: "n_create (pending ?s') + (if is_create ?p then 1 else 0) = n_create (pending s)"
    using length_filter_remove_nth [OF i] by (simp add: n_create_def)
  have r: "n_reset (pending ?s') + (if ?p = PStatusReset then 1 else 0) = n_reset (pending s)"
    using count_list_remove_nth [OF i] by (simp add: n_reset_def)
  have step: "backup_step s (Settle i r) = settle ?p r ?s'" using i by simp
  consider L where "?p = PCreate L" | "?p = PStatusReset" | "\<not> is_create ?p" "?p \<noteq> PStatusReset"
    by (cases ?p) auto
  then show ?thesis
  proof cases
    case 1
    with c r inv have "backupStatus s = Running" "n_create (pending ?s') = 0" "n_reset (pending ?s') = 0"
      by (auto simp: status_inv_def split: backup_status.splits)
    with 1 r step show ?thesis
      using settle_create [of L r ?s'] by (auto simp: status_inv_def)
  next
    case 2
    with r inv have "n_create (pending ?s') = 0" "n_reset (pending ?s') = 0"
      using c by (auto simp: status_inv_def split: backup_status.splits)
    with 2 step show ?thesis by (simp add: status_inv_def)
  next
    case 3
    with c r step show ?thesis
      using settle_other [of ?p r ?s'] status_inv_cong [OF inv] by simp
  qed
qed

lemma step_keeps_counts:
  "e \<noteq> ClickCreate \<Longrightarrow> (\<And>i r. e \<noteq> Settle i r) \<Longrightarrow>
     backupStatus (backup_step s e) = backupStatus s \<and>
     n_create (pending (backup_step s e)) = n_create (pending s) \<and>
     n_reset (pending (backup_step s e)) = n_reset (pending s)"
  by (cases e) (auto simp: fetchBackups_def viewBackupContent_def restoreBackup_def deleteBackup_def
      n_create_def n_reset_def split: option.split)

lemma status_inv_step:
  assumes inv: "status_inv s" and en: "backup_enabled s e"
  shows "status_inv (backup_step s e)"
proof (cases "e = ClickCreate \<or> (\<exists>i r. e = Settle i r)")
  case True
  then show ?thesis
  proof
    assume "e = ClickCreate"
    with inv en show ?thesis
      by (simp add: status_inv_def createManualBackup_def n_create_def n_reset_def)
  next
    assume "\<exists>i r. e = Settle i r"
    with inv en show ?thesis using status_inv_settle by auto
  qed
next
  case False
  then have "backupStatus (backup_step s e) = backupStatus s \<and>
     n_create (pending (backup_step s e)) = n_create (pending s) \<and>
     n_reset (pending (backup_step s e)) = n_reset (pending s)"
    by (intro step_keeps_counts) auto
  with inv show ?thesis using status_inv_cong by blast
qed

lemma backup_run_reachable:
  "backup_reachable s \<Longrightarrow> backup_run s es = Some t \<Longrightarrow> backup_reachable t"
proof (induction es arbitrary: s)
  case (Cons e es)
  then show ?case by (auto intro: backup_reachable.step split: if_splits)
qed simp

lemma idle_after_load_reachable: "backup_reachable idle_after_load"
proof -
  have "\<exists>t. backup_run backup_init
      [Settle 0 (Some (RList [])), Settle 0 (Some (RSchedule None None)), ClickCreate] = Some t"
    by (simp add: backup_init_def backup_initial_def fetchBackups_def fetchBackupSchedule_def
        createManualBackup_def)
  then obtain t where t: "backup_run backup_init
      [Settle 0 (Some (RList [])), Settle 0 (Some (RSchedule None None)), ClickCreate] = Some t" ..
  then have "idle_after_load = t" by (simp add: idle_after_load_def)
  with t show ?thesis using backup_run_reachable [OF backup_reachable.init] by blast
qed

text \<open>A size one byte short of a megabyte is printed in kilobytes, rounded up to
  \<open>1024.00 KB\<close>.\<close>

lemma formatFileSize_below_MB: "formatFileSize 1048575 = ''1024.00 KB''"
  by (simp add: formatFileSize_def js_toFixed_def num_eval)

subsection \<open>Properties\<close>

text \<open>C31. The page sends a request that deletes or restores a backup only on the
  confirming click of the matching dialog, for the backup selected there, and only when
  the text typed in the dialog equals that backup's file name; every other event sends no
  destructive request (the request log only grows).\<close>

theorem destructive_requests_confirmed:
  "\<exists>new. sent (backup_step s e) = sent s @ new \<and>
     (filter destructive new = [] \<or>
      (\<exists>b. selectedBackup s = Some b \<and> confirmText s = filename b \<and>
         (e = ConfirmRestore \<and> new = [PostRestore (bf_id b)] \<or>
          e = ConfirmDelete \<and> new = [DeleteBackup (bf_id b)])))"
proof (cases e)
  case (Settle i r)
  then show ?thesis
    using settle_sent [of "pending s ! i" r "s\<lparr>pending := take i (pending s) @ drop (Suc i) (pending s)\<rparr>"]
    by auto
next
  case ConfirmRestore
  then show ?thesis by (auto simp: restoreBackup_def split: option.split)
next
  case ConfirmDelete
  then show ?thesis by (auto simp: deleteBackup_def split: option.split)
qed (auto simp: fetchBackups_def createManualBackup_def viewBackupContent_def)

text \<open>C32. In every reachable state of the page at most one manual backup creation is in
  flight, exactly while the status is \<open>running\<close>, and at most one status-reset timer is
  pending, exactly while the status is \<open>complete\<close> or \<open>error\<close>: the Create button cannot
  start a second backup before the first has settled and its status has been reset.\<close>

theorem create_in_flight_iff_running:
  "backup_reachable s \<Longrightarrow>
     n_create (pending s) \<le> 1 \<and> (n_create (pending s) = 1 \<longleftrightarrow> backupStatus s = Running)
     \<and> (n_reset (pending s) = 1 \<longleftrightarrow> backupStatus s \<in> {Complete, Failed}) \<and> n_reset (pending s) \<le> 1"
proof -
  assume "backup_reachable s"
  then have "status_inv s"
  proof (induction rule: backup_reachable.induct)
    case init
    then show ?case
      by (simp add: status_inv_def backup_init_def backup_initial_def fetchBackups_def
          fetchBackupSchedule_def n_create_def n_reset_def)
  next
    case (step s e)
    then show ?case using status_inv_step by blast
  qed
  then show ?thesis by (auto simp: status_inv_def split: backup_status.splits)
qed

theorem create_in_flight_iff_running_witness:
  "n_create (pending idle_after_load) = 1 \<and> backupStatus idle_after_load = Running
   \<and> n_reset (pending idle_after_load) = 0"
  using create_in_flight_iff_running [OF idle_after_load_reachable]
  by (simp add: idle_after_load_def backup_init_def backup_initial_def fetchBackups_def
      fetchBackupSchedule_def createManualBackup_def)

text \<open>C33. When a manual backup succeeds, the continuation starts a list request and then,
  in its \<open>finally\<close>, overwrites \<open>loading\<close> with the object captured at the click: the
  list flag is reset to its value at the click while the list request is still pending, so
  the list spinner stops and Refresh is enabled again before the new list arrives.\<close>

theorem create_success_clears_list_flag:
  assumes "i < length (pending s)" and "pending s ! i = PCreate L"
  shows "PList L \<in> set (pending (backup_step s (Settle i (Some RCreated))))
         \<and> ld_list (loading (backup_step s (Settle i (Some RCreated)))) = ld_list L
         \<and> backupStatus (backup_step s (Settle i (Some RCreated))) = Complete
         \<and> last (sent (backup_step s (Settle i (Some RCreated)))) = GetBackups"
  using assms by (simp add: fetchBackups_def Let_def)

theorem create_success_clears_list_flag_witness:
  "PList \<lparr>ld_list = False, ld_create = False, ld_restore = False, ld_view = False, ld_delete = False\<rparr>
     \<in> set (pending (backup_step idle_after_load (Settle 0 (Some RCreated))))
   \<and> \<not> ld_list (loading (backup_step idle_after_load (Settle 0 (Some RCreated))))
   \<and> backup_enabled (backup_step idle_after_load (Settle 0 (Some RCreated))) ClickRefresh"
proof -
  have s: "pending idle_after_load = [PCreate \<lparr>ld_list = False, ld_create = False, ld_restore = False,
      ld_view = False, ld_delete = False\<rparr>]"
    by (simp add: idle_after_load_def backup_init_def backup_initial_def fetchBackups_def
        fetchBackupSchedule_def createManualBackup_def confirm_matches_def)
  show ?thesis
    using create_success_clears_list_flag [of 0 idle_after_load] s by simp
qed

end
