(* ===== verification/ManageStudents.thy ===== *)
theory ManageStudents
  imports Prelude
begin

text \<open>
  The student management page (\<open>src/client/src/pages/admin/manage-students.tsx\<close>) with
  its per-row \<open>ToggleActiveButton\<close> (\<open>components/ui/toggle-active-button.tsx\<close>). The
  page's hooks are the record \<open>students_page\<close>; the list of students is the query's data,
  an input of every handler and of the view. The two forms are validated by their
  \<open>zod\<close> schemas before \<open>handleSubmit\<close> calls the handler; the mutations' requests are
  logged in \<open>sp_sent\<close> and their callbacks run when the request settles
  (\<open>SettleMutation i ok\<close>), in any order. Library behaviour enters as parameters: the
  e-mail check of \<open>z.string().email()\<close>, the collation key of \<open>localeCompare\<close>, and
  \<open>formatDistanceToNow\<close>.
\<close>

subsection \<open>Students and the two forms\<close>

record student_user =
  su_id :: nat
  su_username :: js_string
  su_fullName :: js_string
  su_email :: js_string
  su_role :: js_string
  su_createdAt :: int
  su_active :: bool

record add_student_form =
  af_username :: js_string
  af_fullName :: js_string
  af_email :: js_string
  af_password :: js_string
  af_confirmPassword :: js_string

record edit_student_form =
  ef_username :: js_string
  ef_fullName :: js_string
  ef_email :: js_string
  ef_role :: js_string

datatype form_field = FUsername | FFullName | FEmail | FPassword | FConfirmPassword | FRole

text \<open>\<open>addStudentSchema\<close>: the issues \<open>zod\<close> reports, field by field in declaration order;
  the string checks only mark the result dirty, so the \<open>refine\<close> on the whole object
  runs as well and adds its issue on \<open>confirmPassword\<close>.\<close>

definition addStudentSchema :: "(js_string \<Rightarrow> bool) \<Rightarrow> add_student_form \<Rightarrow> (form_field \<times> js_string) list" where
  "addStudentSchema is_email f =
     (if length (af_username f) < 3 then [(FUsername, ''Username must be at least 3 characters'')] else [])
     @ (if af_fullName f = [] then [(FFullName, ''Full name is required'')] else [])
     @ (if \<not> is_email (af_email f) then [(FEmail, ''Invalid email address'')] else [])
     @ (if length (af_password f) < 6 then [(FPassword, ''Password must be at least 6 characters'')] else [])
     @ (if af_confirmPassword f = [] then [(FConfirmPassword, ''Please confirm your password'')] else [])
     @ (if af_password f \<noteq> af_confirmPassword f then [(FConfirmPassword, ''Passwords don'' @ CHR 0x27 # ''t match'')] else [])"

definition editStudentSchema :: "(js_string \<Rightarrow> bool) \<Rightarrow> edit_student_form \<Rightarrow> (form_field \<times> js_string) list" where
  "editStudentSchema is_email f =
     (if length (ef_username f) < 3 then [(FUsername, ''Username must be at least 3 characters'')] else [])
     @ (if ef_fullName f = [] then [(FFullName, ''Full name is required'')] else [])
     @ (if \<not> is_email (ef_email f) then [(FEmail, ''Invalid email address'')] else [])
     @ (if ef_role f \<notin> {''admin'', ''student''} then [(FRole, ''Invalid enum value'')] else [])"

text \<open>\<open>FormMessage\<close> shows the first issue of its field.\<close>

definition field_message :: "(form_field \<times> js_string) list \<Rightarrow> form_field \<Rightarrow> js_string option" where
  "field_message issues fld = map_of issues fld"

subsection \<open>Page state and requests\<close>

datatype student_call =
  PostRegister add_student_form | PutUser nat edit_student_form | DeleteUser nat
  | PostResetPassword nat js_string | PostToggleActive nat bool

datatype student_mutation = MRegister | MUpdate | MDelete | MReset | MToggle nat bool

record students_page =
  searchTerm :: js_string
  sortBy :: js_string
  selectedStudents :: "nat list"
  isAddDialogOpen :: bool
  isEditDialogOpen :: bool
  isDeleteDialogOpen :: bool
  studentToDelete :: "student_user option"
  editingStudent :: "student_user option"
  isResetPasswordDialogOpen :: bool
  resettingStudent :: "student_user option"
  newPassword :: js_string
  confirmNewPassword :: js_string
  resetPasswordError :: js_string
  toggleLoading :: "nat list"
  sp_pending :: "student_mutation list"
  sp_sent :: "student_call list"
  sp_toasts :: "js_string list"

definition students_init :: students_page where
  "students_init =
     \<lparr>searchTerm = [], sortBy = ''fullName'', selectedStudents = [], isAddDialogOpen = False,
      isEditDialogOpen = False, isDeleteDialogOpen = False, studentToDelete = None,
      editingStudent = None, isResetPasswordDialogOpen = False, resettingStudent = None,
      newPassword = [], confirmNewPassword = [], resetPasswordError = [], toggleLoading = [],
      sp_pending = [], sp_sent = [], sp_toasts = []\<rparr>"

text \<open>\<open>mutation.mutate(x)\<close>: the request is sent and its callbacks wait.\<close>

definition mutate :: "student_mutation \<Rightarrow> student_call \<Rightarrow> students_page \<Rightarrow> students_page" where
  "mutate m c s = s\<lparr>sp_pending := sp_pending s @ [m], sp_sent := sp_sent s @ [c]\<rparr>"

subsection \<open>Handlers\<close>

text \<open>\<open>handleSubmit(onAddStudent)\<close>: the mutation runs only on values the schema accepts;
  the body is the form's values with \<open>role: "student"\<close>, which the request records.\<close>

definition onAddStudent :: "(js_string \<Rightarrow> bool) \<Rightarrow> add_student_form \<Rightarrow> students_page \<Rightarrow> students_page" where
  "onAddStudent is_email f s =
     (if addStudentSchema is_email f = [] then mutate MRegister (PostRegister f) s else s)"

definition onEditStudent :: "(js_string \<Rightarrow> bool) \<Rightarrow> edit_student_form \<Rightarrow> students_page \<Rightarrow> students_page" where
  "onEditStudent is_email f s =
     (if editStudentSchema is_email f \<noteq> [] then s
      else case editingStudent s of None \<Rightarrow> s | Some u \<Rightarrow> mutate MUpdate (PutUser (su_id u) f) s)"

definition handleEditStudent :: "student_user \<Rightarrow> students_page \<Rightarrow> students_page" where
  "handleEditStudent u s = s\<lparr>editingStudent := Some u, isEditDialogOpen := True\<rparr>"

text \<open>The form prefilled by \<open>handleEditStudent\<close>: a role other than \<open>admin\<close> becomes
  \<open>student\<close>.\<close>

definition edit_defaults :: "student_user \<Rightarrow> edit_student_form" where
  "edit_defaults u =
     \<lparr>ef_username = su_username u, ef_fullName = su_fullName u, ef_email = su_email u,
      ef_role = (if su_role u = ''admin'' then ''admin'' else ''student'')\<rparr>"

definition handleDeleteStudent :: "student_user \<Rightarrow> students_page \<Rightarrow> students_page" where
  "handleDeleteStudent u s = s\<lparr>studentToDelete := Some u, isDeleteDialogOpen := True\<rparr>"

text \<open>\<open>confirmDelete\<close>, from the alert dialog's action, which also closes the dialog.\<close>

definition confirmDelete :: "students_page \<Rightarrow> students_page" where
  "confirmDelete s =
     (case studentToDelete s of None \<Rightarrow> s\<lparr>isDeleteDialogOpen := False\<rparr>
      | Some u \<Rightarrow> (mutate MDelete (DeleteUser (su_id u)) s)\<lparr>isDeleteDialogOpen := False\<rparr>)"

definition handleResetPassword :: "student_user \<Rightarrow> students_page \<Rightarrow> students_page" where
  "handleResetPassword u s = s\<lparr>resettingStudent := Some u, isResetPasswordDialogOpen := True\<rparr>"

definition submitPasswordReset :: "students_page \<Rightarrow> students_page" where
  "submitPasswordReset s =
     (if newPassword s = [] \<or> length (newPassword s) < 6
      then s\<lparr>resetPasswordError := ''Password must be at least 6 characters''\<rparr>
      else if newPassword s \<noteq> confirmNewPassword s
      then s\<lparr>resetPasswordError := ''Passwords don'' @ CHR 0x27 # ''t match''\<rparr>
      else case resettingStudent s of None \<Rightarrow> s\<lparr>resetPasswordError := []\<rparr>
           | Some u \<Rightarrow> mutate MReset (PostResetPassword (su_id u) (newPassword s)) (s\<lparr>resetPasswordError := []\<rparr>))"

definition handleSelectAll :: "student_user list option \<Rightarrow> bool \<Rightarrow> students_page \<Rightarrow> students_page" where
  "handleSelectAll students checked s =
     s\<lparr>selectedStudents := (case students of Some us \<Rightarrow> if checked then map su_id us else [] | None \<Rightarrow> [])\<rparr>"

definition handleSelectStudent :: "nat \<Rightarrow> bool \<Rightarrow> students_page \<Rightarrow> students_page" where
  "handleSelectStudent i checked s =
     s\<lparr>selectedStudents := (if checked then selectedStudents s @ [i] else filter (\<lambda>j. j \<noteq> i) (selectedStudents s))\<rparr>"

text \<open>\<open>ToggleActiveButton\<close>: the request asks for the negation of the state shown; the
  button's \<open>isLoading\<close> is set when the mutation function starts and cleared in its
  \<open>finally\<close>.\<close>

definition handleToggleActive :: "student_user \<Rightarrow> students_page \<Rightarrow> students_page" where
  "handleToggleActive u s =
     (mutate (MToggle (su_id u) (\<not> su_active u)) (PostToggleActive (su_id u) (\<not> su_active u)) s)\<lparr>toggleLoading := toggleLoading s @ [su_id u]\<rparr>"

text \<open>The \<open>onSuccess\<close> and \<open>onError\<close> callbacks (\<open>invalidateQueries\<close> refetches the list,
  an input here). The toggle's title reads \<open>data.user.active\<close> of the reply, which the
  server sets to the requested value.\<close>

fun mutation_settled :: "student_mutation \<Rightarrow> bool \<Rightarrow> students_page \<Rightarrow> students_page" where
  "mutation_settled MRegister ok s =
     (if ok then s\<lparr>sp_toasts := sp_toasts s @ [''Student added''], isAddDialogOpen := False\<rparr>
      else s\<lparr>sp_toasts := sp_toasts s @ [''Error adding student'']\<rparr>)"
| "mutation_settled MUpdate ok s =
     (if ok then s\<lparr>sp_toasts := sp_toasts s @ [''Student updated''], isEditDialogOpen := False\<rparr>
      else s\<lparr>sp_toasts := sp_toasts s @ [''Error updating student'']\<rparr>)"
| "mutation_settled MDelete ok s =
     (if ok then s\<lparr>sp_toasts := sp_toasts s @ [''Student deleted''], isDeleteDialogOpen := False,
                   studentToDelete := None\<rparr>
      else s\<lparr>sp_toasts := sp_toasts s @ [''Error deleting student'']\<rparr>)"
| "mutation_settled MReset ok s =
     (if ok then s\<lparr>sp_toasts := sp_toasts s @ [''Password reset''], isResetPasswordDialogOpen := False,
                   resettingStudent := None, newPassword := [], confirmNewPassword := [],
                   resetPasswordError := []\<rparr>
      else s\<lparr>sp_toasts := sp_toasts s @ [''Error resetting password'']\<rparr>)"
| "mutation_settled (MToggle i a) ok s =
     (let s1 = s\<lparr>toggleLoading := remove1 i (toggleLoading s)\<rparr>
      in if ok then s1\<lparr>sp_toasts := sp_toasts s1 @ [if a then ''Student activated'' else ''Student deactivated'']\<rparr>
         else s1\<lparr>sp_toasts := sp_toasts s1 @ [''Error updating student status'']\<rparr>)"

subsection \<open>Events\<close>

datatype students_event =
  SetAddOpen bool | SubmitAdd add_student_form | EditClick student_user | SubmitEdit edit_student_form
  | SetEditOpen bool | DeleteClick student_user | ConfirmDeleteClick | SetDeleteOpen bool
  | ResetClick student_user | SetNewPassword js_string | SetConfirmNewPassword js_string
  | SubmitReset | SetResetOpen bool | SelectAll bool | SelectStudent nat bool
  | SetSearch js_string | SetSort js_string | ToggleClick student_user | SettleMutation nat bool

fun students_step ::
  "(js_string \<Rightarrow> bool) \<Rightarrow> student_user list option \<Rightarrow> students_event \<Rightarrow> students_page \<Rightarrow> students_page" where
  "students_step is_email us (SetAddOpen b) s = s\<lparr>isAddDialogOpen := b\<rparr>"
| "students_step is_email us (SubmitAdd f) s = onAddStudent is_email f s"
| "students_step is_email us (EditClick u) s = handleEditStudent u s"
| "students_step is_email us (SubmitEdit f) s = onEditStudent is_email f s"
| "students_step is_email us (SetEditOpen b) s = s\<lparr>isEditDialogOpen := b\<rparr>"
| "students_step is_email us (DeleteClick u) s = handleDeleteStudent u s"
| "students_step is_email us ConfirmDeleteClick s = confirmDelete s"
| "students_step is_email us (SetDeleteOpen b) s = s\<lparr>isDeleteDialogOpen := b\<rparr>"
| "students_step is_email us (ResetClick u) s = handleResetPassword u s"
| "students_step is_email us (SetNewPassword p) s = s\<lparr>newPassword := p\<rparr>"
| "students_step is_email us (SetConfirmNewPassword p) s = s\<lparr>confirmNewPassword := p\<rparr>"
| "students_step is_email us SubmitReset s = submitPasswordReset s"
| "students_step is_email us (SetResetOpen b) s = s\<lparr>isResetPasswordDialogOpen := b\<rparr>"
| "students_step is_email us (SelectAll b) s = handleSelectAll us b s"
| "students_step is_email us (SelectStudent i b) s = handleSelectStudent i b s"
| "students_step is_email us (SetSearch t) s = s\<lparr>searchTerm := t\<rparr>"
| "students_step is_email us (SetSort b) s = s\<lparr>sortBy := b\<rparr>"
| "students_step is_email us (ToggleClick u) s = handleToggleActive u s"
| "students_step is_email us (SettleMutation i ok) s =
     (if i < length (sp_pending s)
      then mutation_settled (sp_pending s ! i) ok (s\<lparr>sp_pending := take i (sp_pending s) @ drop (Suc i) (sp_pending s)\<rparr>)
      else s)"

text \<open>A button only fires while it is enabled: the submit buttons are disabled while
  their mutation is pending, a toggle button while its own request runs.\<close>

definition mutation_pending :: "student_mutation \<Rightarrow> students_page \<Rightarrow> bool" where
  "mutation_pending m s = (m \<in> set (sp_pending s))"

definition listed :: "student_user list option \<Rightarrow> student_user \<Rightarrow> bool" where
  "listed us u = (case us of None \<Rightarrow> False | Some vs \<Rightarrow> u \<in> set vs)"

fun students_enabled :: "student_user list option \<Rightarrow> students_event \<Rightarrow> students_page \<Rightarrow> bool" where
  "students_enabled us (SubmitAdd f) s = (isAddDialogOpen s \<and> \<not> mutation_pending MRegister s)"
| "students_enabled us (SubmitEdit f) s = (isEditDialogOpen s \<and> \<not> mutation_pending MUpdate s)"
| "students_enabled us ConfirmDeleteClick s = (isDeleteDialogOpen s \<and> \<not> mutation_pending MDelete s)"
| "students_enabled us SubmitReset s = (isResetPasswordDialogOpen s \<and> \<not> mutation_pending MReset s)"
| "students_enabled us (SetNewPassword p) s = isResetPasswordDialogOpen s"
| "students_enabled us (SetConfirmNewPassword p) s = isResetPasswordDialogOpen s"
| "students_enabled us (EditClick u) s = listed us u"
| "students_enabled us (DeleteClick u) s = listed us u"
| "students_enabled us (ResetClick u) s = listed us u"
| "students_enabled us (ToggleClick u) s = (listed us u \<and> su_id u \<notin> set (toggleLoading s))"
| "students_enabled us (SettleMutation i ok) s = (i < length (sp_pending s))"
| "students_enabled us e s = True"

inductive students_reachable ::
  "(js_string \<Rightarrow> bool) \<Rightarrow> student_user list option \<Rightarrow> students_page \<Rightarrow> bool" for is_email us where
  init: "students_reachable is_email us students_init"
| step: "students_reachable is_email us s \<Longrightarrow> students_enabled us e s \<Longrightarrow>
           students_reachable is_email us (students_step is_email us e s)"

subsection \<open>The list: search, sort and selection\<close>

text \<open>The search: a case-insensitive substring of the name, the e-mail or the username.\<close>

definition student_matches :: "js_string \<Rightarrow> student_user \<Rightarrow> bool" where
  "student_matches t u =
     (js_includes (js_lower t) (js_lower (su_fullName u)) \<or> js_includes (js_lower t) (js_lower (su_email u))
      \<or> js_includes (js_lower t) (js_lower (su_username u)))"

text \<open>The stable sort with \<open>localeCompare\<close> (a collation key \<open>coll\<close>) on the name or the
  e-mail, newest first on the creation date, and the order of the reply otherwise.\<close>

definition sort_students ::
  "(js_string \<Rightarrow> 'k::linorder) \<Rightarrow> js_string \<Rightarrow> student_user list \<Rightarrow> student_user list" where
  "sort_students coll by us =
     (if by = ''fullName'' then sort_key (\<lambda>u. coll (su_fullName u)) us
      else if by = ''email'' then sort_key (\<lambda>u. coll (su_email u)) us
      else if by = ''createdAt'' then sort_key (\<lambda>u. - su_createdAt u) us
      else us)"

definition filteredStudents ::
  "(js_string \<Rightarrow> 'k::linorder) \<Rightarrow> student_user list option \<Rightarrow> students_page \<Rightarrow> student_user list option" where
  "filteredStudents coll us s =
     map_option (\<lambda>vs. sort_students coll (sortBy s) (filter (student_matches (searchTerm s)) vs)) us"

subsection \<open>Rendering\<close>

record student_row =
  row_checked :: bool
  row_name :: js_string
  row_email :: js_string
  row_username :: js_string
  row_added :: js_string
  row_status :: js_string
  row_status_class :: js_string
  row_details_href :: js_string
  row_toggle :: "js_string option"

definition student_row_of ::
  "(int \<Rightarrow> js_string) \<Rightarrow> students_page \<Rightarrow> student_user \<Rightarrow> student_row" where
  "student_row_of ago s u =
     \<lparr>row_checked = (su_id u \<in> set (selectedStudents s)), row_name = su_fullName u,
      row_email = su_email u, row_username = CHR ''@'' # su_username u,
      row_added = ago (su_createdAt u),
      row_status = (if su_active u then ''Active'' else ''Inactive''),
      row_status_class = (if su_active u then ''text-green-600'' else ''text-red-600''),
      row_details_href = ''/admin/student-details/'' @ show_nat (su_id u),
      row_toggle = (if su_id u \<in> set (toggleLoading s) then None
                    else Some (if su_active u then ''Active'' else ''Inactive''))\<rparr>"

datatype students_table =
  StudentsSkeleton
  | NoStudentsFound js_string
  | StudentsTable bool "student_row list" js_string

record students_view =
  sv_table :: students_table
  sv_add_open :: bool
  sv_add_label :: js_string
  sv_edit_open :: bool
  sv_edit_label :: js_string
  sv_reset_open :: bool
  sv_reset_for :: js_string
  sv_reset_error :: "js_string option"
  sv_reset_label :: js_string
  sv_delete_open :: bool
  sv_delete_label :: js_string

text \<open>The header checkbox is checked when \<open>selectedStudents.length ===
  filteredStudents.length\<close>; the footer reads "Showing 1 to n of n students".\<close>

definition students_view ::
  "(js_string \<Rightarrow> 'k::linorder) \<Rightarrow> (int \<Rightarrow> js_string) \<Rightarrow> student_user list option \<Rightarrow> bool \<Rightarrow>
   students_page \<Rightarrow> students_view" where
  "students_view coll ago us isLoading s =
     (let fs = filteredStudents coll us s
      in \<lparr>sv_table =
            (if isLoading then StudentsSkeleton
             else case fs of
               Some vs \<Rightarrow> if vs \<noteq> []
                 then StudentsTable (length (selectedStudents s) = length vs) (map (student_row_of ago s) vs)
                        (''Showing 1 to '' @ show_nat (length vs) @ '' of '' @ show_nat (length vs) @ '' students'')
                 else NoStudentsFound (if searchTerm s \<noteq> [] then ''Try adjusting your search''
                                       else ''Start by adding students to your platform'')
             | None \<Rightarrow> NoStudentsFound (if searchTerm s \<noteq> [] then ''Try adjusting your search''
                                       else ''Start by adding students to your platform'')),
          sv_add_open = isAddDialogOpen s,
          sv_add_label = (if mutation_pending MRegister s then ''Adding...'' else ''Add Student''),
          sv_edit_open = isEditDialogOpen s,
          sv_edit_label = (if mutation_pending MUpdate s then ''Saving...'' else ''Save Changes''),
          sv_reset_open = isResetPasswordDialogOpen s,
          sv_reset_for = (case resettingStudent s of None \<Rightarrow> [] | Some u \<Rightarrow> su_fullName u),
          sv_reset_error = (if resetPasswordError s \<noteq> [] then Some (resetPasswordError s) else None),
          sv_reset_label = (if mutation_pending MReset s then ''Resetting...'' else ''Reset Password''),
          sv_delete_open = isDeleteDialogOpen s,
          sv_delete_label = (if mutation_pending MDelete s then ''Deleting...'' else ''Delete'')\<rparr>)"

subsection \<open>Observations\<close>

text \<open>Well-formedness of a request, and of the students the dialogs hold.\<close>

definition call_ok :: "(js_string \<Rightarrow> bool) \<Rightarrow> student_user list option \<Rightarrow> student_call \<Rightarrow> bool" where
  "call_ok is_email us c =
     (case c of
        PostRegister f \<Rightarrow> addStudentSchema is_email f = []
      | PutUser i f \<Rightarrow> editStudentSchema is_email f = [] \<and> (\<exists>u. listed us u \<and> su_id u = i)
      | DeleteUser i \<Rightarrow> (\<exists>u. listed us u \<and> su_id u = i)
      | PostResetPassword i p \<Rightarrow> 6 \<le> length p \<and> (\<exists>u. listed us u \<and> su_id u = i)
      | PostToggleActive i a \<Rightarrow> (\<exists>u. listed us u \<and> su_id u = i \<and> a = (\<not> su_active u)))"

definition targets_listed :: "student_user list option \<Rightarrow> students_page \<Rightarrow> bool" where
  "targets_listed us s =
     ((\<forall>u. studentToDelete s = Some u \<longrightarrow> listed us u) \<and> (\<forall>u. editingStudent s = Some u \<longrightarrow> listed us u)
      \<and> (\<forall>u. resettingStudent s = Some u \<longrightarrow> listed us u))"

definition requests_ok :: "(js_string \<Rightarrow> bool) \<Rightarrow> student_user list option \<Rightarrow> students_page \<Rightarrow> bool" where
  "requests_ok is_email us s = (targets_listed us s \<and> (\<forall>c \<in> set (sp_sent s). call_ok is_email us c))"

text \<open>Runs of events from a state, and a student and a run used in the examples.\<close>

fun students_run ::
  "(js_string \<Rightarrow> bool) \<Rightarrow> student_user list option \<Rightarrow> students_page \<Rightarrow> students_event list \<Rightarrow> students_page option" where
  "students_run is_email us s [] = Some s"
| "students_run is_email us s (e # es) =
     (if students_enabled us e s then students_run is_email us (students_step is_email us e s) es else None)"

definition example_student :: student_user where
  "example_student = \<lparr>su_id = 1, su_username = ''amina'', su_fullName = ''Amina Khan'',
     su_email = ''amina@example.org'', su_role = ''student'', su_createdAt = 0, su_active = True\<rparr>"

definition reset_run :: "students_event list" where
  "reset_run = [ResetClick example_student, SetNewPassword ''secret1'', SetConfirmNewPassword ''secret1'', SubmitReset]"

subsection \<open>Lemmas\<close>

lemma mutation_settled_keeps:
  "sp_sent (mutation_settled m ok s) = sp_sent s \<and>
   (\<forall>u. studentToDelete (mutation_settled m ok s) = Some u \<longrightarrow> studentToDelete s = Some u) \<and>
   editingStudent (mutation_settled m ok s) = editingStudent s \<and>
   (\<forall>u. resettingStudent (mutation_settled m ok s) = Some u \<longrightarrow> resettingStudent s = Some u)"
  by (cases "(m, ok, s)" rule: mutation_settled.cases) (auto simp: Let_def)

lemma requests_ok_step:
  assumes ok: "requests_ok is_email us s" and en: "students_enabled us e s"
  shows "requests_ok is_email us (students_step is_email us e s)"
proof (cases e)
  case (SettleMutation i b)
  let ?s' = "s\<lparr>sp_pending := take i (sp_pending s) @ drop (Suc i) (sp_pending s)\<rparr>"
  have "students_step is_email us e s = mutation_settled (sp_pending s ! i) b ?s'"
    using SettleMutation en by simp
  moreover have "requests_ok is_email us ?s'" using ok by (simp add: requests_ok_def targets_listed_def)
  ultimately show ?thesis
    using mutation_settled_keeps [of "sp_pending s ! i" b ?s'] by (simp add: requests_ok_def targets_listed_def)
next
  case SubmitReset
  with ok show ?thesis
    by (auto simp: submitPasswordReset_def mutate_def requests_ok_def targets_listed_def call_ok_def
        split: option.splits)
next
  case (SubmitAdd f)
  with ok show ?thesis
    by (auto simp: onAddStudent_def mutate_def requests_ok_def targets_listed_def call_ok_def)
next
  case (SubmitEdit f)
  with ok show ?thesis
    by (auto simp: onEditStudent_def mutate_def requests_ok_def targets_listed_def call_ok_def
        split: option.splits)
next
  case ConfirmDeleteClick
  with ok show ?thesis
    by (auto simp: confirmDelete_def mutate_def requests_ok_def targets_listed_def call_ok_def
        split: option.splits)
next
  case (ToggleClick u)
  with ok en show ?thesis
    by (auto simp: handleToggleActive_def mutate_def requests_ok_def targets_listed_def call_ok_def)
qed (use ok en in \<open>auto simp: requests_ok_def targets_listed_def handleEditStudent_def handleDeleteStudent_def
       handleResetPassword_def handleSelectAll_def handleSelectStudent_def\<close>)

lemma students_run_reachable:
  "students_reachable is_email us s \<Longrightarrow> students_run is_email us s es = Some t \<Longrightarrow> students_reachable is_email us t"
proof (induction es arbitrary: s)
  case (Cons e es)
  then show ?case by (auto intro: students_reachable.step split: if_splits)
qed simp

lemma reset_run_reaches:
  "\<exists>t. students_run is_email (Some [example_student]) students_init reset_run = Some t
     \<and> sp_sent t = [PostResetPassword 1 ''secret1'']"
  by (simp add: reset_run_def students_init_def handleResetPassword_def submitPasswordReset_def
      mutate_def listed_def example_student_def mutation_pending_def)

text \<open>After "select all" a search hides the second student: the header checkbox counts
  two selected ids against one visible row and shows unchecked, though the row is checked.\<close>

lemma select_all_counts_hidden:
  "let us = Some [example_student, example_student\<lparr>su_id := 2, su_username := ''bilal'', su_fullName := ''Bilal'', su_email := ''b@x.org''\<rparr>];
       s = (handleSelectAll us True students_init)\<lparr>searchTerm := ''amina''\<rparr>
   in selectedStudents s = [1, 2]
      \<and> (case sv_table (students_view length (\<lambda>t. []) us False s) of
           StudentsTable hdr rows _ \<Rightarrow> \<not> hdr \<and> map row_checked rows = [True] | _ \<Rightarrow> False)"
  by (simp add: handleSelectAll_def students_init_def students_view_def filteredStudents_def
      sort_students_def student_matches_def js_lower_def js_lower_char_def student_row_of_def example_student_def)

subsection \<open>Properties\<close>

text \<open>C36. Every request the student management page sends, in every reachable state, is
  well formed: a registration passes the add-student schema (username of three
  characters or more, a name, a valid e-mail, a password of six or more equal to its
  confirmation), an update passes the edit schema, a password reset carries six characters
  or more, and every update, delete, reset and toggle names a student of the listed data
  (a toggle asking for the negation of the state shown).\<close>

theorem students_requests_well_formed:
  "students_reachable is_email us s \<Longrightarrow> \<forall>c \<in> set (sp_sent s). call_ok is_email us c"
proof -
  assume "students_reachable is_email us s"
  then have "requests_ok is_email us s"
  proof (induction rule: students_reachable.induct)
    case init
    then show ?case by (simp add: requests_ok_def targets_listed_def students_init_def)
  next
    case (step s e)
    then show ?case using requests_ok_step by blast
  qed
  then show ?thesis by (simp add: requests_ok_def)
qed

theorem students_requests_well_formed_witness:
  "\<exists>t. students_reachable (\<lambda>e. e \<noteq> []) (Some [example_student]) t
     \<and> sp_sent t = [PostResetPassword 1 ''secret1'']
     \<and> (\<forall>c \<in> set (sp_sent t). call_ok (\<lambda>e. e \<noteq> []) (Some [example_student]) c)"
proof -
  obtain t where t: "students_run (\<lambda>e. e \<noteq> []) (Some [example_student]) students_init reset_run = Some t"
    and sent: "sp_sent t = [PostResetPassword 1 ''secret1'']"
    using reset_run_reaches by blast
  have r: "students_reachable (\<lambda>e. e \<noteq> []) (Some [example_student]) t"
    using students_run_reachable [OF students_reachable.init t] .
  show ?thesis using r sent students_requests_well_formed [OF r] by blast
qed

text \<open>C37. The password-reset button: with fewer than six characters it shows "Password must
  be at least 6 characters" and sends nothing; with a mismatching confirmation it shows
  "Passwords don't match" and sends nothing; otherwise it clears the error and sends the
  typed password for the student whose dialog was opened last (nothing if none was).\<close>

theorem password_reset_cases:
  "(length (newPassword s) < 6 \<longrightarrow>
      sp_sent (students_step is_email us SubmitReset s) = sp_sent s
      \<and> resetPasswordError (students_step is_email us SubmitReset s) = ''Password must be at least 6 characters'')
   \<and> (6 \<le> length (newPassword s) \<and> newPassword s \<noteq> confirmNewPassword s \<longrightarrow>
      sp_sent (students_step is_email us SubmitReset s) = sp_sent s
      \<and> resetPasswordError (students_step is_email us SubmitReset s) = ''Passwords don'' @ CHR 0x27 # ''t match'')
   \<and> (6 \<le> length (newPassword s) \<and> newPassword s = confirmNewPassword s \<longrightarrow>
      resetPasswordError (students_step is_email us SubmitReset s) = []
      \<and> sp_sent (students_step is_email us SubmitReset s) = sp_sent s @
          (case resettingStudent s of None \<Rightarrow> [] | Some u \<Rightarrow> [PostResetPassword (su_id u) (newPassword s)]))"
  by (auto simp: submitPasswordReset_def mutate_def split: option.split)

theorem password_reset_cases_witness:
  "resetPasswordError (students_step (\<lambda>e. True) None SubmitReset (students_init\<lparr>newPassword := ''abc'', confirmNewPassword := ''abc''\<rparr>))
     = ''Password must be at least 6 characters''
   \<and> sp_sent (students_step (\<lambda>e. True) None SubmitReset
       (students_init\<lparr>resettingStudent := Some example_student, newPassword := ''secret1'', confirmNewPassword := ''secret1''\<rparr>))
     = [PostResetPassword 1 ''secret1'']"
  using password_reset_cases [of "students_init\<lparr>newPassword := ''abc'', confirmNewPassword := ''abc''\<rparr>" "\<lambda>e. True" None]
    password_reset_cases [of "students_init\<lparr>resettingStudent := Some example_student, newPassword := ''secret1'', confirmNewPassword := ''secret1''\<rparr>" "\<lambda>e. True" None]
  by (simp add: students_init_def example_student_def)

end
