(* ===== verification/ManageContent.thy ===== *)
theory ManageContent
  imports Prelude
begin

text \<open>
  The three remaining administration pages: topics (\<open>pages/admin/manage-topics.tsx\<close>),
  questions (\<open>pages/admin/manage-questions.tsx\<close>) and registration approvals
  (\<open>pages/admin/user-approvals.tsx\<close>). Each page's hooks are a record; the query data is
  an input; each mutation's request is logged when \<open>mutate\<close> is called and its callbacks
  run when the request settles, in any order. The date printer is a parameter.
\<close>

subsection \<open>Topics page\<close>

record topic_rec =
  tp_id :: nat
  tp_name :: js_string
  tp_description :: "js_string option"
  tp_questionCount :: "nat option"

datatype topic_call = PostTopic js_string js_string | PutTopic topic_rec | DeleteTopic nat

datatype topic_mutation = MCreateTopic | MUpdateTopic | MDeleteTopic

record topics_page =
  topicSearch :: js_string
  newTopicName :: js_string
  newTopicDescription :: js_string
  editingTopic :: "topic_rec option"
  topicToDelete :: "topic_rec option"
  openNewTopicDialog :: bool
  openEditDialog :: bool
  openDeleteDialog :: bool
  tp_pending :: "topic_mutation list"
  tp_sent :: "topic_call list"
  tp_toasts :: "js_string list"

definition topics_init :: topics_page where
  "topics_init =
     \<lparr>topicSearch = [], newTopicName = [], newTopicDescription = [], editingTopic = None,
      topicToDelete = None, openNewTopicDialog = False, openEditDialog = False, openDeleteDialog = False,
      tp_pending = [], tp_sent = [], tp_toasts = []\<rparr>"

definition topic_mutate :: "topic_mutation \<Rightarrow> topic_call \<Rightarrow> topics_page \<Rightarrow> topics_page" where
  "topic_mutate m c s = s\<lparr>tp_pending := tp_pending s @ [m], tp_sent := tp_sent s @ [c]\<rparr>"

text \<open>\<open>handleCreateTopic\<close>: a name that trims to nothing is refused with a toast; the
  request carries the name as typed.\<close>

definition handleCreateTopic :: "topics_page \<Rightarrow> topics_page" where
  "handleCreateTopic s =
     (if js_trim (newTopicName s) = [] then s\<lparr>tp_toasts := tp_toasts s @ [''Missing information'']\<rparr>
      else topic_mutate MCreateTopic (PostTopic (newTopicName s) (newTopicDescription s)) s)"

text \<open>\<open>handleSaveEdit\<close>: the edited topic is sent as it is, without any check.
  \<open>handleConfirmDelete\<close> sends the delete; the alert dialog's action button closes the
  dialog as it is clicked.\<close>

definition handleSaveTopicEdit :: "topics_page \<Rightarrow> topics_page" where
  "handleSaveTopicEdit s =
     (case editingTopic s of None \<Rightarrow> s | Some t \<Rightarrow> topic_mutate MUpdateTopic (PutTopic t) s)"

definition handleConfirmTopicDelete :: "topics_page \<Rightarrow> topics_page" where
  "handleConfirmTopicDelete s =
     (case topicToDelete s of None \<Rightarrow> s\<lparr>openDeleteDialog := False\<rparr>
      | Some t \<Rightarrow> (topic_mutate MDeleteTopic (DeleteTopic (tp_id t)) s)\<lparr>openDeleteDialog := False\<rparr>)"

fun topic_settled :: "topic_mutation \<Rightarrow> bool \<Rightarrow> topics_page \<Rightarrow> topics_page" where
  "topic_settled MCreateTopic ok s =
     (if ok then s\<lparr>tp_toasts := tp_toasts s @ [''Topic created''], openNewTopicDialog := False,
                   newTopicName := [], newTopicDescription := []\<rparr>
      else s\<lparr>tp_toasts := tp_toasts s @ [''Error creating topic'']\<rparr>)"
| "topic_settled MUpdateTopic ok s =
     (if ok then s\<lparr>tp_toasts := tp_toasts s @ [''Topic updated''], openEditDialog := False\<rparr>
      else s\<lparr>tp_toasts := tp_toasts s @ [''Error updating topic'']\<rparr>)"
| "topic_settled MDeleteTopic ok s =
     (if ok then s\<lparr>tp_toasts := tp_toasts s @ [''Topic deleted''], openDeleteDialog := False\<rparr>
      else s\<lparr>tp_toasts := tp_toasts s @ [''Error deleting topic'']\<rparr>)"

datatype topics_event =
  SetNewTopicOpen bool | SetNewTopicName js_string | SetNewTopicDescription js_string | CreateTopicClick
  | EditTopicClick topic_rec | SetEditTopicName js_string | SetEditTopicDescription js_string
  | SaveTopicClick | SetEditTopicOpen bool | DeleteTopicClick topic_rec | ConfirmTopicDelete
  | SetDeleteTopicOpen bool | SetTopicSearch js_string | SettleTopic nat bool

text \<open>The edit inputs write \<open>{...editingTopic, name: e.target.value}\<close>.\<close>

fun topics_step :: "topics_event \<Rightarrow> topics_page \<Rightarrow> topics_page" where
  "topics_step (SetNewTopicOpen b) s = s\<lparr>openNewTopicDialog := b\<rparr>"
| "topics_step (SetNewTopicName n) s = s\<lparr>newTopicName := n\<rparr>"
| "topics_step (SetNewTopicDescription d) s = s\<lparr>newTopicDescription := d\<rparr>"
| "topics_step CreateTopicClick s = handleCreateTopic s"
| "topics_step (EditTopicClick t) s = s\<lparr>editingTopic := Some t, openEditDialog := True\<rparr>"
| "topics_step (SetEditTopicName n) s = s\<lparr>editingTopic := map_option (\<lambda>t. t\<lparr>tp_name := n\<rparr>) (editingTopic s)\<rparr>"
| "topics_step (SetEditTopicDescription d) s =
     s\<lparr>editingTopic := map_option (\<lambda>t. t\<lparr>tp_description := Some d\<rparr>) (editingTopic s)\<rparr>"
| "topics_step SaveTopicClick s = handleSaveTopicEdit s"
| "topics_step (SetEditTopicOpen b) s = s\<lparr>openEditDialog := b\<rparr>"
| "topics_step (DeleteTopicClick t) s = s\<lparr>topicToDelete := Some t, openDeleteDialog := True\<rparr>"
| "topics_step ConfirmTopicDelete s = handleConfirmTopicDelete s"
| "topics_step (SetDeleteTopicOpen b) s = s\<lparr>openDeleteDialog := b\<rparr>"
| "topics_step (SetTopicSearch t) s = s\<lparr>topicSearch := t\<rparr>"
| "topics_step (SettleTopic i ok) s =
     (if i < length (tp_pending s)
      then topic_settled (tp_pending s ! i) ok (s\<lparr>tp_pending := take i (tp_pending s) @ drop (Suc i) (tp_pending s)\<rparr>)
      else s)"

text \<open>The rendered controls: the create and save buttons are disabled while their
  mutation is pending, the edit inputs exist only with an edited topic; the delete
  action has no \<open>disabled\<close>.\<close>

fun topics_enabled :: "topic_rec list option \<Rightarrow> topics_event \<Rightarrow> topics_page \<Rightarrow> bool" where
  "topics_enabled ts CreateTopicClick s = (openNewTopicDialog s \<and> MCreateTopic \<notin> set (tp_pending s))"
| "topics_enabled ts SaveTopicClick s = (openEditDialog s \<and> MUpdateTopic \<notin> set (tp_pending s))"
| "topics_enabled ts (SetEditTopicName n) s = (openEditDialog s \<and> editingTopic s \<noteq> None)"
| "topics_enabled ts (SetEditTopicDescription d) s = (openEditDialog s \<and> editingTopic s \<noteq> None)"
| "topics_enabled ts (EditTopicClick t) s = (case ts of None \<Rightarrow> False | Some l \<Rightarrow> t \<in> set l)"
| "topics_enabled ts (DeleteTopicClick t) s = (case ts of None \<Rightarrow> False | Some l \<Rightarrow> t \<in> set l)"
| "topics_enabled ts ConfirmTopicDelete s = openDeleteDialog s"
| "topics_enabled ts (SettleTopic i ok) s = (i < length (tp_pending s))"
| "topics_enabled ts e s = True"

inductive topics_reachable :: "topic_rec list option \<Rightarrow> topics_page \<Rightarrow> bool" for ts where
  init: "topics_reachable ts topics_init"
| step: "topics_reachable ts s \<Longrightarrow> topics_enabled ts e s \<Longrightarrow> topics_reachable ts (topics_step e s)"

definition topic_matches :: "js_string \<Rightarrow> topic_rec \<Rightarrow> bool" where
  "topic_matches q t =
     (js_includes (js_lower q) (js_lower (tp_name t))
      \<or> (case tp_description t of None \<Rightarrow> False
         | Some d \<Rightarrow> d \<noteq> [] \<and> js_includes (js_lower q) (js_lower d)))"

record topic_row =
  tr_name :: js_string
  tr_description :: js_string
  tr_count :: js_string
  tr_unit :: js_string

definition topic_row_of :: "topic_rec \<Rightarrow> topic_row" where
  "topic_row_of t =
     \<lparr>tr_name = tp_name t,
      tr_description = (case tp_description t of Some d \<Rightarrow> if d \<noteq> [] then d else ''No description''
                        | None \<Rightarrow> ''No description''),
      tr_count = show_nat (case tp_questionCount t of None \<Rightarrow> 0 | Some n \<Rightarrow> n),
      tr_unit = (if tp_questionCount t = Some 1 then ''question'' else ''questions'')\<rparr>"

datatype topics_table = TopicsSkeleton | TopicRows "topic_row list" | NoTopicsFound js_string

definition topics_view :: "topic_rec list option \<Rightarrow> bool \<Rightarrow> topics_page \<Rightarrow> topics_table \<times> js_string \<times> js_string" where
  "topics_view ts isLoading s =
     (let fs = map_option (filter (topic_matches (topicSearch s))) ts
      in (if isLoading then TopicsSkeleton
          else case fs of Some (r # rs) \<Rightarrow> TopicRows (map topic_row_of (r # rs))
               | _ \<Rightarrow> NoTopicsFound (if topicSearch s \<noteq> [] then ''Try adjusting your search''
                                     else ''Start by adding topics to your database''),
          if MCreateTopic \<in> set (tp_pending s) then ''Creating...'' else ''Create Topic'',
          if MUpdateTopic \<in> set (tp_pending s) then ''Saving...'' else ''Save Changes''))"

subsection \<open>Questions page\<close>

record db_question =
  q_id :: nat
  q_text :: js_string
  q_topicId :: "nat option"
  q_subtopic :: "js_string option"
  q_optionA :: js_string
  q_optionB :: js_string
  q_optionC :: js_string
  q_optionD :: js_string
  q_correctOption :: js_string
  q_explanation :: "js_string option"

text \<open>The Question invariant of the data model (spec, Question): the correct option is one
  of A--D and names a non-empty option.\<close>

definition correct_option_text :: "db_question \<Rightarrow> js_string" where
  "correct_option_text q =
     (if q_correctOption q = ''A'' then q_optionA q else if q_correctOption q = ''B'' then q_optionB q
      else if q_correctOption q = ''C'' then q_optionC q else if q_correctOption q = ''D'' then q_optionD q
      else [])"

definition question_invariant :: "db_question \<Rightarrow> bool" where
  "question_invariant q = (q_correctOption q \<in> {''A'', ''B'', ''C'', ''D''} \<and> correct_option_text q \<noteq> [])"

datatype question_call = PutQuestion db_question | DeleteQuestion nat

datatype question_mutation = MUpdateQuestion | MDeleteQuestion

record questions_page =
  questionSearch :: js_string
  selectedTopic :: js_string
  editingQuestion :: "db_question option"
  questionToDelete :: "db_question option"
  openEditQuestion :: bool
  openDeleteQuestion :: bool
  qp_pending :: "question_mutation list"
  qp_sent :: "question_call list"
  qp_toasts :: "js_string list"

definition questions_init :: questions_page where
  "questions_init =
     \<lparr>questionSearch = [], selectedTopic = [], editingQuestion = None, questionToDelete = None,
      openEditQuestion = False, openDeleteQuestion = False, qp_pending = [], qp_sent = [], qp_toasts = []\<rparr>"

text \<open>The URL of the questions query.\<close>

definition questions_url :: "js_string \<Rightarrow> js_string" where
  "questions_url sel = ''/api/questions'' @ (if sel \<noteq> [] \<and> sel \<noteq> ''all'' then ''?topicId='' @ sel else [])"

datatype option_letter = OptA | OptB | OptC | OptD

definition set_option :: "option_letter \<Rightarrow> js_string \<Rightarrow> db_question \<Rightarrow> db_question" where
  "set_option l v q =
     (case l of OptA \<Rightarrow> q\<lparr>q_optionA := v\<rparr> | OptB \<Rightarrow> q\<lparr>q_optionB := v\<rparr>
      | OptC \<Rightarrow> q\<lparr>q_optionC := v\<rparr> | OptD \<Rightarrow> q\<lparr>q_optionD := v\<rparr>)"

datatype questions_event =
  EditQuestionClick db_question | SetQuestionText js_string | SetQuestionTopic js_string
  | SetSubtopic js_string | SetCorrectOption js_string | SetOptionText option_letter js_string
  | SetExplanation js_string | SaveQuestionClick | SetEditQuestionOpen bool
  | DeleteQuestionClick db_question | ConfirmQuestionDelete | SetDeleteQuestionOpen bool
  | SetQuestionSearch js_string | SetSelectedTopic js_string | SettleQuestion nat bool

definition edit_question :: "(db_question \<Rightarrow> db_question) \<Rightarrow> questions_page \<Rightarrow> questions_page" where
  "edit_question f s = s\<lparr>editingQuestion := map_option f (editingQuestion s)\<rparr>"

fun question_settled :: "question_mutation \<Rightarrow> bool \<Rightarrow> questions_page \<Rightarrow> questions_page" where
  "question_settled MUpdateQuestion ok s =
     (if ok then s\<lparr>qp_toasts := qp_toasts s @ [''Question updated''], openEditQuestion := False\<rparr>
      else s\<lparr>qp_toasts := qp_toasts s @ [''Error updating question'']\<rparr>)"
| "question_settled MDeleteQuestion ok s =
     (if ok then s\<lparr>qp_toasts := qp_toasts s @ [''Question deleted''], openDeleteQuestion := False\<rparr>
      else s\<lparr>qp_toasts := qp_toasts s @ [''Error deleting question'']\<rparr>)"

text \<open>The topic select writes \<open>value ? parseInt(value) : null\<close>; \<open>handleSaveEdit\<close> sends the
  edited question without any check; the delete action closes its alert dialog.\<close>

fun questions_step :: "questions_event \<Rightarrow> questions_page \<Rightarrow> questions_page" where
  "questions_step (EditQuestionClick q) s = s\<lparr>editingQuestion := Some q, openEditQuestion := True\<rparr>"
| "questions_step (SetQuestionText v) s = edit_question (\<lambda>q. q\<lparr>q_text := v\<rparr>) s"
| "questions_step (SetQuestionTopic v) s =
     edit_question (\<lambda>q. q\<lparr>q_topicId := (if v = [] then None else map_option nat (parse_int_noradix v))\<rparr>) s"
| "questions_step (SetSubtopic v) s = edit_question (\<lambda>q. q\<lparr>q_subtopic := Some v\<rparr>) s"
| "questions_step (SetCorrectOption v) s = edit_question (\<lambda>q. q\<lparr>q_correctOption := v\<rparr>) s"
| "questions_step (SetOptionText l v) s = edit_question (set_option l v) s"
| "questions_step (SetExplanation v) s = edit_question (\<lambda>q. q\<lparr>q_explanation := Some v\<rparr>) s"
| "questions_step SaveQuestionClick s =
     (case editingQuestion s of None \<Rightarrow> s
      | Some q \<Rightarrow> s\<lparr>qp_pending := qp_pending s @ [MUpdateQuestion], qp_sent := qp_sent s @ [PutQuestion q]\<rparr>)"
| "questions_step (SetEditQuestionOpen b) s = s\<lparr>openEditQuestion := b\<rparr>"
| "questions_step (DeleteQuestionClick q) s = s\<lparr>questionToDelete := Some q, openDeleteQuestion := True\<rparr>"
| "questions_step ConfirmQuestionDelete s =
     (case questionToDelete s of None \<Rightarrow> s
      | Some q \<Rightarrow> s\<lparr>qp_pending := qp_pending s @ [MDeleteQuestion], qp_sent := qp_sent s @ [DeleteQuestion (q_id q)]\<rparr>)
     \<lparr>openDeleteQuestion := False\<rparr>"
| "questions_step (SetDeleteQuestionOpen b) s = s\<lparr>openDeleteQuestion := b\<rparr>"
| "questions_step (SetQuestionSearch v) s = s\<lparr>questionSearch := v\<rparr>"
| "questions_step (SetSelectedTopic v) s = s\<lparr>selectedTopic := v\<rparr>"
| "questions_step (SettleQuestion i ok) s =
     (if i < length (qp_pending s)
      then question_settled (qp_pending s ! i) ok (s\<lparr>qp_pending := take i (qp_pending s) @ drop (Suc i) (qp_pending s)\<rparr>)
      else s)"

text \<open>The edit inputs exist while the dialog shows a question; the radio groups emit
  A--D; the save and delete buttons are disabled while their mutation is pending.\<close>

fun questions_enabled :: "db_question list option \<Rightarrow> questions_event \<Rightarrow> questions_page \<Rightarrow> bool" where
  "questions_enabled qs (EditQuestionClick q) s = (case qs of None \<Rightarrow> False | Some l \<Rightarrow> q \<in> set l)"
| "questions_enabled qs (DeleteQuestionClick q) s = (case qs of None \<Rightarrow> False | Some l \<Rightarrow> q \<in> set l)"
| "questions_enabled qs (SetCorrectOption v) s =
     (openEditQuestion s \<and> editingQuestion s \<noteq> None \<and> v \<in> {''A'', ''B'', ''C'', ''D''})"
| "questions_enabled qs SaveQuestionClick s = (openEditQuestion s \<and> MUpdateQuestion \<notin> set (qp_pending s))"
| "questions_enabled qs ConfirmQuestionDelete s = (openDeleteQuestion s \<and> MDeleteQuestion \<notin> set (qp_pending s))"
| "questions_enabled qs (SettleQuestion i ok) s = (i < length (qp_pending s))"
| "questions_enabled qs (SetEditQuestionOpen b) s = True"
| "questions_enabled qs (SetDeleteQuestionOpen b) s = True"
| "questions_enabled qs (SetQuestionSearch v) s = True"
| "questions_enabled qs (SetSelectedTopic v) s = True"
| "questions_enabled qs e s = (openEditQuestion s \<and> editingQuestion s \<noteq> None)"

inductive questions_reachable :: "db_question list option \<Rightarrow> questions_page \<Rightarrow> bool" for qs where
  init: "questions_reachable qs questions_init"
| step: "questions_reachable qs s \<Longrightarrow> questions_enabled qs e s \<Longrightarrow> questions_reachable qs (questions_step e s)"

definition question_matches :: "js_string \<Rightarrow> db_question \<Rightarrow> bool" where
  "question_matches t q =
     (js_includes (js_lower t) (js_lower (q_text q))
      \<or> (case q_subtopic q of None \<Rightarrow> False | Some st \<Rightarrow> st \<noteq> [] \<and> js_includes (js_lower t) (js_lower st)))"

text \<open>\<open>getTopicName\<close>: no topic (or id 0, falsy) is "No Topic", an id missing from the
  topics is "Unknown Topic".\<close>

definition getTopicName :: "(nat \<times> js_string) list option \<Rightarrow> nat option \<Rightarrow> js_string" where
  "getTopicName topicList tid =
     (case tid of None \<Rightarrow> ''No Topic''
      | Some i \<Rightarrow> if i = 0 then ''No Topic''
                  else (case topicList of None \<Rightarrow> ''Unknown Topic''
                        | Some l \<Rightarrow> (case map_of l i of Some n \<Rightarrow> if n \<noteq> [] then n else ''Unknown Topic''
                                    | None \<Rightarrow> ''Unknown Topic'')))"

text \<open>The correct-answer column: the letter, then the first 20 characters of its option
  and \<open>...\<close> when it is longer.\<close>

definition correct_preview :: "db_question \<Rightarrow> js_string" where
  "correct_preview q =
     q_correctOption q @ '': '' @ take 20 (correct_option_text q)
     @ (if 20 < length (correct_option_text q) then ''...'' else [])"

record question_row =
  qr_text :: js_string
  qr_subtopic :: "js_string option"
  qr_topic :: js_string
  qr_correct :: js_string

definition question_row_of :: "(nat \<times> js_string) list option \<Rightarrow> db_question \<Rightarrow> question_row" where
  "question_row_of topicList q =
     \<lparr>qr_text = q_text q,
      qr_subtopic = (case q_subtopic q of Some st \<Rightarrow> if st \<noteq> [] then Some (''Subtopic: '' @ st) else None | None \<Rightarrow> None),
      qr_topic = getTopicName topicList (q_topicId q), qr_correct = correct_preview q\<rparr>"

datatype questions_table = QuestionsSkeleton | QuestionRows "question_row list" | NoQuestionsFound js_string

definition questions_view ::
  "(nat \<times> js_string) list option \<Rightarrow> db_question list option \<Rightarrow> bool \<Rightarrow> questions_page \<Rightarrow> questions_table" where
  "questions_view topicList qs isLoading s =
     (if isLoading then QuestionsSkeleton
      else case map_option (filter (question_matches (questionSearch s))) qs of
        Some (r # rs) \<Rightarrow> QuestionRows (map (question_row_of topicList) (r # rs))
      | _ \<Rightarrow> NoQuestionsFound (if questionSearch s \<noteq> [] \<or> selectedTopic s \<noteq> []
                               then ''Try adjusting your search or filter''
                               else ''Start by adding questions to your database''))"

subsection \<open>Approvals page\<close>

record pending_user =
  pu_id :: nat
  pu_username :: js_string
  pu_fullName :: js_string
  pu_email :: js_string
  pu_role :: js_string
  pu_createdAt :: js_string

datatype approval_call = PostApprove nat | PostReject nat

record approvals_page =
  ap_pending :: "approval_call list"
  ap_sent :: "approval_call list"
  ap_toasts :: "js_string list"

definition approvals_init :: approvals_page where
  "approvals_init = \<lparr>ap_pending = [], ap_sent = [], ap_toasts = []\<rparr>"

definition is_approve :: "approval_call \<Rightarrow> bool" where
  "is_approve c = (case c of PostApprove i \<Rightarrow> True | PostReject i \<Rightarrow> False)"

datatype approvals_event = ApproveClick nat | RejectClick nat | SettleApproval nat bool

fun approval_settled :: "approval_call \<Rightarrow> bool \<Rightarrow> approvals_page \<Rightarrow> approvals_page" where
  "approval_settled (PostApprove i) ok s =
     s\<lparr>ap_toasts := ap_toasts s @ [if ok then ''User Approved'' else ''Approval Failed'']\<rparr>"
| "approval_settled (PostReject i) ok s =
     s\<lparr>ap_toasts := ap_toasts s @ [if ok then ''User Rejected'' else ''Rejection Failed'']\<rparr>"

fun approvals_step :: "approvals_event \<Rightarrow> approvals_page \<Rightarrow> approvals_page" where
  "approvals_step (ApproveClick i) s = s\<lparr>ap_pending := ap_pending s @ [PostApprove i], ap_sent := ap_sent s @ [PostApprove i]\<rparr>"
| "approvals_step (RejectClick i) s = s\<lparr>ap_pending := ap_pending s @ [PostReject i], ap_sent := ap_sent s @ [PostReject i]\<rparr>"
| "approvals_step (SettleApproval k ok) s =
     (if k < length (ap_pending s)
      then approval_settled (ap_pending s ! k) ok (s\<lparr>ap_pending := take k (ap_pending s) @ drop (Suc k) (ap_pending s)\<rparr>)
      else s)"

text \<open>Every card's Approve button is disabled while an approval is pending (one mutation
  for all cards), every Reject button while a rejection is; the two never disable each
  other.\<close>

fun approvals_enabled :: "pending_user list option \<Rightarrow> approvals_event \<Rightarrow> approvals_page \<Rightarrow> bool" where
  "approvals_enabled us (ApproveClick i) s =
     ((case us of None \<Rightarrow> False | Some l \<Rightarrow> i \<in> pu_id ` set l) \<and> \<not> list_ex is_approve (ap_pending s))"
| "approvals_enabled us (RejectClick i) s =
     ((case us of None \<Rightarrow> False | Some l \<Rightarrow> i \<in> pu_id ` set l) \<and> \<not> list_ex (\<lambda>c. \<not> is_approve c) (ap_pending s))"
| "approvals_enabled us (SettleApproval k ok) s = (k < length (ap_pending s))"

text \<open>\<open>role.charAt(0).toUpperCase() + role.slice(1)\<close>, on ASCII letters.\<close>

definition capitalize :: "js_string \<Rightarrow> js_string" where
  "capitalize r =
     (case r of [] \<Rightarrow> []
      | c # cs \<Rightarrow> (if (97::nat) \<le> of_char c \<and> of_char c \<le> (122::nat) then char_of (of_char c - (32::nat)) else c) # cs)"

record approval_card =
  ac_name :: js_string
  ac_handle :: js_string
  ac_email :: js_string
  ac_registered :: js_string
  ac_role :: js_string
  ac_approve_disabled :: bool
  ac_reject_disabled :: bool

definition approval_card_of :: "(js_string \<Rightarrow> js_string) \<Rightarrow> approvals_page \<Rightarrow> pending_user \<Rightarrow> approval_card" where
  "approval_card_of dateStr s u =
     \<lparr>ac_name = pu_fullName u, ac_handle = CHR ''@'' # pu_username u, ac_email = pu_email u,
      ac_registered = dateStr (pu_createdAt u), ac_role = capitalize (pu_role u),
      ac_approve_disabled = list_ex is_approve (ap_pending s),
      ac_reject_disabled = list_ex (\<lambda>c. \<not> is_approve c) (ap_pending s)\<rparr>"

inductive approvals_reachable :: "pending_user list option \<Rightarrow> approvals_page \<Rightarrow> bool" for us where
  init: "approvals_reachable us approvals_init"
| step: "approvals_reachable us s \<Longrightarrow> approvals_enabled us e s \<Longrightarrow> approvals_reachable us (approvals_step e s)"

datatype approvals_view = ApprovalsLoading | ApprovalCards "approval_card list" | NoPendingRequests

definition approvals_view_of ::
  "(js_string \<Rightarrow> js_string) \<Rightarrow> pending_user list option \<Rightarrow> bool \<Rightarrow> approvals_page \<Rightarrow> approvals_view" where
  "approvals_view_of dateStr us isLoading s =
     (if isLoading then ApprovalsLoading
      else case us of Some (u # vs) \<Rightarrow> ApprovalCards (map (approval_card_of dateStr s) (u # vs))
           | _ \<Rightarrow> NoPendingRequests)"

subsection \<open>Lemmas\<close>

text \<open>The request logs change only by the handlers' \<open>mutate\<close> calls: settling a request
  leaves them alone.\<close>

lemma topic_settled_sent [simp]: "tp_sent (topic_settled m ok s) = tp_sent s"
  by (cases m) simp_all

lemma question_settled_sent [simp]: "qp_sent (question_settled m ok s) = qp_sent s"
  by (cases m) simp_all

lemma approval_settled_pending [simp]: "ap_pending (approval_settled c ok s) = ap_pending s"
  by (cases c) simp_all

definition named_creations :: "topics_page \<Rightarrow> bool" where
  "named_creations s = (\<forall>c \<in> set (tp_sent s). \<forall>n d. c = PostTopic n d \<longrightarrow> js_trim n \<noteq> [])"

lemma named_creations_step: "named_creations s \<Longrightarrow> named_creations (topics_step e s)"
  by (cases e) (auto simp: named_creations_def handleCreateTopic_def handleSaveTopicEdit_def
      handleConfirmTopicDelete_def topic_mutate_def split: option.splits)

text \<open>Pending requests of each kind: \<open>isPending\<close> of the approve mutation and of the reject
  mutation.\<close>

definition n_approving :: "approvals_page \<Rightarrow> nat" where
  "n_approving s = length (filter is_approve (ap_pending s))"

definition n_rejecting :: "approvals_page \<Rightarrow> nat" where
  "n_rejecting s = length (filter (\<lambda>c. \<not> is_approve c) (ap_pending s))"

lemma filter_remove_nth_le: "length (filter P (take i xs @ drop (Suc i) xs)) \<le> length (filter P xs)"
proof -
  have "take i xs @ drop i xs = xs" by simp
  then have "length (filter P xs) = length (filter P (take i xs)) + length (filter P (drop i xs))"
    by (metis filter_append length_append)
  moreover have "length (filter P (drop (Suc i) xs)) \<le> length (filter P (drop i xs))"
    by (cases "i < length xs") (simp_all add: Cons_nth_drop_Suc [symmetric])
  ultimately show ?thesis by simp
qed

lemma approvals_step_counts:
  assumes "approvals_enabled us e s" "n_approving s \<le> 1" "n_rejecting s \<le> 1"
  shows "n_approving (approvals_step e s) \<le> 1 \<and> n_rejecting (approvals_step e s) \<le> 1"
proof (cases e)
  case (ApproveClick i)
  with assms show ?thesis
    by (simp add: n_approving_def n_rejecting_def is_approve_def list_ex_iff filter_empty_conv)
next
  case (RejectClick i)
  with assms show ?thesis
    by (simp add: n_approving_def n_rejecting_def is_approve_def list_ex_iff filter_empty_conv)
next
  case (SettleApproval k ok)
  with assms show ?thesis
    using filter_remove_nth_le [of is_approve k "ap_pending s"]
      filter_remove_nth_le [of "\<lambda>c. \<not> is_approve c" k "ap_pending s"]
    by (simp add: n_approving_def n_rejecting_def)
qed

subsection \<open>Properties\<close>

text \<open>C38. The topic name is checked only on creation: in every reachable state of the topics
  page each create request carries a name that does not trim to nothing, yet from any listed
  topic the edit dialog sends an update whose name is empty.\<close>

theorem topic_names_checked_on_create_only:
  assumes "t \<in> set l"
  shows "(\<forall>s. topics_reachable (Some l) s \<longrightarrow>
            (\<forall>c \<in> set (tp_sent s). \<forall>n d. c = PostTopic n d \<longrightarrow> js_trim n \<noteq> []))
         \<and> (\<exists>s. topics_reachable (Some l) s \<and> PutTopic (t\<lparr>tp_name := []\<rparr>) \<in> set (tp_sent s))"
proof
  show "\<forall>s. topics_reachable (Some l) s \<longrightarrow>
          (\<forall>c \<in> set (tp_sent s). \<forall>n d. c = PostTopic n d \<longrightarrow> js_trim n \<noteq> [])"
  proof (intro allI impI)
    fix s assume "topics_reachable (Some l) s"
    then have "named_creations s"
      by (induction rule: topics_reachable.induct)
        (simp_all add: named_creations_step, simp add: named_creations_def topics_init_def)
    then show "\<forall>c \<in> set (tp_sent s). \<forall>n d. c = PostTopic n d \<longrightarrow> js_trim n \<noteq> []"
      by (simp add: named_creations_def)
  qed
  let ?s1 = "topics_step (EditTopicClick t) topics_init"
  let ?s2 = "topics_step (SetEditTopicName []) ?s1"
  have r1: "topics_reachable (Some l) ?s1"
    using assms by (intro topics_reachable.step [OF topics_reachable.init]) simp
  have r2: "topics_reachable (Some l) ?s2"
    by (rule topics_reachable.step [OF r1]) (simp add: topics_init_def)
  have "topics_reachable (Some l) (topics_step SaveTopicClick ?s2)"
    by (rule topics_reachable.step [OF r2]) (simp add: topics_init_def)
  moreover have "PutTopic (t\<lparr>tp_name := []\<rparr>) \<in> set (tp_sent (topics_step SaveTopicClick ?s2))"
    by (simp add: topics_init_def handleSaveTopicEdit_def topic_mutate_def)
  ultimately show "\<exists>s. topics_reachable (Some l) s \<and> PutTopic (t\<lparr>tp_name := []\<rparr>) \<in> set (tp_sent s)"
    by blast
qed

theorem topic_names_checked_on_create_only_witness:
  "\<exists>s. topics_reachable (Some [\<lparr>tp_id = 1, tp_name = ''Physics'', tp_description = None, tp_questionCount = Some 3\<rparr>]) s
     \<and> PutTopic \<lparr>tp_id = 1, tp_name = [], tp_description = None, tp_questionCount = Some 3\<rparr> \<in> set (tp_sent s)
     \<and> list_all (\<lambda>c. case c of PostTopic n d \<Rightarrow> js_trim n \<noteq> [] | _ \<Rightarrow> True) (tp_sent s)"
proof -
  have c: "(\<forall>s. topics_reachable (Some [\<lparr>tp_id = 1, tp_name = ''Physics'', tp_description = None, tp_questionCount = Some 3\<rparr>]) s \<longrightarrow>
             (\<forall>c \<in> set (tp_sent s). \<forall>n d. c = PostTopic n d \<longrightarrow> js_trim n \<noteq> []))
           \<and> (\<exists>s. topics_reachable (Some [\<lparr>tp_id = 1, tp_name = ''Physics'', tp_description = None, tp_questionCount = Some 3\<rparr>]) s
                \<and> PutTopic \<lparr>tp_id = 1, tp_name = [], tp_description = None, tp_questionCount = Some 3\<rparr> \<in> set (tp_sent s))"
    using topic_names_checked_on_create_only [of "\<lparr>tp_id = 1, tp_name = ''Physics'', tp_description = None, tp_questionCount = Some 3\<rparr>" "[\<lparr>tp_id = 1, tp_name = ''Physics'', tp_description = None, tp_questionCount = Some 3\<rparr>]"] by simp
  then obtain s where r: "topics_reachable (Some [\<lparr>tp_id = 1, tp_name = ''Physics'', tp_description = None, tp_questionCount = Some 3\<rparr>]) s"
    and put: "PutTopic \<lparr>tp_id = 1, tp_name = [], tp_description = None, tp_questionCount = Some 3\<rparr> \<in> set (tp_sent s)"
    by blast
  have "list_all (\<lambda>c. case c of PostTopic n d \<Rightarrow> js_trim n \<noteq> [] | _ \<Rightarrow> True) (tp_sent s)"
    using c r by (auto simp: list_all_iff split: topic_call.split)
  with r put show ?thesis by blast
qed

text \<open>C39. The question edit dialog breaks the data model's Question invariant (the correct
  option names a non-empty option): from any listed question, choosing A as the correct
  option and clearing option A's text, the page sends the update, although the question
  fails the invariant.\<close>

theorem question_edit_breaks_invariant:
  assumes "q \<in> set l"
  shows "\<exists>s. questions_reachable (Some l) s
           \<and> PutQuestion (set_option OptA [] (q\<lparr>q_correctOption := ''A''\<rparr>)) \<in> set (qp_sent s)
           \<and> \<not> question_invariant (set_option OptA [] (q\<lparr>q_correctOption := ''A''\<rparr>))"
proof -
  let ?s1 = "questions_step (EditQuestionClick q) questions_init"
  let ?s2 = "questions_step (SetCorrectOption ''A'') ?s1"
  let ?s3 = "questions_step (SetOptionText OptA []) ?s2"
  have r1: "questions_reachable (Some l) ?s1"
    using assms by (intro questions_reachable.step [OF questions_reachable.init]) simp
  have r2: "questions_reachable (Some l) ?s2"
    by (rule questions_reachable.step [OF r1]) (simp add: questions_init_def)
  have r3: "questions_reachable (Some l) ?s3"
    by (rule questions_reachable.step [OF r2]) (simp add: questions_init_def edit_question_def)
  have "questions_reachable (Some l) (questions_step SaveQuestionClick ?s3)"
    by (rule questions_reachable.step [OF r3]) (simp add: questions_init_def edit_question_def)
  moreover have "PutQuestion (set_option OptA [] (q\<lparr>q_correctOption := ''A''\<rparr>))
                   \<in> set (qp_sent (questions_step SaveQuestionClick ?s3))"
    by (simp add: questions_init_def edit_question_def)
  moreover have "\<not> question_invariant (set_option OptA [] (q\<lparr>q_correctOption := ''A''\<rparr>))"
    by (simp add: question_invariant_def correct_option_text_def set_option_def)
  ultimately show ?thesis by blast
qed

theorem question_edit_breaks_invariant_witness:
  "\<exists>s. questions_reachable (Some [\<lparr>q_id = 7, q_text = ''2+2?'', q_topicId = Some 1, q_subtopic = None,
          q_optionA = ''4'', q_optionB = ''5'', q_optionC = ''6'', q_optionD = ''22'', q_correctOption = ''A'',
          q_explanation = None\<rparr>]) s
     \<and> PutQuestion \<lparr>q_id = 7, q_text = ''2+2?'', q_topicId = Some 1, q_subtopic = None,
          q_optionA = [], q_optionB = ''5'', q_optionC = ''6'', q_optionD = ''22'', q_correctOption = ''A'',
          q_explanation = None\<rparr> \<in> set (qp_sent s)
     \<and> \<not> question_invariant \<lparr>q_id = 7, q_text = ''2+2?'', q_topicId = Some 1, q_subtopic = None,
          q_optionA = [], q_optionB = ''5'', q_optionC = ''6'', q_optionD = ''22'', q_correctOption = ''A'',
          q_explanation = None\<rparr>"
  using question_edit_breaks_invariant
    [of "\<lparr>q_id = 7, q_text = ''2+2?'', q_topicId = Some 1, q_subtopic = None,
          q_optionA = ''4'', q_optionB = ''5'', q_optionC = ''6'', q_optionD = ''22'', q_correctOption = ''A'',
          q_explanation = None\<rparr>"
        "[\<lparr>q_id = 7, q_text = ''2+2?'', q_topicId = Some 1, q_subtopic = None,
          q_optionA = ''4'', q_optionB = ''5'', q_optionC = ''6'', q_optionD = ''22'', q_correctOption = ''A'',
          q_explanation = None\<rparr>]"]
  by (simp add: set_option_def)

text \<open>C40. Approve and reject are separate mutations: in every reachable state of the
  approvals page at most one approval and at most one rejection are in flight, and for any
  listed user an approval and a rejection of that same user can be in flight together.\<close>

theorem approve_reject_race:
  assumes "u \<in> set l"
  shows "(\<forall>s. approvals_reachable (Some l) s \<longrightarrow> n_approving s \<le> 1 \<and> n_rejecting s \<le> 1)
         \<and> (\<exists>s. approvals_reachable (Some l) s \<and> ap_pending s = [PostApprove (pu_id u), PostReject (pu_id u)])"
proof
  show "\<forall>s. approvals_reachable (Some l) s \<longrightarrow> n_approving s \<le> 1 \<and> n_rejecting s \<le> 1"
  proof (intro allI impI)
    fix s assume "approvals_reachable (Some l) s"
    then show "n_approving s \<le> 1 \<and> n_rejecting s \<le> 1"
      by (induction rule: approvals_reachable.induct)
        (simp add: n_approving_def n_rejecting_def approvals_init_def, blast dest: approvals_step_counts)
  qed
  let ?s1 = "approvals_step (ApproveClick (pu_id u)) approvals_init"
  have r1: "approvals_reachable (Some l) ?s1"
    using assms by (intro approvals_reachable.step [OF approvals_reachable.init]) (simp add: approvals_init_def)
  have "approvals_reachable (Some l) (approvals_step (RejectClick (pu_id u)) ?s1)"
    using assms by (intro approvals_reachable.step [OF r1]) (simp add: approvals_init_def is_approve_def)
  moreover have "ap_pending (approvals_step (RejectClick (pu_id u)) ?s1) = [PostApprove (pu_id u), PostReject (pu_id u)]"
    by (simp add: approvals_init_def)
  ultimately show "\<exists>s. approvals_reachable (Some l) s \<and> ap_pending s = [PostApprove (pu_id u), PostReject (pu_id u)]"
    by blast
qed

theorem approve_reject_race_witness:
  "\<exists>s. approvals_reachable (Some [\<lparr>pu_id = 4, pu_username = ''dana'', pu_fullName = ''Dana'', pu_email = ''d@x.org'',
          pu_role = ''student'', pu_createdAt = ''2025-01-02''\<rparr>]) s
     \<and> ap_pending s = [PostApprove 4, PostReject 4]"
  using approve_reject_race [of "\<lparr>pu_id = 4, pu_username = ''dana'', pu_fullName = ''Dana'', pu_email = ''d@x.org'',
          pu_role = ''student'', pu_createdAt = ''2025-01-02''\<rparr>"]
  by simp

end
