(* ===== verification/Auth.thy ===== *)
theory Auth
  imports Prelude
begin

text \<open>
  The authentication client: the \<open>AuthProvider\<close> of \<open>hooks/use-auth.tsx\<close> (the cached
  current user and the login, registration and logout mutations) and the pages of
  \<open>pages/auth-page.tsx\<close> (the redirect of \<open>AuthPage\<close>, \<open>LoginForm\<close>, \<open>RegisterForm\<close>,
  \<open>ForgotPasswordPage\<close>, \<open>ResetPasswordPage\<close>). \<open>apiRequest\<close> lives in \<open>lib/\<close>, outside the
  repository's sources: what it does with a request is an input, either a thrown error
  with its message or a reply with a status and a JSON body. The shared \<open>zod\<close> schemas are
  parameters (\<open>form.handleSubmit\<close> calls \<open>onSubmit\<close> only with valid data).
\<close>

subsection \<open>Data\<close>

record auth_user =
  au_id :: nat
  au_username :: js_string
  au_fullName :: js_string
  au_role :: js_string

text \<open>The JSON body of a reply: its \<open>message\<close>, the user it describes (\<open>None\<close> when it is not
  a user), and a reset \<open>token\<close>.\<close>

record reply_body =
  rb_message :: "js_string option"
  rb_user :: "auth_user option"
  rb_token :: "js_string option"

datatype api_outcome = Thrown js_string | Replied nat reply_body

definition res_ok :: "nat \<Rightarrow> bool" where
  "res_ok st = (200 \<le> st \<and> st < 300)"

record register_data =
  rd_username :: js_string
  rd_password :: js_string
  rd_confirmPassword :: js_string
  rd_fullName :: js_string
  rd_email :: js_string
  rd_role :: js_string

datatype auth_call = PostLogin js_string js_string | PostRegister register_data | PostLogout

datatype auth_mutation = MLogin | MRegister | MLogout

text \<open>A toast: its title and description.\<close>

type_synonym toast_msg = "js_string \<times> js_string"

record auth_state =
  user :: "auth_user option"
  au_pending :: "auth_mutation list"
  au_sent :: "auth_call list"
  au_toasts :: "toast_msg list"
  registrationComplete :: bool
  registrationMessage :: js_string

definition auth_init :: "auth_user option \<Rightarrow> auth_state" where
  "auth_init u =
     \<lparr>user = u, au_pending = [], au_sent = [], au_toasts = [], registrationComplete = False,
      registrationMessage = []\<rparr>"

definition auth_send :: "auth_mutation \<Rightarrow> auth_call \<Rightarrow> auth_state \<Rightarrow> auth_state" where
  "auth_send m c s = s\<lparr>au_pending := au_pending s @ [m], au_sent := au_sent s @ [c]\<rparr>"

definition auth_toast :: "js_string \<Rightarrow> js_string \<Rightarrow> auth_state \<Rightarrow> auth_state" where
  "auth_toast t d s = s\<lparr>au_toasts := au_toasts s @ [(t, d)]\<rparr>"

subsection \<open>The mutations\<close>

text \<open>\<open>registerMutation.mutationFn\<close>: a thrown error is rethrown; a reply that is not ok
  throws the server's message, or a default by status; an ok reply is the result.\<close>

definition register_fn :: "api_outcome \<Rightarrow> js_string + reply_body" where
  "register_fn r =
     (case r of Thrown e \<Rightarrow> Inl e
      | Replied st b \<Rightarrow>
          if res_ok st then Inr b
          else Inl (case rb_message b of Some m \<Rightarrow> if m \<noteq> [] then m else
                      (if st = 503 then ''Database connection issue. The registration service is temporarily unavailable. Please try again later.''
                       else ''Registration failed with status: '' @ show_nat st)
                    | None \<Rightarrow>
                      (if st = 503 then ''Database connection issue. The registration service is temporarily unavailable. Please try again later.''
                       else ''Registration failed with status: '' @ show_nat st)))"

text \<open>\<open>registerMutation.onError\<close>: a message that mentions the database, a temporary
  unavailability or 503 gets the fixed "unavailable" toast, any other the message itself.\<close>

definition register_error :: "js_string \<Rightarrow> auth_state \<Rightarrow> auth_state" where
  "register_error e s =
     (if js_includes ''database'' e \<or> js_includes ''temporarily unavailable'' e \<or> js_includes ''503'' e
      then auth_toast ''Registration service unavailable''
             ''The registration service is currently unavailable due to database connection issues. Please try again later.'' s
      else auth_toast ''Registration failed'' (if e \<noteq> [] then e else ''Failed to create account. Please try again later.'') s)"

definition truthy_str :: "js_string option \<Rightarrow> bool" where
  "truthy_str m = (case m of None \<Rightarrow> False | Some x \<Rightarrow> x \<noteq> [])"

text \<open>\<open>registerMutation.onSuccess\<close> of the hook, then the \<open>onSuccess\<close> that
  \<open>RegisterForm.onSubmit\<close> passes to \<open>mutate\<close>: a reply with a message does not log in;
  only a message containing "pending approval" switches the form to its completion panel.\<close>

definition register_success :: "reply_body \<Rightarrow> auth_state \<Rightarrow> auth_state" where
  "register_success b s =
     (let s1 = (if truthy_str (rb_message b) then auth_toast ''Registration successful'' (the (rb_message b)) s
                else auth_toast ''Registration successful''
                       (''Welcome, '' @ (case rb_user b of Some u \<Rightarrow> au_fullName u | None \<Rightarrow> ''undefined'') @ ''!'')
                       (s\<lparr>user := rb_user b\<rparr>))
      in if truthy_str (rb_message b) \<and> js_includes ''pending approval'' (the (rb_message b))
         then s1\<lparr>registrationMessage := the (rb_message b), registrationComplete := True\<rparr>
         else s1)"

text \<open>The login mutation returns the reply's body without looking at its status; its
  \<open>onSuccess\<close> puts the body into the user query's cache.\<close>

fun auth_settled :: "auth_mutation \<Rightarrow> api_outcome \<Rightarrow> auth_state \<Rightarrow> auth_state" where
  "auth_settled MLogin (Thrown e) s =
     auth_toast ''Login failed'' (if e \<noteq> [] then e else ''Invalid username or password'') s"
| "auth_settled MLogin (Replied st b) s =
     auth_toast ''Login successful''
       (''Welcome back, '' @ (case rb_user b of Some u \<Rightarrow> au_fullName u | None \<Rightarrow> ''undefined'') @ ''!'')
       (s\<lparr>user := rb_user b\<rparr>)"
| "auth_settled MRegister r s =
     (case register_fn r of Inl e \<Rightarrow> register_error e s | Inr b \<Rightarrow> register_success b s)"
| "auth_settled MLogout (Thrown e) s = auth_toast ''Logout failed'' e s"
| "auth_settled MLogout (Replied st b) s =
     auth_toast ''Logged out'' ''You have been successfully logged out.'' (s\<lparr>user := None\<rparr>)"

subsection \<open>Events\<close>

datatype auth_event =
    LoginSubmit js_string js_string | RegisterSubmit register_data | LogoutClick
  | SettleAuth nat api_outcome

text \<open>\<open>form.handleSubmit\<close>: invalid data shows the schema's messages and sends nothing.\<close>

fun auth_step ::
  "(js_string \<Rightarrow> js_string \<Rightarrow> bool) \<Rightarrow> (register_data \<Rightarrow> bool) \<Rightarrow> auth_event \<Rightarrow> auth_state \<Rightarrow> auth_state" where
  "auth_step login_ok reg_ok (LoginSubmit u p) s =
     (if login_ok u p then auth_send MLogin (PostLogin u p) s else s)"
| "auth_step login_ok reg_ok (RegisterSubmit d) s =
     (if reg_ok d then auth_send MRegister (PostRegister d) s else s)"
| "auth_step login_ok reg_ok LogoutClick s = auth_send MLogout PostLogout s"
| "auth_step login_ok reg_ok (SettleAuth i r) s =
     (if i < length (au_pending s)
      then auth_settled (au_pending s ! i) r (s\<lparr>au_pending := take i (au_pending s) @ drop (Suc i) (au_pending s)\<rparr>)
      else s)"

text \<open>The forms are rendered while no user is logged in (otherwise \<open>AuthPage\<close> redirects);
  each submit button is disabled while its mutation is pending; the registration form is
  replaced by its completion panel; the logout control of the layouts needs a user.\<close>

fun auth_enabled :: "auth_event \<Rightarrow> auth_state \<Rightarrow> bool" where
  "auth_enabled (LoginSubmit u p) s = (user s = None \<and> MLogin \<notin> set (au_pending s))"
| "auth_enabled (RegisterSubmit d) s =
     (user s = None \<and> \<not> registrationComplete s \<and> MRegister \<notin> set (au_pending s))"
| "auth_enabled LogoutClick s = (user s \<noteq> None)"
| "auth_enabled (SettleAuth i r) s = (i < length (au_pending s))"

inductive auth_reachable ::
  "(js_string \<Rightarrow> js_string \<Rightarrow> bool) \<Rightarrow> (register_data \<Rightarrow> bool) \<Rightarrow> auth_user option \<Rightarrow> auth_state \<Rightarrow> bool"
  for login_ok reg_ok u0 where
  init: "auth_reachable login_ok reg_ok u0 (auth_init u0)"
| step: "auth_reachable login_ok reg_ok u0 s \<Longrightarrow> auth_enabled e s
         \<Longrightarrow> auth_reachable login_ok reg_ok u0 (auth_step login_ok reg_ok e s)"

text \<open>\<open>AuthPage\<close>: a logged-in administrator is sent to \<open>/admin\<close>, any other user to
  \<open>/\<close>; without a user the two forms are shown.\<close>

datatype auth_page_view = Redirect js_string | AuthForms bool

definition auth_page :: "auth_state \<Rightarrow> auth_page_view" where
  "auth_page s =
     (case user s of Some u \<Rightarrow> Redirect (if au_role u = ''admin'' then ''/admin'' else ''/'')
      | None \<Rightarrow> AuthForms (registrationComplete s))"

subsection \<open>Forgot and reset password\<close>

record forgot_page =
  fp_isSubmitting :: bool
  tokenSent :: bool
  resetToken :: "js_string option"
  fp_toasts :: "toast_msg list"

text \<open>\<open>ForgotPasswordPage.onSubmit\<close> after its \<open>await\<close>: an ok reply shows the sent state
  with the token, any other reply its message, a thrown error a generic text; \<open>finally\<close>
  clears the flag. A reply that is not JSON makes \<open>response.json()\<close> throw: \<open>None\<close> body.\<close>

definition forgot_settle :: "(js_string + (nat \<times> reply_body option)) \<Rightarrow> forgot_page \<Rightarrow> forgot_page" where
  "forgot_settle r s =
     (case r of
        Inr (st, Some b) \<Rightarrow>
          if res_ok st then s\<lparr>tokenSent := True, resetToken := rb_token b, fp_isSubmitting := False,
                             fp_toasts := fp_toasts s @ [(''Reset instructions sent'',
                               ''If an account with that email exists, you'' @ CHR 0x27 # ''ll receive reset instructions.'')]\<rparr>
          else s\<lparr>fp_isSubmitting := False, fp_toasts := fp_toasts s @ [(''Something went wrong'',
                   case rb_message b of Some m \<Rightarrow> if m \<noteq> [] then m else ''Please try again later''
                   | None \<Rightarrow> ''Please try again later'')]\<rparr>
      | _ \<Rightarrow> s\<lparr>fp_isSubmitting := False,
               fp_toasts := fp_toasts s @ [(''Error'', ''An unexpected error occurred. Please try again.'')]\<rparr>)"

text \<open>\<open>ResetPasswordPage\<close>: the token read from the URL (\<open>URLSearchParams.get\<close>); without it
  the page shows "Invalid Reset Link"; otherwise the request carries the URL's token
  (\<open>token || data.token\<close>, the form's own token field defaulting to it).\<close>

datatype reset_view = InvalidResetLink | ResetForm | ResetDone

definition reset_view_of :: "js_string option \<Rightarrow> bool \<Rightarrow> reset_view" where
  "reset_view_of token success =
     (if \<not> truthy_str token then InvalidResetLink else if success then ResetDone else ResetForm)"

definition reset_request_token :: "js_string option \<Rightarrow> js_string \<Rightarrow> js_string" where
  "reset_request_token token formToken = (if truthy_str token then the token else formToken)"

subsection \<open>Lemmas\<close>

lemma js_includes_Nil_right: "p \<noteq> [] \<Longrightarrow> \<not> js_includes p []"
  by simp

lemma register_fn_error_message:
  "\<not> res_ok st \<Longrightarrow> m \<noteq> [] \<Longrightarrow> register_fn (Replied st (b\<lparr>rb_message := Some m\<rparr>)) = Inl m"
  by (simp add: register_fn_def)

lemma auth_settled_keeps_sent [simp]: "au_sent (auth_settled m r s) = au_sent s"
  by (cases "(m, r, s)" rule: auth_settled.cases)
    (auto simp: auth_toast_def register_error_def register_success_def Let_def split: sum.split)

subsection \<open>Properties\<close>

text \<open>C9. How a rejected registration is reported: whatever the status, a server message
  that mentions the database is replaced by the fixed "service unavailable" text, while
  any other server message, a 503 included, is shown as "Registration failed" with that
  message; in both cases nobody is logged in by the reply.\<close>

theorem register_error_shown:
  assumes "\<not> res_ok st"
  shows "(js_includes ''database'' m \<longrightarrow>
            au_toasts (auth_settled MRegister (Replied st (b\<lparr>rb_message := Some m\<rparr>)) s) = au_toasts s @
              [(''Registration service unavailable'',
                ''The registration service is currently unavailable due to database connection issues. Please try again later.'')])
       \<and> (m \<noteq> [] \<and> \<not> js_includes ''database'' m \<and> \<not> js_includes ''temporarily unavailable'' m \<and> \<not> js_includes ''503'' m \<longrightarrow>
            au_toasts (auth_settled MRegister (Replied st (b\<lparr>rb_message := Some m\<rparr>)) s) = au_toasts s @
              [(''Registration failed'', m)])
       \<and> user (auth_settled MRegister (Replied st (b\<lparr>rb_message := Some m\<rparr>)) s) = user s"
proof (cases "m = []")
  case True
  with assms show ?thesis
    by (simp add: register_fn_def register_error_def auth_toast_def)
next
  case False
  with assms show ?thesis
    by (simp add: register_fn_error_message register_error_def auth_toast_def)
qed

theorem register_error_shown_witness:
  "au_toasts (auth_settled MRegister (Replied 409 \<lparr>rb_message = Some ''Username exists in database'', rb_user = None, rb_token = None\<rparr>)
      (auth_init None))
     = [(''Registration service unavailable'',
         ''The registration service is currently unavailable due to database connection issues. Please try again later.'')]
   \<and> au_toasts (auth_settled MRegister (Replied 503 \<lparr>rb_message = Some ''Server busy'', rb_user = None, rb_token = None\<rparr>)
      (auth_init None))
     = [(''Registration failed'', ''Server busy'')]"
  using register_error_shown [of 409 "''Username exists in database''" "\<lparr>rb_message = None, rb_user = None, rb_token = None\<rparr>" "auth_init None"]
    register_error_shown [of 503 "''Server busy''" "\<lparr>rb_message = None, rb_user = None, rb_token = None\<rparr>" "auth_init None"]
  by (simp add: res_ok_def auth_init_def)

text \<open>C35. A registration the server accepts with a message that does not say "pending
  approval" neither logs the user in nor replaces the form by its completion panel: the
  form stays enabled and the same registration can be sent again.\<close>

theorem register_resubmit_after_message:
  assumes "reg_ok d" "m \<noteq> []" "\<not> js_includes ''pending approval'' m" "res_ok st"
  shows "\<exists>s. auth_reachable login_ok reg_ok None s \<and> au_sent s = [PostRegister d, PostRegister d]
             \<and> user s = None \<and> \<not> registrationComplete s"
proof -
  let ?b = "\<lparr>rb_message = Some m, rb_user = None, rb_token = None\<rparr>"
  let ?s1 = "auth_step login_ok reg_ok (RegisterSubmit d) (auth_init None)"
  let ?s2 = "auth_step login_ok reg_ok (SettleAuth 0 (Replied st ?b)) ?s1"
  let ?s3 = "auth_step login_ok reg_ok (RegisterSubmit d) ?s2"
  have r1: "auth_reachable login_ok reg_ok None ?s1"
    by (rule auth_reachable.step [OF auth_reachable.init]) (simp add: auth_init_def)
  have s2: "?s2 = (auth_init None)\<lparr>au_sent := [PostRegister d], au_toasts := [(''Registration successful'', m)]\<rparr>"
    using assms by (simp add: auth_init_def auth_send_def register_fn_def register_success_def
        truthy_str_def auth_toast_def Let_def)
  have r2: "auth_reachable login_ok reg_ok None ?s2"
    by (rule auth_reachable.step [OF r1]) (use assms in \<open>simp add: auth_init_def auth_send_def\<close>)
  have "auth_reachable login_ok reg_ok None ?s3"
    by (rule auth_reachable.step [OF r2]) (unfold s2, simp add: auth_init_def)
  moreover have "au_sent ?s3 = [PostRegister d, PostRegister d] \<and> user ?s3 = None \<and> \<not> registrationComplete ?s3"
    unfolding s2 using assms by (simp add: auth_init_def auth_send_def)
  ultimately show ?thesis by blast
qed

theorem register_resubmit_after_message_witness:
  "\<exists>s. auth_reachable (\<lambda>u p. True) (\<lambda>d. True) None s
     \<and> au_sent s = [PostRegister \<lparr>rd_username = ''amina'', rd_password = ''secret1'', rd_confirmPassword = ''secret1'',
                      rd_fullName = ''Amina'', rd_email = ''a@x.org'', rd_role = ''student''\<rparr>,
                    PostRegister \<lparr>rd_username = ''amina'', rd_password = ''secret1'', rd_confirmPassword = ''secret1'',
                      rd_fullName = ''Amina'', rd_email = ''a@x.org'', rd_role = ''student''\<rparr>]
     \<and> user s = None \<and> \<not> registrationComplete s"
  using register_resubmit_after_message [of "\<lambda>d. True"
      "\<lparr>rd_username = ''amina'', rd_password = ''secret1'', rd_confirmPassword = ''secret1'',
        rd_fullName = ''Amina'', rd_email = ''a@x.org'', rd_role = ''student''\<rparr>"
      "''Account created; an administrator must approve it''" 201 "\<lambda>u p. True"]
  by (simp add: res_ok_def)

end
