(* ===== verification/Navigation.thy ===== *)
theory Navigation
  imports Auth
begin

text \<open>
  Routing and the navigation chrome: the route table of \<open>App.tsx\<close> (a \<open>Switch\<close>, the first
  matching route wins), the route guard \<open>ProtectedRoute\<close>, the admin sidebar
  (\<open>components/admin/sidebar.tsx\<close>), the admin layout's title, initials and logout
  (\<open>components/admin/layout.tsx\<close>) and the student header's
  (\<open>components/student/header.tsx\<close>). The route patterns are data matched segment by
  segment (a literal, a parameter of one non-empty segment, or an optional one); the
  routing library's case-insensitivity and trailing slashes are not modelled.
  \<open>ProtectedRoute\<close> is in \<open>lib/\<close>, outside the sources: it is modelled from the spec
  (authentication section): no user is sent to \<open>/auth\<close>, a user of another role is denied.
\<close>

subsection \<open>Routes\<close>

datatype seg = Lit js_string | Param | OptParam

text \<open>Matching a pattern against the segments of a path; the result lists the values of
  the parameters (\<open>None\<close> for an optional one left out).\<close>

fun match_segs :: "seg list \<Rightarrow> js_string list \<Rightarrow> js_string option list option" where
  "match_segs [] [] = Some []"
| "match_segs (Lit l # ps) (x # xs) = (if x = l then match_segs ps xs else None)"
| "match_segs (Param # ps) (x # xs) =
     (if x \<noteq> [] then map_option (\<lambda>r. Some x # r) (match_segs ps xs) else None)"
| "match_segs (OptParam # ps) xs =
     (case xs of
        x # xs' \<Rightarrow> (if x \<noteq> [] then
                      (case match_segs ps xs' of Some r \<Rightarrow> Some (Some x # r)
                       | None \<Rightarrow> map_option (\<lambda>r. None # r) (match_segs ps xs))
                    else map_option (\<lambda>r. None # r) (match_segs ps xs))
      | [] \<Rightarrow> map_option (\<lambda>r. None # r) (match_segs ps []))"
| "match_segs ps xs = None"

definition path_segments :: "js_string \<Rightarrow> js_string list option" where
  "path_segments p = (case p of c # r \<Rightarrow> if c = CHR ''/'' then Some (split_on CHR ''/'' r) else None | [] \<Rightarrow> None)"

datatype app_page =
    PgAuth | PgForgotPassword | PgResetPassword | PgStudentDashboard | PgPracticeSession
  | PgResults | PgAdminDashboard | PgUploadQuestions | PgManageQuestions | PgManageTopics
  | PgManageStudents | PgUserApprovals | PgAnalytics | PgBackupManagement | PgStudentDetails
  | PgSessionDetails | PgNotFound

datatype route_guard = Public | Requires js_string

text \<open>The \<open>Switch\<close> of \<open>Router\<close>, in order.\<close>

definition route_table :: "(seg list \<times> app_page \<times> route_guard) list" where
  "route_table =
     [([Lit ''auth''], PgAuth, Public),
      ([Lit ''forgot-password''], PgForgotPassword, Public),
      ([Lit ''reset-password''], PgResetPassword, Public),
      ([Lit []], PgStudentDashboard, Requires ''student''),
      ([Lit ''practice'', OptParam], PgPracticeSession, Requires ''student''),
      ([Lit ''results'', Param], PgResults, Requires ''student''),
      ([Lit ''admin''], PgAdminDashboard, Requires ''admin''),
      ([Lit ''admin'', Lit ''upload-questions''], PgUploadQuestions, Requires ''admin''),
      ([Lit ''admin'', Lit ''manage-questions''], PgManageQuestions, Requires ''admin''),
      ([Lit ''admin'', Lit ''manage-topics''], PgManageTopics, Requires ''admin''),
      ([Lit ''admin'', Lit ''manage-students''], PgManageStudents, Requires ''admin''),
      ([Lit ''admin'', Lit ''user-approvals''], PgUserApprovals, Requires ''admin''),
      ([Lit ''admin'', Lit ''analytics''], PgAnalytics, Requires ''admin''),
      ([Lit ''admin'', Lit ''backup-management''], PgBackupManagement, Requires ''admin''),
      ([Lit ''admin'', Lit ''student-details'', Param], PgStudentDetails, Requires ''admin''),
      ([Lit ''admin'', Lit ''session-details'', Param], PgSessionDetails, Requires ''admin'')]"

fun first_route :: "(seg list \<times> app_page \<times> route_guard) list \<Rightarrow> js_string list \<Rightarrow> app_page \<times> route_guard" where
  "first_route [] xs = (PgNotFound, Public)"
| "first_route ((ps, pg, g) # rs) xs = (if match_segs ps xs \<noteq> None then (pg, g) else first_route rs xs)"

definition router :: "js_string \<Rightarrow> app_page \<times> route_guard" where
  "router loc = (case path_segments loc of None \<Rightarrow> (PgNotFound, Public) | Some xs \<Rightarrow> first_route route_table xs)"

subsection \<open>Guards and redirects\<close>

datatype outcome = Render app_page | RedirectTo js_string | Deny app_page

text \<open>What the matched route shows for the cached user: a guarded page checks the user's
  role (spec), the login page redirects a logged-in user (\<open>AuthPage\<close>, theory \<open>Auth\<close>).\<close>

definition resolve :: "auth_state \<Rightarrow> js_string \<Rightarrow> outcome" where
  "resolve s loc =
     (case router loc of
        (pg, Requires r) \<Rightarrow>
          (case user s of None \<Rightarrow> RedirectTo ''/auth''
           | Some u \<Rightarrow> if au_role u = r then Render pg else Deny pg)
      | (pg, Public) \<Rightarrow>
          if pg = PgAuth then (case auth_page s of Redirect t \<Rightarrow> RedirectTo t | AuthForms b \<Rightarrow> Render pg)
          else Render pg)"

text \<open>Following redirects, at most \<open>n\<close> of them: the location reached and what it shows.\<close>

fun navigate :: "nat \<Rightarrow> auth_state \<Rightarrow> js_string \<Rightarrow> js_string \<times> outcome" where
  "navigate 0 s loc = (loc, resolve s loc)"
| "navigate (Suc n) s loc = (case resolve s loc of RedirectTo t \<Rightarrow> navigate n s t | x \<Rightarrow> (loc, x))"

subsection \<open>Sidebar and layouts\<close>

text \<open>The links of \<open>AdminSidebar\<close>, each active when the location equals its \<open>href\<close>.\<close>

definition sidebar_links :: "(js_string \<times> js_string) list" where
  "sidebar_links =
     [(''/admin'', ''Dashboard''), (''/admin/manage-questions'', ''Manage Questions''),
      (''/admin/manage-topics'', ''Manage Topics''), (''/admin/upload-questions'', ''Upload Questions''),
      (''/admin/manage-students'', ''Manage Students''), (''/admin/user-approvals'', ''User Approvals''),
      (''/admin/analytics'', ''Analytics''), (''/admin/backup-management'', ''Backup Management'')]"

definition sidebar_active :: "js_string \<Rightarrow> bool list" where
  "sidebar_active loc = map (\<lambda>(h, l). loc = h) sidebar_links"

text \<open>\<open>getPageTitle\<close> of \<open>AdminLayout\<close>.\<close>

definition getPageTitle :: "js_string \<Rightarrow> js_string" where
  "getPageTitle loc =
     (if loc = ''/admin'' then ''Dashboard''
      else if loc = ''/admin/upload-questions'' then ''Upload Questions''
      else if loc = ''/admin/manage-questions'' then ''Manage Questions''
      else if loc = ''/admin/manage-students'' then ''Manage Students''
      else if loc = ''/admin/analytics'' then ''Analytics''
      else ''Admin Panel'')"

text \<open>\<open>getInitials\<close> of both layouts: the first character of every space-separated part
  (an empty part gives \<open>undefined\<close>, which \<open>join\<close> prints as nothing), upper-cased (ASCII),
  the first two kept; the fallback when there is no name.\<close>

definition js_upper_char :: "char \<Rightarrow> char" where
  "js_upper_char c = (if (97::nat) \<le> of_char c \<and> of_char c \<le> (122::nat) then char_of (of_char c - (32::nat)) else c)"

definition getInitials :: "js_string \<Rightarrow> js_string" where
  "getInitials name = take 2 (map js_upper_char (concat (map (take 1) (split_on CHR '' '' name))))"

definition avatar_text :: "js_string \<Rightarrow> auth_state \<Rightarrow> js_string" where
  "avatar_text fallback s =
     (case user s of Some u \<Rightarrow> if au_fullName u \<noteq> [] then getInitials (au_fullName u) else fallback
      | None \<Rightarrow> fallback)"

text \<open>The system the layouts live in: the location and the provider's state. The layouts'
  \<open>handleLogout\<close> calls \<open>logoutMutation.mutate()\<close> and navigates to \<open>/auth\<close> at once,
  without waiting for the request; a sidebar link navigates to its \<open>href\<close>.\<close>

record nav_sys =
  location :: js_string
  auth :: auth_state

datatype nav_event = LogoutButton | SidebarLink js_string | SettleNav nat api_outcome

fun nav_step ::
  "(js_string \<Rightarrow> js_string \<Rightarrow> bool) \<Rightarrow> (register_data \<Rightarrow> bool) \<Rightarrow> nav_event \<Rightarrow> nav_sys \<Rightarrow> nav_sys" where
  "nav_step lo ro LogoutButton n = \<lparr>location = ''/auth'', auth = auth_step lo ro LogoutClick (auth n)\<rparr>"
| "nav_step lo ro (SidebarLink h) n = n\<lparr>location := h\<rparr>"
| "nav_step lo ro (SettleNav i r) n = n\<lparr>auth := auth_step lo ro (SettleAuth i r) (auth n)\<rparr>"

text \<open>The logout button is disabled while a logout is pending; the sidebar exists on the
  admin pages.\<close>

fun nav_enabled :: "nav_event \<Rightarrow> nav_sys \<Rightarrow> bool" where
  "nav_enabled LogoutButton n = (user (auth n) \<noteq> None \<and> MLogout \<notin> set (au_pending (auth n)))"
| "nav_enabled (SidebarLink h) n = (h \<in> fst ` set sidebar_links \<and> snd (router (location n)) = Requires ''admin'')"
| "nav_enabled (SettleNav i r) n = auth_enabled (SettleAuth i r) (auth n)"

text \<open>What the screen shows: the location after the redirects, and its outcome.\<close>

definition screen :: "nav_sys \<Rightarrow> js_string \<times> outcome" where
  "screen n = navigate 2 (auth n) (location n)"

text \<open>A rendered \<open><Redirect>\<close> navigates: after every event the location is the one the
  redirects lead to.\<close>

definition nav_next ::
  "(js_string \<Rightarrow> js_string \<Rightarrow> bool) \<Rightarrow> (register_data \<Rightarrow> bool) \<Rightarrow> nav_event \<Rightarrow> nav_sys \<Rightarrow> nav_sys" where
  "nav_next lo ro e n = (let n' = nav_step lo ro e n in n'\<lparr>location := fst (screen n')\<rparr>)"

subsection \<open>Lemmas\<close>

lemma router_targets [simp]:
  "router ''/auth'' = (PgAuth, Public)"
  "router ''/admin'' = (PgAdminDashboard, Requires ''admin'')"
  "router ''/'' = (PgStudentDashboard, Requires ''student'')"
  by (simp_all add: router_def path_segments_def route_table_def)

text \<open>Where a redirect leads: to the login page without a user, to \<open>/admin\<close> or \<open>/\<close> from the
  login page with one.\<close>

lemma resolve_redirect:
  "resolve s loc = RedirectTo t \<Longrightarrow>
     (user s = None \<and> t = ''/auth'') \<or> (user s \<noteq> None \<and> (t = ''/admin'' \<or> t = ''/''))"
  by (auto simp: resolve_def auth_page_def split: prod.splits route_guard.splits option.splits if_splits)

lemma resolve_target_final:
  assumes "resolve s loc = RedirectTo t"
  shows "\<not> (\<exists>t'. resolve s t = RedirectTo t')"
  using resolve_redirect [OF assms]
  by (auto simp: resolve_def auth_page_def split: option.splits if_splits)


subsection \<open>Properties\<close>

text \<open>Redirects always settle: whatever the cached user and the location, following
  the redirects of the route guard and of the login page reaches, within two hops, a
  location that renders a page or denies it.\<close>

theorem redirects_settle:
  "\<not> (\<exists>t. snd (navigate 2 s loc) = RedirectTo t) \<and> snd (navigate 2 s loc) = resolve s (fst (navigate 2 s loc))"
proof (cases "\<exists>t. resolve s loc = RedirectTo t")
  case True
  then obtain t where t: "resolve s loc = RedirectTo t" by blast
  then have f: "\<not> (\<exists>t'. resolve s t = RedirectTo t')" by (rule resolve_target_final)
  then show ?thesis using t by (cases "resolve s t") (simp_all add: numeral_2_eq_2)
next
  case False
  then show ?thesis by (cases "resolve s loc") (simp_all add: numeral_2_eq_2)
qed

text \<open>C29. The layouts' logout navigates before the request settles: from any admin page,
  the click sends the logout and moves to \<open>/auth\<close>, whose page sends the still-cached
  administrator back to the admin dashboard; only when the logout succeeds does the screen
  become the login page; when it fails the administrator stays on the dashboard.\<close>

theorem admin_logout_flow:
  assumes "au_role u = ''admin''" "snd (router loc) = Requires ''admin''"
  shows "screen \<lparr>location = loc, auth = auth_init (Some u)\<rparr> = (loc, Render (fst (router loc)))
    \<and> location (nav_next lo ro LogoutButton \<lparr>location = loc, auth = auth_init (Some u)\<rparr>) = ''/admin''
    \<and> au_sent (auth (nav_next lo ro LogoutButton \<lparr>location = loc, auth = auth_init (Some u)\<rparr>)) = [PostLogout]
    \<and> screen (nav_next lo ro (SettleNav 0 (Replied st b))
         (nav_next lo ro LogoutButton \<lparr>location = loc, auth = auth_init (Some u)\<rparr>)) = (''/auth'', Render PgAuth)
    \<and> screen (nav_next lo ro (SettleNav 0 (Thrown e))
         (nav_next lo ro LogoutButton \<lparr>location = loc, auth = auth_init (Some u)\<rparr>))
       = (''/admin'', Render PgAdminDashboard)"
proof -
  obtain pg where r: "router loc = (pg, Requires ''admin'')"
    using assms(2) by (cases "router loc") simp
  show ?thesis
    using assms(1) r
    by (simp add: screen_def nav_next_def resolve_def auth_init_def auth_send_def auth_toast_def
        auth_page_def numeral_2_eq_2)
qed

theorem admin_logout_flow_witness:
  "location (nav_next (\<lambda>a b. True) (\<lambda>d. True) LogoutButton
      \<lparr>location = ''/admin/manage-topics'', auth = auth_init (Some \<lparr>au_id = 1, au_username = ''root'', au_fullName = ''Root'', au_role = ''admin''\<rparr>)\<rparr>)
     = ''/admin''
   \<and> screen (nav_next (\<lambda>a b. True) (\<lambda>d. True) (SettleNav 0 (Thrown ''offline''))
       (nav_next (\<lambda>a b. True) (\<lambda>d. True) LogoutButton
         \<lparr>location = ''/admin/manage-topics'', auth = auth_init (Some \<lparr>au_id = 1, au_username = ''root'', au_fullName = ''Root'', au_role = ''admin''\<rparr>)\<rparr>))
     = (''/admin'', Render PgAdminDashboard)"
  using admin_logout_flow [of "\<lparr>au_id = 1, au_username = ''root'', au_fullName = ''Root'', au_role = ''admin''\<rparr>"
      "''/admin/manage-topics''" "\<lambda>a b. True" "\<lambda>d. True" 0 "\<lparr>rb_message = None, rb_user = None, rb_token = None\<rparr>" "''offline''"]
  by (simp add: router_def path_segments_def route_table_def)

text \<open>Every link of the admin sidebar leads to an administrator's page of the route
  table and is the only active link there; the layout's title repeats the link's label
  for five of them, and shows "Admin Panel" on Manage Topics, User Approvals and Backup
  Management.\<close>

theorem sidebar_routes_and_titles:
  "list_all (\<lambda>(h, l). snd (router h) = Requires ''admin'' \<and> fst (router h) \<noteq> PgNotFound
                      \<and> length (filter id (sidebar_active h)) = 1) sidebar_links
   \<and> filter (\<lambda>(h, l). getPageTitle h \<noteq> l) sidebar_links
       = [(''/admin/manage-topics'', ''Manage Topics''), (''/admin/user-approvals'', ''User Approvals''),
          (''/admin/backup-management'', ''Backup Management'')]"
  by (simp add: sidebar_links_def sidebar_active_def getPageTitle_def router_def path_segments_def route_table_def)

end
