(* ===== verification/ImportPage.thy ===== *)
theory ImportPage
  imports LoadingProgress
begin

text \<open>
  The question-import page (\<open>pages/admin/import-sound-wave.tsx\<close>), which no route of
  \<open>App.tsx\<close> reaches. Its hooks are \<open>isImporting\<close>, \<open>importResults\<close>, and the progress of
  \<open>useLoadingProgress(isImporting, {initialProgress: 5, maxProgress: 90, duration: 80})\<close>,
  whose effect and interval are those of theory \<open>LoadingProgress\<close>. \<open>handleImport\<close> is split
  at its \<open>await\<close>: the click raises the flag and sends the request; the settling shows
  the results or a toast and, in \<open>finally\<close>, lowers the flag. The reply's outcome is an
  input (\<open>apiRequest\<close> is in \<open>lib/\<close>, outside the sources).
\<close>

record import_results =
  ir_message :: js_string
  ir_count :: nat
  ir_topic_id :: nat
  ir_topic_name :: js_string
  ir_topic_description :: js_string

datatype import_outcome = ImportThrown js_string | ImportReplied import_results

record import_page =
  isImporting :: bool
  importResults :: "import_results option"
  importProgress :: loading_state
  im_sent :: nat
  im_toasts :: "(js_string \<times> js_string) list"

text \<open>On mount the hook's effect runs with \<open>isLoading = false\<close> and sets 100.\<close>

definition import_init :: import_page where
  "import_init =
     \<lparr>isImporting = False, importResults = None,
      importProgress = loading_effect caller_options False (loading_init caller_options),
      im_sent = 0, im_toasts = []\<rparr>"

definition handleImport_start :: "import_page \<Rightarrow> import_page" where
  "handleImport_start s =
     s\<lparr>isImporting := True, importProgress := loading_effect caller_options True (importProgress s),
       im_sent := Suc (im_sent s)\<rparr>"

definition handleImport_settle :: "import_outcome \<Rightarrow> import_page \<Rightarrow> import_page" where
  "handleImport_settle r s =
     (let s1 = (case r of
                  ImportReplied d \<Rightarrow> s\<lparr>importResults := Some d,
                    im_toasts := im_toasts s @ [(''Import Successful'',
                      ''Successfully imported '' @ show_nat (ir_count d) @ '' Sound Wave Fundamentals questions'')]\<rparr>
                | ImportThrown e \<Rightarrow> s\<lparr>im_toasts := im_toasts s @ [(''Import Failed'', e)]\<rparr>)
      in s1\<lparr>isImporting := False, importProgress := loading_effect caller_options False (importProgress s1)\<rparr>)"

datatype import_event = ImportClick | ImportSettle import_outcome | ProgressTick | ImportAgain

fun import_step :: "import_event \<Rightarrow> import_page \<Rightarrow> import_page" where
  "import_step ImportClick s = handleImport_start s"
| "import_step (ImportSettle r) s = handleImport_settle r s"
| "import_step ProgressTick s = s\<lparr>importProgress := loading_tick caller_options (importProgress s)\<rparr>"
| "import_step ImportAgain s = s\<lparr>importResults := None\<rparr>"

text \<open>The import button is in the first card, shown neither while importing nor with
  results; "Import Again" is in the results card; the request settles once; the interval
  fires while installed.\<close>

fun import_enabled :: "import_event \<Rightarrow> import_page \<Rightarrow> bool" where
  "import_enabled ImportClick s = (\<not> isImporting s \<and> importResults s = None)"
| "import_enabled (ImportSettle r) s = isImporting s"
| "import_enabled ProgressTick s = intervalActive (importProgress s)"
| "import_enabled ImportAgain s = (\<not> isImporting s \<and> importResults s \<noteq> None)"

inductive import_reachable :: "import_page \<Rightarrow> bool" where
  init: "import_reachable import_init"
| step: "import_reachable s \<Longrightarrow> import_enabled e s \<Longrightarrow> import_reachable (import_step e s)"

datatype import_view = ImportingCard rat | ResultsCard import_results | ImportForm

definition import_view_of :: "import_page \<Rightarrow> import_view" where
  "import_view_of s =
     (if isImporting s then ImportingCard (progress (importProgress s))
      else case importResults s of Some d \<Rightarrow> ResultsCard d | None \<Rightarrow> ImportForm)"

subsection \<open>Lemmas\<close>

text \<open>The page and the hook stay in step: while importing the bar is between the
  options' initial and maximum progress, otherwise it is full and no interval runs.\<close>

definition import_inv :: "import_page \<Rightarrow> bool" where
  "import_inv s =
     (if isImporting s then 5 \<le> progress (importProgress s) \<and> progress (importProgress s) \<le> 90
      else progress (importProgress s) = 100 \<and> \<not> intervalActive (importProgress s))"

lemma loading_tick_range:
  assumes "5 \<le> progress st" "progress st \<le> 90"
  shows "5 \<le> progress (loading_tick caller_options st) \<and> progress (loading_tick caller_options st) \<le> 90"
proof -
  have "0 < progress_increment caller_options (progress st)"
    by (simp add: progress_increment_def)
  then show ?thesis using assms
    by (auto simp: loading_tick_def Let_def caller_options_def default_options_def)
qed

lemma import_inv_step: "import_inv s \<Longrightarrow> import_enabled e s \<Longrightarrow> import_inv (import_step e s)"
proof (cases e)
  case ProgressTick
  assume "import_inv s" "import_enabled e s"
  with ProgressTick show ?thesis
    by (auto simp: import_inv_def loading_tick_range split: if_splits)
next
  case (ImportSettle r)
  then show ?thesis
    by (cases r) (simp_all add: import_inv_def handleImport_settle_def loading_effect_def Let_def)
qed (auto simp: import_inv_def handleImport_start_def loading_effect_def caller_options_def default_options_def)

lemma import_reachable_inv: "import_reachable s \<Longrightarrow> import_inv s"
  by (induction rule: import_reachable.induct)
    (simp add: import_inv_def import_init_def loading_effect_def, blast intro: import_inv_step)

end
