(* ===== verification/PracticeView.thy ===== *)
theory PracticeView
  imports PracticeSession
begin

text \<open>
  What the practice page (\<open>pages/student/practice-session.tsx\<close>) renders from the state of
  theory \<open>PracticeSession\<close>: the questions request's URL, the header (topic and question
  counter), the timer or countdown, the progress bar, the question card with its four
  answer cards, the mobile navigation dots, the Previous/Next buttons and the submit
  dialogs with their warning on unanswered questions. The fields of a fetched question
  that the model of the page does not carry (its text, options, subtopic, image) are
  given by a function \<open>disp\<close> of the question.
\<close>

text \<open>The questions query's URL: \<open>count\<close> as parsed (\<open>NaN\<close> printed when \<open>parseInt\<close>
  fails), then the route's topic when there is one.\<close>

definition questions_fetch_url :: "int option \<Rightarrow> js_string option \<Rightarrow> js_string" where
  "questions_fetch_url cnt tp =
     ''/api/questions/random?count='' @ (case cnt of Some k \<Rightarrow> show_int k | None \<Rightarrow> ''NaN'')
     @ (case tp of Some t \<Rightarrow> if t \<noteq> [] then ''&topicId='' @ t else [] | None \<Rightarrow> [])"

text \<open>The page's own \<open>formatTime\<close>: \<open>${mins}:${secs < 10 ? '0' : ''}${secs}\<close>.\<close>

definition page_formatTime :: "nat \<Rightarrow> js_string" where
  "page_formatTime t = show_nat (t div 60) @ CHR '':'' # (if t mod 60 < 10 then ''0'' else []) @ show_nat (t mod 60)"

record question_display =
  qd_text :: js_string
  qd_subtopic :: "js_string option"
  qd_imagePath :: "js_string option"
  qd_optionA :: js_string
  qd_optionB :: js_string
  qd_optionC :: js_string
  qd_optionD :: js_string

text \<open>The header: the topic's name (or "Loading..." until it arrives, "All Topics" without
  a topic; hidden on mobile) and \<open>Q {i + 1}/{questions?.length || "..."}\<close>.\<close>

record practice_header =
  ph_topic :: "js_string option"
  ph_counter :: js_string

definition length_or_dots :: "question list option \<Rightarrow> js_string" where
  "length_or_dots qs = (case qs of Some l \<Rightarrow> if l \<noteq> [] then show_nat (length l) else ''...'' | None \<Rightarrow> ''...'')"

definition practice_header_of :: "practice_config \<Rightarrow> js_string option \<Rightarrow> bool \<Rightarrow> page \<Rightarrow> practice_header" where
  "practice_header_of cfg topicName isMobile p =
     \<lparr>ph_topic = (if isMobile then None
                  else Some (if topicParam cfg \<noteq> None \<and> topicParam cfg \<noteq> Some []
                             then (case topicName of Some n \<Rightarrow> if n \<noteq> [] then n else ''Loading...'' | None \<Rightarrow> ''Loading...'')
                             else ''All Topics'')),
      ph_counter = ''Q '' @ show_nat (Suc (currentQuestionIndex p)) @ ''/'' @ length_or_dots (questionsData p)\<rparr>"

text \<open>The progress bar's width: \<open>questions ? (currentQuestionIndex / questions.length) * 100 : 0\<close>.\<close>

definition progress_width :: "page \<Rightarrow> js_number" where
  "progress_width p =
     (case questionsData p of None \<Rightarrow> JNum 0
      | Some qs \<Rightarrow> js_mul (js_div (JNum (of_nat (currentQuestionIndex p))) (JNum (of_nat (length qs)))) (JNum 100))"

text \<open>The answer cards: \<open>"A. " + optionA\<close> and so on, the card of the chosen answer
  highlighted.\<close>

record option_card =
  oc_text :: js_string
  oc_selected :: bool

datatype nav_dot = DotCurrent | DotAnswered | DotEmpty

text \<open>A dot is the current question's, or green when \<open>answers[idx] !== null\<close> (an index
  past the answers reads \<open>undefined\<close>, which is not \<open>null\<close>), or grey.\<close>

definition dot_of :: "page \<Rightarrow> nat \<Rightarrow> nav_dot" where
  "dot_of p i =
     (if i = currentQuestionIndex p then DotCurrent
      else case nth_opt (answers p) i of Some None \<Rightarrow> DotEmpty | _ \<Rightarrow> DotAnswered)"

definition unanswered :: "page \<Rightarrow> nat" where
  "unanswered p = length (filter (\<lambda>a. a = None) (answers p))"

record card_view =
  pv_title :: js_string
  pv_topic_line :: js_string
  pv_text :: js_string
  pv_image :: "js_string option"
  pv_options :: "option_card list"
  pv_dots :: "nav_dot list"
  pv_prev_disabled :: bool
  pv_next_shown :: bool
  pv_warning :: "nat option"

definition card_view_of ::
  "(question \<Rightarrow> question_display) \<Rightarrow> practice_config \<Rightarrow> js_string option \<Rightarrow> bool \<Rightarrow> page \<Rightarrow> question \<Rightarrow> question list \<Rightarrow> card_view" where
  "card_view_of disp cfg topicName isMobile p q qs =
     (let d = disp q; a = (case nth_opt (answers p) (currentQuestionIndex p) of Some x \<Rightarrow> x | None \<Rightarrow> None)
      in \<lparr>pv_title = ''Question '' @ show_nat (Suc (currentQuestionIndex p)),
          pv_topic_line = (if topicParam cfg \<noteq> None \<and> topicParam cfg \<noteq> Some []
                           then (case topicName of Some n \<Rightarrow> n | None \<Rightarrow> []) else ''Mixed Topics'')
                          @ (case qd_subtopic d of Some st \<Rightarrow> if st \<noteq> [] then '' - '' @ st else [] | None \<Rightarrow> []),
          pv_text = qd_text d,
          pv_image = (case qd_imagePath d of Some i \<Rightarrow> if i \<noteq> [] then Some i else None | None \<Rightarrow> None),
          pv_options = map (\<lambda>(l, t). \<lparr>oc_text = l @ ''. '' @ t, oc_selected = (a = Some l)\<rparr>)
                         [(''A'', qd_optionA d), (''B'', qd_optionB d), (''C'', qd_optionC d), (''D'', qd_optionD d)],
          pv_dots = (if isMobile then map (dot_of p) [0..<length qs] else []),
          pv_prev_disabled = (currentQuestionIndex p = 0),
          pv_next_shown = (currentQuestionIndex p + 1 < length qs),
          pv_warning = (if 0 < unanswered p then Some (unanswered p) else None)\<rparr>)"

text \<open>The main area: skeletons while loading, the card when \<open>questions[i]\<close> exists, the
  empty state otherwise; below it a second submit dialog on any but the last question.\<close>

datatype practice_main = MainSkeleton | MainCard card_view | MainEmpty

definition practice_main_of ::
  "(question \<Rightarrow> question_display) \<Rightarrow> practice_config \<Rightarrow> js_string option \<Rightarrow> bool \<Rightarrow> page \<Rightarrow> practice_main" where
  "practice_main_of disp cfg topicName isMobile p =
     (if isLoadingQuestions p then MainSkeleton
      else case questionsData p of
        Some qs \<Rightarrow> (case nth_opt qs (currentQuestionIndex p) of
                      Some q \<Rightarrow> MainCard (card_view_of disp cfg topicName isMobile p q qs)
                    | None \<Rightarrow> MainEmpty)
      | None \<Rightarrow> MainEmpty)"

definition bottom_submit_shown :: "page \<Rightarrow> bool" where
  "bottom_submit_shown p =
     (case questionsData p of Some qs \<Rightarrow> qs \<noteq> [] \<and> currentQuestionIndex p + 1 < length qs | None \<Rightarrow> False)"

subsection \<open>Lemmas\<close>

lemma page_formatTime_eq: "page_formatTime t = formatTime t"
proof -
  have "t mod 60 < 10 \<longleftrightarrow> length (show_nat (t mod 60)) < 2"
    by (cases "t mod 60 < 10") (simp_all add: show_nat_length_1 show_nat_length_2)
  then show ?thesis
    by (auto simp: page_formatTime_def formatTime_def pad2_def show_nat_length_1)
qed

lemma length_filter_nth: "length (filter P xs) = length (filter (\<lambda>i. P (xs ! i)) [0..<length xs])"
proof -
  have "filter P xs = filter P (map (nth xs) [0..<length xs])" by (simp add: map_nth)
  then show ?thesis by (simp add: filter_map comp_def)
qed

lemma length_filter_except:
  "c < n \<Longrightarrow> length (filter (\<lambda>i. i \<noteq> c \<and> P i) [0..<n]) + (if P c then 1 else 0) = length (filter P [0..<n])"
proof (induction n)
  case (Suc n)
  show ?case
  proof (cases "c = n")
    case True
    have "filter (\<lambda>i. i \<noteq> n \<and> P i) [0..<n] = filter P [0..<n]"
      by (rule filter_cong) auto
    with True show ?thesis by simp
  next
    case False
    with Suc.prems have "c < n" by simp
    with Suc.IH False show ?thesis by (cases "P c") simp_all
  qed
qed simp

lemma dots_empty_count:
  assumes "currentQuestionIndex p < length (answers p)" "length qs = length (answers p)"
  shows "length (filter (\<lambda>d. d = DotEmpty) (map (dot_of p) [0..<length qs]))
         + (if answers p ! currentQuestionIndex p = None then 1 else 0) = unanswered p"
proof -
  have "filter (\<lambda>d. d = DotEmpty) (map (dot_of p) [0..<length qs])
        = map (dot_of p) (filter (\<lambda>i. i \<noteq> currentQuestionIndex p \<and> answers p ! i = None) [0..<length qs])"
  proof -
    have "filter ((\<lambda>d. d = DotEmpty) \<circ> dot_of p) [0..<length qs]
          = filter (\<lambda>i. i \<noteq> currentQuestionIndex p \<and> answers p ! i = None) [0..<length qs]"
      using assms(2) by (intro filter_cong) (auto simp: dot_of_def nth_opt_def split: option.split)
    then show ?thesis by (simp add: filter_map)
  qed
  then show ?thesis
    using length_filter_except [OF assms(1), of "\<lambda>i. answers p ! i = None"] assms(2)
    by (simp add: unanswered_def length_filter_nth [of "\<lambda>a. a = None"])
qed

lemma selected_options:
  assumes "a \<in> {None, Some ''A'', Some ''B'', Some ''C'', Some ''D''}"
  shows "length (filter (\<lambda>(l, t). a = Some l) [(''A'', x1), (''B'', x2), (''C'', x3), (''D'', x4)])
         = (if a = None then 0 else 1)"
  using assms by auto

subsection \<open>Properties\<close>

text \<open>C13. What the practice page shows agrees with its state: in every reachable state with
  a non-empty set of questions loaded, the card of the current question is shown, at most
  one answer card is highlighted (exactly one when the question is answered, the chosen
  one), the warning of the submit dialog counts the grey navigation dots plus the current
  question when it is unanswered, and the progress bar is between 0 and 100 percent,
  never full.\<close>

theorem practice_view_consistent:
  assumes "practice_reachable cfg srv s" "questionsData (pg s) = Some qs" "qs \<noteq> []"
  shows "\<exists>v. practice_main_of disp cfg tn True (pg s) = MainCard v
     \<and> length (filter oc_selected (pv_options v)) = (if answers (pg s) ! currentQuestionIndex (pg s) = None then 0 else 1)
     \<and> list_all (\<lambda>c. oc_selected c \<longrightarrow> answers (pg s) ! currentQuestionIndex (pg s) = Some (take 1 (oc_text c))) (pv_options v)
     \<and> length (filter (\<lambda>d. d = DotEmpty) (pv_dots v))
         + (if answers (pg s) ! currentQuestionIndex (pg s) = None then 1 else 0) = unanswered (pg s)
     \<and> pv_warning v = (if unanswered (pg s) = 0 then None else Some (unanswered (pg s)))
     \<and> (\<exists>w. progress_width (pg s) = JNum w \<and> 0 \<le> w \<and> w < 100)"
proof -
  let ?p = "pg s" let ?i = "currentQuestionIndex (pg s)"
  have wf: "page_wf ?p" by (rule practice_reachable_wf [OF assms(1)])
  then have len: "length (answers ?p) = length qs" "?i < length qs"
    and ans: "set (answers ?p) \<subseteq> {None, Some ''A'', Some ''B'', Some ''C'', Some ''D''}"
    and nl: "\<not> isLoadingQuestions ?p"
    using assms(2,3) by (auto simp: page_wf_def)
  have a: "answers ?p ! ?i \<in> {None, Some ''A'', Some ''B'', Some ''C'', Some ''D''}"
    using subsetD [OF ans nth_mem [of ?i "answers ?p"]] len by simp
  let ?v = "card_view_of disp cfg tn True ?p (qs ! ?i) qs"
  have main: "practice_main_of disp cfg tn True ?p = MainCard ?v"
    using nl assms(2) len by (simp add: practice_main_of_def nth_opt_def)
  have an: "(case nth_opt (answers ?p) ?i of Some x \<Rightarrow> x | None \<Rightarrow> None) = answers ?p ! ?i"
    using len by (simp add: nth_opt_def)
  have opts: "length (filter oc_selected (pv_options ?v)) = (if answers ?p ! ?i = None then 0 else 1)"
    using a unfolding card_view_of_def Let_def an by (elim insertE) simp_all
  have sel: "list_all (\<lambda>c. oc_selected c \<longrightarrow> answers ?p ! ?i = Some (take 1 (oc_text c))) (pv_options ?v)"
    unfolding card_view_of_def Let_def an by simp
  have dots: "length (filter (\<lambda>d. d = DotEmpty) (pv_dots ?v)) + (if answers ?p ! ?i = None then 1 else 0) = unanswered ?p"
  proof -
    have "?i < length (answers ?p)" "length qs = length (answers ?p)" using len by simp_all
    from dots_empty_count [OF this] show ?thesis by (simp add: card_view_of_def Let_def)
  qed
  have warn: "pv_warning ?v = (if unanswered ?p = 0 then None else Some (unanswered ?p))"
    by (simp add: card_view_of_def Let_def)
  have "progress_width ?p = JNum (of_nat ?i * 100 / of_nat (length qs))"
    using assms(2,3) by (simp add: progress_width_def)
  moreover have "of_nat ?i * 100 / of_nat (length qs) < (100::rat)"
    using len(2) by (simp add: divide_less_eq)
  ultimately have "\<exists>w. progress_width ?p = JNum w \<and> 0 \<le> w \<and> w < 100" by auto
  with main opts sel dots warn show ?thesis by blast
qed

theorem practice_view_consistent_witness:
  "\<exists>v. practice_main_of (\<lambda>q. \<lparr>qd_text = ''2 + 2?'', qd_subtopic = None, qd_imagePath = None,
          qd_optionA = ''4'', qd_optionB = ''3'', qd_optionC = ''5'', qd_optionD = ''22''\<rparr>)
        \<lparr>isTimed = False, topicParam = None, timeLimit = 0\<rparr> None True
        (pg (practice_step \<lparr>isTimed = False, topicParam = None, timeLimit = 0\<rparr>
          (practice_init \<lparr>isTimed = False, topicParam = None, timeLimit = 0\<rparr>
             \<lparr>sessions = [], sessionQuestions = [], nextId = 1\<rparr>)
          (QuestionsLoaded [\<lparr>q_id = 1, q_correctOption = ''A''\<rparr>]))) = MainCard v
     \<and> length (filter oc_selected (pv_options v)) = 0 \<and> pv_warning v = Some 1"
proof -
  let ?cfg = "\<lparr>isTimed = False, topicParam = None, timeLimit = 0\<rparr>"
  let ?srv = "\<lparr>sessions = [], sessionQuestions = [], nextId = 1\<rparr>"
  let ?qs = "[\<lparr>q_id = 1, q_correctOption = ''A''\<rparr>]"
  let ?s = "practice_step ?cfg (practice_init ?cfg ?srv) (QuestionsLoaded ?qs)"
  have r: "practice_reachable ?cfg ?srv ?s"
    by (rule practice_reachable.step [OF practice_reachable.init])
       (simp add: practice_init_def page_init_def)
  have q: "questionsData (pg ?s) = Some ?qs"
    by (simp add: practice_init_def questions_loaded_def)
  have u: "answers (pg ?s) = [None]" "currentQuestionIndex (pg ?s) = 0"
    by (simp_all add: practice_init_def page_init_def questions_loaded_def)
  then have n: "unanswered (pg ?s) = 1" by (simp add: unanswered_def)
  let ?D = "\<lambda>q. \<lparr>qd_text = ''2 + 2?'', qd_subtopic = None, qd_imagePath = None,
      qd_optionA = ''4'', qd_optionB = ''3'', qd_optionC = ''5'', qd_optionD = ''22''\<rparr>"
  from practice_view_consistent [OF r q, of ?D None] obtain v where
    m: "practice_main_of ?D ?cfg None True (pg ?s) = MainCard v" and
    o: "length (filter oc_selected (pv_options v))
          = (if answers (pg ?s) ! currentQuestionIndex (pg ?s) = None then 0 else 1)" and
    w: "pv_warning v = (if unanswered (pg ?s) = 0 then None else Some (unanswered (pg ?s)))"
    by blast
  from o have "length (filter oc_selected (pv_options v)) = 0" by (simp only: u nth_Cons_0 simp_thms if_True)
  moreover from w have "pv_warning v = Some 1" by (simp only: n) simp
  ultimately show ?thesis using m by blast
qed

end
