(* ===== verification/PasswordReset.thy ===== *)
theory PasswordReset
  imports Navigation QuizConfig
begin

text \<open>
  The two password pages of \<open>pages/auth-page.tsx\<close> as state machines.
  \<open>ForgotPasswordPage\<close> posts an email to \<open>/api/forgot-password\<close>, split at its \<open>await\<close>
  (the settling is \<open>forgot_settle\<close> of theory \<open>Auth\<close>). It then shows the sent state and,
  in development mode, the returned token with a button to \<open>/reset-password?token=...\<close>.
  \<open>ResetPasswordPage\<close> reads the token from \<open>window.location.search\<close> with
  \<open>URLSearchParams\<close> (\<open>search_get\<close> of theory \<open>QuizConfig\<close>, which does not percent-decode,
  so tokens are taken over a hexadecimal alphabet) and posts the new password with it.
  After success it navigates to \<open>/auth\<close> from a three-second timer. The zod schemas are
  parameters (\<open>fsch\<close> for the email, \<open>rsch\<close> for the reset data), and \<open>dev\<close> stands for
  \<open>process.env.NODE_ENV === 'development'\<close>.
\<close>

subsection \<open>Forgot password page\<close>

text \<open>The page's hooks with the log of posted emails and the last \<open>navigate\<close> target.\<close>

record forgot_sys =
  fs_page :: forgot_page
  fs_sent :: "js_string list"
  fs_nav :: "js_string option"

definition forgot_init :: forgot_sys where
  "forgot_init =
     \<lparr>fs_page = \<lparr>fp_isSubmitting = False, tokenSent = False, resetToken = None, fp_toasts = []\<rparr>,
      fs_sent = [], fs_nav = None\<rparr>"

text \<open>\<open>`/reset-password?token=${resetToken}`\<close>; a \<open>null\<close> token would print as \<open>null\<close>.\<close>

definition forgot_continue_url :: "js_string option \<Rightarrow> js_string" where
  "forgot_continue_url t = ''/reset-password?token='' @ (case t of Some x \<Rightarrow> x | None \<Rightarrow> ''null'')"

datatype forgot_event =
    ForgotSubmit js_string
  | ForgotSettle "js_string + (nat \<times> reply_body option)"
  | ContinueToReset
  | ForgotBackToLogin

fun forgot_step :: "forgot_event \<Rightarrow> forgot_sys \<Rightarrow> forgot_sys" where
  "forgot_step (ForgotSubmit e) s =
     s\<lparr>fs_page := (fs_page s)\<lparr>fp_isSubmitting := True\<rparr>, fs_sent := fs_sent s @ [e]\<rparr>"
| "forgot_step (ForgotSettle r) s = s\<lparr>fs_page := forgot_settle r (fs_page s)\<rparr>"
| "forgot_step ContinueToReset s = s\<lparr>fs_nav := Some (forgot_continue_url (resetToken (fs_page s)))\<rparr>"
| "forgot_step ForgotBackToLogin s = s\<lparr>fs_nav := Some ''/auth''\<rparr>"

text \<open>The form is shown until \<open>tokenSent\<close>, its button disabled while submitting; the
  request settles once; the token panel needs a token and development mode; both views
  link back to the login page.\<close>

fun forgot_enabled :: "(js_string \<Rightarrow> bool) \<Rightarrow> bool \<Rightarrow> forgot_event \<Rightarrow> forgot_sys \<Rightarrow> bool" where
  "forgot_enabled fsch dev (ForgotSubmit e) s =
     (\<not> tokenSent (fs_page s) \<and> \<not> fp_isSubmitting (fs_page s) \<and> fsch e)"
| "forgot_enabled fsch dev (ForgotSettle r) s = fp_isSubmitting (fs_page s)"
| "forgot_enabled fsch dev ContinueToReset s = (tokenSent (fs_page s) \<and> truthy_str (resetToken (fs_page s)) \<and> dev)"
| "forgot_enabled fsch dev ForgotBackToLogin s = True"

datatype forgot_view = ForgotForm js_string bool | ForgotSent "js_string option"

definition forgot_view_of :: "bool \<Rightarrow> forgot_page \<Rightarrow> forgot_view" where
  "forgot_view_of dev p =
     (if \<not> tokenSent p
      then ForgotForm (if fp_isSubmitting p then ''Processing...'' else ''Reset Password'') (fp_isSubmitting p)
      else ForgotSent (if truthy_str (resetToken p) \<and> dev then resetToken p else None))"

fun forgot_run :: "forgot_event list \<Rightarrow> forgot_sys \<Rightarrow> forgot_sys" where
  "forgot_run [] s = s"
| "forgot_run (e # es) s = forgot_run es (forgot_step e s)"

subsection \<open>Reset password page\<close>

record reset_data =
  rs_token :: js_string
  rs_password :: js_string
  rs_confirmPassword :: js_string

text \<open>The page's location (read once, at render), its hooks, the posted requests, whether
  the redirect timer is pending, and the last \<open>navigate\<close> target.\<close>

record reset_page =
  rp_location :: js_string
  rp_isSubmitting :: bool
  success :: bool
  rp_toasts :: "toast_msg list"
  rp_sent :: "reset_data list"
  rp_timer :: bool
  rp_nav :: "js_string option"

definition reset_token :: "js_string \<Rightarrow> js_string option" where
  "reset_token loc = search_get (url_search loc) ''token''"

definition reset_init :: "js_string \<Rightarrow> reset_page" where
  "reset_init loc =
     \<lparr>rp_location = loc, rp_isSubmitting = False, success = False, rp_toasts = [], rp_sent = [],
      rp_timer = False, rp_nav = None\<rparr>"

text \<open>The form's values: \<open>token || ""\<close> (no field renders it), then the two passwords.\<close>

definition reset_form_data :: "js_string \<Rightarrow> js_string \<Rightarrow> js_string \<Rightarrow> reset_data" where
  "reset_form_data loc pw cf =
     \<lparr>rs_token = (case reset_token loc of Some t \<Rightarrow> t | None \<Rightarrow> []), rs_password = pw, rs_confirmPassword = cf\<rparr>"

definition reset_settle :: "(js_string + (nat \<times> reply_body option)) \<Rightarrow> reset_page \<Rightarrow> reset_page" where
  "reset_settle r s =
     (case r of
        Inr (st, Some b) \<Rightarrow>
          if res_ok st
          then s\<lparr>success := True, rp_timer := True, rp_isSubmitting := False,
                 rp_toasts := rp_toasts s @ [(''Success'', ''Your password has been reset successfully.'')]\<rparr>
          else s\<lparr>rp_isSubmitting := False, rp_toasts := rp_toasts s @ [(''Error'',
                   case rb_message b of Some m \<Rightarrow> if m \<noteq> [] then m else ''Failed to reset password''
                   | None \<Rightarrow> ''Failed to reset password'')]\<rparr>
      | _ \<Rightarrow> s\<lparr>rp_isSubmitting := False,
               rp_toasts := rp_toasts s @ [(''Error'', ''An unexpected error occurred. Please try again.'')]\<rparr>)"

datatype reset_event =
    ResetSubmit js_string js_string
  | ResetSettle "js_string + (nat \<times> reply_body option)"
  | RedirectTimer
  | ReturnToLogin
  | RequestNewReset

fun reset_step :: "reset_event \<Rightarrow> reset_page \<Rightarrow> reset_page" where
  "reset_step (ResetSubmit pw cf) s =
     (let d = reset_form_data (rp_location s) pw cf
      in s\<lparr>rp_isSubmitting := True,
           rp_sent := rp_sent s @ [d\<lparr>rs_token := reset_request_token (reset_token (rp_location s)) (rs_token d)\<rparr>]\<rparr>)"
| "reset_step (ResetSettle r) s = reset_settle r s"
| "reset_step RedirectTimer s = s\<lparr>rp_timer := False, rp_nav := Some ''/auth''\<rparr>"
| "reset_step ReturnToLogin s = s\<lparr>rp_nav := Some ''/auth''\<rparr>"
| "reset_step RequestNewReset s = s\<lparr>rp_nav := Some ''/forgot-password''\<rparr>"

fun reset_enabled :: "(reset_data \<Rightarrow> bool) \<Rightarrow> reset_event \<Rightarrow> reset_page \<Rightarrow> bool" where
  "reset_enabled rsch (ResetSubmit pw cf) s =
     (reset_view_of (reset_token (rp_location s)) (success s) = ResetForm \<and> \<not> rp_isSubmitting s
      \<and> rsch (reset_form_data (rp_location s) pw cf))"
| "reset_enabled rsch (ResetSettle r) s = rp_isSubmitting s"
| "reset_enabled rsch RedirectTimer s = rp_timer s"
| "reset_enabled rsch ReturnToLogin s = (reset_view_of (reset_token (rp_location s)) (success s) = ResetDone)"
| "reset_enabled rsch RequestNewReset s = (reset_view_of (reset_token (rp_location s)) (success s) = InvalidResetLink)"

inductive reset_reachable :: "(reset_data \<Rightarrow> bool) \<Rightarrow> js_string \<Rightarrow> reset_page \<Rightarrow> bool" for rsch loc where
  init: "reset_reachable rsch loc (reset_init loc)"
| step: "reset_reachable rsch loc s \<Longrightarrow> reset_enabled rsch e s \<Longrightarrow> reset_reachable rsch loc (reset_step e s)"

text \<open>Every event of a run is enabled where it happens.\<close>

fun forgot_run_ok :: "(js_string \<Rightarrow> bool) \<Rightarrow> bool \<Rightarrow> forgot_event list \<Rightarrow> forgot_sys \<Rightarrow> bool" where
  "forgot_run_ok fsch dev [] s = True"
| "forgot_run_ok fsch dev (e # es) s = (forgot_enabled fsch dev e s \<and> forgot_run_ok fsch dev es (forgot_step e s))"

subsection \<open>Lemmas\<close>

definition hex_token :: "js_string \<Rightarrow> bool" where
  "hex_token t = (t \<noteq> [] \<and> list_all (\<lambda>c. c \<in> set ''0123456789abcdef'') t)"

lemma hex_token_chars:
  assumes "hex_token t"
  shows "CHR ''?'' \<notin> set t" "CHR ''&'' \<notin> set t" "t \<noteq> []"
proof -
  have s: "set t \<subseteq> set ''0123456789abcdef''"
    using assms unfolding hex_token_def list_all_iff by blast
  have "CHR ''?'' \<notin> set ''0123456789abcdef''" "CHR ''&'' \<notin> set ''0123456789abcdef''"
    by simp_all
  with s show "CHR ''?'' \<notin> set t" "CHR ''&'' \<notin> set t" by blast+
  show "t \<noteq> []" using assms by (simp add: hex_token_def)
qed

lemma continue_url_parts:
  assumes "hex_token t"
  shows "url_path (forgot_continue_url (Some t)) = ''/reset-password''"
    and "reset_token (forgot_continue_url (Some t)) = Some t"
proof -
  note h = hex_token_chars [OF assms]
  have q: "takeWhile (\<lambda>c. c \<noteq> CHR ''?'') t = t" "dropWhile (\<lambda>c. c \<noteq> CHR ''?'') t = []"
    using h(1) by (auto simp: takeWhile_eq_all_conv dropWhile_eq_Nil_conv)
  show "url_path (forgot_continue_url (Some t)) = ''/reset-password''"
    by (simp add: url_path_def forgot_continue_url_def)
  have "url_search (forgot_continue_url (Some t)) = ''token='' @ t"
    using q by (simp add: url_search_def forgot_continue_url_def)
  moreover have "split_on CHR ''&'' (''token='' @ t) = [''token='' @ t]"
    using h(2) by (simp add: split_on_no_sep)
  ultimately show "reset_token (forgot_continue_url (Some t)) = Some t"
    by (simp add: reset_token_def search_get_def query_pairs_def)
qed

lemma reset_page_public: "resolve a ''/reset-password'' = Render PgResetPassword"
  by (simp add: resolve_def router_def path_segments_def route_table_def)

text \<open>A submit on the form sends the form's data with the URL's token.\<close>

lemma reset_submit_sent:
  assumes "reset_token (rp_location s) = Some t" "t \<noteq> []"
  shows "rp_sent (reset_step (ResetSubmit pw cf) s)
           = rp_sent s @ [\<lparr>rs_token = t, rs_password = pw, rs_confirmPassword = cf\<rparr>]"
  using assms by (simp add: reset_form_data_def reset_request_token_def truthy_str_def)

lemma reset_settle_keeps [simp]:
  "rp_sent (reset_settle r s) = rp_sent s" "rp_location (reset_settle r s) = rp_location s"
  by (simp_all add: reset_settle_def split: sum.split prod.split option.split)

text \<open>C24. In every state the reset-password page can reach, every reset request it has
  posted passed the form's schema and carries the token of the page's URL: the form never
  posts without a token in the URL, and never a token of its own.\<close>

theorem reset_reachable_requests:
  "reset_reachable rsch loc s \<Longrightarrow>
     rp_location s = loc \<and> list_all (\<lambda>d. rsch d \<and> reset_token loc = Some (rs_token d)) (rp_sent s)"
proof (induction rule: reset_reachable.induct)
  case init
  then show ?case by (simp add: reset_init_def)
next
  case (step s e)
  then show ?case
  proof (cases e)
    case (ResetSubmit pw cf)
    with step obtain t where t: "reset_token loc = Some t" "t \<noteq> []"
      by (cases "reset_token loc") (auto simp: reset_view_of_def truthy_str_def split: if_splits)
    with step ResetSubmit show ?thesis
      by (simp add: reset_form_data_def reset_request_token_def truthy_str_def)
  qed simp_all
qed

subsection \<open>Properties\<close>

text \<open>C11. The reset token travels from the forgot-password reply to the reset request: in
  development mode, after an email is posted and the server replies ok with a hexadecimal
  token, the page shows the token and "Continue to Reset Password" navigates to a public
  route, the reset page, whose form is shown and whose submit posts exactly that token with
  the two passwords typed.\<close>

theorem forgot_reset_token_roundtrip:
  assumes "hex_token t" "res_ok st" "fsch e" "dev"
    and "rsch \<lparr>rs_token = t, rs_password = pw, rs_confirmPassword = cf\<rparr>"
  shows "let es = [ForgotSubmit e, ForgotSettle (Inr (st, Some (b\<lparr>rb_token := Some t\<rparr>))), ContinueToReset];
             f = forgot_run es forgot_init; loc = forgot_continue_url (Some t)
         in forgot_run_ok fsch dev es forgot_init \<and> fs_sent f = [e] \<and> fs_nav f = Some loc
            \<and> forgot_view_of dev (fs_page f) = ForgotSent (Some t)
            \<and> resolve a (url_path loc) = Render PgResetPassword
            \<and> reset_enabled rsch (ResetSubmit pw cf) (reset_init loc)
            \<and> rp_sent (reset_step (ResetSubmit pw cf) (reset_init loc))
                = [\<lparr>rs_token = t, rs_password = pw, rs_confirmPassword = cf\<rparr>]"
proof -
  let ?loc = "forgot_continue_url (Some t)"
  have tk: "reset_token ?loc = Some t" and path: "url_path ?loc = ''/reset-password''"
    using continue_url_parts [OF assms(1)] by simp_all
  have ne: "t \<noteq> []" using hex_token_chars [OF assms(1)] by simp
  have fd: "reset_form_data ?loc pw cf = \<lparr>rs_token = t, rs_password = pw, rs_confirmPassword = cf\<rparr>"
    using tk by (simp add: reset_form_data_def)
  have en: "reset_enabled rsch (ResetSubmit pw cf) (reset_init ?loc)"
    using tk ne fd assms(5) by (simp add: reset_init_def reset_view_of_def truthy_str_def)
  have sent: "rp_sent (reset_step (ResetSubmit pw cf) (reset_init ?loc))
                = [\<lparr>rs_token = t, rs_password = pw, rs_confirmPassword = cf\<rparr>]"
    using reset_submit_sent [of "reset_init ?loc" t pw cf] tk ne by (simp add: reset_init_def)
  show ?thesis
    using assms(2-4) ne en sent path reset_page_public [of a]
    by (simp add: Let_def forgot_init_def forgot_settle_def forgot_view_of_def truthy_str_def)
qed

theorem forgot_reset_token_roundtrip_witness:
  "rp_sent (reset_step (ResetSubmit ''n3w-pass'' ''n3w-pass'') (reset_init (forgot_continue_url (Some ''3fa9''))))
     = [\<lparr>rs_token = ''3fa9'', rs_password = ''n3w-pass'', rs_confirmPassword = ''n3w-pass''\<rparr>]
   \<and> fs_nav (forgot_run [ForgotSubmit ''ann@example.com'',
        ForgotSettle (Inr (200, Some \<lparr>rb_message = None, rb_user = None, rb_token = Some ''3fa9''\<rparr>)),
        ContinueToReset] forgot_init) = Some ''/reset-password?token=3fa9''"
proof -
  have h: "hex_token ''3fa9''" by (simp add: hex_token_def)
  have o: "res_ok 200" by (simp add: res_ok_def)
  from forgot_reset_token_roundtrip [OF h o, of "\<lambda>_. True" "''ann@example.com''" True "\<lambda>_. True"
      "''n3w-pass''" "''n3w-pass''" "\<lparr>rb_message = None, rb_user = None, rb_token = None\<rparr>" "auth_init None"]
  show ?thesis by (simp add: Let_def forgot_continue_url_def)
qed

theorem reset_reachable_requests_witness:
  "map rs_token (rp_sent (reset_step (ResetSubmit ''secret1'' ''secret1'') (reset_init ''/reset-password?token=ab12'')))
     = [''ab12'']"
proof -
  let ?loc = "''/reset-password?token=ab12''"
  let ?s = "reset_step (ResetSubmit ''secret1'' ''secret1'') (reset_init ?loc)"
  have r: "reset_reachable (\<lambda>_. True) ?loc ?s"
    by (rule reset_reachable.step [OF reset_reachable.init]) code_simp
  have t: "reset_token ?loc = Some ''ab12''" by code_simp
  have n: "length (rp_sent ?s) = 1" by (simp add: reset_init_def Let_def)
  from reset_reachable_requests [OF r] t n show ?thesis
    by (cases "rp_sent ?s") auto
qed

end
