(* ===== verification/StudentDetailsPage.thy ===== *)
theory StudentDetailsPage
  imports StudentDetails
begin

text \<open>
  The state of the student details page (\<open>pages/admin/student-details.tsx\<close>) around the
  view of theory \<open>StudentDetails\<close>. The route's \<open>:id\<close> is read with \<open>parseInt\<close>. The
  student and session queries run only when \<open>!!userId\<close> (not \<open>NaN\<close>, not 0), the topics
  query always. A query is idle (disabled), loading, or settled with its data or an
  error. \<open>isLoading\<close> is TanStack Query v5's, the version whose \<open>isPending\<close> the
  mutations of the client use: true only for a query fetching without data, so false for
  a disabled one. Each query settles once, in any order, with its final outcome (retries
  abstracted). The tabs are the \<open>activeTab\<close> hook.
\<close>

datatype 'a query = QIdle | QLoading | QData 'a | QFailed

definition query_isLoading :: "'a query \<Rightarrow> bool" where
  "query_isLoading q = (q = QLoading)"

definition query_data :: "'a query \<Rightarrow> 'a option" where
  "query_data q = (case q of QData d \<Rightarrow> Some d | _ \<Rightarrow> None)"

definition query_settle :: "'a option \<Rightarrow> 'a query" where
  "query_settle r = (case r of Some d \<Rightarrow> QData d | None \<Rightarrow> QFailed)"

datatype details_tab = TabOverview | TabSessions | TabTopics | TabProgress

record details_page =
  dp_userId :: "int option"
  activeTab :: details_tab
  dp_student :: "student_info query"
  dp_sessions :: "stored_session list query"
  dp_topics :: "topic_info list query"
  dp_fetched :: "js_string list"

text \<open>\<open>`/api/users/${userId}`\<close> and its sessions; \<open>NaN\<close> prints as \<open>NaN\<close>.\<close>

definition details_user_url :: "int option \<Rightarrow> js_string" where
  "details_user_url u = ''/api/users/'' @ (case u of Some k \<Rightarrow> show_int k | None \<Rightarrow> ''NaN'')"

definition details_sessions_url :: "int option \<Rightarrow> js_string" where
  "details_sessions_url u = details_user_url u @ ''/sessions''"

definition details_init :: "js_string \<Rightarrow> details_page" where
  "details_init idp =
     (let u = parse_int_noradix idp; en = truthy_int u
      in \<lparr>dp_userId = u, activeTab = TabOverview,
          dp_student = (if en then QLoading else QIdle),
          dp_sessions = (if en then QLoading else QIdle),
          dp_topics = QLoading,
          dp_fetched = (if en then [details_user_url u, details_sessions_url u] else []) @ [''/api/topics'']\<rparr>)"

text \<open>The screen: the early returns and the details of theory \<open>StudentDetails\<close>.\<close>

definition student_page_screen :: "details_page \<Rightarrow> student_details_screen" where
  "student_page_screen p =
     student_details_view (query_isLoading (dp_student p)) (query_isLoading (dp_sessions p))
       (query_data (dp_student p)) (query_data (dp_sessions p)) (query_data (dp_topics p))"

text \<open>A settling carries the query's data, or \<open>None\<close> when its function threw
  (\<open>!res.ok\<close>); the tabs are clickable when the details are shown.\<close>

datatype details_event =
    StudentSettle "student_info option"
  | SessionsSettle "stored_session list option"
  | TopicsSettle "topic_info list option"
  | SelectTab details_tab

fun details_step :: "details_event \<Rightarrow> details_page \<Rightarrow> details_page" where
  "details_step (StudentSettle r) p = p\<lparr>dp_student := query_settle r\<rparr>"
| "details_step (SessionsSettle r) p = p\<lparr>dp_sessions := query_settle r\<rparr>"
| "details_step (TopicsSettle r) p = p\<lparr>dp_topics := query_settle r\<rparr>"
| "details_step (SelectTab t) p = p\<lparr>activeTab := t\<rparr>"

fun details_enabled :: "details_event \<Rightarrow> details_page \<Rightarrow> bool" where
  "details_enabled (StudentSettle r) p = query_isLoading (dp_student p)"
| "details_enabled (SessionsSettle r) p = query_isLoading (dp_sessions p)"
| "details_enabled (TopicsSettle r) p = query_isLoading (dp_topics p)"
| "details_enabled (SelectTab t) p = (case student_page_screen p of StudentShown d \<Rightarrow> True | _ \<Rightarrow> False)"

fun details_run :: "details_event list \<Rightarrow> details_page \<Rightarrow> details_page" where
  "details_run [] p = p"
| "details_run (e # es) p = details_run es (details_step e p)"

fun details_run_ok :: "details_event list \<Rightarrow> details_page \<Rightarrow> bool" where
  "details_run_ok [] p = True"
| "details_run_ok (e # es) p = (details_enabled e p \<and> details_run_ok es (details_step e p))"

subsection \<open>The tabs\<close>

text \<open>A row of the Topic Performance table: name, session count, average to one decimal,
  the progress bar's value and the label of the average.\<close>

record topic_perf_row =
  tr_name :: js_string
  tr_sessions :: js_string
  tr_average :: js_string
  tr_bar :: rat
  tr_label :: js_string

definition topic_perf_row_of :: "topic_perf \<Rightarrow> topic_perf_row" where
  "topic_perf_row_of tp =
     \<lparr>tr_name = tp_topicName tp, tr_sessions = show_nat (tp_sessionCount tp),
      tr_average = js_toFixed 1 (JNum (tp_averageScore tp)) @ ''%'',
      tr_bar = tp_averageScore tp, tr_label = scoreGrade (JNum (tp_averageScore tp))\<rparr>"

text \<open>Each tab's content, \<open>None\<close> for its empty state ("No Sessions Yet", "No Topic Data
  Available", "No Progress Data Available"); the overview's lower half is the recent chart
  and the topic chart, or "No Sessions Yet".\<close>

datatype details_tab_view =
    OverviewView "(progress_point list \<times> topic_perf list) option"
  | SessionsView "session_row_view list option"
  | TopicsView "topic_perf_row list option"
  | ProgressView "(progress_point list \<times> progress_summary) option"

definition tab_view_of :: "details_tab \<Rightarrow> student_details \<Rightarrow> details_tab_view" where
  "tab_view_of t d =
     (case t of
        TabOverview \<Rightarrow> OverviewView (if 0 < sdv_totalSessions d then Some (sdv_recent d, sdv_topics d) else None)
      | TabSessions \<Rightarrow> SessionsView (if 0 < sdv_totalSessions d then Some (sdv_sessions d) else None)
      | TabTopics \<Rightarrow> TopicsView (if sdv_topics d \<noteq> [] then Some (map topic_perf_row_of (sdv_topics d)) else None)
      | TabProgress \<Rightarrow> ProgressView (if sdv_progress d \<noteq> [] then Some (sdv_progress d, sdv_summary d) else None))"

text \<open>The student card above the tabs: name, \<open>@username\<close>, the approval badge, email, role
  and the number of sessions (the registration date is not printed by the model).\<close>

record info_card =
  ic_title :: js_string
  ic_handle :: js_string
  ic_badge :: js_string
  ic_email :: js_string
  ic_role :: js_string
  ic_sessions :: nat

definition info_card_of :: "student_info \<Rightarrow> nat \<Rightarrow> info_card" where
  "info_card_of u n =
     \<lparr>ic_title = u_fullName u, ic_handle = CHR ''@'' # u_username u,
      ic_badge = (if u_approved u then ''Approved'' else ''Pending Approval''),
      ic_email = u_email u, ic_role = u_role u, ic_sessions = n\<rparr>"

subsection \<open>Lemmas\<close>

lemma details_init_enabled:
  assumes "parse_int_noradix p = Some k" "k \<noteq> 0"
  shows "dp_student (details_init p) = QLoading" "dp_sessions (details_init p) = QLoading"
    "dp_topics (details_init p) = QLoading"
    "dp_fetched (details_init p) = [''/api/users/'' @ show_int k, ''/api/users/'' @ show_int k @ ''/sessions'', ''/api/topics'']"
  using assms by (simp_all add: details_init_def truthy_int_def details_sessions_url_def details_user_url_def)

lemma query_settle_simps [simp]:
  "query_isLoading (query_settle r) = False" "query_data (query_settle r) = r"
  by (simp_all add: query_settle_def query_isLoading_def query_data_def split: option.split)

lemma query_loading_simps [simp]:
  "query_isLoading QLoading" "query_data QLoading = None" "\<not> query_isLoading QIdle" "query_data QIdle = None"
  by (simp_all add: query_isLoading_def query_data_def)

text \<open>An id that \<open>parseInt\<close> reads as \<open>NaN\<close> or 0 disables both user queries, so the page
  asks only for the topics and says at once that the student does not exist.\<close>

lemma student_details_bad_id:
  "\<not> truthy_int (parse_int_noradix p) \<Longrightarrow>
     dp_fetched (details_init p) = [''/api/topics''] \<and> student_page_screen (details_init p) = StudentNotFound"
  by (simp add: details_init_def student_page_screen_def student_details_view_def)

lemma details_shown_tabs:
  "student_page_screen p = StudentShown d \<Longrightarrow> details_enabled (SelectTab t) p"
  by simp

lemma length_session_progress_data [simp]: "length (session_progress_data ss) = length ss"
  by (simp add: session_progress_data_def)

lemma length_sorted_enhanced [simp]:
  "length (sorted_sessions (enhanced_sessions (Some ss) tops)) = length ss"
  by (simp add: sorted_sessions_def enhanced_sessions_def)

text \<open>The tabs agree with the sessions: one row and one progress point per session, the
  empty states exactly without sessions, and the card counts them.\<close>

lemma details_tabs_consistent:
  assumes "student_details_view False False (Some u) (Some ss) tops = StudentShown d"
  shows "tab_view_of TabSessions d = SessionsView (if ss = [] then None else Some (sdv_sessions d))
     \<and> length (sdv_sessions d) = length ss
     \<and> tab_view_of TabProgress d = ProgressView (if ss = [] then None else Some (sdv_progress d, sdv_summary d))
     \<and> length (sdv_progress d) = length ss
     \<and> ic_sessions (info_card_of u (sdv_totalSessions d)) = length ss"
proof -
  have n: "sdv_totalSessions d = length ss" and r: "length (sdv_sessions d) = length ss"
    and pr: "length (sdv_progress d) = length ss"
    using assms by (auto simp: student_details_view_def Let_def)
  have "sdv_progress d = [] \<longleftrightarrow> ss = []" using pr by (metis length_0_conv)
  with n r pr show ?thesis by (simp add: tab_view_of_def info_card_of_def)
qed

subsection \<open>Properties\<close>

text \<open>C25. For a route id that \<open>parseInt\<close> reads as a non-zero number \<open>k\<close>, the page
  requests the student \<open>k\<close>, the student's sessions and the topics, and shows its spinner
  until both the student and the sessions have arrived, in either order; then it shows
  the details of that student and those sessions, without waiting for the topics. When the
  student's request fails, the page says that the student was not found once the
  sessions have settled.\<close>

theorem student_details_loading:
  assumes "parse_int_noradix p = Some k" "k \<noteq> 0"
  shows "dp_fetched (details_init p)
           = [''/api/users/'' @ show_int k, ''/api/users/'' @ show_int k @ ''/sessions'', ''/api/topics'']
     \<and> student_page_screen (details_init p) = StudentLoading
     \<and> student_page_screen (details_step (StudentSettle (Some u)) (details_init p)) = StudentLoading
     \<and> student_page_screen (details_step (SessionsSettle (Some ss)) (details_init p)) = StudentLoading
     \<and> details_run_ok [StudentSettle (Some u), SessionsSettle (Some ss)] (details_init p)
     \<and> details_run_ok [SessionsSettle (Some ss), StudentSettle (Some u)] (details_init p)
     \<and> student_page_screen (details_run [StudentSettle (Some u), SessionsSettle (Some ss)] (details_init p))
         = student_details_view False False (Some u) (Some ss) None
     \<and> student_page_screen (details_run [SessionsSettle (Some ss), StudentSettle (Some u)] (details_init p))
         = student_details_view False False (Some u) (Some ss) None
     \<and> student_page_screen (details_run [StudentSettle None, SessionsSettle r] (details_init p)) = StudentNotFound"
proof -
  note i = details_init_enabled [OF assms]
  have shown: "\<exists>d. student_details_view False False (Some u) (Some ss) None = StudentShown d"
    by (simp add: student_details_view_def Let_def)
  show ?thesis
    using i shown
    by (auto simp: student_page_screen_def student_details_view_def)
qed

theorem student_details_loading_witness:
  "dp_fetched (details_init ''12abc'') = [''/api/users/12'', ''/api/users/12/sessions'', ''/api/topics'']
   \<and> student_page_screen (details_run [SessionsSettle (Some []), StudentSettle (Some
        \<lparr>u_id = 12, u_username = ''ann'', u_fullName = ''Ann Lee'', u_email = ''ann@example.com'',
         u_role = ''student'', u_approved = True\<rparr>)] (details_init ''12abc''))
     = student_details_view False False (Some \<lparr>u_id = 12, u_username = ''ann'', u_fullName = ''Ann Lee'',
         u_email = ''ann@example.com'', u_role = ''student'', u_approved = True\<rparr>) (Some []) None"
proof -
  have p: "parse_int_noradix ''12abc'' = Some 12" by (simp add: parse_int_noradix_def parse_sign_def parse_int_def is_digit_def is_ws_def digits_value_def)
  have k: "(12::int) \<noteq> 0" by simp
  from student_details_loading [OF p k, of "\<lparr>u_id = 12, u_username = ''ann'', u_fullName = ''Ann Lee'',
      u_email = ''ann@example.com'', u_role = ''student'', u_approved = True\<rparr>" "[]"]
  show ?thesis by (simp add: show_int_def num_eval)
qed

end
