(* ===== verification/ConfigDialogs.thy ===== *)
theory ConfigDialogs
  imports Dashboards
begin

text \<open>
  The two configuration dialogs as components mounted by the student dashboard
  (\<open>components/student/timed-quiz-config.tsx\<close>, \<open>components/student/practice-config.tsx\<close>,
  \<open>pages/student/dashboard.tsx\<close>). The dashboard owns whether each dialog is open and
  which topic it was opened for (\<open>dashboard_dialogs\<close> of theory \<open>Dashboards\<close>). Each dialog
  keeps its own settings, which survive closing because the component stays mounted.
  "Start Timed Quiz" navigates and closes its dialog; "Start Practice" only navigates.
  While a dialog is open its modal overlay keeps the dashboard's buttons from being
  clicked.
\<close>

subsection \<open>The timed dialog's display\<close>




subsection \<open>The practice dialog\<close>

text \<open>Its one hook, \<open>questionCount\<close> as the select's string, and the values the select
  offers (the same items as the timed dialog's).\<close>

definition practice_count_init :: js_string where
  "practice_count_init = ''10''"

definition practice_description :: "js_string option \<Rightarrow> js_string" where
  "practice_description tid =
     ''Configure your practice session settings for '' @ (if truthy tid then ''this topic'' else ''all topics'') @ ''.''"

subsection \<open>The dashboard with its dialogs\<close>

record dash_sys =
  ds_dialogs :: dashboard_dialogs
  ds_timed :: timed_config
  ds_practiceCount :: js_string
  ds_nav :: "js_string option"

definition dash_init :: dash_sys where
  "dash_init = \<lparr>ds_dialogs = dashboard_dialogs_init, ds_timed = timed_config_init,
                ds_practiceCount = practice_count_init, ds_nav = None\<rparr>"

datatype dash_event =
    DashClick dashboard_event
  | TimedSetting timed_config_event
  | StartTimedClick
  | CancelTimedClick
  | PracticeCountChange js_string
  | StartPracticeClick
  | CancelPracticeClick

text \<open>The Start buttons: \<open>startTimedQuiz\<close> navigates, then calls \<open>onOpenChange(false)\<close>;
  \<open>startPractice\<close> only navigates.\<close>

definition timed_dialog_start :: "dash_sys \<Rightarrow> dash_sys" where
  "timed_dialog_start s =
     s\<lparr>ds_nav := Some (startTimedQuiz (selectedTopicId (ds_dialogs s)) (ds_timed s)),
       ds_dialogs := dashboard_step (TimedOpenChange False) (ds_dialogs s)\<rparr>"

definition practice_dialog_start :: "dash_sys \<Rightarrow> dash_sys" where
  "practice_dialog_start s =
     s\<lparr>ds_nav := Some (startPractice (selectedTopicId (ds_dialogs s)) (ds_practiceCount s))\<rparr>"

fun dash_step :: "dash_event \<Rightarrow> dash_sys \<Rightarrow> dash_sys" where
  "dash_step (DashClick e) s = s\<lparr>ds_dialogs := dashboard_step e (ds_dialogs s)\<rparr>"
| "dash_step (TimedSetting e) s = s\<lparr>ds_timed := timed_config_step e (ds_timed s)\<rparr>"
| "dash_step StartTimedClick s = timed_dialog_start s"
| "dash_step CancelTimedClick s = s\<lparr>ds_dialogs := dashboard_step (TimedOpenChange False) (ds_dialogs s)\<rparr>"
| "dash_step (PracticeCountChange v) s = s\<lparr>ds_practiceCount := v\<rparr>"
| "dash_step StartPracticeClick s = practice_dialog_start s"
| "dash_step CancelPracticeClick s = s\<lparr>ds_dialogs := dashboard_step (PracticeOpenChange False) (ds_dialogs s)\<rparr>"

definition no_dialog_open :: "dashboard_dialogs \<Rightarrow> bool" where
  "no_dialog_open d = (\<not> isTimedQuizOpen d \<and> \<not> isPracticeConfigOpen d)"

text \<open>The dashboard's buttons open dialogs (the open-change events are the dialogs'
  own), a topic card's buttons only for a listed topic \<open>ts\<close>; a dialog's controls work
  while it is open, its select and slider emitting only their items. A navigation leaves
  the dashboard: nothing happens on it afterwards.\<close>

fun dash_enabled :: "int list \<Rightarrow> dash_event \<Rightarrow> dash_sys \<Rightarrow> bool" where
  "dash_enabled ts (DashClick (TimedOpenChange b)) s = False"
| "dash_enabled ts (DashClick (PracticeOpenChange b)) s = False"
| "dash_enabled ts (DashClick (TopicPractice t)) s = (ds_nav s = None \<and> no_dialog_open (ds_dialogs s) \<and> t \<in> set ts)"
| "dash_enabled ts (DashClick (TopicTimed t)) s = (ds_nav s = None \<and> no_dialog_open (ds_dialogs s) \<and> t \<in> set ts)"
| "dash_enabled ts (DashClick e) s = (ds_nav s = None \<and> no_dialog_open (ds_dialogs s))"
| "dash_enabled ts (TimedSetting e) s = (ds_nav s = None \<and> isTimedQuizOpen (ds_dialogs s) \<and> timed_config_enabled e)"
| "dash_enabled ts StartTimedClick s = (ds_nav s = None \<and> isTimedQuizOpen (ds_dialogs s))"
| "dash_enabled ts CancelTimedClick s = (ds_nav s = None \<and> isTimedQuizOpen (ds_dialogs s))"
| "dash_enabled ts (PracticeCountChange v) s =
     (ds_nav s = None \<and> isPracticeConfigOpen (ds_dialogs s) \<and> v \<in> set (map show_nat count_options))"
| "dash_enabled ts StartPracticeClick s = (ds_nav s = None \<and> isPracticeConfigOpen (ds_dialogs s))"
| "dash_enabled ts CancelPracticeClick s = (ds_nav s = None \<and> isPracticeConfigOpen (ds_dialogs s))"

inductive dash_reachable :: "int list \<Rightarrow> dash_sys \<Rightarrow> bool" for ts where
  init: "dash_reachable ts dash_init"
| step: "dash_reachable ts s \<Longrightarrow> dash_enabled ts e s \<Longrightarrow> dash_reachable ts (dash_step e s)"

subsection \<open>Lemmas\<close>


text \<open>What a navigation from the dashboard must be: a URL the practice page reads with
  the dialog's topic, an offered count, and, when timed, a limit of at least two minutes.\<close>

definition nav_ok :: "js_string option \<Rightarrow> js_string \<Rightarrow> bool" where
  "nav_ok tid u =
     (\<exists>cfg n. page_params u = Some (cfg, Some (int n)) \<and> n \<in> set count_options
        \<and> topicParam cfg = tid \<and> (isTimed cfg \<longrightarrow> 2 \<le> timeLimit cfg))"

definition dash_inv :: "dash_sys \<Rightarrow> bool" where
  "dash_inv s =
     (timed_config_wf (ds_timed s) \<and> ds_practiceCount s \<in> set (map show_nat count_options)
      \<and> \<not> (isTimedQuizOpen (ds_dialogs s) \<and> isPracticeConfigOpen (ds_dialogs s))
      \<and> (\<exists>t. selectedTopicId (ds_dialogs s) = map_option show_nat t)
      \<and> (case ds_nav s of None \<Rightarrow> True | Some u \<Rightarrow> nav_ok (selectedTopicId (ds_dialogs s)) u))"

lemma timed_config_wf_step:
  "timed_config_wf c \<Longrightarrow> timed_config_enabled e \<Longrightarrow> timed_config_wf (timed_config_step e c)"
  by (cases e) (auto simp: timed_config_wf_def js_simps)

lemma nav_ok_timed:
  assumes "timed_config_wf c"
  shows "nav_ok (map_option show_nat t) (startTimedQuiz (map_option show_nat t) c)"
proof -
  have "75 \<le> totalTime c" by (rule totalTime_wf [OF assms])
  then have "2 \<le> timeLimitInMinutes c" by (simp add: timeLimitInMinutes_eq)
  moreover have "questionCount c \<in> set count_options" using assms by (simp add: timed_config_wf_def)
  ultimately show ?thesis by (auto simp: nav_ok_def page_params_timed)
qed

lemma nav_ok_practice:
  "n \<in> set count_options \<Longrightarrow> nav_ok (map_option show_nat t) (startPractice (map_option show_nat t) (show_nat n))"
  by (auto simp: nav_ok_def page_params_practice_url)

lemma dash_inv_init: "dash_inv dash_init"
  by (auto simp: dash_inv_def dash_init_def dashboard_dialogs_init_def timed_config_init_def
      timed_config_wf_def slider_values_def count_options_def practice_count_init_def num_eval
      intro: exI [of _ None])

lemma dash_inv_step:
  assumes "dash_inv s" "dash_enabled ts e s" "list_all (\<lambda>t. 0 \<le> t) ts"
  shows "dash_inv (dash_step e s)"
proof (cases e)
  case (DashClick d)
  with assms show ?thesis
  proof (cases d)
    case (TopicPractice t)
    with DashClick assms have "0 \<le> t" by (auto simp: list_all_iff)
    then have "selectedTopicId (dashboard_step d (ds_dialogs s)) = map_option show_nat (Some (nat t))"
      using TopicPractice by (simp add: show_int_nonneg)
    with DashClick TopicPractice assms show ?thesis
      by (auto simp: dash_inv_def no_dialog_open_def intro: exI [of _ "Some (nat t)"])
  next
    case (TopicTimed t)
    with DashClick assms have "0 \<le> t" by (auto simp: list_all_iff)
    then have "selectedTopicId (dashboard_step d (ds_dialogs s)) = map_option show_nat (Some (nat t))"
      using TopicTimed by (simp add: show_int_nonneg)
    with DashClick TopicTimed assms show ?thesis
      by (auto simp: dash_inv_def no_dialog_open_def intro: exI [of _ "Some (nat t)"])
  qed (auto simp: dash_inv_def no_dialog_open_def intro: exI [of _ None])
next
  case (TimedSetting x)
  with assms show ?thesis by (auto simp: dash_inv_def timed_config_wf_step)
next
  case StartTimedClick
  with assms show ?thesis by (auto simp: dash_inv_def timed_dialog_start_def nav_ok_timed)
next
  case StartPracticeClick
  with assms show ?thesis by (auto simp: dash_inv_def practice_dialog_start_def nav_ok_practice)
qed (use assms in \<open>auto simp: dash_inv_def\<close>)

lemma dash_reachable_inv:
  "dash_reachable ts s \<Longrightarrow> list_all (\<lambda>t. 0 \<le> t) ts \<Longrightarrow> dash_inv s"
  by (induction rule: dash_reachable.induct) (auto intro: dash_inv_init dash_inv_step)




text \<open>C5. In every state the dashboard with its two configuration dialogs can reach (topic
  cards for non-negative topic ids), the two dialogs are never open together, and a
  navigation the dialogs make reaches a URL that the practice page reads back with the topic
  the dialog was opened for, a question count the select offers and, for a timed quiz, a time
  limit of at least two minutes.\<close>

theorem dash_navigation_valid:
  assumes "dash_reachable ts s" "list_all (\<lambda>t. 0 \<le> t) ts"
  shows "\<not> (isTimedQuizOpen (ds_dialogs s) \<and> isPracticeConfigOpen (ds_dialogs s))
     \<and> (case ds_nav s of None \<Rightarrow> True | Some u \<Rightarrow> nav_ok (selectedTopicId (ds_dialogs s)) u)"
  using dash_reachable_inv [OF assms] by (simp add: dash_inv_def)


theorem dash_navigation_valid_witness:
  "nav_ok (Some ''3'') (the (ds_nav (dash_step StartPracticeClick (dash_step (DashClick (TopicPractice 3)) dash_init))))"
proof -
  let ?s1 = "dash_step (DashClick (TopicPractice 3)) dash_init"
  let ?s2 = "dash_step StartPracticeClick ?s1"
  have r1: "dash_reachable [3] ?s1"
    by (rule dash_reachable.step [OF dash_reachable.init])
       (simp add: dash_init_def dashboard_dialogs_init_def no_dialog_open_def)
  have r2: "dash_reachable [3] ?s2"
    by (rule dash_reachable.step [OF r1]) (simp add: dash_init_def)
  have l: "list_all (\<lambda>t. 0 \<le> t) [3::int]" by simp
  have "selectedTopicId (ds_dialogs ?s2) = Some ''3''" "ds_nav ?s2 \<noteq> None"
    by (simp_all add: dash_init_def practice_dialog_start_def) code_simp
  then show ?thesis using dash_navigation_valid [OF r2 l] by (auto split: option.splits)
qed

end
