(* ===== verification/Spec2Isabelle.thy ===== *)
theory Spec2Isabelle
  imports BulkParser UploadPage Dashboards LoadingProgress Backup ManageStudents ManageContent Navigation ImportPage PracticeView PasswordReset StudentDetailsPage ConfigDialogs
begin

text \<open>
  \<^bold>\<open>A verification library for the MCQ practice client\<close> (\<open>src/client/src\<close>).

  \<^bold>\<open>The program.\<close> A React single-page client of a quiz platform. Students take timed or
  untimed practice sessions drawn from a topic-organised question bank; administrators
  upload and manage questions, topics, students and backups. The server, the database and
  the shared schema are not in \<open>src/\<close>. The logic of the client sits in a few places:
  the bulk question parser of the upload page, the practice-session page (state hooks,
  a per-question timer, a countdown child, scoring and a two-phase submission), the quiz
  configuration dialogs, and the aggregations of the result and analytics pages. The rest
  is presentation and CRUD calls.

  \<^bold>\<open>How the parts interact.\<close> The configuration dialogs encode the quiz as URL
  parameters (\<open>count\<close>, \<open>timed\<close>, \<open>timeLimit\<close>); the practice page reads them, fetches
  a random question sample, keeps answers and timers in React state, mounts the
  \<open>CountdownTimer\<close> in timed mode and passes it \<open>onTimeUp\<close>, which submits. Submission
  scores the answers, posts the session, then posts one row per question, and navigates
  to the results page keyed by the new session id. The upload page parses pasted text
  into question objects and posts them as one batch.

  \<^bold>\<open>Theories.\<close>
  \<^item> \<open>Prelude\<close>: the JavaScript built-ins the code calls (\<open>trim\<close>, \<open>startsWith\<close>,
    \<open>split\<close>, \<open>join\<close>, \<open>replace\<close>, \<open>parseInt\<close>, array reads and writes past the end,
    \<open>toString\<close> and \<open>padStart\<close>), JavaScript numbers with \<open>NaN\<close> and the infinities
    explicit, and the shared list and string lemmas (collection \<open>js_simps\<close>).
  \<^item> \<open>BulkParser\<close> (\<open>pages/admin/upload-questions.tsx\<close>, \<open>parseBulkQuestions\<close>,
    \<open>parseQuestionBlocks\<close>, \<open>handleBulkUpload\<close>): the regular-expression split
    \<open>/\n\s*\n/\<close> as \<open>blank_split_aux\<close> (greedy match to the last line feed of a
    whitespace run, \<open>sep_len\<close>), the \<open>QUESTION:\<close> fallback as \<open>marker_blocks\<close>, the prefix
    chain of a block as \<open>apply_line\<close>, the question object as the record
    \<open>bulk_question\<close> of \<open>string option\<close> fields (\<open>None\<close> = \<open>undefined\<close>), the handler's
    three early returns as the sum \<open>bulk_error + bulk_question list\<close>. Beside the code, a
    printer of the spec's text format (section 4.1: \<open>question_lines\<close>, \<open>question_block\<close>,
    \<open>bulk_text\<close>, the prefixes in \<open>field_table\<close>) and the condition under which its
    output reads back (\<open>printable\<close>: complete, fields trimmed and on one line).
  \<^item> \<open>UploadPage\<close> (the rest of \<open>pages/admin/upload-questions.tsx\<close>): the page's hooks
    (\<open>upload_page\<close>, the form as the record \<open>question_form\<close>), \<open>handleChange\<close>,
    \<open>handleSubmitQuestion\<close> with its list of missing fields, \<open>handleReset\<close>, the image
    upload's \<open>fetch\<close> chain (\<open>image_settled\<close>; the mutations' callbacks are
    \<open>upload_settled\<close>), the create-topic dialog, and the bulk tabs, whose button runs
    \<open>handleBulkUpload\<close> of \<open>BulkParser\<close>; the requests settle in any order
    (\<open>upload_step\<close>, \<open>upload_enabled\<close>, \<open>upload_reachable\<close>).
  \<^item> \<open>Scoring\<close> (\<open>pages/student/practice-session.tsx\<close>, first half of
    \<open>submitSessionMutation.mutationFn\<close>): the \<open>reduce\<close> over the answers
    (\<open>count_correct_from\<close>, a \<open>TypeError\<close> when an answer has no question), the score in
    JavaScript arithmetic (\<open>session_score\<close>), the \<open>InsertSession\<close> and
    \<open>InsertSessionQuestion\<close> payloads.
  \<^item> \<open>Submission\<close> (second half of \<open>mutationFn\<close>): the session request, then the awaited
    row requests in order (\<open>post_rows\<close>), against a server store modelled from spec
    section 6 (the only spec-modelled definitions: \<open>server\<close>, \<open>post_session\<close>,
    \<open>post_session_question\<close>, and the fetched \<open>question\<close>'s fields); which request fails is
    an oracle \<open>network = nat \<Rightarrow> bool\<close>.
  \<^item> \<open>Countdown\<close> (\<open>components/ui/countdown-timer.tsx\<close>): state \<open>timeLeft\<close>,
    \<open>isRunning\<close> and the number of \<open>onTimeUp\<close> calls; the effect guard
    \<open>interval_active\<close>; one interval firing \<open>countdown_tick\<close>; \<open>formatTime\<close>.
  \<^item> \<open>PracticeSession\<close> (the page itself): the record \<open>page\<close> of its hooks, the system
    \<open>practice_sys\<close> of page, countdown and server, the events of
    \<open>practice_event\<close>, the handlers in \<open>practice_step\<close>, and \<open>practice_enabled\<close>, which
    says when the page has rendered the element (or installed the interval) that produces
    an event; \<open>practice_reachable\<close> is the inductive set of reachable states and
    \<open>practice_run\<close> an executable run over an event list. The mutation is split into
    its start (requests reach the server) and its settling (\<open>onSuccess\<close>/\<open>onError\<close>), so
    that other events interleave.
  \<^item> \<open>QuizConfig\<close> (\<open>components/student/timed-quiz-config.tsx\<close>,
    \<open>practice-config.tsx\<close>, and the URL reading at the top of the practice page): the timed
    dialog's state \<open>timed_config\<close>, its two handlers as \<open>timed_config_step\<close> with the values
    the slider and the select emit (\<open>timed_config_enabled\<close>), \<open>timeLimitInMinutes\<close>
    (\<open>Math.ceil\<close> as \<open>ceiling\<close> on rationals), the URLs \<open>startTimedQuiz\<close> and
    \<open>startPractice\<close> navigate to, and \<open>page_params\<close>: the route \<open>/practice/:topicId?\<close> and
    \<open>URLSearchParams.get\<close> (first pair of that name) read back by the page. The dashboard
    passes \<open>topic.id.toString()\<close> or no topic, written \<open>map_option show_nat\<close>.
  \<^item> \<open>Results\<close> (\<open>pages/results/[id].tsx\<close>, where the practice page navigates after a
    submission): the two reads of the server (\<open>get_session\<close>, \<open>get_session_questions\<close>,
    modelled from spec section 6 over the store of \<open>Submission\<close> and a question bank), the
    page's early returns (\<open>results_view\<close>) and everything the summary card and the two
    answer lists show (\<open>results_summary_of\<close>: grade, colour, rounded score, counts, progress,
    times, topic label, entries). The store's id discipline \<open>server_fresh\<close> is stated in
    \<open>Submission\<close>.
  \<^item> \<open>SessionViews\<close> (\<open>pages/admin/session-details.tsx\<close> and the unrouted
    \<open>pages/student/session-results.tsx\<close>): the administrator's view (\<open>details_view\<close>,
    question cards with \<open>option_line_of\<close> marking each option against the answer) and the
    second student view (\<open>sr_view\<close>), both over the reads of \<open>Results\<close>.
  \<^item> \<open>StudentDetails\<close> (\<open>pages/admin/student-details.tsx\<close>): the student's sessions
    named by topic (\<open>enhanced_sessions\<close>), sorted newest first (\<open>sorted_sessions\<close>, the
    stable \<open>Array.prototype.sort\<close> as HOL's stable \<open>sort_key\<close>), the totals, the per-topic
    performance and its chart (\<open>topic_performance\<close>, \<open>topic_performance_data\<close>), the progress
    series and summary, all assembled by \<open>student_details_view\<close>.
  \<^item> \<open>StudentDetailsPage\<close> (the same page's state): the route id read with
    \<open>parseInt\<close>, the three queries gated by \<open>!!userId\<close> and settling in any order
    (\<open>details_page\<close>, \<open>details_step\<close>, \<open>student_page_screen\<close>), the tabs and each
    tab's content or empty state (\<open>tab_view_of\<close>), and the student card.
  \<^item> \<open>LoadingProgress\<close> (\<open>hooks/use-loading-progress.tsx\<close>): the hook's options and
    state as records, its effect on a change of \<open>isLoading\<close> (\<open>loading_effect\<close>), one
    firing of its interval (\<open>loading_tick\<close>), and the number of firings until the interval
    clears itself (\<open>firings_to_max\<close>).
  \<^item> \<open>Backup\<close> (\<open>pages/admin/backup-management.tsx\<close>): the page's hooks as the record
    \<open>backup_page\<close>; each async handler split at its \<open>await\<close> into the part run on the click
    (\<open>fetchBackups\<close>, \<open>createManualBackup\<close>, \<open>viewBackupContent\<close>, \<open>deleteBackup\<close>,
    \<open>restoreBackup\<close>) and a continuation (\<open>settle\<close>) that keeps the \<open>loading\<close> object its
    closure captured; requests settle in any order (\<open>backup_step\<close>, \<open>backup_reachable\<close>),
    the server being the environment; the render (\<open>backup_view\<close>, \<open>formatFileSize\<close>,
    \<open>formatDate\<close> with the \<open>Intl\<close> formatter as a parameter).
  \<^item> \<open>Dashboards\<close> (\<open>pages/student/dashboard.tsx\<close>, \<open>pages/admin/dashboard.tsx\<close>,
    \<open>pages/admin/analytics.tsx\<close>): the student's statistics, recent rows and topic cards
    (\<open>student_dashboard_view\<close>), its dialog state (\<open>dashboard_step\<close>), which feeds
    \<open>QuizConfig\<close>; the \<open>/api/statistics\<close> reply as a record rendered by
    \<open>admin_dashboard_view\<close> and \<open>analytics_view\<close> with the analytics filter state.
  \<^item> \<open>ManageStudents\<close> (\<open>pages/admin/manage-students.tsx\<close>,
    \<open>components/ui/toggle-active-button.tsx\<close>): the page's hooks (\<open>students_page\<close>), the two
    \<open>zod\<close> schemas as issue lists (\<open>addStudentSchema\<close>, \<open>editStudentSchema\<close>), the
    handlers and the mutations' callbacks (\<open>students_step\<close>, \<open>mutation_settled\<close>), the
    search and the stable sort (\<open>filteredStudents\<close>), and the view; \<open>toLowerCase\<close> is
    \<open>js_lower\<close> of the Prelude, \<open>localeCompare\<close> a collation key given as a parameter.
  \<^item> \<open>Auth\<close> (\<open>hooks/use-auth.tsx\<close>, \<open>pages/auth-page.tsx\<close>): the provider's state
    (\<open>auth_state\<close>: the cached user, pending mutations, request log, the register form's
    completion flag), the registration \<open>mutationFn\<close> as \<open>register_fn\<close>, the callbacks
    (\<open>auth_settled\<close>, \<open>register_error\<close>, \<open>register_success\<close>), the forms' submits
    (\<open>auth_step\<close>, \<open>auth_enabled\<close>, \<open>auth_reachable\<close>), the page's redirect, and the
    forgot/reset password pages. \<open>apiRequest\<close> (in \<open>lib/\<close>, not in the sources) is the
    environment: its outcome is an input (\<open>api_outcome\<close>); the shared \<open>zod\<close> schemas are
    parameters.
  \<^item> \<open>Navigation\<close> (\<open>App.tsx\<close>, \<open>components/admin/sidebar.tsx\<close>,
    \<open>components/admin/layout.tsx\<close>, \<open>components/student/header.tsx\<close>): the route table
    as data (\<open>route_table\<close>, matched by \<open>match_segs\<close>, first match wins: \<open>router\<close>), the
    route guard modelled from the spec (\<open>resolve\<close>, \<open>lib/protected-route\<close> not being in the
    sources), redirects followed with a bound of two hops (\<open>navigate\<close>, \<open>screen\<close>), the
    sidebar's links, the layout's title and initials, and the logout handler over the
    state of \<open>Auth\<close> (\<open>nav_step\<close>, \<open>nav_next\<close>).
  \<^item> \<open>ImportPage\<close> (\<open>pages/admin/import-sound-wave.tsx\<close>, not routed): the import handler
    split at its \<open>await\<close>, with the progress of the \<open>LoadingProgress\<close> hook
    (\<open>import_step\<close>, \<open>import_reachable\<close>).
  \<^item> \<open>ConfigDialogs\<close> (the two configuration dialogs as mounted by
    \<open>pages/student/dashboard.tsx\<close>): the dashboard's dialog state composed with each
    dialog's own settings (\<open>dash_sys\<close>, \<open>dash_step\<close>, \<open>dash_enabled\<close>,
    \<open>dash_reachable\<close>), the Start buttons (\<open>timed_dialog_start\<close> closes its dialog,
    \<open>practice_dialog_start\<close> does not), and the timed dialog's labels.
  \<^item> \<open>PasswordReset\<close> (\<open>ForgotPasswordPage\<close> and \<open>ResetPasswordPage\<close> of
    \<open>pages/auth-page.tsx\<close>): each page's hooks as a record with its request log and
    navigation (\<open>forgot_sys\<close>, \<open>reset_page\<close>), the handlers split at their \<open>await\<close>
    (\<open>forgot_step\<close>, \<open>reset_step\<close>), what each view offers (\<open>forgot_enabled\<close>,
    \<open>reset_enabled\<close>), and the token read from the URL with \<open>search_get\<close>
    (\<open>reset_token\<close>).
  \<^item> \<open>PracticeView\<close> (the rendering of \<open>pages/student/practice-session.tsx\<close>): the
    questions query's URL, the header and counter, the progress bar's width, the question
    card with its answer cards, navigation dots and submit dialog's unanswered warning
    (\<open>card_view_of\<close>, \<open>practice_main_of\<close>), as functions of the page's state.
  \<^item> \<open>ManageContent\<close> (\<open>pages/admin/manage-topics.tsx\<close>, \<open>manage-questions.tsx\<close>,
    \<open>user-approvals.tsx\<close>): each page's hooks as a record (\<open>topics_page\<close>,
    \<open>questions_page\<close>, \<open>approvals_page\<close>) with the pending mutations and the request log;
    the handlers and input callbacks as \<open>topics_step\<close>, \<open>questions_step\<close>,
    \<open>approvals_step\<close>, each mutation's \<open>onSuccess\<close>/\<open>onError\<close> run when its request
    settles, in any order; the rendered controls and their \<open>disabled\<close> attributes as the
    \<open>_enabled\<close> predicates; the search filters and the tables. The data model's Question
    invariant (\<open>question_invariant\<close>) is stated from the spec, the shared schema not being
    in \<open>src/\<close>.

  \<^bold>\<open>What is proved\<close> (claims C1--C40, each right after its \<open>text\<close>):
  \<^item> parser (C1--C3, C6): parsing inverts printing: any non-empty list of complete
    questions with trimmed one-line fields, printed in the documented format
    (\<open>bulk_text\<close>: one \<open>PREFIX: value\<close> line per present field, a blank line between
    questions), parses back to itself with the difficulty defaulted, through either
    splitting path; every returned question complete; every posted batch satisfies the
    Question invariant; the two splitting styles differ for any two questions (a block
    without its \<open>QUESTION:\<close> line is dropped after a blank line, merged into the
    previous question without one);
  \<^item> upload page (C7, C15): every request the page sends is well formed (the form's
    checks, the bulk batch as \<open>handleBulkUpload\<close> returns it, a named topic), by rule
    induction; an image upload that settles after its question was submitted writes its
    path into the fresh form;
  \<^item> scorer (C8, C10): the \<open>TypeError\<close> branch; rows consistent with the session;
  \<^item> password reset (C11): the development-mode token link of the forgot page leads to
    the public reset page, which reads the token back from its URL and posts it with the
    new password;
  \<^item> submission (C12): non-atomic partial failure;
  \<^item> countdown (C4, C14): \<open>onTimeUp\<close> exactly at the \<open>n\<close>-th second, never twice;
    for a positive start, the rendered clock, bar and warning agree in every reachable
    state (the bar within [0, 100], the warning exactly when the colour is red);
  \<^item> page (C13, C16--C19): what the page renders agrees with its state in every
    reachable state (one highlighted answer card, the chosen one; the warning counts the
    grey dots and the current question if unanswered; the bar below 100 percent); the page invariant (one answer and one timer per question, index in
    range, timer = sum of question timers) by rule induction over reachable states; expiry
    submits the current answers; from any state where submitting is offered in the
    countdown's last second, a submission overtaken by the expiry stores the same session
    twice; for every positive limit, a timed quiz whose questions arrive empty counts down
    its \<open>timeLimit * 60\<close> firings and submits a \<open>NaN\<close> session;
  \<^item> configuration (C20--C22): the timed dialog's URL is read back by the page as written; the
    countdown allots the configured total rounded up to whole minutes (never less, less than
    a minute more); every setting the timed dialog can reach starts a countdown that fires
    exactly once;
  \<^item> results (C23): after a successful submission the results page shows the
    submitted session consistently (counts, one entry per question, the scored grade);
  \<^item> other views (C26, C27): the administrator's card marks exactly the correct option
    green and the wrong answer red; the student and administrator averages agree except on
    empty sessions;
  \<^item> student details (C25): for a route id read as a non-zero number the page
    requests that student, its sessions and the topics and shows the details once student
    and sessions have arrived, in either order, without waiting for the topics;
  \<^item> navigation (C29): the layouts' logout navigates before its request settles, so the
    still-cached administrator is sent back to the dashboard until the logout succeeds;
  \<^item> dashboard dialogs (C5, C28): in every reachable state of the dashboard with its two
    dialogs (rule induction) the dialogs are never open together and every navigation is
    read back by the practice page with the dialog's topic, an offered count and a timed
    limit of at least two minutes; the timed dialog's announced total equals the quiz's
    starting time exactly for whole minutes;
  \<^item> reset page (C24): in every reachable state (rule induction) every reset request
    passed the schema and carries the URL's token;
  \<^item> loading progress (C30): the progress interval terminates, within a bound on its
    firings, with the progress at its maximum;
  \<^item> backups (C31--C33): a restore or delete request is sent only on the confirming click,
    for the selected backup, with its file name typed; at most one manual backup is in
    flight, exactly while the status is running (rule induction); a successful backup
    clears the list spinner while its list request is still pending (stale closure);
  \<^item> dashboards (C34): the dashboard hands the clicked topic through the quiz dialogs
    to the practice page;
  \<^item> authentication (C9, C35): a rejected registration whose server message mentions the
    database is reported with a fixed text instead of that message, any other (a 503
    included) with the message; an accepted registration whose message lacks "pending
    approval" neither logs in nor shows the completion panel, so it can be sent again;
  \<^item> student management (C36, C37): in every reachable state every request the page has
    sent is well formed and names a listed student (rule induction); the password-reset
    button's two error paths and its request;
  \<^item> topics, questions, approvals (C38--C40): every topic creation carries a name that does
    not trim to nothing, while the edit dialog sends a blank name; the question edit
    dialog sends a question that breaks the data model's Question invariant, which the
    bulk path (C3) enforces; at most one approval and one rejection are in flight (rule
    induction), and both can be in flight for the same user.
  Further lemmas beside the claims: the spec's 7-of-10 scenario
  (\<open>seven_of_ten_scenario\<close>); a failed first request leaves the server unchanged
  (\<open>submit_session_first_fails\<close>); answer selection overwrites only the current answer
  (\<open>select_answer_overwrites\<close>); the allotted time is exact exactly for whole minutes
  (\<open>allotted_time_exact_iff\<close>); an empty \<open>NaN\<close> session is shown as 0 %
  (\<open>results_empty_session\<close>); the administrator's h/m/s format round-trips
  (\<open>admin_formatTime_roundtrip\<close>); per-topic counts partition the sessions with a listed
  topic (\<open>topic_counts_partition\<close>); the grade and its colour always agree
  (\<open>scoreColor_matches_grade\<close>); the unrouted page's average of an empty session is not
  finite (\<open>sr_average_empty_session\<close>); the topic chart's order (\<open>topic_chart_order\<close>);
  the practice dialog's URL is read back as written (\<open>practice_url_roundtrip\<close>); the
  results page's time format equals the countdown's (\<open>results_formatTime_eq_countdown\<close>);
  after "select all" a search leaves the header checkbox unchecked although every visible row
  is checked (\<open>select_all_counts_hidden\<close>); a size just below a megabyte prints as \<open>1024.00 KB\<close> (\<open>formatFileSize_below_MB\<close>);
  an administrator average of 0 shows \<open>N/A\<close> (\<open>average_text_zero\<close>); the countdown's
  display round-trips (\<open>formatTime_roundtrip\<close>); the progress summary compares the
  earliest with the latest session (\<open>improvement_first_to_last\<close>); the analytics filters
  change nothing but their own select, and two charts are fixed data
  (\<open>analytics_filters_ignored\<close>); the bounds of the count and of the score
  (\<open>correct_answers_bounds\<close>); a countdown started at 0 seconds or less never fires
  (\<open>countdown_never_fires_nonpositive\<close>); \<open>NaN\<close> score with no questions
  (\<open>empty_session_score_NaN\<close>); the dashboard's accuracy rate, in [0, 100] for consistent
  sessions and \<open>NaN\<close> without questions (\<open>dashboard_accuracy_cases\<close>); one bad \<open>CORRECT\<close>
  rejects the batch (\<open>handleBulkUpload_rejects_batch\<close>); the marker splitter is lossless
  (\<open>marker_blocks_roundtrip\<close>); every submission keeps the store's ids fresh
  (\<open>submit_session_keeps_fresh\<close>); the accuracy lies in [0, 100] (\<open>accuracy_bounds\<close>);
  the countdown's integer clock equals \<open>formatTime\<close> on non-negative times
  (\<open>clock_text_nat\<close>), and a start of 0 seconds shows a red \<open>NaN\<close> bar labelled "Time
  Remaining" (\<open>countdown_view_degenerate\<close>); the import page's bar stays between 5 and 90
  while importing and is full otherwise (\<open>import_reachable_inv\<close>); in every reachable
  countdown state \<open>onTimeUp\<close> has been called at most once
  (\<open>countdown_fires_at_most_once\<close>); the practice page's own time format equals the
  countdown's (\<open>page_formatTime_eq\<close>); full success of the submission
  (\<open>submit_session_all_ok\<close>); the grade is
  monotone in the score (\<open>scoreGrade_monotone\<close>); an id read as \<open>NaN\<close> or 0 gives "Student
  Not Found" at once, asking only for the topics (\<open>student_details_bad_id\<close>); the details
  tabs have one row and one progress point per session and their empty states exactly
  without sessions (\<open>details_tabs_consistent\<close>); every sidebar link routes to an
  administrator's page and is the only active link there, while the title names only five
  of the eight pages (\<open>sidebar_routes_and_titles\<close>); the redirects of the route guard and
  of the login page settle within two hops (\<open>redirects_settle\<close>, over the route guard
  modelled from the spec); the Sessions tab lists each session once, newest first, stably
  (\<open>sessions_sorted_newest_first\<close>).

  \<^bold>\<open>Bounds and fuel.\<close> No definition needs fuel: every loop of the code runs over a
  finite list (\<open>fun\<close> by structural recursion) except the regular-expression split, a
  \<open>function\<close> whose termination measure is the length of the unread text, and the
  loading-progress interval, a \<open>function\<close> (\<open>firings_to_max\<close>) whose measure is twice the
  distance to the maximum, rounded up: every firing adds at least one half. Time is
  discrete: one page tick or one countdown firing per event, the interval's period being one
  second (\<open>setInterval(..., 1000)\<close>), so \<open>n\<close> firings are \<open>n\<close> seconds; C19 is stated for
  every positive limit, its \<open>timeLimit * 60\<close> firings, and the witnesses use real limits
  (60 and 120 firings). Redirects are followed at most twice (\<open>navigate 2\<close> in
  \<open>screen\<close>), and \<open>redirects_settle\<close> proves two hops always reach a page that does not
  redirect.

  \<^bold>\<open>Modelling choices.\<close> Characters are 8-bit (Isabelle's \<open>char\<close>), so \<open>trim\<close>'s
  whitespace class is the ASCII one, the Unicode spaces being outside the model's alphabet;
  \<open>parseInt(s, 10)\<close> is \<open>parse_int\<close> and \<open>parseInt(s)\<close> without a radix is
  \<open>parse_int_noradix\<close>, which reads a \<open>0x\<close> prefix as hexadecimal, as the call sites
  without a radix do (topic and user ids, the question count, the accuracy); the upload
  page's two bulk sub-tabs (\<open>Tabs defaultValue="file"\<close>, uncontrolled) are merged: their
  controls are all enabled on the bulk tab and the upload click is enabled when either
  button is (the paste button's condition implies the file button's), a superset of the
  page's behaviours, so the invariants proved over it hold for the page;
  finite numbers are rationals (IEEE rounding abstracted); \<open>null\<close> and \<open>undefined\<close>
  answers are both \<open>None\<close>; a \<open>timeLimit\<close> that \<open>parseInt\<close> reads as \<open>NaN\<close> is not
  modelled; React's batching and rendering are abstracted to one handler per event.

  \<^bold>\<open>Not modelled.\<close> Presentational components (the loading animation, the styling of
  the layouts: markup and classes without state or decisions), the ORM configuration (data
  for a tool, no behaviour), and everything on the server side (the server's replies are inputs of
  the models: the two session endpoints are modelled from the spec, the statistics and
  backup endpoints are the environment).
\<close>

end
